(* ===== verification/Xcmp_Prelude.thy ===== *)
theory Xcmp_Prelude
  imports Main "HOL-Library.Word"
begin

text \<open>
  The vocabulary every other theory of the development shares.

  \<^item> Machine integers and byte strings: \<open>u8\<close>, \<open>u16\<close>, \<open>u32\<close>, \<open>u64\<close>, \<open>u128\<close> are words;
    \<open>h256\<close> is the 32-byte hash \<^verbatim>\<open>sp_core::H256\<close>, read big-endian, so that the order
    of words is the byte-lexicographic order Rust derives for it.
  \<^item> Results: \<open>outcome\<close> has the three ways a Rust call can end, and \<open>action\<close> is a call that
    also threads a state. \<open>and_then\<close> is the \<^verbatim>\<open>?\<close> operator: the first \<open>Err\<close> or
    \<open>Panic\<close> ends the call with the state reached so far, so a write made before an error
    is not rolled back by the model.
  \<^item> Two interfaces as locales: \<open>signed_dispatchable\<close>, the contract of a FRAME call that asks
    for a signed origin, and \<open>invariant_machine\<close>, a step relation with an inductive invariant.
\<close>

type_synonym u8 = "8 word"
type_synonym u16 = "16 word"
type_synonym u32 = "32 word"
type_synonym u64 = "64 word"
type_synonym u128 = "128 word"
type_synonym bytes = "u8 list"
type_synonym h256 = "256 word"

named_theorems action_simps
named_theorems action_elims
named_theorems action_eval

section \<open>Outcomes and actions\<close>

datatype ('e, 'a) outcome = Ok 'a | Err 'e | Panic

type_synonym ('s, 'e, 'a) action = "'s \<Rightarrow> ('e, 'a) outcome \<times> 's"

definition is_ok :: "('e, 'a) outcome \<Rightarrow> bool" where
  "is_ok r = (case r of Ok _ \<Rightarrow> True | _ \<Rightarrow> False)"

definition ret :: "'a \<Rightarrow> ('s, 'e, 'a) action" where
  "ret a = (\<lambda>s. (Ok a, s))"

definition fail :: "'e \<Rightarrow> ('s, 'e, 'a) action" where
  "fail e = (\<lambda>s. (Err e, s))"

definition panic :: "('s, 'e, 'a) action" where
  "panic = (\<lambda>s. (Panic, s))"

definition gets :: "('s \<Rightarrow> 'a) \<Rightarrow> ('s, 'e, 'a) action" where
  "gets f = (\<lambda>s. (Ok (f s), s))"

definition modify :: "('s \<Rightarrow> 's) \<Rightarrow> ('s, 'e, unit) action" where
  "modify f = (\<lambda>s. (Ok (), f s))"

definition and_then :: "('s, 'e, 'a) action \<Rightarrow> ('a \<Rightarrow> ('s, 'e, 'b) action) \<Rightarrow> ('s, 'e, 'b) action" where
  "and_then m f = (\<lambda>s. case m s of
      (Ok a, s') \<Rightarrow> f a s'
    | (Err e, s') \<Rightarrow> (Err e, s')
    | (Panic, s') \<Rightarrow> (Panic, s'))"

text \<open>\<^verbatim>\<open>Option::ok_or\<close> followed by \<^verbatim>\<open>?\<close>, \<^verbatim>\<open>unwrap\<close>, and a guarded early return.\<close>

definition ok_or :: "'a option \<Rightarrow> 'e \<Rightarrow> ('s, 'e, 'a) action" where
  "ok_or x e = (case x of None \<Rightarrow> fail e | Some a \<Rightarrow> ret a)"

definition unwrap :: "'a option \<Rightarrow> ('s, 'e, 'a) action" where
  "unwrap x = (case x of None \<Rightarrow> panic | Some a \<Rightarrow> ret a)"

definition ensure :: "bool \<Rightarrow> 'e \<Rightarrow> ('s, 'e, unit) action" where
  "ensure b e = (if b then ret () else fail e)"

text \<open>\<^verbatim>\<open>Result::map_err\<close>, also where \<^verbatim>\<open>?\<close> converts an error.\<close>

definition map_err :: "('e \<Rightarrow> 'x) \<Rightarrow> ('s, 'e, 'a) action \<Rightarrow> ('s, 'x, 'a) action" where
  "map_err f m = (\<lambda>s. case m s of
      (Ok a, s') \<Rightarrow> (Ok a, s')
    | (Err e, s') \<Rightarrow> (Err (f e), s')
    | (Panic, s') \<Rightarrow> (Panic, s'))"

lemma is_ok_simps [simp]:
  "is_ok (Ok a)" "\<not> is_ok (Err e)" "\<not> is_ok Panic"
  by (simp_all add: is_ok_def)

lemma is_ok_iff: "is_ok r \<longleftrightarrow> (\<exists>a. r = Ok a)"
  by (cases r) auto

lemma action_run [action_simps]:
  "ret a s = (Ok a, s)"
  "fail e s = (Err e, s)"
  "panic s = (Panic, s)"
  "gets f s = (Ok (f s), s)"
  "modify g s = (Ok (), g s)"
  by (simp_all add: ret_def fail_def panic_def gets_def modify_def)

lemma and_then_ret [action_simps]: "and_then (ret a) f = f a"
  by (simp add: and_then_def ret_def)

lemma and_then_fail [action_simps]: "and_then (fail e) f = fail e"
  by (simp add: and_then_def fail_def)

lemma and_then_panic [action_simps]: "and_then panic f = panic"
  by (simp add: and_then_def panic_def)

lemma and_then_gets [action_simps]: "and_then (gets g) f s = f (g s) s"
  by (simp add: and_then_def gets_def)

lemma and_then_modify [action_simps]: "and_then (modify g) f s = f () (g s)"
  by (simp add: and_then_def modify_def)

lemma and_then_assoc: "and_then (and_then m f) g = and_then m (\<lambda>a. and_then (f a) g)"
  by (rule ext) (auto simp: and_then_def split: prod.splits outcome.splits)

lemma ok_or_simps [action_simps]:
  "ok_or None e = fail e" "ok_or (Some a) e = ret a"
  by (simp_all add: ok_or_def)

lemma unwrap_simps [action_simps]:
  "unwrap None = panic" "unwrap (Some a) = ret a"
  by (simp_all add: unwrap_def)

lemma ensure_simps [action_simps]:
  "ensure True e = ret ()" "ensure False e = fail e"
  by (simp_all add: ensure_def)

text \<open>
  The same steps as conditionals on the state they run in. Rewriting with \<open>action_eval\<close> turns
  a handler into the nested conditional its checks amount to.
\<close>

lemma and_then_ok_or_eval [action_eval]:
  "and_then (ok_or x e) f s = (if x \<noteq> None then f (the x) s else (Err e, s))"
  by (cases x) (simp_all add: action_simps)

lemma and_then_unwrap_eval [action_eval]:
  "and_then (unwrap x) f s = (if x \<noteq> None then f (the x) s else (Panic, s))"
  by (cases x) (simp_all add: action_simps)

lemma and_then_ensure_eval [action_eval]:
  "and_then (ensure b e) f s = (if b then f () s else (Err e, s))"
  by (cases b) (simp_all add: action_simps)

lemma and_then_assoc_eval [action_eval]:
  "and_then (and_then m f) g s = and_then m (\<lambda>a. and_then (f a) g) s"
  by (simp add: and_then_assoc)

lemmas basic_action_eval [action_eval] =
  action_run and_then_ret and_then_fail and_then_panic and_then_gets and_then_modify

text \<open>
  A table of checks in the order the code makes them: the result of the first check that
  fails, or the final result when none does.
\<close>

fun first_failure :: "(bool \<times> 'r) list \<Rightarrow> 'r \<Rightarrow> 'r" where
  "first_failure [] r = r"
| "first_failure ((c, e) # checks) r = (if c then first_failure checks r else e)"

lemma first_failure_passes_iff:
  "list_all (\<lambda>check. snd check \<noteq> r) checks \<Longrightarrow>
   first_failure checks r = r \<longleftrightarrow> list_all fst checks"
  by (induction checks r rule: first_failure.induct) simp_all

lemma first_failure_prefix:
  "list_all fst passed \<Longrightarrow> \<not> b \<Longrightarrow> first_failure (passed @ (b, e) # rest) r = e"
  by (induction passed r rule: first_failure.induct) simp_all

lemma first_failure_in_checks:
  "first_failure checks r \<noteq> r \<Longrightarrow> (False, first_failure checks r) \<in> set checks"
  by (induction checks r rule: first_failure.induct) (auto split: if_splits)

lemma first_failure_Panic_iff:
  "first_failure ((b, Err e) # checks) r = Panic \<longleftrightarrow> b \<and> first_failure checks r = Panic"
  "first_failure ((b, Panic) # checks) r = Panic \<longleftrightarrow> \<not> b \<or> first_failure checks r = Panic"
  by simp_all

text \<open>How an action that goes on is inverted.\<close>

lemma and_then_OkE [action_elims]:
  assumes "and_then m f s = (Ok b, t)"
  obtains a s1 where "m s = (Ok a, s1)" and "f a s1 = (Ok b, t)"
  using assms by (auto simp: and_then_def split: prod.splits outcome.splits)

lemma ensure_OkE [action_elims]:
  assumes "ensure b e s = (Ok u, t)"
  obtains "b" and "t = s"
  using assms by (cases b) (auto simp: action_simps)

lemma ok_or_OkE [action_elims]:
  assumes "ok_or x e s = (Ok a, t)"
  obtains "x = Some a" and "t = s"
  using assms by (cases x) (auto simp: action_simps)

lemma unwrap_OkE [action_elims]:
  assumes "unwrap x s = (Ok a, t)"
  obtains "x = Some a" and "t = s"
  using assms by (cases x) (auto simp: action_simps)

text \<open>An action that only reads: it ends in the state it started in.\<close>

definition reads_only :: "('s, 'e, 'a) action \<Rightarrow> bool" where
  "reads_only m \<longleftrightarrow> (\<forall>s. snd (m s) = s)"

lemma reads_onlyI [intro]: "(\<And>s. snd (m s) = s) \<Longrightarrow> reads_only m"
  by (simp add: reads_only_def)

lemma reads_onlyD: "reads_only m \<Longrightarrow> snd (m s) = s"
  by (simp add: reads_only_def)

lemma reads_only_basic [simp, intro]:
  "reads_only (ret a)" "reads_only (fail e)" "reads_only panic" "reads_only (gets f)"
  "reads_only (ok_or x e)" "reads_only (unwrap x)" "reads_only (ensure b e)"
  by (auto simp: reads_only_def action_simps ok_or_def unwrap_def ensure_def split: option.splits)

lemma reads_only_and_then [intro]:
  assumes "reads_only m" and "\<And>a. reads_only (f a)"
  shows "reads_only (and_then m f)"
proof
  fix s
  have m: "snd (m s) = s" by (rule reads_onlyD [OF assms(1)])
  show "snd (and_then m f s) = s"
  proof (cases "m s")
    case (Pair r s')
    with m have "s' = s" by simp
    with Pair show ?thesis
      using reads_onlyD [OF assms(2)] by (cases r) (simp_all add: and_then_def)
  qed
qed

lemma reads_only_if [intro]:
  "reads_only a \<Longrightarrow> reads_only b \<Longrightarrow> reads_only (if c then a else b)"
  by simp

section \<open>Checked integer conversions\<close>

text \<open>\<^verbatim>\<open>u32::try_from(u64)\<close> and the widening cast \<^verbatim>\<open>as u64\<close>.\<close>

definition try_into_u32 :: "u64 \<Rightarrow> u32 option" where
  "try_into_u32 n = (if unat n < 2 ^ 32 then Some (ucast n) else None)"

definition as_u64 :: "u32 \<Rightarrow> u64" where
  "as_u64 n = ucast n"

lemma unat_u32_bound: "unat (n :: u32) < 2 ^ 32"
  using unsigned_less [of n] by simp

lemma unat_as_u64: "unat (as_u64 n) = unat n"
proof -
  have "unat n < 2 ^ 64"
    using unat_u32_bound [of n] by simp
  then show ?thesis
    by (simp add: as_u64_def unsigned_ucast_eq take_bit_nat_eq_self)
qed

lemma try_into_u32_as_u64 [simp]: "try_into_u32 (as_u64 n) = Some n"
proof -
  have "ucast (as_u64 n) = n"
    unfolding as_u64_def by (rule ucast_up_ucast_id) (simp add: is_up)
  then show ?thesis
    using unat_u32_bound [of n] by (simp add: try_into_u32_def unat_as_u64)
qed

lemma try_into_u32_fits:
  "try_into_u32 n \<noteq> None \<longleftrightarrow> unat n < 2 ^ 32"
  "try_into_u32 n = Some m \<longleftrightarrow> unat n < 2 ^ 32 \<and> m = ucast n"
  "unat n < 2 ^ 32 \<Longrightarrow> the (try_into_u32 n) = ucast n"
  by (auto simp: try_into_u32_def)

lemma try_into_u32_None_iff: "try_into_u32 n = None \<longleftrightarrow> 2 ^ 32 \<le> unat n"
  by (simp add: try_into_u32_def)

section \<open>The contract of a signed dispatchable\<close>

text \<open>
  \<^verbatim>\<open>DispatchError\<close> as far as the pallets use it: \<^verbatim>\<open>ensure_signed\<close> fails with
  \<open>BadOrigin\<close>, everything else is an error of the pallet itself.
\<close>

datatype 'e dispatch_error = BadOrigin | Module 'e

definition signed :: "('o \<Rightarrow> 'acc option) \<Rightarrow> 'o \<Rightarrow> ('s, 'e dispatch_error, 'acc) action" where
  "signed ensure_signed origin = ok_or (ensure_signed origin) BadOrigin"

lemma signed_simps [action_simps]:
  "es o1 = None \<Longrightarrow> signed es o1 = fail BadOrigin"
  "es o1 = Some acc \<Longrightarrow> signed es o1 = ret acc"
  by (simp_all add: signed_def action_simps)

lemma and_then_signed_eval [action_eval]:
  "and_then (signed es o1) f s =
     (if es o1 \<noteq> None then f (the (es o1)) s else (Err BadOrigin, s))"
  by (simp add: signed_def and_then_ok_or_eval)

lemma signed_OkE [action_elims]:
  assumes "signed es o1 s = (Ok acc, t)"
  obtains "es o1 = Some acc" and "t = s"
  using assms by (auto simp: signed_def elim: ok_or_OkE)

lemma reads_only_signed [simp, intro]: "reads_only (signed es o1)"
  by (simp add: signed_def)

locale signed_dispatchable =
  fixes ensure_signed :: "'o \<Rightarrow> 'acc option"
    and call :: "'o \<Rightarrow> ('s, 'e dispatch_error, 'a) action"
  assumes unsigned_rejected: "ensure_signed origin = None \<Longrightarrow> call origin s = (Err BadOrigin, s)"
    and failure_keeps_storage: "call origin s = (r, t) \<Longrightarrow> \<not> is_ok r \<Longrightarrow> t = s"
begin

lemma storage_change_is_authorised:
  assumes "snd (call origin s) \<noteq> s"
  shows "(\<exists>acc. ensure_signed origin = Some acc) \<and> is_ok (fst (call origin s))"
proof -
  obtain r t where rt: "call origin s = (r, t)" by fastforce
  with assms have "is_ok r" using failure_keeps_storage by fastforce
  moreover have "ensure_signed origin \<noteq> None"
    using assms unsigned_rejected by fastforce
  ultimately show ?thesis using rt by auto
qed

text \<open>A batch of origins: the calls that fail contribute nothing to the final storage.\<close>

lemma failing_calls_are_noops:
  "fold (\<lambda>o1 s. snd (call o1 s)) origins s =
   fold (\<lambda>o1 s. if is_ok (fst (call o1 s)) then snd (call o1 s) else s) origins s"
proof (induction origins arbitrary: s)
  case Nil
  show ?case by simp
next
  case (Cons o1 origins)
  have "snd (call o1 s) = (if is_ok (fst (call o1 s)) then snd (call o1 s) else s)"
    using failure_keeps_storage [of o1 s "fst (call o1 s)" "snd (call o1 s)"] by auto
  with Cons.IH show ?case by simp
qed

end

section \<open>Machines with an inductive invariant\<close>

locale invariant_machine =
  fixes start :: "'s \<Rightarrow> bool"
    and step :: "'s \<Rightarrow> 's \<Rightarrow> bool"
    and invariant :: "'s \<Rightarrow> bool"
  assumes start_invariant: "start s \<Longrightarrow> invariant s"
    and step_invariant: "invariant s \<Longrightarrow> step s t \<Longrightarrow> invariant t"
begin

lemma steps_invariant: "step\<^sup>*\<^sup>* s t \<Longrightarrow> invariant s \<Longrightarrow> invariant t"
  by (induction rule: rtranclp_induct) (auto intro: step_invariant)

lemma reachable_invariant: "start s \<Longrightarrow> step\<^sup>*\<^sup>* s t \<Longrightarrow> invariant t"
  by (blast intro: steps_invariant start_invariant)

end

text \<open>
  A machine that simulates another: every step, from a state with the invariant, is a sequence of
  steps of the abstract machine on the abstraction of its state. What the abstract machine keeps, the
  detailed one keeps too.
\<close>

locale simulation = invariant_machine start step invariant
  for start :: "'s \<Rightarrow> bool" and step :: "'s \<Rightarrow> 's \<Rightarrow> bool" and invariant :: "'s \<Rightarrow> bool" +
  fixes abstract_step :: "'a \<Rightarrow> 'a \<Rightarrow> bool"
    and abstraction :: "'s \<Rightarrow> 'a"
  assumes step_simulated:
    "invariant s \<Longrightarrow> step s t \<Longrightarrow> abstract_step\<^sup>*\<^sup>* (abstraction s) (abstraction t)"
begin

lemma steps_simulated:
  assumes "step\<^sup>*\<^sup>* s t" and "invariant s"
  shows "abstract_step\<^sup>*\<^sup>* (abstraction s) (abstraction t)"
  using assms
proof (induction rule: rtranclp_induct)
  case (step t u)
  then have "abstract_step\<^sup>*\<^sup>* (abstraction t) (abstraction u)"
    by (blast intro: step_simulated steps_invariant)
  with step show ?case by (meson rtranclp_trans)
qed simp

lemma reachable_simulated:
  "start s \<Longrightarrow> step\<^sup>*\<^sup>* s t \<Longrightarrow> abstract_step\<^sup>*\<^sup>* (abstraction s) (abstraction t)"
  by (blast intro: steps_simulated start_invariant)

end

text \<open>
  An action that runs beside others on a shared state guarantees a step relation when, from every
  state that satisfies the invariant, what it does to the state is a sequence of such steps. The
  rules below take an action apart along \<open>and_then\<close>; a value read from the state may be used
  with what the invariant said of the state it was read in.
\<close>

definition guarantees :: "('s \<Rightarrow> 's \<Rightarrow> bool) \<Rightarrow> ('s \<Rightarrow> bool) \<Rightarrow> ('s, 'e, 'a) action \<Rightarrow> bool" where
  "guarantees step invariant m \<longleftrightarrow> (\<forall>s. invariant s \<longrightarrow> step\<^sup>*\<^sup>* s (snd (m s)))"

lemma guaranteesD: "guarantees step invariant m \<Longrightarrow> invariant s \<Longrightarrow> step\<^sup>*\<^sup>* s (snd (m s))"
  by (simp add: guarantees_def)

context invariant_machine
begin

abbreviation guar :: "('s, 'e, 'a) action \<Rightarrow> bool" where
  "guar \<equiv> guarantees step invariant"

lemma guar_keeps_invariant: "guar m \<Longrightarrow> invariant s \<Longrightarrow> invariant (snd (m s))"
  unfolding guarantees_def using steps_invariant by blast

lemma guar_reads_only: "reads_only m \<Longrightarrow> guar m"
  by (simp add: guarantees_def reads_onlyD)

lemma guar_modify: "(\<And>s. invariant s \<Longrightarrow> step\<^sup>*\<^sup>* s (g s)) \<Longrightarrow> guar (modify g)"
  by (simp add: guarantees_def action_simps)

lemma guar_and_then:
  assumes "guar m" and "\<And>s a t. invariant s \<Longrightarrow> m s = (Ok a, t) \<Longrightarrow> guar (f a)"
  shows "guar (and_then m f)"
  unfolding guarantees_def
proof (intro allI impI)
  fix s assume s: "invariant s"
  obtain r t where rt: "m s = (r, t)" by fastforce
  with assms(1) s have st: "step\<^sup>*\<^sup>* s t" unfolding guarantees_def by (metis snd_conv)
  show "step\<^sup>*\<^sup>* s (snd (and_then m f s))"
  proof (cases r)
    case (Ok a)
    then have "step\<^sup>*\<^sup>* t (snd (f a t))"
      using assms(2) [OF s] rt steps_invariant [OF st s] by (simp add: guarantees_def)
    with st Ok rt show ?thesis by (simp add: and_then_def)
  qed (use st rt in \<open>simp_all add: and_then_def\<close>)
qed

lemma guar_bind_ok_or:
  "(\<And>a. x = Some a \<Longrightarrow> guar (f a)) \<Longrightarrow> guar (and_then (ok_or x e) f)"
  by (cases x) (auto simp: action_simps intro!: guar_reads_only)

lemma guar_bind_ensure: "(b \<Longrightarrow> guar (f ())) \<Longrightarrow> guar (and_then (ensure b e) f)"
  by (cases b) (auto simp: action_simps intro!: guar_reads_only)

lemma guar_bind_gets:
  "(\<And>s. invariant s \<Longrightarrow> guar (f (g s))) \<Longrightarrow> guar (and_then (gets g) f)"
  by (rule guar_and_then [OF guar_reads_only]) (auto simp: action_simps)

lemma guar_bind_modify:
  "(\<And>s. invariant s \<Longrightarrow> step\<^sup>*\<^sup>* s (g s)) \<Longrightarrow> guar (f ()) \<Longrightarrow> guar (and_then (modify g) f)"
  by (rule guar_and_then [OF guar_modify]) (auto simp: action_simps)

lemma guar_bind_reads_only:
  assumes "reads_only m" and "\<And>s a. m s = (Ok a, s) \<Longrightarrow> guar (f a)"
  shows "guar (and_then m f)"
proof (rule guar_and_then [OF guar_reads_only [OF assms(1)]])
  fix s a t assume "m s = (Ok a, t)"
  moreover from this have "t = s" using reads_onlyD [OF assms(1), of s] by simp
  ultimately show "guar (f a)" using assms(2) by simp
qed

lemma guar_if: "(c \<Longrightarrow> guar a) \<Longrightarrow> (\<not> c \<Longrightarrow> guar b) \<Longrightarrow> guar (if c then a else b)"
  by simp

lemmas guar_rules =
  guar_bind_ok_or guar_bind_ensure guar_bind_gets guar_bind_modify guar_if

end

end
