(* ===== verification/Sdk_Interface.thy ===== *)
theory Sdk_Interface
  imports Xcmp_Prelude
begin

text \<open>
  What the program takes from the Polkadot SDK, which is not part of the repository. Data the
  sources build or read field by field (\<^verbatim>\<open>ParaLeaf\<close>, \<^verbatim>\<open>ParaMerkleProof\<close>,
  \<^verbatim>\<open>DataOrHash\<close>, \<^verbatim>\<open>binary_merkle_tree::Leaf\<close>, \<^verbatim>\<open>Header\<close>,
  \<^verbatim>\<open>LeavesProof\<close>) has exactly the fields the sources use. Every SDK function the
  sources call is a field of the record \<open>sdk\<close>, which the definitions of the model take as an
  argument; nothing is assumed of these functions unless a theorem says so. The predicates at
  the end name the documented behaviour some theorems rely on. The type \<open>'mp\<close> is the SDK's
  \<^verbatim>\<open>Proof<H256>\<close> and \<open>'dg\<close> its \<^verbatim>\<open>Digest\<close>; the sources only pass them on.
\<close>

section \<open>Data\<close>

record para_leaf =
  para_id :: u32
  head_data :: bytes

record para_merkle_proof =
  pa_root :: h256
  pa_proof :: "h256 list"
  pa_num_leaves :: u64
  pa_leaf_index :: u64
  pa_leaf :: para_leaf

datatype encodable_opaque_leaf = EncodableOpaqueLeaf bytes

datatype data_or_hash = DataNode bytes | HashNode h256

datatype bmt_leaf = LeafValue bytes | LeafHash h256

record beefy_mmr_leaf =
  leaf_extra :: h256

record 'dg header =
  digest :: 'dg

record bmt_proof =
  bmt_root :: h256
  bmt_proof_items :: "h256 list"
  bmt_number_of_leaves :: u32
  bmt_leaf_index :: u32
  bmt_leaf_value :: h256

record leaves_proof =
  lp_leaves :: bytes
  lp_proof :: bytes

record weight =
  ref_time :: u64
  proof_size :: u64

section \<open>Functions\<close>

record ('mp, 'dg) sdk =
  verify_leaves_proof :: "h256 \<Rightarrow> data_or_hash list \<Rightarrow> 'mp \<Rightarrow> bool"
  into_opaque_leaf :: "encodable_opaque_leaf \<Rightarrow> bytes"
  decode_beefy_leaf :: "bytes \<Rightarrow> beefy_mmr_leaf option"
  bmt_verify_proof :: "h256 \<Rightarrow> h256 list \<Rightarrow> u32 \<Rightarrow> u32 \<Rightarrow> bmt_leaf \<Rightarrow> bool"
  leaf_from_ref :: "bytes \<Rightarrow> bmt_leaf"
  para_leaf_encode :: "para_leaf \<Rightarrow> bytes"
  decode_header :: "bytes \<Rightarrow> 'dg header option"
  extract_xcmp_channel_merkle_root :: "'dg \<Rightarrow> h256 option"
  bmt_merkle_root :: "bytes list \<Rightarrow> h256"
  bmt_merkle_proof :: "h256 list \<Rightarrow> u32 \<Rightarrow> bmt_proof"
  h256_encode :: "h256 \<Rightarrow> bytes"
  h256_as_ref :: "h256 \<Rightarrow> bytes"
  decode_opaque_leaves :: "bytes \<Rightarrow> encodable_opaque_leaf list option"
  decode_mmr_proof :: "bytes \<Rightarrow> 'mp option"
  force_from :: "h256 list \<Rightarrow> h256 list"
  db_writes :: "u64 \<Rightarrow> weight"
  hash_of :: "bytes \<Rightarrow> h256"

section \<open>Documented behaviour\<close>

text \<open>
  \<^verbatim>\<open>WeakBoundedVec::force_from\<close> creates the vector without any checks: it keeps every
  element, whatever the bound.
\<close>

definition force_from_unchecked :: "('mp, 'dg) sdk \<Rightarrow> bool" where
  "force_from_unchecked sdk \<longleftrightarrow> (\<forall>xs. force_from sdk xs = xs)"

text \<open>
  \<^verbatim>\<open>H256\<close> encodes to its own 32 bytes, a reference to a value becomes a leaf with
  these bytes as content, and \<^verbatim>\<open>merkle_proof\<close> proves the leaf at the given index of
  the tree whose root \<^verbatim>\<open>merkle_root\<close> computes over the same leaf bytes (indices and
  counts are \<^verbatim>\<open>u32\<close>, so the tree has fewer than \<open>2 ^ 32\<close> leaves).
\<close>

definition h256_codec_is_as_ref :: "('mp, 'dg) sdk \<Rightarrow> bool" where
  "h256_codec_is_as_ref sdk \<longleftrightarrow> (\<forall>h. h256_encode sdk h = h256_as_ref sdk h)"

definition merkle_proof_root :: "('mp, 'dg) sdk \<Rightarrow> bool" where
  "merkle_proof_root sdk \<longleftrightarrow> (\<forall>hs i. unat i < length hs \<and> length hs < 2 ^ 32 \<longrightarrow>
     bmt_root (bmt_merkle_proof sdk hs i) = bmt_merkle_root sdk (map (h256_as_ref sdk) hs))"

definition merkle_proof_shape :: "('mp, 'dg) sdk \<Rightarrow> bool" where
  "merkle_proof_shape sdk \<longleftrightarrow> (\<forall>hs i. unat i < length hs \<and> length hs < 2 ^ 32 \<longrightarrow>
     bmt_leaf_value (bmt_merkle_proof sdk hs i) = hs ! unat i \<and>
     bmt_leaf_index (bmt_merkle_proof sdk hs i) = i \<and>
     unat (bmt_number_of_leaves (bmt_merkle_proof sdk hs i)) = length hs)"

definition merkle_proof_verifies :: "('mp, 'dg) sdk \<Rightarrow> bool" where
  "merkle_proof_verifies sdk \<longleftrightarrow> (\<forall>hs i. unat i < length hs \<and> length hs < 2 ^ 32 \<longrightarrow>
     (let p = bmt_merkle_proof sdk hs i in
      bmt_verify_proof sdk (bmt_root p) (bmt_proof_items p) (bmt_number_of_leaves p)
        (bmt_leaf_index p) (leaf_from_ref sdk (h256_as_ref sdk (bmt_leaf_value p)))))"

lemmas sdk_law_defs =
  force_from_unchecked_def h256_codec_is_as_ref_def
  merkle_proof_root_def merkle_proof_shape_def merkle_proof_verifies_def

section \<open>A concrete SDK\<close>

text \<open>
  A small SDK over which the model runs. It hashes nothing, but every function computes and all
  the documented behaviour above holds of it, so theorems that assume it are not empty. An MMR
  proof is the root itself, a header is its first byte, and so is a BEEFY leaf.
\<close>

definition example_sdk :: "(h256, h256) sdk" where
  "example_sdk =
     \<lparr>verify_leaves_proof = (\<lambda>r nodes p. nodes \<noteq> [] \<and> r = p),
      into_opaque_leaf = (\<lambda>l. case l of EncodableOpaqueLeaf b \<Rightarrow> b),
      decode_beefy_leaf = (\<lambda>bs. case bs of [] \<Rightarrow> None | b # _ \<Rightarrow> Some \<lparr>leaf_extra = ucast b\<rparr>),
      bmt_verify_proof = (\<lambda>r items n i leaf. i < n \<and> r = ucast n),
      leaf_from_ref = LeafValue,
      para_leaf_encode = head_data,
      decode_header = (\<lambda>bs. case bs of [] \<Rightarrow> None | b # _ \<Rightarrow> Some \<lparr>digest = ucast b\<rparr>),
      extract_xcmp_channel_merkle_root = (\<lambda>d. if d = 0 then None else Some d),
      bmt_merkle_root = (\<lambda>ls. ucast (of_nat (length ls) :: u32)),
      bmt_merkle_proof = (\<lambda>hs i. \<lparr>bmt_root = ucast (of_nat (length hs) :: u32), bmt_proof_items = [],
        bmt_number_of_leaves = of_nat (length hs), bmt_leaf_index = i, bmt_leaf_value = hs ! unat i\<rparr>),
      h256_encode = (\<lambda>h. [ucast h]),
      h256_as_ref = (\<lambda>h. [ucast h]),
      decode_opaque_leaves = (\<lambda>bs. Some [EncodableOpaqueLeaf bs]),
      decode_mmr_proof = (\<lambda>bs. case bs of [b] \<Rightarrow> Some (ucast b) | _ \<Rightarrow> None),
      force_from = (\<lambda>xs. xs),
      db_writes = (\<lambda>n. \<lparr>ref_time = 100000000 * n, proof_size = 0\<rparr>),
      hash_of = (\<lambda>bs. of_nat (length bs))\<rparr>"

lemma example_sdk_simps [simp]:
  "verify_leaves_proof example_sdk r nodes p \<longleftrightarrow> nodes \<noteq> [] \<and> r = p"
  "into_opaque_leaf example_sdk (EncodableOpaqueLeaf b) = b"
  "decode_beefy_leaf example_sdk bs = (case bs of [] \<Rightarrow> None | b # _ \<Rightarrow> Some \<lparr>leaf_extra = ucast b\<rparr>)"
  "bmt_verify_proof example_sdk r items n i leaf \<longleftrightarrow> i < n \<and> r = ucast n"
  "leaf_from_ref example_sdk = LeafValue"
  "para_leaf_encode example_sdk = head_data"
  "decode_header example_sdk bs = (case bs of [] \<Rightarrow> None | b # _ \<Rightarrow> Some \<lparr>digest = ucast b\<rparr>)"
  "extract_xcmp_channel_merkle_root example_sdk d = (if d = 0 then None else Some d)"
  "bmt_merkle_root example_sdk ls = ucast (of_nat (length ls) :: u32)"
  "bmt_merkle_proof example_sdk hs i = \<lparr>bmt_root = ucast (of_nat (length hs) :: u32),
     bmt_proof_items = [], bmt_number_of_leaves = of_nat (length hs), bmt_leaf_index = i,
     bmt_leaf_value = hs ! unat i\<rparr>"
  "h256_encode example_sdk h = [ucast h]"
  "h256_as_ref example_sdk h = [ucast h]"
  "decode_opaque_leaves example_sdk bs = Some [EncodableOpaqueLeaf bs]"
  "decode_mmr_proof example_sdk bs = (case bs of [b] \<Rightarrow> Some (ucast b) | _ \<Rightarrow> None)"
  "force_from example_sdk xs = xs"
  "db_writes example_sdk k = \<lparr>ref_time = 100000000 * k, proof_size = 0\<rparr>"
  "hash_of example_sdk bs = of_nat (length bs)"
  by (simp_all add: example_sdk_def)

lemma unat_of_nat_u32: "n < 2 ^ 32 \<Longrightarrow> unat (of_nat n :: u32) = n"
  by (simp add: unsigned_of_nat take_bit_nat_eq_self)

lemma example_sdk_laws:
  "force_from_unchecked example_sdk"
  "h256_codec_is_as_ref example_sdk" "merkle_proof_root example_sdk"
  "merkle_proof_shape example_sdk"
  by (simp_all add: sdk_law_defs unat_of_nat_u32)

lemma example_sdk_merkle_proof_verifies: "merkle_proof_verifies example_sdk"
  by (simp add: merkle_proof_verifies_def word_less_nat_alt unat_of_nat_u32)

end
