(* ===== verification/Message_Stuffer.thy ===== *)
theory Message_Stuffer
  imports Sdk_Interface
begin

text \<open>
  The pallet \<^verbatim>\<open>pallet_xcmp_message_stuffer\<close>
  (\<^verbatim>\<open>src/pallets/xcmp_message_stuffer/src/lib.rs\<close>): its storage, the
  \<^verbatim>\<open>on_initialize\<close> hook, the three dispatchables, the helper that reads the channel
  root out of a parachain header, and the provider of MMR leaves. The block number is the
  runtime's \<^verbatim>\<open>u32\<close> and the hash its \<^verbatim>\<open>H256\<close>. Logging is left out. The
  field \<open>events\<close> is the sequence of events handed to \<^verbatim>\<open>deposit_event\<close>.
\<close>

section \<open>Data\<close>

record channel_merkle_proof =
  ch_root :: h256
  ch_proof :: "h256 list"
  ch_num_leaves :: u64
  ch_leaf_index :: u64
  ch_leaf :: h256

definition channel_merkle_proof_default :: channel_merkle_proof where
  "channel_merkle_proof_default =
     \<lparr>ch_root = 0, ch_proof = [], ch_num_leaves = 0, ch_leaf_index = 0, ch_leaf = 0\<rparr>"

record 'mp xcmp_proof =
  stage_1 :: "'mp \<times> encodable_opaque_leaf list"
  stage_2 :: para_merkle_proof
  stage_3 :: channel_merkle_proof
  stage_4 :: "'mp \<times> encodable_opaque_leaf list"

datatype stuffer_event =
    XcmpMessageSent h256 u32
  | XcmpMessagesAccepted h256 u64

datatype stuffer_error =
    XcmpProofNotValid
  | XcmpProofAccepted
  | XcmpProofLeavesNotValid
  | XcmpNoChannelRootForChannelId
  | XcmpBeefyRootTargetedNeverSeen
  | XcmpStage1LeavesTooLarge
  | XcmpStage1ProofDoesntVerify
  | XcmpStage2RootDoesntMatch
  | XcmpStage2LeafDoesntDecode
  | XcmpStage2ProofDoesntVerify
  | XcmpStage3HeaderDoesntDecode
  | XcmpStage3CannotBeExtracted
  | XcmpStage3RootDoesntMatch
  | XcmpStage3ProofDoesntVerify
  | XcmpStage4ProofDoesntVerify

text \<open>The storage of one instance of the pallet.\<close>

record stuffer =
  xcmp_channel_roots :: "u64 \<rightharpoonup> h256"
  seen_beefy_roots :: "h256 \<rightharpoonup> u32"
  seen_beefy_roots_order :: "h256 list"
  events :: "stuffer_event list"

definition stuffer_genesis :: stuffer where
  "stuffer_genesis =
     \<lparr>xcmp_channel_roots = Map.empty, seen_beefy_roots = Map.empty,
      seen_beefy_roots_order = [], events = []\<rparr>"

definition deposit_event :: "stuffer_event \<Rightarrow> stuffer \<Rightarrow> stuffer" where
  "deposit_event e s = s\<lparr>events := events s @ [e]\<rparr>"

section \<open>Hook\<close>

definition on_initialize :: "('mp, 'dg) sdk \<Rightarrow> h256 option \<Rightarrow> u32 \<Rightarrow> stuffer \<Rightarrow> weight \<times> stuffer" where
  "on_initialize sdk get_root n s =
     (let beefy_root = (case get_root of Some r \<Rightarrow> r | None \<Rightarrow> 0);
          s1 = s\<lparr>seen_beefy_roots := (seen_beefy_roots s)(beefy_root \<mapsto> n)\<rparr>;
          order = seen_beefy_roots_order s1 @ [beefy_root];
          item = force_from sdk order;
          s2 = s1\<lparr>seen_beefy_roots_order := item\<rparr>
      in (db_writes sdk 3, s2))"

section \<open>Dispatchables\<close>

type_synonym 'a stuffer_call = "(stuffer, stuffer_error dispatch_error, 'a) action"

definition vec_index :: "'a list \<Rightarrow> nat \<Rightarrow> ('s, 'e, 'a) action" where
  "vec_index xs i = (if i < length xs then ret (xs ! i) else panic)"

definition submit_test_proof ::
  "('mp, 'dg) sdk \<Rightarrow> ('o \<Rightarrow> 'acc option) \<Rightarrow> 'o \<Rightarrow> 'mp \<Rightarrow> encodable_opaque_leaf list \<Rightarrow> u64 \<Rightarrow>
   unit stuffer_call" where
  "submit_test_proof sdk ensure_signed origin mmr_proof leaves channel_id =
     and_then (signed ensure_signed origin) (\<lambda>_.
     let nodes = map (\<lambda>leaf. DataNode (into_opaque_leaf sdk leaf)) leaves in
     and_then (gets (\<lambda>s. xcmp_channel_roots s channel_id)) (\<lambda>stored.
     and_then (ok_or stored (Module XcmpNoChannelRootForChannelId)) (\<lambda>root.
     and_then (ensure (verify_leaves_proof sdk root nodes mmr_proof) (Module XcmpProofNotValid)) (\<lambda>_.
     modify (deposit_event (XcmpMessagesAccepted root channel_id))))))"

definition update_root :: "('o \<Rightarrow> 'acc option) \<Rightarrow> 'o \<Rightarrow> h256 \<Rightarrow> u64 \<Rightarrow> unit stuffer_call" where
  "update_root ensure_signed origin root channel_id =
     and_then (signed ensure_signed origin) (\<lambda>_.
     modify (\<lambda>s. s\<lparr>xcmp_channel_roots := (xcmp_channel_roots s)(channel_id \<mapsto> root)\<rparr>))"

definition extract_xcmp_channel_root :: "('mp, 'dg) sdk \<Rightarrow> para_leaf \<Rightarrow> h256 stuffer_call" where
  "extract_xcmp_channel_root sdk leaf =
     and_then (ok_or (decode_header sdk (head_data leaf)) (Module XcmpStage3HeaderDoesntDecode)) (\<lambda>hdr.
     and_then (ok_or (extract_xcmp_channel_merkle_root sdk (digest hdr))
                 (Module XcmpStage3CannotBeExtracted)) (\<lambda>xcmp_channel_root.
     ret xcmp_channel_root))"

definition submit_xcmp_proof ::
  "('mp, 'dg) sdk \<Rightarrow> ('o \<Rightarrow> 'acc option) \<Rightarrow> 'o \<Rightarrow> 'mp xcmp_proof \<Rightarrow> h256 \<Rightarrow> unit stuffer_call" where
  "submit_xcmp_proof sdk ensure_signed origin xcmp_proof beefy_root_targeted =
     and_then (signed ensure_signed origin) (\<lambda>_.
     and_then (gets (\<lambda>s. seen_beefy_roots s beefy_root_targeted \<noteq> None)) (\<lambda>contains_key.
     and_then (ensure contains_key (Module XcmpBeefyRootTargetedNeverSeen)) (\<lambda>_.
     let stage_1_proof = fst (stage_1 xcmp_proof);
         stage_1_leaves = snd (stage_1 xcmp_proof);
         nodes = map (\<lambda>leaf. DataNode (into_opaque_leaf sdk leaf)) stage_1_leaves in
     and_then (ensure (verify_leaves_proof sdk beefy_root_targeted nodes stage_1_proof)
                 (Module XcmpStage1ProofDoesntVerify)) (\<lambda>_.
     and_then (ensure (\<not> length stage_1_leaves > 1) (Module XcmpStage1LeavesTooLarge)) (\<lambda>_.
     and_then (vec_index stage_1_leaves 0) (\<lambda>stage_1_leaf.
     and_then (ok_or (decode_beefy_leaf sdk (into_opaque_leaf sdk stage_1_leaf))
                 (Module XcmpStage2LeafDoesntDecode)) (\<lambda>stage_2_leaf.
     let stage_2_root_from_proof = pa_root (stage_2 xcmp_proof);
         stage_2_root = leaf_extra stage_2_leaf in
     and_then (ensure (stage_2_root = stage_2_root_from_proof)
                 (Module XcmpStage2RootDoesntMatch)) (\<lambda>_.
     and_then (unwrap (try_into_u32 (pa_num_leaves (stage_2 xcmp_proof)))) (\<lambda>num_leaves_2.
     and_then (unwrap (try_into_u32 (pa_leaf_index (stage_2 xcmp_proof)))) (\<lambda>leaf_index_2.
     let stage_2_result = bmt_verify_proof sdk (pa_root (stage_2 xcmp_proof))
           (pa_proof (stage_2 xcmp_proof)) num_leaves_2 leaf_index_2
           (LeafValue (para_leaf_encode sdk (pa_leaf (stage_2 xcmp_proof)))) in
     and_then (ensure stage_2_result (Module XcmpStage2ProofDoesntVerify)) (\<lambda>_.
     and_then (extract_xcmp_channel_root sdk (pa_leaf (stage_2 xcmp_proof))) (\<lambda>stage_3_root.
     and_then (ensure (stage_3_root = ch_root (stage_3 xcmp_proof))
                 (Module XcmpStage3RootDoesntMatch)) (\<lambda>_.
     and_then (unwrap (try_into_u32 (ch_num_leaves (stage_3 xcmp_proof)))) (\<lambda>num_leaves_3.
     and_then (unwrap (try_into_u32 (ch_leaf_index (stage_3 xcmp_proof)))) (\<lambda>leaf_index_3.
     let stage_3_result = bmt_verify_proof sdk (ch_root (stage_3 xcmp_proof))
           (ch_proof (stage_3 xcmp_proof)) num_leaves_3 leaf_index_3
           (leaf_from_ref sdk (h256_as_ref sdk (ch_leaf (stage_3 xcmp_proof)))) in
     and_then (ensure stage_3_result (Module XcmpStage3ProofDoesntVerify)) (\<lambda>_.
     let stage_4_root = ch_leaf (stage_3 xcmp_proof);
         stage_4_proof = fst (stage_4 xcmp_proof);
         stage_4_leaves = snd (stage_4 xcmp_proof);
         nodes = map (\<lambda>leaf. DataNode (into_opaque_leaf sdk leaf)) stage_4_leaves in
     and_then (ensure (verify_leaves_proof sdk stage_4_root nodes stage_4_proof)
                 (Module XcmpStage4ProofDoesntVerify)) (\<lambda>_.
     ret ())))))))))))))))))"

section \<open>MMR leaves\<close>

text \<open>
  \<^verbatim>\<open>OnNewRootSatisfier::on_new_root\<close> does nothing. \<^verbatim>\<open>leaf_data\<close> asks the
  message provider for the block's outbound messages, deposits \<open>XcmpMessageSent\<close> and returns the
  leaf. A version is its major and minor part. \<open>parent\<close> is what \<^verbatim>\<open>ParentNumberAndHash::leaf_data()\<close> returns, the version is
  the runtime's \<^verbatim>\<open>LeafVersion\<close>.
\<close>

definition on_new_root :: "h256 \<Rightarrow> stuffer \<Rightarrow> stuffer" where
  "on_new_root root s = s"

record mmr_leaf =
  xcmp_msgs :: bytes
  leaf_version :: "u8 \<times> u8"
  parent_number_and_hash :: "u32 \<times> h256"

definition leaf_data ::
  "('mp, 'dg) sdk \<Rightarrow> (h256 \<Rightarrow> u32 \<Rightarrow> bytes option) \<Rightarrow> u32 \<Rightarrow> u8 \<times> u8 \<Rightarrow> u32 \<times> h256 \<Rightarrow> stuffer \<Rightarrow>
   (mmr_leaf \<times> stuffer) option" where
  "leaf_data sdk get_xcmp_messages para_identifier version parent s =
     (case get_xcmp_messages (snd parent) para_identifier of
        None \<Rightarrow> None
      | Some raw_messages \<Rightarrow>
          (let s' = deposit_event (XcmpMessageSent (hash_of sdk raw_messages) (fst parent)) s
           in Some (\<lparr>xcmp_msgs = raw_messages, leaf_version = version,
                     parent_number_and_hash = parent\<rparr>, s')))"

section \<open>Evaluation of the dispatchables\<close>

lemma vec_index_eval [action_eval]:
  "and_then (vec_index xs i) f s = (if i < length xs then f (xs ! i) s else (Panic, s))"
  by (simp add: vec_index_def action_simps)

lemmas stuffer_call_defs =
  submit_test_proof_def update_root_def submit_xcmp_proof_def extract_xcmp_channel_root_def

text \<open>
  The checks of \<open>submit_xcmp_proof\<close> as a table: what is checked, and how the call ends when
  the check is the first to fail.
\<close>

definition para_channel_root :: "('mp, 'dg) sdk \<Rightarrow> para_leaf \<Rightarrow> h256 option" where
  "para_channel_root sdk leaf =
     Option.bind (decode_header sdk (head_data leaf)) (\<lambda>h. extract_xcmp_channel_merkle_root sdk (digest h))"

definition opaque_nodes :: "('mp, 'dg) sdk \<Rightarrow> encodable_opaque_leaf list \<Rightarrow> data_or_hash list" where
  "opaque_nodes sdk leaves = map (\<lambda>leaf. DataNode (into_opaque_leaf sdk leaf)) leaves"

definition submit_checks ::
  "('mp, 'dg) sdk \<Rightarrow> bool \<Rightarrow> bool \<Rightarrow> 'mp xcmp_proof \<Rightarrow> h256 \<Rightarrow>
   (bool \<times> (stuffer_error dispatch_error, unit) outcome) list" where
  "submit_checks sdk is_signed seen p beefy_root =
     (let leaves = snd (stage_1 p);
          leaf = into_opaque_leaf sdk (leaves ! 0);
          s2 = stage_2 p; s3 = stage_3 p;
          hdr = decode_header sdk (head_data (pa_leaf s2))
      in [(is_signed, Err BadOrigin),
          (seen, Err (Module XcmpBeefyRootTargetedNeverSeen)),
          (verify_leaves_proof sdk beefy_root (opaque_nodes sdk leaves) (fst (stage_1 p)),
             Err (Module XcmpStage1ProofDoesntVerify)),
          (length leaves \<le> 1, Err (Module XcmpStage1LeavesTooLarge)),
          (leaves \<noteq> [], Panic),
          (decode_beefy_leaf sdk leaf \<noteq> None, Err (Module XcmpStage2LeafDoesntDecode)),
          (leaf_extra (the (decode_beefy_leaf sdk leaf)) = pa_root s2,
             Err (Module XcmpStage2RootDoesntMatch)),
          (try_into_u32 (pa_num_leaves s2) \<noteq> None, Panic),
          (try_into_u32 (pa_leaf_index s2) \<noteq> None, Panic),
          (bmt_verify_proof sdk (pa_root s2) (pa_proof s2) (the (try_into_u32 (pa_num_leaves s2)))
             (the (try_into_u32 (pa_leaf_index s2))) (LeafValue (para_leaf_encode sdk (pa_leaf s2))),
             Err (Module XcmpStage2ProofDoesntVerify)),
          (hdr \<noteq> None, Err (Module XcmpStage3HeaderDoesntDecode)),
          (extract_xcmp_channel_merkle_root sdk (digest (the hdr)) \<noteq> None,
             Err (Module XcmpStage3CannotBeExtracted)),
          (the (extract_xcmp_channel_merkle_root sdk (digest (the hdr))) = ch_root s3,
             Err (Module XcmpStage3RootDoesntMatch)),
          (try_into_u32 (ch_num_leaves s3) \<noteq> None, Panic),
          (try_into_u32 (ch_leaf_index s3) \<noteq> None, Panic),
          (bmt_verify_proof sdk (ch_root s3) (ch_proof s3) (the (try_into_u32 (ch_num_leaves s3)))
             (the (try_into_u32 (ch_leaf_index s3))) (leaf_from_ref sdk (h256_as_ref sdk (ch_leaf s3))),
             Err (Module XcmpStage3ProofDoesntVerify)),
          (verify_leaves_proof sdk (ch_leaf s3) (opaque_nodes sdk (snd (stage_4 p))) (fst (stage_4 p)),
             Err (Module XcmpStage4ProofDoesntVerify))])"

lemma submit_xcmp_proof_table:
  "submit_xcmp_proof sdk es origin p r s =
     (first_failure (submit_checks sdk (es origin \<noteq> None) (seen_beefy_roots s r \<noteq> None) p r) (Ok ()), s)"
  by (simp add: submit_xcmp_proof_def submit_checks_def extract_xcmp_channel_root_def
        opaque_nodes_def Let_def action_eval)

section \<open>What an accepted proof is\<close>

text \<open>
  The specification of \<open>submit_xcmp_proof\<close>: the four stages hang together from the BEEFY root
  down to the messages. Stage 1 shows one MMR leaf under the BEEFY root, its extra field is the
  root of the parachain heads tree of stage 2, the header proved there carries the channel root
  of stage 3, and the leaf proved there is the root of the message MMR of stage 4.
\<close>

definition xcmp_chain :: "('mp, 'dg) sdk \<Rightarrow> h256 \<Rightarrow> 'mp xcmp_proof \<Rightarrow> bool" where
  "xcmp_chain sdk beefy_root p \<longleftrightarrow>
     (\<exists>leaf beefy_leaf n2 i2 n3 i3.
        snd (stage_1 p) = [leaf] \<and>
        verify_leaves_proof sdk beefy_root [DataNode (into_opaque_leaf sdk leaf)] (fst (stage_1 p)) \<and>
        decode_beefy_leaf sdk (into_opaque_leaf sdk leaf) = Some beefy_leaf \<and>
        leaf_extra beefy_leaf = pa_root (stage_2 p) \<and>
        try_into_u32 (pa_num_leaves (stage_2 p)) = Some n2 \<and>
        try_into_u32 (pa_leaf_index (stage_2 p)) = Some i2 \<and>
        bmt_verify_proof sdk (pa_root (stage_2 p)) (pa_proof (stage_2 p)) n2 i2
          (LeafValue (para_leaf_encode sdk (pa_leaf (stage_2 p)))) \<and>
        para_channel_root sdk (pa_leaf (stage_2 p)) = Some (ch_root (stage_3 p)) \<and>
        try_into_u32 (ch_num_leaves (stage_3 p)) = Some n3 \<and>
        try_into_u32 (ch_leaf_index (stage_3 p)) = Some i3 \<and>
        bmt_verify_proof sdk (ch_root (stage_3 p)) (ch_proof (stage_3 p)) n3 i3
          (leaf_from_ref sdk (h256_as_ref sdk (ch_leaf (stage_3 p)))) \<and>
        verify_leaves_proof sdk (ch_leaf (stage_3 p)) (opaque_nodes sdk (snd (stage_4 p)))
          (fst (stage_4 p)))"

lemma singleton_iff_le_1: "length xs \<le> 1 \<and> xs \<noteq> [] \<longleftrightarrow> (\<exists>x. xs = [x])"
  by (cases xs) auto

lemma para_channel_root_Some_iff:
  "para_channel_root sdk leaf = Some r \<longleftrightarrow>
   (\<exists>h. decode_header sdk (head_data leaf) = Some h \<and>
        extract_xcmp_channel_merkle_root sdk (digest h) = Some r)"
  by (auto simp: para_channel_root_def bind_eq_Some_conv)

lemma submit_checks_all_iff:
  "list_all fst (submit_checks sdk sg seen p r) \<longleftrightarrow> sg \<and> seen \<and> xcmp_chain sdk r p"
  by (cases "snd (stage_1 p)")
     (auto simp: submit_checks_def xcmp_chain_def para_channel_root_Some_iff opaque_nodes_def Let_def)

lemma submit_checks_never_ok:
  "list_all (\<lambda>check. snd check \<noteq> Ok ()) (submit_checks sdk sg seen p r)"
  by (simp add: submit_checks_def Let_def)

lemma submit_xcmp_proof_ok_iff:
  "fst (submit_xcmp_proof sdk es origin p r s) = Ok () \<longleftrightarrow>
   es origin \<noteq> None \<and> seen_beefy_roots s r \<noteq> None \<and> xcmp_chain sdk r p"
  unfolding submit_xcmp_proof_table fst_conv
  by (subst first_failure_passes_iff [OF submit_checks_never_ok]) (rule submit_checks_all_iff)

lemma submit_xcmp_proof_storage: "snd (submit_xcmp_proof sdk es origin p r s) = s"
  by (simp add: submit_xcmp_proof_table)

section \<open>The dispatchables keep the contract of a signed call\<close>

lemma submit_test_proof_run:
  "submit_test_proof sdk es origin mp leaves cid s =
     (first_failure
        [(es origin \<noteq> None, Err BadOrigin),
         (xcmp_channel_roots s cid \<noteq> None, Err (Module XcmpNoChannelRootForChannelId)),
         (verify_leaves_proof sdk (the (xcmp_channel_roots s cid)) (opaque_nodes sdk leaves) mp,
            Err (Module XcmpProofNotValid))] (Ok ()),
      if es origin \<noteq> None \<and> xcmp_channel_roots s cid \<noteq> None \<and>
         verify_leaves_proof sdk (the (xcmp_channel_roots s cid)) (opaque_nodes sdk leaves) mp
      then deposit_event (XcmpMessagesAccepted (the (xcmp_channel_roots s cid)) cid) s else s)"
  by (simp add: submit_test_proof_def opaque_nodes_def Let_def action_eval)

lemma update_root_run:
  "update_root es origin root cid s =
     (if es origin \<noteq> None
      then (Ok (), s\<lparr>xcmp_channel_roots := (xcmp_channel_roots s)(cid \<mapsto> root)\<rparr>)
      else (Err BadOrigin, s))"
  by (simp add: update_root_def action_eval)

interpretation test_proof_call: signed_dispatchable es "\<lambda>origin. submit_test_proof sdk es origin mp leaves cid"
  for es sdk mp leaves cid
  by unfold_locales (auto simp: submit_test_proof_run split: if_splits)

interpretation update_root_call: signed_dispatchable es "\<lambda>origin. update_root es origin root cid"
  for es root cid
  by unfold_locales (auto simp: update_root_run split: if_splits)

interpretation xcmp_proof_call: signed_dispatchable es "\<lambda>origin. submit_xcmp_proof sdk es origin p r"
  for es sdk p r
  by unfold_locales (auto simp: submit_xcmp_proof_table submit_checks_def Let_def)

section \<open>Runs of the pallet\<close>

text \<open>
  Everything that changes the storage of an instance: the hook, the three calls, and the MMR
  asking for its leaf. A run executes a sequence of them.
\<close>

datatype ('mp, 'o) stuffer_op =
    OnInitialize "h256 option" u32
  | SubmitTestProof 'o 'mp "encodable_opaque_leaf list" u64
  | UpdateRoot 'o h256 u64
  | SubmitXcmpProof 'o "'mp xcmp_proof" h256
  | LeafData "bytes option" u32 "u8 \<times> u8" "u32 \<times> h256"

fun stuffer_exec ::
  "('mp, 'dg) sdk \<Rightarrow> ('o \<Rightarrow> 'acc option) \<Rightarrow> ('mp, 'o) stuffer_op \<Rightarrow> stuffer \<Rightarrow> stuffer" where
  "stuffer_exec sdk es (OnInitialize get_root n) s = snd (on_initialize sdk get_root n s)"
| "stuffer_exec sdk es (SubmitTestProof origin mp leaves cid) s =
     snd (submit_test_proof sdk es origin mp leaves cid s)"
| "stuffer_exec sdk es (UpdateRoot origin root cid) s = snd (update_root es origin root cid s)"
| "stuffer_exec sdk es (SubmitXcmpProof origin p r) s = snd (submit_xcmp_proof sdk es origin p r s)"
| "stuffer_exec sdk es (LeafData msgs pid ver parent) s =
     (case leaf_data sdk (\<lambda>_ _. msgs) pid ver parent s of None \<Rightarrow> s | Some (_, s') \<Rightarrow> s')"

definition stuffer_run ::
  "('mp, 'dg) sdk \<Rightarrow> ('o \<Rightarrow> 'acc option) \<Rightarrow> ('mp, 'o) stuffer_op list \<Rightarrow> stuffer \<Rightarrow> stuffer" where
  "stuffer_run sdk es ops s = fold (stuffer_exec sdk es) ops s"

inductive stuffer_step ::
  "('mp, 'dg) sdk \<Rightarrow> ('o \<Rightarrow> 'acc option) \<Rightarrow> stuffer \<Rightarrow> stuffer \<Rightarrow> bool" for sdk es where
  exec: "stuffer_step sdk es s (stuffer_exec sdk es op s)"

inductive_cases stuffer_stepE: "stuffer_step sdk es s t"

text \<open>The abstract view: the history of BEEFY roots the blocks brought, oldest first.\<close>

fun beefy_history :: "('mp, 'o) stuffer_op list \<Rightarrow> (h256 \<times> u32) list" where
  "beefy_history [] = []"
| "beefy_history (OnInitialize get_root n # ops) =
     ((case get_root of Some r \<Rightarrow> r | None \<Rightarrow> 0), n) # beefy_history ops"
| "beefy_history (_ # ops) = beefy_history ops"

lemma on_initialize_storage [simp]:
  "seen_beefy_roots (snd (on_initialize sdk g n s)) =
     (seen_beefy_roots s)((case g of Some r \<Rightarrow> r | None \<Rightarrow> 0) \<mapsto> n)"
  "seen_beefy_roots_order (snd (on_initialize sdk g n s)) =
     force_from sdk (seen_beefy_roots_order s @ [case g of Some r \<Rightarrow> r | None \<Rightarrow> 0])"
  "xcmp_channel_roots (snd (on_initialize sdk g n s)) = xcmp_channel_roots s"
  "events (snd (on_initialize sdk g n s)) = events s"
  by (simp_all add: on_initialize_def Let_def)

lemma deposit_event_storage [simp]:
  "seen_beefy_roots (deposit_event e s) = seen_beefy_roots s"
  "seen_beefy_roots_order (deposit_event e s) = seen_beefy_roots_order s"
  "xcmp_channel_roots (deposit_event e s) = xcmp_channel_roots s"
  "events (deposit_event e s) = events s @ [e]"
  by (simp_all add: deposit_event_def)

text \<open>Only the hook writes the two BEEFY root items.\<close>

lemma exec_keeps_beefy_roots:
  assumes "\<And>g n. op \<noteq> OnInitialize g n"
  shows "seen_beefy_roots (stuffer_exec sdk es op s) = seen_beefy_roots s"
    and "seen_beefy_roots_order (stuffer_exec sdk es op s) = seen_beefy_roots_order s"
  using assms
  by (cases op; auto simp: submit_test_proof_run update_root_run submit_xcmp_proof_storage
        leaf_data_def Let_def split: option.splits)+

lemma exec_beefy_history:
  "seen_beefy_roots (stuffer_exec sdk es op s) = seen_beefy_roots s ++ map_of (rev (beefy_history [op]))"
  by (cases op) (simp_all add: exec_keeps_beefy_roots map_add_def fun_eq_iff del: stuffer_exec.simps(2-5))

lemma beefy_history_Cons: "beefy_history (op # ops) = beefy_history [op] @ beefy_history ops"
  by (cases op) simp_all

lemma run_seen_beefy_roots:
  "seen_beefy_roots (stuffer_run sdk es ops s) = seen_beefy_roots s ++ map_of (rev (beefy_history ops))"
proof (induction ops arbitrary: s)
  case Nil
  show ?case by (simp add: stuffer_run_def)
next
  case (Cons op ops)
  have "seen_beefy_roots (stuffer_run sdk es (op # ops) s) =
        seen_beefy_roots (stuffer_exec sdk es op s) ++ map_of (rev (beefy_history ops))"
    using Cons.IH by (simp add: stuffer_run_def)
  then show ?case
    by (simp add: exec_beefy_history beefy_history_Cons [of op ops])
qed

lemma run_seen_beefy_roots_order:
  assumes "force_from_unchecked sdk"
  shows "seen_beefy_roots_order (stuffer_run sdk es ops s) =
         seen_beefy_roots_order s @ map fst (beefy_history ops)"
proof (induction ops arbitrary: s)
  case Nil
  show ?case by (simp add: stuffer_run_def)
next
  case (Cons op ops)
  have "seen_beefy_roots_order (stuffer_exec sdk es op s) =
        seen_beefy_roots_order s @ map fst (beefy_history [op])"
    using assms
    by (cases op) (simp_all add: force_from_unchecked_def exec_keeps_beefy_roots
          del: stuffer_exec.simps(2-5))
  with Cons.IH show ?case
    by (simp add: stuffer_run_def beefy_history_Cons [of op ops])
qed

text \<open>The invariant of the two items: the order lists exactly the keys of the map.\<close>

definition stuffer_inv :: "('mp, 'dg) sdk \<Rightarrow> stuffer \<Rightarrow> bool" where
  "stuffer_inv sdk s \<longleftrightarrow>
     (force_from_unchecked sdk \<longrightarrow> set (seen_beefy_roots_order s) = dom (seen_beefy_roots s))"

lemma exec_stuffer_inv: "stuffer_inv sdk s \<Longrightarrow> stuffer_inv sdk (stuffer_exec sdk es op s)"
  using run_seen_beefy_roots [of sdk es "[op]" s] run_seen_beefy_roots_order [of sdk es "[op]" s]
  by (auto simp: stuffer_inv_def stuffer_run_def dom_map_of_conv_image_fst)

lemma genesis_stuffer_inv: "stuffer_inv sdk stuffer_genesis"
  by (simp add: stuffer_inv_def stuffer_genesis_def)

interpretation stuffer_machine: invariant_machine "\<lambda>s. s = stuffer_genesis" "stuffer_step sdk es"
  "stuffer_inv sdk" for sdk es
  by unfold_locales (auto elim!: stuffer_stepE intro: exec_stuffer_inv genesis_stuffer_inv)

lemma stuffer_run_append:
  "stuffer_run sdk es (ops @ ops') s = stuffer_run sdk es ops' (stuffer_run sdk es ops s)"
  by (simp add: stuffer_run_def)

lemma run_reaches: "(stuffer_step sdk es)\<^sup>*\<^sup>* s (stuffer_run sdk es ops s)"
proof (induction ops rule: rev_induct)
  case Nil
  show ?case by (simp add: stuffer_run_def)
next
  case (snoc op ops)
  have "stuffer_step sdk es (stuffer_run sdk es ops s) (stuffer_run sdk es (ops @ [op]) s)"
    by (simp add: stuffer_run_append) (simp add: stuffer_run_def stuffer_step.exec)
  with snoc.IH show ?case by (rule rtranclp.rtrancl_into_rtrancl)
qed

lemma in_beefy_history:
  "(r, n) \<in> set (beefy_history ops) \<longleftrightarrow>
   (\<exists>g. OnInitialize g n \<in> set ops \<and> r = (case g of Some r \<Rightarrow> r | None \<Rightarrow> 0))"
proof (induction ops)
  case Nil
  show ?case by simp
next
  case (Cons op ops)
  then show ?case by (cases op) auto
qed

lemma beefy_history_length:
  "length (beefy_history ops) = length (filter (\<lambda>op. \<exists>g n. op = OnInitialize g n) ops)"
proof (induction ops)
  case Nil
  show ?case by simp
next
  case (Cons op ops)
  then show ?case by (cases op) auto
qed

text \<open>Where channel roots and acceptance events come from.\<close>

lemma exec_channel_roots:
  "xcmp_channel_roots (stuffer_exec sdk es op s) cid = Some r \<Longrightarrow>
   xcmp_channel_roots s cid = Some r \<or> (\<exists>o1. op = UpdateRoot o1 r cid \<and> es o1 \<noteq> None)"
  by (cases op)
     (auto simp: submit_test_proof_run update_root_run submit_xcmp_proof_storage leaf_data_def Let_def
       split: option.splits if_splits)

lemma exec_accepted_event:
  "XcmpMessagesAccepted r cid \<in> set (events (stuffer_exec sdk es op s)) \<Longrightarrow>
   XcmpMessagesAccepted r cid \<in> set (events s) \<or> xcmp_channel_roots s cid = Some r"
  by (cases op)
     (auto simp: submit_test_proof_run update_root_run submit_xcmp_proof_storage leaf_data_def Let_def
       split: option.splits if_splits)

lemma run_channel_roots_origin:
  "xcmp_channel_roots (stuffer_run sdk es ops stuffer_genesis) cid = Some r \<Longrightarrow>
   \<exists>o1. UpdateRoot o1 r cid \<in> set ops \<and> es o1 \<noteq> None"
proof (induction ops rule: rev_induct)
  case Nil
  then show ?case by (simp add: stuffer_run_def stuffer_genesis_def)
next
  case (snoc op ops)
  then show ?case
    using exec_channel_roots [of sdk es op "stuffer_run sdk es ops stuffer_genesis" cid r]
    by (auto simp: stuffer_run_def)
qed

section \<open>Properties\<close>

definition example_proof :: "h256 xcmp_proof" where
  "example_proof =
     \<lparr>stage_1 = (7, [EncodableOpaqueLeaf [2]]),
      stage_2 = \<lparr>pa_root = 2, pa_proof = [], pa_num_leaves = 2, pa_leaf_index = 0,
                 pa_leaf = \<lparr>para_id = 1000, head_data = [2]\<rparr>\<rparr>,
      stage_3 = \<lparr>ch_root = 2, ch_proof = [], ch_num_leaves = 2, ch_leaf_index = 0, ch_leaf = 9\<rparr>,
      stage_4 = (9, [EncodableOpaqueLeaf [5, 6]])\<rparr>"

definition example_signer :: "nat option \<Rightarrow> nat option" where
  "example_signer origin = origin"

definition example_state :: stuffer where
  "example_state = snd (on_initialize example_sdk (Some 7) 1 stuffer_genesis)"

definition example_mmr_member :: "h256 \<Rightarrow> data_or_hash \<Rightarrow> bool" where
  "example_mmr_member root node \<longleftrightarrow>
     (\<exists>nodes mp. node \<in> set nodes \<and> verify_leaves_proof example_sdk root nodes mp)"

definition example_bmt_member :: "h256 \<Rightarrow> bmt_leaf \<Rightarrow> bool" where
  "example_bmt_member root leaf \<longleftrightarrow> (\<exists>items n i. bmt_verify_proof example_sdk root items n i leaf)"

lemma example_chain: "xcmp_chain example_sdk 7 example_proof"
  by (simp add: xcmp_chain_def example_proof_def try_into_u32_def para_channel_root_def opaque_nodes_def)

lemma example_seen: "seen_beefy_roots example_state 7 = Some 1"
  by (simp add: example_state_def)

lemma example_accepted:
  "fst (submit_xcmp_proof example_sdk example_signer (Some 1) example_proof 7 example_state) = Ok ()"
  by (simp add: submit_xcmp_proof_ok_iff example_chain example_seen example_signer_def)

text \<open>
  Claim C1: \<open>submit_xcmp_proof\<close> succeeds exactly when the origin is signed, the targeted BEEFY root
  has been seen, and the four stages of the proof form a chain from that root down to the
  messages; a successful call leaves the storage as it was.
\<close>

theorem submit_xcmp_proof_accepts_exactly_chains:
  "submit_xcmp_proof sdk es origin p r s = (Ok (), t) \<longleftrightarrow>
   t = s \<and> es origin \<noteq> None \<and> r \<in> dom (seen_beefy_roots s) \<and> xcmp_chain sdk r p"
  using submit_xcmp_proof_ok_iff [of sdk es origin p r s] submit_xcmp_proof_storage [of sdk es origin p r s]
  by (cases "submit_xcmp_proof sdk es origin p r s") auto

text \<open>
  Claim C2: whatever a verified MMR proof and a verified binary Merkle proof are known to establish
  (the relations \<open>mmr_member\<close> and \<open>bmt_member\<close>), an accepted call establishes along the whole
  path: a BEEFY leaf under the seen root, the parachain head under that leaf's extra field, the
  channel root found in the head's digest, the channel's MMR root under it, and every submitted
  message leaf under that MMR root.
\<close>

theorem accepted_messages_are_committed:
  assumes mmr: "\<And>root nodes mp node. verify_leaves_proof sdk root nodes mp \<Longrightarrow> node \<in> set nodes \<Longrightarrow>
            mmr_member root node"
    and bmt: "\<And>root items n i leaf. bmt_verify_proof sdk root items n i leaf \<Longrightarrow> bmt_member root leaf"
    and ok: "fst (submit_xcmp_proof sdk es origin p r s) = Ok ()"
  shows "seen_beefy_roots s r \<noteq> None \<and>
    (\<exists>leaf beefy_leaf channels_root.
       mmr_member r (DataNode leaf) \<and>
       decode_beefy_leaf sdk leaf = Some beefy_leaf \<and>
       bmt_member (leaf_extra beefy_leaf) (LeafValue (para_leaf_encode sdk (pa_leaf (stage_2 p)))) \<and>
       para_channel_root sdk (pa_leaf (stage_2 p)) = Some channels_root \<and>
       bmt_member channels_root (leaf_from_ref sdk (h256_as_ref sdk (ch_leaf (stage_3 p)))) \<and>
       (\<forall>msg \<in> set (snd (stage_4 p)).
          mmr_member (ch_leaf (stage_3 p)) (DataNode (into_opaque_leaf sdk msg))))"
proof -
  from ok have seen: "seen_beefy_roots s r \<noteq> None" and chain: "xcmp_chain sdk r p"
    by (simp_all add: submit_xcmp_proof_ok_iff)
  from chain obtain leaf bl n2 i2 n3 i3 where
      v1: "verify_leaves_proof sdk r [DataNode (into_opaque_leaf sdk leaf)] (fst (stage_1 p))"
    and dec: "decode_beefy_leaf sdk (into_opaque_leaf sdk leaf) = Some bl"
    and root2: "leaf_extra bl = pa_root (stage_2 p)"
    and v2: "bmt_verify_proof sdk (pa_root (stage_2 p)) (pa_proof (stage_2 p)) n2 i2
          (LeafValue (para_leaf_encode sdk (pa_leaf (stage_2 p))))"
    and root3: "para_channel_root sdk (pa_leaf (stage_2 p)) = Some (ch_root (stage_3 p))"
    and v3: "bmt_verify_proof sdk (ch_root (stage_3 p)) (ch_proof (stage_3 p)) n3 i3
          (leaf_from_ref sdk (h256_as_ref sdk (ch_leaf (stage_3 p))))"
    and v4: "verify_leaves_proof sdk (ch_leaf (stage_3 p)) (opaque_nodes sdk (snd (stage_4 p)))
          (fst (stage_4 p))"
    by (auto simp: xcmp_chain_def)
  have "mmr_member r (DataNode (into_opaque_leaf sdk leaf))"
    by (rule mmr [OF v1]) simp
  moreover have "\<forall>msg \<in> set (snd (stage_4 p)).
      mmr_member (ch_leaf (stage_3 p)) (DataNode (into_opaque_leaf sdk msg))"
    by (auto intro!: mmr [OF v4] simp: opaque_nodes_def)
  ultimately show ?thesis
    using seen dec root3 bmt [OF v2] bmt [OF v3] by (simp add: root2 [symmetric]) blast
qed

theorem accepted_messages_are_committed_witness:
  "seen_beefy_roots example_state 7 \<noteq> None \<and>
    (\<exists>leaf beefy_leaf channels_root.
       example_mmr_member 7 (DataNode leaf) \<and>
       decode_beefy_leaf example_sdk leaf = Some beefy_leaf \<and>
       example_bmt_member (leaf_extra beefy_leaf)
         (LeafValue (para_leaf_encode example_sdk (pa_leaf (stage_2 example_proof)))) \<and>
       para_channel_root example_sdk (pa_leaf (stage_2 example_proof)) = Some channels_root \<and>
       example_bmt_member channels_root
         (leaf_from_ref example_sdk (h256_as_ref example_sdk (ch_leaf (stage_3 example_proof)))) \<and>
       (\<forall>msg \<in> set (snd (stage_4 example_proof)).
          example_mmr_member (ch_leaf (stage_3 example_proof)) (DataNode (into_opaque_leaf example_sdk msg))))"
  by (rule accepted_messages_are_committed [OF _ _ example_accepted])
     (auto simp: example_mmr_member_def example_bmt_member_def)

text \<open>
  A call of \<open>submit_xcmp_proof\<close> can only succeed for a BEEFY root some earlier block brought:
  in every run from genesis, the root of an accepted call is one \<^verbatim>\<open>on_initialize\<close>
  recorded (the zero hash when the provider had none).
\<close>

theorem accepted_root_came_from_a_block:
  assumes "fst (submit_xcmp_proof sdk es origin p r (stuffer_run sdk es ops stuffer_genesis)) = Ok ()"
  shows "\<exists>g n. OnInitialize g n \<in> set ops \<and> r = (case g of Some root \<Rightarrow> root | None \<Rightarrow> 0)"
proof -
  from assms have "map_of (rev (beefy_history ops)) r \<noteq> None"
    by (simp add: submit_xcmp_proof_ok_iff run_seen_beefy_roots stuffer_genesis_def)
  then obtain n where "(r, n) \<in> set (beefy_history ops)"
    by (auto dest: map_of_SomeD)
  then show ?thesis by (auto simp: in_beefy_history)
qed

theorem accepted_root_came_from_a_block_witness:
  "\<exists>g n. OnInitialize g n \<in> set [OnInitialize (Some 7) 1 :: (h256, nat option) stuffer_op] \<and>
         (7 :: h256) = (case g of Some root \<Rightarrow> root | None \<Rightarrow> 0)"
  by (rule accepted_root_came_from_a_block [where sdk = example_sdk and es = example_signer
        and origin = "Some 1" and p = example_proof])
     (use example_accepted in \<open>simp add: stuffer_run_def example_state_def\<close>)

text \<open>
  Claim C11: the two storage items refine the history of BEEFY roots: after any run from genesis the map
  holds, for each root, the number of the last block that brought it, and the order list is the
  whole history.
\<close>

theorem beefy_roots_refine_history:
  assumes "force_from_unchecked sdk"
  shows "seen_beefy_roots (stuffer_run sdk es ops stuffer_genesis) = map_of (rev (beefy_history ops)) \<and>
         seen_beefy_roots_order (stuffer_run sdk es ops stuffer_genesis) = map fst (beefy_history ops)"
  using assms by (simp add: run_seen_beefy_roots run_seen_beefy_roots_order stuffer_genesis_def)

theorem beefy_roots_refine_history_witness:
  "seen_beefy_roots (stuffer_run example_sdk example_signer
      [OnInitialize (Some 7) 1, OnInitialize None 2, OnInitialize (Some 7) 3] stuffer_genesis) 7 = Some 3 \<and>
   seen_beefy_roots_order (stuffer_run example_sdk example_signer
      [OnInitialize (Some 7) 1, OnInitialize None 2, OnInitialize (Some 7) 3] stuffer_genesis) = [7, 0, 7]"
  using beefy_roots_refine_history [OF example_sdk_laws(1), of example_signer
      "[OnInitialize (Some 7) 1, OnInitialize None 2, OnInitialize (Some 7) 3]"]
  by simp

text \<open>
  Claim C12: the pallet's invariant: in every state reachable from genesis by its hook, its calls and the
  MMR's leaf requests, the order list has exactly the roots the map has.
\<close>

theorem reachable_order_lists_seen_roots:
  assumes "force_from_unchecked sdk" and "(stuffer_step sdk es)\<^sup>*\<^sup>* stuffer_genesis s"
  shows "set (seen_beefy_roots_order s) = dom (seen_beefy_roots s)"
  using stuffer_machine.reachable_invariant [OF refl assms(2)] assms(1)
  by (simp add: stuffer_inv_def)

theorem reachable_order_lists_seen_roots_witness:
  "set (seen_beefy_roots_order (stuffer_run example_sdk example_signer [OnInitialize (Some 7) 1] stuffer_genesis)) =
   dom (seen_beefy_roots (stuffer_run example_sdk example_signer [OnInitialize (Some 7) 1] stuffer_genesis))"
  by (rule reachable_order_lists_seen_roots [OF example_sdk_laws(1) run_reaches])

text \<open>
  Claim C23: nothing is remembered of an accepted proof: a proof accepted once is accepted again after any
  further run of the pallet, so \<open>submit_xcmp_proof\<close> gives no protection against replays.
\<close>

theorem accepted_proof_stays_acceptable:
  assumes "fst (submit_xcmp_proof sdk es origin p r s) = Ok ()"
  shows "fst (submit_xcmp_proof sdk es origin p r (stuffer_run sdk es ops s)) = Ok ()"
  using assms
  by (auto simp: submit_xcmp_proof_ok_iff run_seen_beefy_roots map_add_def split: option.splits)

theorem accepted_proof_stays_acceptable_witness:
  "fst (submit_xcmp_proof example_sdk example_signer (Some 1) example_proof 7
     (stuffer_run example_sdk example_signer
        [SubmitXcmpProof (Some 1) example_proof 7, OnInitialize None 2] example_state)) = Ok ()"
  by (rule accepted_proof_stays_acceptable [OF example_accepted])

text \<open>
  Claim C14: exactly when \<open>submit_xcmp_proof\<close> panics, and so aborts the extrinsic instead of returning an
  error: stage 1 verifies with no leaf at all, or it verifies and a leaf count or index of stage 2
  or 3 that the code has reached does not fit into \<^verbatim>\<open>u32\<close>.
\<close>

theorem submit_xcmp_proof_panics_iff:
  "fst (submit_xcmp_proof sdk es origin p r s) = Panic \<longleftrightarrow>
     es origin \<noteq> None \<and> seen_beefy_roots s r \<noteq> None \<and>
     verify_leaves_proof sdk r (opaque_nodes sdk (snd (stage_1 p))) (fst (stage_1 p)) \<and>
     (snd (stage_1 p) = [] \<or>
      (\<exists>leaf beefy_leaf. snd (stage_1 p) = [leaf] \<and>
         decode_beefy_leaf sdk (into_opaque_leaf sdk leaf) = Some beefy_leaf \<and>
         leaf_extra beefy_leaf = pa_root (stage_2 p) \<and>
         (2 ^ 32 \<le> unat (pa_num_leaves (stage_2 p)) \<or> 2 ^ 32 \<le> unat (pa_leaf_index (stage_2 p)) \<or>
          (bmt_verify_proof sdk (pa_root (stage_2 p)) (pa_proof (stage_2 p))
             (ucast (pa_num_leaves (stage_2 p))) (ucast (pa_leaf_index (stage_2 p)))
             (LeafValue (para_leaf_encode sdk (pa_leaf (stage_2 p)))) \<and>
           para_channel_root sdk (pa_leaf (stage_2 p)) = Some (ch_root (stage_3 p)) \<and>
           (2 ^ 32 \<le> unat (ch_num_leaves (stage_3 p)) \<or> 2 ^ 32 \<le> unat (ch_leaf_index (stage_3 p)))))))"
proof (cases "snd (stage_1 p)")
  case Nil
  then show ?thesis
    by (simp add: submit_xcmp_proof_table submit_checks_def Let_def first_failure_Panic_iff
          try_into_u32_fits(1) del: first_failure.simps(2) not_None_eq)
next
  case (Cons leaf leaves)
  then show ?thesis
    by (cases leaves)
       (auto simp: submit_xcmp_proof_table submit_checks_def Let_def first_failure_Panic_iff
          para_channel_root_Some_iff try_into_u32_fits try_into_u32_None_iff
          simp del: first_failure.simps(2))
qed

text \<open>
  Any signed account can make the runtime panic with public data: take any proof that is
  accepted and raise the leaf count of stage 2 (which nothing authenticates before it is
  converted) to \<open>2 ^ 32\<close> or more.
\<close>

theorem oversized_leaf_count_panics:
  assumes "fst (submit_xcmp_proof sdk es origin p r s) = Ok ()" and "2 ^ 32 \<le> unat n"
  shows "fst (submit_xcmp_proof sdk es origin (p\<lparr>stage_2 := (stage_2 p)\<lparr>pa_num_leaves := n\<rparr>\<rparr>) r s) = Panic"
proof -
  from assms(1) have "es origin \<noteq> None" "seen_beefy_roots s r \<noteq> None" and chain: "xcmp_chain sdk r p"
    by (simp_all add: submit_xcmp_proof_ok_iff)
  moreover from assms(2) have "try_into_u32 n = None"
    by (simp add: try_into_u32_None_iff)
  ultimately show ?thesis
    by (auto simp: submit_xcmp_proof_table submit_checks_def Let_def opaque_nodes_def xcmp_chain_def)
qed

theorem oversized_leaf_count_panics_witness:
  "fst (submit_xcmp_proof example_sdk example_signer (Some 1)
     (example_proof\<lparr>stage_2 := (stage_2 example_proof)\<lparr>pa_num_leaves := 4294967296\<rparr>\<rparr>) 7 example_state) = Panic"
  by (rule oversized_leaf_count_panics [OF example_accepted]) simp

text \<open>
  A channel root written by a signed \<open>update_root\<close> is the one later test proofs of that channel are
  checked against, whoever submits them, and no other channel's root changes.
\<close>

theorem update_root_then_submit_test_proof:
  assumes "es origin \<noteq> None"
  shows "(fst (submit_test_proof sdk es origin' mp leaves cid (snd (update_root es origin root cid s))) = Ok () \<longleftrightarrow>
           es origin' \<noteq> None \<and> verify_leaves_proof sdk root (opaque_nodes sdk leaves) mp) \<and>
         (\<forall>c. c \<noteq> cid \<longrightarrow>
           xcmp_channel_roots (snd (update_root es origin root cid s)) c = xcmp_channel_roots s c)"
  using assms by (simp add: update_root_run submit_test_proof_run)

theorem update_root_then_submit_test_proof_witness:
  "fst (submit_test_proof example_sdk example_signer (Some 2) 9 [EncodableOpaqueLeaf [1]] 0
     (snd (update_root example_signer (Some 1) 9 0 stuffer_genesis))) = Ok ()"
  using update_root_then_submit_test_proof [of example_signer "Some 1" example_sdk "Some 2" 9
      "[EncodableOpaqueLeaf [1]]" 0 9 stuffer_genesis]
  by (simp add: example_signer_def opaque_nodes_def)

text \<open>
  Claim C24: no call from an unsigned origin changes anything, and a call that does change the storage was
  signed and succeeded.
\<close>

theorem only_signed_calls_change_storage:
  "(es origin = None \<longrightarrow>
      submit_test_proof sdk es origin mp leaves cid s = (Err BadOrigin, s) \<and>
      update_root es origin root cid s = (Err BadOrigin, s) \<and>
      submit_xcmp_proof sdk es origin p r s = (Err BadOrigin, s)) \<and>
   (snd (submit_test_proof sdk es origin mp leaves cid s) \<noteq> s \<longrightarrow>
      es origin \<noteq> None \<and> is_ok (fst (submit_test_proof sdk es origin mp leaves cid s))) \<and>
   (snd (update_root es origin root cid s) \<noteq> s \<longrightarrow>
      es origin \<noteq> None \<and> is_ok (fst (update_root es origin root cid s))) \<and>
   snd (submit_xcmp_proof sdk es origin p r s) = s"
  using test_proof_call.unsigned_rejected [of es origin sdk mp leaves cid s]
    update_root_call.unsigned_rejected [of es origin root cid s]
    xcmp_proof_call.unsigned_rejected [of es origin sdk p r s]
    test_proof_call.storage_change_is_authorised [of sdk es origin mp leaves cid s]
    update_root_call.storage_change_is_authorised [of es origin root cid s]
  by (auto simp: submit_xcmp_proof_storage)

theorem only_signed_calls_change_storage_witness:
  "update_root example_signer None 9 0 stuffer_genesis = (Err BadOrigin, stuffer_genesis)"
  using only_signed_calls_change_storage [of example_signer None example_sdk 9 "[]" 0 stuffer_genesis 9
      example_proof 7]
  by (simp add: example_signer_def)

text \<open>
  Every \<open>XcmpMessagesAccepted\<close> event of a run from genesis names a root that a signed account
  had set for that channel with \<open>update_root\<close>.
\<close>

theorem accepted_events_have_updated_roots:
  assumes "XcmpMessagesAccepted r cid \<in> set (events (stuffer_run sdk es ops stuffer_genesis))"
  shows "\<exists>origin. UpdateRoot origin r cid \<in> set ops \<and> es origin \<noteq> None"
  using assms
proof (induction ops rule: rev_induct)
  case Nil
  then show ?case by (simp add: stuffer_run_def stuffer_genesis_def)
next
  case (snoc op ops)
  let ?s = "stuffer_run sdk es ops stuffer_genesis"
  from snoc.prems have "XcmpMessagesAccepted r cid \<in> set (events (stuffer_exec sdk es op ?s))"
    by (simp add: stuffer_run_def)
  then consider "XcmpMessagesAccepted r cid \<in> set (events ?s)" | "xcmp_channel_roots ?s cid = Some r"
    using exec_accepted_event by blast
  then show ?case
    by cases (use snoc.IH run_channel_roots_origin in fastforce)+
qed

theorem accepted_events_have_updated_roots_witness:
  "\<exists>origin. UpdateRoot origin 9 0 \<in>
      set [UpdateRoot (Some 1) 9 0, SubmitTestProof (Some 2) (9 :: h256) [EncodableOpaqueLeaf [1]] 0] \<and>
     example_signer origin \<noteq> None"
  by (rule accepted_events_have_updated_roots [of _ _ example_sdk])
     (simp add: stuffer_run_def update_root_run submit_test_proof_run example_signer_def
        opaque_nodes_def stuffer_genesis_def)

text \<open>
  On the data honest relayers send (stage 1 has a leaf, and the counts and indices come
  from the \<^verbatim>\<open>u32\<close> values of a Merkle proof) \<open>submit_xcmp_proof\<close> never panics.
\<close>

theorem submit_xcmp_proof_never_panics_in_range:
  assumes "snd (stage_1 p) \<noteq> []"
    and "unat (pa_num_leaves (stage_2 p)) < 2 ^ 32" and "unat (pa_leaf_index (stage_2 p)) < 2 ^ 32"
    and "unat (ch_num_leaves (stage_3 p)) < 2 ^ 32" and "unat (ch_leaf_index (stage_3 p)) < 2 ^ 32"
  shows "fst (submit_xcmp_proof sdk es origin p r s) \<noteq> Panic"
  using assms
  by (simp add: submit_xcmp_proof_table submit_checks_def Let_def first_failure_Panic_iff
        try_into_u32_fits del: first_failure.simps(2) not_None_eq)

theorem submit_xcmp_proof_never_panics_in_range_witness:
  "fst (submit_xcmp_proof example_sdk example_signer (Some 1) example_proof 7 stuffer_genesis) \<noteq> Panic"
  by (rule submit_xcmp_proof_never_panics_in_range) (simp_all add: example_proof_def)

end
