(* ===== verification/Template_Pallet.thy ===== *)
theory Template_Pallet
  imports Xcmp_Prelude
begin

text \<open>
  The pallet \<^verbatim>\<open>pallets/template\<close> (\<^verbatim>\<open>src/pallets/template/src/lib.rs\<close>): one
  optional \<^verbatim>\<open>u32\<close>, a call that stores it and a call that increments it with
  \<^verbatim>\<open>checked_add\<close>.
\<close>

datatype 'acc template_event = SomethingStored u32 'acc

datatype template_error = NoneValue | StorageOverflow

record 'acc template =
  something :: "u32 option"
  template_events :: "'acc template_event list"

definition template_genesis :: "'acc template" where
  "template_genesis = \<lparr>something = None, template_events = []\<rparr>"

type_synonym ('acc, 'a) template_call = "('acc template, template_error dispatch_error, 'a) action"

definition do_something :: "('o \<Rightarrow> 'acc option) \<Rightarrow> 'o \<Rightarrow> u32 \<Rightarrow> ('acc, unit) template_call" where
  "do_something ensure_signed origin value =
     and_then (signed ensure_signed origin) (\<lambda>who.
     and_then (modify (\<lambda>s. s\<lparr>something := Some value\<rparr>)) (\<lambda>_.
     modify (\<lambda>s. s\<lparr>template_events := template_events s @ [SomethingStored value who]\<rparr>)))"

definition checked_add_u32 :: "u32 \<Rightarrow> u32 \<Rightarrow> u32 option" where
  "checked_add_u32 a b = (if unat a + unat b < 2 ^ 32 then Some (a + b) else None)"

definition cause_error :: "('o \<Rightarrow> 'acc option) \<Rightarrow> 'o \<Rightarrow> ('acc, unit) template_call" where
  "cause_error ensure_signed origin =
     and_then (signed ensure_signed origin) (\<lambda>_.
     and_then (gets something) (\<lambda>stored.
     case stored of
       None \<Rightarrow> fail (Module NoneValue)
     | Some old \<Rightarrow>
         and_then (ok_or (checked_add_u32 old 1) (Module StorageOverflow)) (\<lambda>new.
         modify (\<lambda>s. s\<lparr>something := Some new\<rparr>))))"

lemma checked_add_u32_Some:
  "checked_add_u32 a b = Some c \<Longrightarrow> unat c = unat a + unat b"
  by (auto simp: checked_add_u32_def unat_word_ariths split: if_splits)

lemma do_something_run:
  "do_something es origin v s =
     (case es origin of
        None \<Rightarrow> (Err BadOrigin, s)
      | Some who \<Rightarrow> (Ok (), s\<lparr>something := Some v,
            template_events := template_events s @ [SomethingStored v who]\<rparr>))"
  by (simp add: do_something_def action_eval split: option.splits)

lemma cause_error_run:
  "cause_error es origin s =
     (if es origin = None then (Err BadOrigin, s)
      else case something s of
        None \<Rightarrow> (Err (Module NoneValue), s)
      | Some old \<Rightarrow>
          (if unat old = 2 ^ 32 - 1 then (Err (Module StorageOverflow), s)
           else (Ok (), s\<lparr>something := Some (old + 1)\<rparr>)))"
proof -
  have "unat old + 1 < 2 ^ 32 \<longleftrightarrow> unat old \<noteq> 2 ^ 32 - 1" for old :: u32
    using unat_u32_bound [of old] by auto
  then show ?thesis
    by (auto simp: cause_error_def action_eval checked_add_u32_def split: option.splits)
qed

interpretation do_something_call: signed_dispatchable es "\<lambda>origin. do_something es origin v" for es v
  by unfold_locales (auto simp: do_something_run split: option.splits)

interpretation cause_error_call: signed_dispatchable es "cause_error es" for es
  by unfold_locales (auto simp: cause_error_run split: option.splits if_splits)

text \<open>
  Claim C40: \<open>cause_error\<close> after \<open>do_something\<close>: the stored value grows by one, without wrapping, until it is
  \<open>2 ^ 32 - 1\<close>; from then on the call fails with \<open>StorageOverflow\<close> and keeps the value.
\<close>

theorem increments_saturate_with_error:
  assumes "es origin \<noteq> None"
  shows "(let run = (\<lambda>s. snd (cause_error es origin s));
              t = (run ^^ k) (snd (do_something es origin v s))
          in map_option unat (something t) = Some (min (unat v + k) (2 ^ 32 - 1)) \<and>
             (fst (cause_error es origin t) = Err (Module StorageOverflow) \<longleftrightarrow> 2 ^ 32 - 1 \<le> unat v + k))"
proof -
  obtain who where who: "es origin = Some who" using assms by auto
  let ?t = "\<lambda>k. ((\<lambda>s. snd (cause_error es origin s)) ^^ k) (snd (do_something es origin v s))"
  have val: "\<exists>w. something (?t k) = Some w \<and> unat w = min (unat v + k) (2 ^ 32 - 1)" for k
  proof (induction k)
    case 0
    show ?case using who unat_u32_bound [of v] by (simp add: do_something_run)
  next
    case (Suc k)
    then obtain w where w: "something (?t k) = Some w" "unat w = min (unat v + k) (2 ^ 32 - 1)"
      by blast
    then show ?case
      using who by (auto simp: cause_error_run unat_word_ariths)
  qed
  obtain w where w: "something (?t k) = Some w" "unat w = min (unat v + k) (2 ^ 32 - 1)"
    using val by blast
  then have "fst (cause_error es origin (?t k)) = Err (Module StorageOverflow) \<longleftrightarrow> 2 ^ 32 - 1 \<le> unat v + k"
    using who by (auto simp: cause_error_run)
  with w show ?thesis by (simp add: Let_def)
qed

theorem increments_saturate_with_error_witness:
  "let run = (\<lambda>s. snd (cause_error (\<lambda>x. x) (Some (1 :: nat)) s));
       t = (run ^^ 3) (snd (do_something (\<lambda>x. x) (Some 1) 42 template_genesis))
   in map_option unat (something t) = Some (min (unat (42 :: u32) + 3) (2 ^ 32 - 1)) \<and>
      (fst (cause_error (\<lambda>x. x) (Some 1) t) = Err (Module StorageOverflow) \<longleftrightarrow>
         2 ^ 32 - 1 \<le> unat (42 :: u32) + 3)"
  by (rule increments_saturate_with_error) simp

end
