(* ===== verification/Btree_Map.thy ===== *)
theory Btree_Map
  imports Xcmp_Prelude "HOL-Library.Product_Lexorder"
begin

text \<open>
  \<^verbatim>\<open>std::collections::BTreeMap\<close> as the relayer uses it: \<^verbatim>\<open>insert\<close>,
  \<^verbatim>\<open>remove\<close>, \<^verbatim>\<open>get\<close>, \<^verbatim>\<open>contains_key\<close> and iteration in key order. The
  locale \<open>ordered_map\<close> states what a client may rely on and proves what the relayer needs of
  iteration: the first entry has the least key, and the last of the entries whose keys satisfy a
  condition has the greatest such key. The model's maps are association lists in strictly
  increasing key order; tuples compare lexicographically, as in Rust.
\<close>

section \<open>Interface\<close>

locale ordered_map =
  fixes empty :: 'm
    and insert :: "'k::linorder \<Rightarrow> 'v \<Rightarrow> 'm \<Rightarrow> 'm"
    and remove :: "'k \<Rightarrow> 'm \<Rightarrow> 'm"
    and get :: "'m \<Rightarrow> 'k \<Rightarrow> 'v option"
    and iter :: "'m \<Rightarrow> ('k \<times> 'v) list"
    and invar :: "'m \<Rightarrow> bool"
  assumes get_empty: "get empty k = None"
    and get_insert: "invar m \<Longrightarrow> get (insert k v m) = (get m)(k \<mapsto> v)"
    and get_remove: "invar m \<Longrightarrow> get (remove k m) = (get m)(k := None)"
    and iter_get: "invar m \<Longrightarrow> (k, v) \<in> set (iter m) \<longleftrightarrow> get m k = Some v"
    and iter_sorted: "invar m \<Longrightarrow> sorted_wrt (<) (map fst (iter m))"
    and invar_empty: "invar empty"
    and invar_insert: "invar m \<Longrightarrow> invar (insert k v m)"
    and invar_remove: "invar m \<Longrightarrow> invar (remove k m)"
begin

lemma first_entry_is_least:
  assumes "invar m" and "iter m = (k, v) # rest"
  shows "get m k = Some v" and "get m k' = Some v' \<Longrightarrow> k \<le> k'"
proof -
  show "get m k = Some v"
    using assms iter_get [of m k v] by simp
  assume "get m k' = Some v'"
  then have "(k', v') \<in> set (iter m)" using assms(1) iter_get by blast
  moreover have "\<forall>e \<in> set rest. k < fst e"
    using iter_sorted [OF assms(1)] assms(2) by simp
  ultimately show "k \<le> k'" using assms(2) by auto
qed

lemma no_entry_iff_empty:
  assumes "invar m"
  shows "iter m = [] \<longleftrightarrow> (\<forall>k. get m k = None)"
proof
  assume "iter m = []"
  then have "\<not> (\<exists>k v. get m k = Some v)" using iter_get [OF assms] by simp
  then show "\<forall>k. get m k = None" by auto
next
  assume none: "\<forall>k. get m k = None"
  show "iter m = []"
  proof (cases "iter m")
    case (Cons e rest)
    then have "get m (fst e) = Some (snd e)"
      using iter_get [OF assms, of "fst e" "snd e"] by simp
    with none show ?thesis by simp
  qed simp
qed

lemma last_selected_entry:
  assumes "invar m" and "filter (\<lambda>e. P (fst e)) (iter m) = sel" and "sel \<noteq> []" and "last sel = (k, v)"
  shows "get m k = Some v" and "P k" and "get m k' = Some v' \<Longrightarrow> P k' \<Longrightarrow> k' \<le> k"
proof -
  have sel: "sel = butlast sel @ [(k, v)]"
    using assms(3,4) by (metis append_butlast_last_id)
  have mem: "(k, v) \<in> set sel" using assms(3,4) last_in_set by fastforce
  then have "(k, v) \<in> set (iter m)" and P: "P k" using assms(2) by auto
  then show "get m k = Some v" using iter_get [OF assms(1)] by blast
  show "P k" by (rule P)
  assume "get m k' = Some v'" and "P k'"
  then have "(k', v') \<in> set sel"
    using assms(1,2) iter_get by auto
  then have "(k', v') = (k, v) \<or> (k', v') \<in> set (butlast sel)"
    using sel by (metis Un_iff set_append set_ConsD empty_iff list.set(1))
  moreover have "sorted_wrt (<) (map fst (butlast sel @ [(k, v)]))"
    using iter_sorted [OF assms(1)] assms(2)
    by (auto simp: sorted_wrt_map sel [symmetric] intro: sorted_wrt_filter)
  then have "\<forall>e \<in> set (butlast sel). fst e < k" by (simp add: sorted_wrt_append)
  ultimately show "k' \<le> k" by fastforce
qed

end

section \<open>The maps of the model\<close>

type_synonym ('k, 'v) btree_map = "('k \<times> 'v) list"

fun bt_insert :: "'k::linorder \<Rightarrow> 'v \<Rightarrow> ('k, 'v) btree_map \<Rightarrow> ('k, 'v) btree_map" where
  "bt_insert k v [] = [(k, v)]"
| "bt_insert k v ((k', v') # m) =
     (if k < k' then (k, v) # (k', v') # m
      else if k = k' then (k, v) # m
      else (k', v') # bt_insert k v m)"

fun bt_remove :: "'k::linorder \<Rightarrow> ('k, 'v) btree_map \<Rightarrow> ('k, 'v) btree_map" where
  "bt_remove k [] = []"
| "bt_remove k ((k', v') # m) = (if k = k' then m else (k', v') # bt_remove k m)"

definition bt_get :: "('k, 'v) btree_map \<Rightarrow> 'k \<Rightarrow> 'v option" where
  "bt_get m k = map_of m k"

definition bt_contains_key :: "('k, 'v) btree_map \<Rightarrow> 'k \<Rightarrow> bool" where
  "bt_contains_key m k \<longleftrightarrow> bt_get m k \<noteq> None"

definition bt_invar :: "('k::linorder, 'v) btree_map \<Rightarrow> bool" where
  "bt_invar m \<longleftrightarrow> sorted_wrt (<) (map fst m)"

lemma keys_bt_insert: "fst ` set (bt_insert k v m) = insert k (fst ` set m)"
  by (induction m rule: bt_insert.induct) (auto split: if_splits)

lemma entries_bt_insert: "e \<in> set (bt_insert k v m) \<Longrightarrow> e = (k, v) \<or> e \<in> set m"
  by (induction m) (auto split: if_splits)

lemma entries_bt_remove: "e \<in> set (bt_remove k m) \<Longrightarrow> e \<in> set m"
  by (induction m) (auto split: if_splits)

lemma bt_invar_insert: "bt_invar m \<Longrightarrow> bt_invar (bt_insert k v m)"
proof (induction m)
  case Nil
  show ?case by (simp add: bt_invar_def)
next
  case (Cons e m)
  then show ?case
    using keys_bt_insert [of k v m]
    by (cases e) (auto simp: bt_invar_def)
qed

lemma bt_invar_remove: "bt_invar m \<Longrightarrow> bt_invar (bt_remove k m)"
proof (induction m)
  case Nil
  then show ?case by simp
next
  case (Cons e m)
  then show ?case
    using entries_bt_remove [of _ k m] by (cases e) (auto simp: bt_invar_def)
qed

lemma bt_get_insert: "bt_get (bt_insert k v m) = (bt_get m)(k \<mapsto> v)"
  by (induction m) (auto simp: bt_get_def fun_eq_iff)

lemma bt_get_notin: "bt_invar ((k, v) # m) \<Longrightarrow> map_of m k = None"
  by (auto simp: bt_invar_def map_of_eq_None_iff)

lemma bt_get_remove: "bt_invar m \<Longrightarrow> bt_get (bt_remove k m) = (bt_get m)(k := None)"
proof (induction m)
  case Nil
  show ?case by (simp add: bt_get_def fun_eq_iff)
next
  case (Cons e m)
  obtain k' v' where e: "e = (k', v')" by fastforce
  from Cons.prems have "bt_invar m" by (simp add: bt_invar_def)
  with Cons.IH Cons.prems show ?case
    using bt_get_notin [of k' v' m] by (auto simp: e bt_get_def fun_eq_iff)
qed

lemma bt_distinct: "bt_invar m \<Longrightarrow> distinct (map fst m)"
  by (auto simp: bt_invar_def strict_sorted_iff)

interpretation bt: ordered_map "[]" bt_insert bt_remove bt_get "\<lambda>m. m" bt_invar
  by unfold_locales
     (auto simp: bt_get_insert bt_get_remove bt_invar_insert bt_invar_remove bt_get_def
        bt_distinct map_of_eq_Some_iff bt_invar_def [symmetric], simp_all add: bt_invar_def)

end
