(* ===== verification/Relayer.thy ===== *)
theory Relayer
  imports Message_Stuffer Btree_Map
begin

text \<open>
  The relayer (\<^verbatim>\<open>src/xcmp_relayer/src/main.rs\<close>), first part: its data, the five global
  maps, the two tasks that fill them and \<^verbatim>\<open>generate_xcmp_proof\<close>, which assembles the
  four stages and submits them.

  \<^item> A node the relayer talks to is a \<open>client\<close>: its endpoint and the answers it gives. Each block
    of a subscription is handled with a client of its own, so answers may change over time.
  \<^item> The maps are shared by the tasks. Each \<^verbatim>\<open>try_lock\<close> is a boolean the environment
    chooses, and before each locked section the other tasks may have acted: the argument
    \<open>other\<close> is any function on the state, applied at these points.
  \<^item> An error that leaves an async block ends its task; a \<open>block_loop\<close> therefore stops at the
    first error and skips the rest of its blocks. Logging is left out.
\<close>

section \<open>Data\<close>

datatype client_type = Sender | Receiver | RelayClient

definition client_type_from_index :: "nat \<Rightarrow> ('s, 'e, client_type) action" where
  "client_type_from_index index =
     (if index = 0 then ret Sender
      else if index = 1 then ret Receiver
      else if index = 2 then ret RelayClient
      else panic)"

datatype relayer_error = RelayerDefault | CodecError | RpcError | SubxtError | ProofWasNone

text \<open>What the derived \<^verbatim>\<open>Debug\<close> prints, and the two \<^verbatim>\<open>Display\<close> implementations; other errors are printed by their crates.\<close>

fun client_type_debug :: "client_type \<Rightarrow> string" where
  "client_type_debug Sender = ''Sender''"
| "client_type_debug Receiver = ''Receiver''"
| "client_type_debug RelayClient = ''Relay''"

definition client_type_fmt :: "client_type \<Rightarrow> string" where
  "client_type_fmt t = ''ClientType '' @ client_type_debug t"

definition relayer_error_fmt :: "(relayer_error \<Rightarrow> string) \<Rightarrow> relayer_error \<Rightarrow> string" where
  "relayer_error_fmt crate_fmt e = (case e of RelayerDefault \<Rightarrow> ''Relayer Error Default'' | _ \<Rightarrow> crate_fmt e)"

lemma client_type_fmt_inj: "client_type_fmt t = client_type_fmt u \<longleftrightarrow> t = u"
  by (cases t; cases u) (simp_all add: client_type_fmt_def)

definition RECEIVER_CHANNEL_ID :: u64 where
  "RECEIVER_CHANNEL_ID = 0"

definition DEFAULT_ENDPOINT_PARA_SENDER :: string where
  "DEFAULT_ENDPOINT_PARA_SENDER = ''ws://localhost:54888''"

definition DEFAULT_RPC_ENDPOINT_PARA_SENDER :: string where
  "DEFAULT_RPC_ENDPOINT_PARA_SENDER = ''http://localhost:54888''"

definition DEFAULT_ENDPOINT_PARA_RECEIVER :: string where
  "DEFAULT_ENDPOINT_PARA_RECEIVER = ''ws://localhost:54887''"

definition DEFAULT_RPC_ENDPOINT_PARA_RECEIVER :: string where
  "DEFAULT_RPC_ENDPOINT_PARA_RECEIVER = ''http://localhost:54887''"

definition DEFAULT_ENDPOINT_RELAY :: string where
  "DEFAULT_ENDPOINT_RELAY = ''ws://localhost:54886''"

definition DEFAULT_RPC_ENDPOINT_RELAY :: string where
  "DEFAULT_RPC_ENDPOINT_RELAY = ''http://localhost:54886''"

text \<open>
  The types generated from the chains' metadata mirror the runtime's, and the relayer converts
  field by field.
\<close>

datatype relay_para_id = RelayParaId u32

datatype parachain_para_id = ParachainParaId u32

record relay_para_leaf =
  rl_para_id :: relay_para_id
  rl_head_data :: bytes

record subxt_para_leaf =
  sl_para_id :: parachain_para_id
  sl_head_data :: bytes

record relay_para_merkle_proof =
  rp_root :: h256
  rp_proof :: "h256 list"
  rp_num_leaves :: u64
  rp_leaf_index :: u64
  rp_leaf :: relay_para_leaf

record subxt_para_merkle_proof =
  sp_root :: h256
  sp_proof :: "h256 list"
  sp_num_leaves :: u64
  sp_leaf_index :: u64
  sp_leaf :: subxt_para_leaf

record subxt_channel_merkle_proof =
  sc_root :: h256
  sc_proof :: "h256 list"
  sc_num_leaves :: u64
  sc_leaf_index :: u64
  sc_leaf :: h256

definition channel_proof_from_subxt :: "subxt_channel_merkle_proof \<Rightarrow> channel_merkle_proof" where
  "channel_proof_from_subxt x =
     \<lparr>ch_root = sc_root x, ch_proof = sc_proof x, ch_num_leaves = sc_num_leaves x,
      ch_leaf_index = sc_leaf_index x, ch_leaf = sc_leaf x\<rparr>"

definition subxt_from_channel_proof :: "channel_merkle_proof \<Rightarrow> subxt_channel_merkle_proof" where
  "subxt_from_channel_proof x =
     \<lparr>sc_root = ch_root x, sc_proof = ch_proof x, sc_num_leaves = ch_num_leaves x,
      sc_leaf_index = ch_leaf_index x, sc_leaf = ch_leaf x\<rparr>"

definition parachain_para_id_from :: "relay_para_id \<Rightarrow> parachain_para_id" where
  "parachain_para_id_from x = (case x of RelayParaId i \<Rightarrow> ParachainParaId i)"

definition subxt_para_leaf_from :: "relay_para_leaf \<Rightarrow> subxt_para_leaf" where
  "subxt_para_leaf_from x =
     \<lparr>sl_para_id = parachain_para_id_from (rl_para_id x), sl_head_data = rl_head_data x\<rparr>"

definition subxt_para_proof_from :: "relay_para_merkle_proof \<Rightarrow> subxt_para_merkle_proof" where
  "subxt_para_proof_from x =
     \<lparr>sp_root = rp_root x, sp_proof = rp_proof x, sp_num_leaves = rp_num_leaves x,
      sp_leaf_index = rp_leaf_index x, sp_leaf = subxt_para_leaf_from (rp_leaf x)\<rparr>"

text \<open>The hand-written \<^verbatim>\<open>Clone\<close> implementations.\<close>

definition relay_para_id_clone :: "relay_para_id \<Rightarrow> relay_para_id" where
  "relay_para_id_clone x = (case x of RelayParaId i \<Rightarrow> RelayParaId i)"

definition relay_para_leaf_clone :: "relay_para_leaf \<Rightarrow> relay_para_leaf" where
  "relay_para_leaf_clone x =
     \<lparr>rl_para_id = relay_para_id_clone (rl_para_id x), rl_head_data = rl_head_data x\<rparr>"

definition relay_para_proof_clone :: "relay_para_merkle_proof \<Rightarrow> relay_para_merkle_proof" where
  "relay_para_proof_clone x =
     \<lparr>rp_root = rp_root x, rp_proof = rp_proof x, rp_num_leaves = rp_num_leaves x,
      rp_leaf_index = rp_leaf_index x, rp_leaf = relay_para_leaf_clone (rp_leaf x)\<rparr>"

definition subxt_channel_proof_clone :: "subxt_channel_merkle_proof \<Rightarrow> subxt_channel_merkle_proof" where
  "subxt_channel_proof_clone x =
     \<lparr>sc_root = sc_root x, sc_proof = sc_proof x, sc_num_leaves = sc_num_leaves x,
      sc_leaf_index = sc_leaf_index x, sc_leaf = sc_leaf x\<rparr>"

text \<open>The generated \<^verbatim>\<open>XcmpProof\<close> that is submitted, and what the runtime decodes it to.\<close>

record 'mp subxt_xcmp_proof =
  sx_stage_1 :: "'mp \<times> encodable_opaque_leaf list"
  sx_stage_2 :: subxt_para_merkle_proof
  sx_stage_3 :: subxt_channel_merkle_proof
  sx_stage_4 :: "'mp \<times> encodable_opaque_leaf list"

definition runtime_para_leaf :: "subxt_para_leaf \<Rightarrow> para_leaf" where
  "runtime_para_leaf x =
     \<lparr>para_id = (case sl_para_id x of ParachainParaId i \<Rightarrow> i), head_data = sl_head_data x\<rparr>"

definition runtime_xcmp_proof :: "'mp subxt_xcmp_proof \<Rightarrow> 'mp xcmp_proof" where
  "runtime_xcmp_proof x =
     \<lparr>stage_1 = sx_stage_1 x,
      stage_2 = \<lparr>pa_root = sp_root (sx_stage_2 x), pa_proof = sp_proof (sx_stage_2 x),
        pa_num_leaves = sp_num_leaves (sx_stage_2 x), pa_leaf_index = sp_leaf_index (sx_stage_2 x),
        pa_leaf = runtime_para_leaf (sp_leaf (sx_stage_2 x))\<rparr>,
      stage_3 = channel_proof_from_subxt (sx_stage_3 x),
      stage_4 = sx_stage_4 x\<rparr>"

section \<open>Clients\<close>

datatype 'a rpc = RpcOk 'a | RpcErr

definition rpc_or_none :: "'a option rpc \<Rightarrow> 'a option" where
  "rpc_or_none r = (case r of RpcOk opt \<Rightarrow> opt | RpcErr \<Rightarrow> None)"

definition rpc_try :: "'a rpc \<Rightarrow> relayer_error \<Rightarrow> ('s, relayer_error, 'a) action" where
  "rpc_try r e = (case r of RpcOk a \<Rightarrow> ret a | RpcErr \<Rightarrow> fail e)"

record mmr_proof_params =
  mp_blocks :: "u64 list"
  mp_best_known :: "u32 option"
  mp_at :: "h256 option"
  mp_mmr_id :: "u64 option"

datatype dev_signer = Alice | Bob | Charlie

datatype 'mp relayer_tx =
    TxUpdateRoot h256 u64
  | TxSubmitTestProof 'mp "encodable_opaque_leaf list" u64
  | TxSubmitXcmpProof "'mp subxt_xcmp_proof" h256

record 'mp client =
  endpoint :: string
  mmr_root_rpc :: "h256 option \<Rightarrow> u64 option \<Rightarrow> h256 option rpc"
  mmr_generate_proof_rpc :: "mmr_proof_params \<Rightarrow> leaves_proof option rpc"
  mmr_verify_stateless_rpc :: "h256 \<Rightarrow> leaves_proof \<Rightarrow> bool option rpc"
  chain_get_header_rpc :: "u32 option rpc"
  get_para_heads_proof_api :: "h256 \<Rightarrow> relay_para_id \<Rightarrow> relay_para_merkle_proof option rpc"
  get_xcmp_channels_proof_api :: "h256 \<Rightarrow> u64 \<Rightarrow> subxt_channel_merkle_proof option rpc"
  blocks_at_latest :: "h256 rpc"
  runtime_api_at_latest :: "unit rpc"
  get_current_beefy_root_api :: "h256 rpc"
  storage_at_latest :: "unit rpc"
  fetch_xcmp_channel_root :: "u64 \<Rightarrow> h256 option rpc"
  sign_and_submit :: "dev_signer \<Rightarrow> 'mp relayer_tx \<Rightarrow> unit rpc"

text \<open>A block of a subscription to the best chain.\<close>

record best_block =
  block_number :: u32
  block_hash :: h256

section \<open>State\<close>

text \<open>
  The five \<^verbatim>\<open>lazy_static\<close> maps, and \<open>submitted\<close>, the extrinsics that nodes accepted, with
  the endpoint that took them and the development account that signed them.
\<close>

record 'mp relayer =
  leaves_beefy_mmr_map :: "(h256 \<times> u32, h256 \<times> leaves_proof) btree_map"
  para_headers_map :: "(h256, relay_para_merkle_proof) btree_map"
  msg_root_map :: "(h256, leaves_proof) btree_map"
  msg_root_channel_merkle_map :: "(h256, channel_merkle_proof) btree_map"
  channel_root_proof_map :: "(h256, channel_merkle_proof) btree_map"
  submitted :: "(string \<times> dev_signer \<times> 'mp relayer_tx) list"

definition relayer_boot :: "'mp relayer" where
  "relayer_boot =
     \<lparr>leaves_beefy_mmr_map = [], para_headers_map = [], msg_root_map = [],
      msg_root_channel_merkle_map = [], channel_root_proof_map = [], submitted = []\<rparr>"

type_synonym ('mp, 'a) relayer_action = "('mp relayer, relayer_error, 'a) action"

text \<open>A \<^verbatim>\<open>match MAP.try_lock()\<close> that writes when the lock is free and logs otherwise.\<close>

definition locked_write :: "bool \<Rightarrow> ('s \<Rightarrow> 's) \<Rightarrow> ('s, 'e, unit) action" where
  "locked_write lock_free f = (if lock_free then modify f else ret ())"

section \<open>Requests\<close>

definition generate_mmr_proof ::
  "'mp client \<Rightarrow> u64 \<Rightarrow> u64 option \<Rightarrow> h256 option \<Rightarrow> ('s, relayer_error, leaves_proof) action" where
  "generate_mmr_proof client block_num channel_id at_hash =
     (let params = (case channel_id of
            Some ident \<Rightarrow> \<lparr>mp_blocks = [block_num], mp_best_known = None, mp_at = at_hash, mp_mmr_id = Some ident\<rparr>
          | None \<Rightarrow> \<lparr>mp_blocks = [block_num], mp_best_known = None, mp_at = at_hash, mp_mmr_id = None\<rparr>);
          request = rpc_or_none (mmr_generate_proof_rpc client params)
      in ok_or request RelayerDefault)"

definition generate_mmr_root ::
  "'mp client \<Rightarrow> u64 option \<Rightarrow> h256 option \<Rightarrow> ('s, relayer_error, h256) action" where
  "generate_mmr_root client channel_id at_hash =
     and_then (rpc_try (mmr_root_rpc client at_hash channel_id) RpcError) (\<lambda>request.
     ok_or request RelayerDefault)"

definition relayer_extract_xcmp_channel_root ::
  "('mp, 'dg) sdk \<Rightarrow> subxt_para_leaf \<Rightarrow> ('s, relayer_error, h256) action" where
  "relayer_extract_xcmp_channel_root sdk leaf =
     and_then (ok_or (decode_header sdk (sl_head_data leaf)) CodecError) (\<lambda>hdr.
     ok_or (extract_xcmp_channel_merkle_root sdk (digest hdr)) RelayerDefault)"

text \<open>
  The test of this function: the header it builds, encoded by the SDK's \<open>encode_header\<close>, with the SDK's default digest.
\<close>

record 'dg full_header =
  fh_parent_hash :: h256
  fh_state_root :: h256
  fh_extrinsics_root :: h256
  fh_number :: u32
  fh_digest :: 'dg

definition test_decode :: "('mp, 'dg) sdk \<Rightarrow> ('dg full_header \<Rightarrow> bytes) \<Rightarrow> 'dg \<Rightarrow> bool" where
  "test_decode sdk encode_header default_digest =
     (let hdr = \<lparr>fh_parent_hash = 0, fh_state_root = 0, fh_extrinsics_root = 0, fh_number = 0,
                 fh_digest = default_digest\<rparr>;
          dummy_input = \<lparr>sl_para_id = ParachainParaId 1000, sl_head_data = encode_header hdr\<rparr>;
          result = fst (relayer_extract_xcmp_channel_root sdk dummy_input ())
      in (case result of Ok root \<Rightarrow> root = 0 | _ \<Rightarrow> False))"

text \<open>\<^verbatim>\<open>map_err\<close> to the default error.\<close>

definition or_default :: "('s, relayer_error, 'a) action \<Rightarrow> ('s, relayer_error, 'a) action" where
  "or_default m = (\<lambda>s. case m s of (Err _, s') \<Rightarrow> (Err RelayerDefault, s') | r \<Rightarrow> r)"

text \<open>A \<^verbatim>\<open>match\<close> that falls back to \<^verbatim>\<open>H256::zero()\<close>.\<close>

definition or_zero :: "('s, 'e, h256) action \<Rightarrow> ('s, 'e, h256) action" where
  "or_zero m = (\<lambda>s. case m s of (Err _, s') \<Rightarrow> (Ok 0, s') | r \<Rightarrow> r)"

section \<open>Collecting from the relay chain\<close>

definition collect_relay_block ::
  "('mp, 'dg) sdk \<Rightarrow> 'mp client \<Rightarrow> (nat \<Rightarrow> 'mp relayer \<Rightarrow> 'mp relayer) \<Rightarrow> (nat \<Rightarrow> bool) \<Rightarrow>
   best_block \<Rightarrow> ('mp, unit) relayer_action" where
  "collect_relay_block sdk client other lock_free block =
     and_then (ok_or (rpc_or_none (mmr_root_rpc client None (Some 0))) RelayerDefault) (\<lambda>root.
     and_then (ok_or (rpc_or_none (chain_get_header_rpc client)) RelayerDefault) (\<lambda>rpc_header.
     and_then (or_default (generate_mmr_proof client (as_u64 (block_number block))
                 (Some RECEIVER_CHANNEL_ID) (Some (block_hash block)))) (\<lambda>proof.
     and_then (ok_or (decode_opaque_leaves sdk (lp_leaves proof)) CodecError) (\<lambda>beefy_leaves.
     and_then (vec_index beefy_leaves 0) (\<lambda>leaf.
     and_then (ok_or (decode_beefy_leaf sdk (into_opaque_leaf sdk leaf)) CodecError) (\<lambda>mmr_leaf.
     and_then (modify (other 0)) (\<lambda>_.
     and_then (locked_write (lock_free 0) (\<lambda>s. s\<lparr>leaves_beefy_mmr_map :=
                 bt_insert (leaf_extra mmr_leaf, block_number block) (root, proof) (leaves_beefy_mmr_map s)\<rparr>)) (\<lambda>_.
     let ident = RelayParaId 1000;
         para_merkle_proof = rpc_or_none (get_para_heads_proof_api client (block_hash block) ident) in
     and_then (ok_or para_merkle_proof RelayerDefault) (\<lambda>para_merkle_proof.
     and_then (or_zero (relayer_extract_xcmp_channel_root sdk
                 (subxt_para_leaf_from (rp_leaf para_merkle_proof)))) (\<lambda>para_header_root.
     and_then (ensure (\<not> para_header_root = 0) RelayerDefault) (\<lambda>_.
     and_then (modify (other 1)) (\<lambda>_.
     locked_write (lock_free 1) (\<lambda>s. s\<lparr>para_headers_map :=
       bt_insert para_header_root para_merkle_proof (para_headers_map s)\<rparr>)))))))))))))"

section \<open>Collecting from the sending parachain\<close>

definition collect_para_block ::
  "'mp client \<Rightarrow> (nat \<Rightarrow> 'mp relayer \<Rightarrow> 'mp relayer) \<Rightarrow> (nat \<Rightarrow> bool) \<Rightarrow> best_block \<Rightarrow>
   ('mp, unit) relayer_action" where
  "collect_para_block client other lock_free block =
     and_then (generate_mmr_root client (Some RECEIVER_CHANNEL_ID) (Some (block_hash block))) (\<lambda>msg_root.
     and_then (generate_mmr_proof client (as_u64 (block_number block)) (Some RECEIVER_CHANNEL_ID)
                 (Some (block_hash block))) (\<lambda>msg_proof.
     and_then (modify (other 0)) (\<lambda>_.
     and_then (locked_write (lock_free 0) (\<lambda>s. s\<lparr>msg_root_map :=
                 bt_insert msg_root msg_proof (msg_root_map s)\<rparr>)) (\<lambda>_.
     and_then (ok_or (rpc_or_none (get_xcmp_channels_proof_api client (block_hash block) RECEIVER_CHANNEL_ID))
                 RelayerDefault) (\<lambda>channel_merkle_proof.
     and_then (modify (other 1)) (\<lambda>_.
     and_then (locked_write (lock_free 1) (\<lambda>s. s\<lparr>channel_root_proof_map :=
                 bt_insert (sc_root channel_merkle_proof) (channel_proof_from_subxt channel_merkle_proof)
                   (channel_root_proof_map s)\<rparr>)) (\<lambda>_.
     and_then (modify (other 2)) (\<lambda>_.
     and_then (gets (\<lambda>s. lock_free 2 \<and> bt_contains_key (msg_root_map s) (sc_leaf channel_merkle_proof))) (\<lambda>roots_match.
     if \<not> roots_match then ret ()
     else
       and_then (modify (other 3)) (\<lambda>_.
       locked_write (lock_free 3) (\<lambda>s. s\<lparr>msg_root_channel_merkle_map :=
         bt_insert msg_root (channel_proof_from_subxt channel_merkle_proof)
           (msg_root_channel_merkle_map s)\<rparr>)))))))))))"

section \<open>Subscriptions\<close>

text \<open>\<^verbatim>\<open>while let Some(block) = blocks_sub.next().await\<close> with \<^verbatim>\<open>let block = block?\<close>.\<close>

fun block_loop :: "('i \<Rightarrow> ('s, relayer_error, unit) action) \<Rightarrow> 'i rpc list \<Rightarrow> ('s, relayer_error, unit) action" where
  "block_loop body [] = ret ()"
| "block_loop body (RpcErr # blocks) = fail SubxtError"
| "block_loop body (RpcOk block # blocks) = and_then (body block) (\<lambda>_. block_loop body blocks)"

definition collect_relay_data ::
  "('mp, 'dg) sdk \<Rightarrow> ('mp client \<times> (nat \<Rightarrow> 'mp relayer \<Rightarrow> 'mp relayer) \<times> (nat \<Rightarrow> bool) \<times> best_block) rpc list \<Rightarrow>
   ('mp, unit) relayer_action" where
  "collect_relay_data sdk blocks =
     block_loop (\<lambda>(client, other, lock_free, block). collect_relay_block sdk client other lock_free block) blocks"

definition collect_para_data ::
  "('mp client \<times> (nat \<Rightarrow> 'mp relayer \<Rightarrow> 'mp relayer) \<times> (nat \<Rightarrow> bool) \<times> best_block) rpc list \<Rightarrow>
   ('mp, unit) relayer_action" where
  "collect_para_data blocks =
     block_loop (\<lambda>(client, other, lock_free, block). collect_para_block client other lock_free block) blocks"

section \<open>Extrinsics\<close>

text \<open>
  \<^verbatim>\<open>sign_and_submit_then_watch_default(...).await?\<close>; what becomes of the extrinsic in its
  block is only logged.
\<close>

definition submit_tx :: "'mp client \<Rightarrow> dev_signer \<Rightarrow> 'mp relayer_tx \<Rightarrow> ('mp, unit) relayer_action" where
  "submit_tx client signer tx =
     and_then (rpc_try (sign_and_submit client signer tx) SubxtError) (\<lambda>_.
     modify (\<lambda>s. s\<lparr>submitted := submitted s @ [(endpoint client, signer, tx)]\<rparr>))"

definition update_root_tx :: "'mp client \<Rightarrow> h256 \<Rightarrow> ('mp, unit) relayer_action" where
  "update_root_tx client root = submit_tx client Alice (TxUpdateRoot root 0)"

definition submit_xcmp_proof_tx ::
  "'mp client \<Rightarrow> 'mp subxt_xcmp_proof \<Rightarrow> h256 \<Rightarrow> ('mp, unit) relayer_action" where
  "submit_xcmp_proof_tx client xcmp_proof beefy_root =
     submit_tx client Charlie (TxSubmitXcmpProof xcmp_proof beefy_root)"

definition submit_proof_tx ::
  "('mp, 'dg) sdk \<Rightarrow> 'mp client \<Rightarrow> leaves_proof \<Rightarrow> ('mp, unit) relayer_action" where
  "submit_proof_tx sdk client proof =
     and_then (ok_or (decode_opaque_leaves sdk (lp_leaves proof)) CodecError) (\<lambda>leaves.
     and_then (ok_or (decode_mmr_proof sdk (lp_proof proof)) CodecError) (\<lambda>decoded_proof.
     submit_tx client Bob (TxSubmitTestProof decoded_proof leaves 0)))"

section \<open>Assembling the proof\<close>

definition generate_xcmp_proof ::
  "('mp, 'dg) sdk \<Rightarrow> 'mp client \<Rightarrow> 'mp client \<Rightarrow> (nat \<Rightarrow> 'mp relayer \<Rightarrow> 'mp relayer) \<Rightarrow> (nat \<Rightarrow> bool) \<Rightarrow>
   ('mp, unit) relayer_action" where
  "generate_xcmp_proof sdk client recv_client other lock_free =
     and_then (rpc_try (blocks_at_latest client) SubxtError) (\<lambda>block.
     and_then (modify (other 0)) (\<lambda>_.
     and_then (gets (\<lambda>s. if lock_free 0
                 then (case msg_root_map s of [] \<Rightarrow> None | entry # _ \<Rightarrow> Some entry) else None)) (\<lambda>first.
     and_then (ok_or first RelayerDefault) (\<lambda>stage_4_entry.
     let stage_4_root = fst stage_4_entry; stage_4_proof = snd stage_4_entry in
     and_then (modify (other 1)) (\<lambda>_.
     and_then (gets (\<lambda>s. lock_free 1 \<and> bt_contains_key (msg_root_channel_merkle_map s) stage_4_root)) (\<lambda>roots_match.
     and_then (ensure roots_match RelayerDefault) (\<lambda>_.
     and_then (ok_or (decode_opaque_leaves sdk (lp_leaves stage_4_proof)) CodecError) (\<lambda>stage_4_leaves.
     and_then (ok_or (decode_mmr_proof sdk (lp_proof stage_4_proof)) CodecError) (\<lambda>stage_4_decoded_proof.
     and_then (modify (other 2)) (\<lambda>_.
     and_then (gets (\<lambda>s. if lock_free 2 then bt_get (msg_root_channel_merkle_map s) stage_4_root else None)) (\<lambda>found_3.
     and_then (ok_or found_3 RelayerDefault) (\<lambda>stage_3_proof.
     and_then (modify (other 3)) (\<lambda>_.
     and_then (gets (\<lambda>s. if lock_free 3 then bt_get (para_headers_map s) (ch_root stage_3_proof) else None)) (\<lambda>found_2.
     and_then (ok_or found_2 RelayerDefault) (\<lambda>stage_2_proof.
     and_then (modify (other 4)) (\<lambda>_.
     and_then (gets (\<lambda>s. if lock_free 4
                 then map snd (filter (\<lambda>entry. fst (fst entry) = rp_root stage_2_proof) (leaves_beefy_mmr_map s))
                 else [])) (\<lambda>beefy_entries.
     and_then (ensure (beefy_entries \<noteq> []) RelayerDefault) (\<lambda>_.
     let stage_1_beefy_root = fst (beefy_entries ! (length beefy_entries - 1));
         stage_1_proof = snd (beefy_entries ! (length beefy_entries - 1)) in
     and_then (ok_or (decode_opaque_leaves sdk (lp_leaves stage_1_proof)) CodecError) (\<lambda>stage_1_leaves.
     and_then (ok_or (decode_mmr_proof sdk (lp_proof stage_1_proof)) CodecError) (\<lambda>stage_1_decoded_proof.
     and_then (modify (other 5)) (\<lambda>_.
     and_then (gets (\<lambda>s. if lock_free 5 then bt_get (msg_root_map s) stage_4_root else None)) (\<lambda>removed.
     and_then (locked_write (lock_free 5) (\<lambda>s. s\<lparr>msg_root_map := bt_remove stage_4_root (msg_root_map s)\<rparr>)) (\<lambda>_.
     and_then (ok_or removed RelayerDefault) (\<lambda>_.
     and_then (rpc_try (runtime_api_at_latest client) SubxtError) (\<lambda>_.
     let xcmp_proof = \<lparr>sx_stage_1 = (stage_1_decoded_proof, stage_1_leaves),
                        sx_stage_2 = subxt_para_proof_from stage_2_proof,
                        sx_stage_3 = subxt_from_channel_proof stage_3_proof,
                        sx_stage_4 = (stage_4_decoded_proof, stage_4_leaves)\<rparr> in
     submit_xcmp_proof_tx client xcmp_proof stage_1_beefy_root)))))))))))))))))))))))))"

section \<open>Clones and conversions\<close>

text \<open>
  The model passes values on where the code clones them: the clones are equal to their originals,
  and the two conversions of channel proofs are inverse to each other.
\<close>

lemma clone_simps [simp]:
  "relay_para_id_clone x = x" "relay_para_leaf_clone leaf = leaf" "relay_para_proof_clone p = p"
  "subxt_channel_proof_clone c = c"
  by (simp_all add: relay_para_id_clone_def relay_para_leaf_clone_def relay_para_proof_clone_def
        subxt_channel_proof_clone_def split: relay_para_id.split)

lemma channel_proof_conversions_inverse [simp]:
  "channel_proof_from_subxt (subxt_from_channel_proof c) = c"
  "subxt_from_channel_proof (channel_proof_from_subxt x) = x"
  by (simp_all add: channel_proof_from_subxt_def subxt_from_channel_proof_def)

end
