(* ===== verification/Relayer_Machine.thy ===== *)
theory Relayer_Machine
  imports Relayer "HOL-Library.Monad_Syntax"
begin

text \<open>
  The relayer's tasks as steps of one machine. Its state is the five shared maps and the list of
  submitted extrinsics; a step is one locked section of one task. The invariant says what the
  entries of each map are worth, and every task guarantees the step relation while the other
  tasks do: so whatever the interleaving, every proof the relayer has submitted has its stages
  linked. Then \<open>generate_xcmp_proof\<close> without interference is compared with a reference function
  that picks the proof out of the maps.
\<close>

section \<open>Reading of the actions\<close>

definition stages_linked :: "('mp, 'dg) sdk \<Rightarrow> 'mp xcmp_proof \<Rightarrow> bool" where
  "stages_linked sdk p \<longleftrightarrow>
     (case snd (stage_1 p) of
        [] \<Rightarrow> False
      | leaf # _ \<Rightarrow> map_option leaf_extra (decode_beefy_leaf sdk (into_opaque_leaf sdk leaf)) =
          Some (pa_root (stage_2 p))) \<and>
     para_channel_root sdk (pa_leaf (stage_2 p)) = Some (ch_root (stage_3 p))"

definition beefy_entry_ok :: "('mp, 'dg) sdk \<Rightarrow> (h256 \<times> u32) \<times> h256 \<times> leaves_proof \<Rightarrow> bool" where
  "beefy_entry_ok sdk entry \<longleftrightarrow>
     (\<exists>leaf leaves bl. decode_opaque_leaves sdk (lp_leaves (snd (snd entry))) = Some (leaf # leaves) \<and>
        decode_beefy_leaf sdk (into_opaque_leaf sdk leaf) = Some bl \<and> leaf_extra bl = fst (fst entry))"

definition header_entry_ok :: "('mp, 'dg) sdk \<Rightarrow> h256 \<times> relay_para_merkle_proof \<Rightarrow> bool" where
  "header_entry_ok sdk entry \<longleftrightarrow> fst entry \<noteq> 0 \<and>
     para_channel_root sdk (runtime_para_leaf (subxt_para_leaf_from (rp_leaf (snd entry)))) = Some (fst entry)"

text \<open>Each extrinsic has its own development account, so the three never compete for a nonce.\<close>

fun tx_signer :: "'mp relayer_tx \<Rightarrow> dev_signer" where
  "tx_signer (TxUpdateRoot _ _) = Alice"
| "tx_signer (TxSubmitTestProof _ _ _) = Bob"
| "tx_signer (TxSubmitXcmpProof _ _) = Charlie"

fun tx_ok :: "('mp, 'dg) sdk \<Rightarrow> 'mp relayer_tx \<Rightarrow> bool" where
  "tx_ok sdk (TxSubmitXcmpProof p _) = stages_linked sdk (runtime_xcmp_proof p)"
| "tx_ok sdk _ = True"

section \<open>Steps and invariant\<close>

inductive relayer_step :: "('mp, 'dg) sdk \<Rightarrow> 'mp relayer \<Rightarrow> 'mp relayer \<Rightarrow> bool" for sdk where
  store_beefy_leaf:
    "beefy_entry_ok sdk (k, v) \<Longrightarrow>
     relayer_step sdk s (s\<lparr>leaves_beefy_mmr_map := bt_insert k v (leaves_beefy_mmr_map s)\<rparr>)"
| store_para_header:
    "header_entry_ok sdk (root, p) \<Longrightarrow>
     relayer_step sdk s (s\<lparr>para_headers_map := bt_insert root p (para_headers_map s)\<rparr>)"
| store_msg_root:
    "relayer_step sdk s (s\<lparr>msg_root_map := bt_insert root mp (msg_root_map s)\<rparr>)"
| store_channel_root:
    "ch_root c = root \<Longrightarrow>
     relayer_step sdk s (s\<lparr>channel_root_proof_map := bt_insert root c (channel_root_proof_map s)\<rparr>)"
| store_msg_channel:
    "relayer_step sdk s (s\<lparr>msg_root_channel_merkle_map := bt_insert root c (msg_root_channel_merkle_map s)\<rparr>)"
| take_msg_root:
    "relayer_step sdk s (s\<lparr>msg_root_map := bt_remove root (msg_root_map s)\<rparr>)"
| submit:
    "tx_ok sdk tx \<Longrightarrow> signer = tx_signer tx \<Longrightarrow>
     relayer_step sdk s (s\<lparr>submitted := submitted s @ [(ep, signer, tx)]\<rparr>)"

inductive_cases relayer_stepE: "relayer_step sdk s t"

definition relayer_inv :: "('mp, 'dg) sdk \<Rightarrow> 'mp relayer \<Rightarrow> bool" where
  "relayer_inv sdk s \<longleftrightarrow>
     bt_invar (leaves_beefy_mmr_map s) \<and> bt_invar (para_headers_map s) \<and> bt_invar (msg_root_map s) \<and>
     bt_invar (msg_root_channel_merkle_map s) \<and> bt_invar (channel_root_proof_map s) \<and>
     list_all (beefy_entry_ok sdk) (leaves_beefy_mmr_map s) \<and>
     list_all (header_entry_ok sdk) (para_headers_map s) \<and>
     list_all (\<lambda>(root, c). ch_root c = root) (channel_root_proof_map s) \<and>
     list_all (\<lambda>(ep, signer, tx). tx_ok sdk tx \<and> signer = tx_signer tx) (submitted s)"

lemma list_all_bt_insert: "list_all P m \<Longrightarrow> P (k, v) \<Longrightarrow> list_all P (bt_insert k v m)"
  using entries_bt_insert [of _ k v m] by (fastforce simp: list_all_iff)

lemma list_all_bt_get: "list_all P m \<Longrightarrow> bt_get m k = Some v \<Longrightarrow> P (k, v)"
  by (auto simp: list_all_iff bt_get_def dest: map_of_SomeD)

lemma step_relayer_inv: "relayer_inv sdk s \<Longrightarrow> relayer_step sdk s t \<Longrightarrow> relayer_inv sdk t"
  by (erule relayer_stepE)
     (simp_all add: relayer_inv_def list_all_bt_insert bt_invar_insert bt_invar_remove)

interpretation relayer_machine: invariant_machine "\<lambda>s. s = relayer_boot" "relayer_step sdk"
  "relayer_inv sdk" for sdk
  by unfold_locales
     (auto intro: step_relayer_inv, simp add: relayer_inv_def relayer_boot_def bt_invar_def)

section \<open>The tasks guarantee the steps\<close>

lemma reads_only_requests [simp, intro]:
  "reads_only (rpc_try r e)"
  "reads_only (generate_mmr_proof client n cid at_hash)"
  "reads_only (generate_mmr_root client cid at_hash)"
  "reads_only (relayer_extract_xcmp_channel_root sdk leaf)"
  "reads_only (vec_index xs i)"
  by (auto simp: rpc_try_def generate_mmr_proof_def generate_mmr_root_def Let_def vec_index_def
        relayer_extract_xcmp_channel_root_def split: rpc.split)

lemma reads_only_or_default [simp, intro]: "reads_only m \<Longrightarrow> reads_only (or_default m)"
  by (auto simp: reads_only_def or_default_def split: prod.splits outcome.splits) (metis snd_conv)+

lemma reads_only_or_zero [simp, intro]: "reads_only m \<Longrightarrow> reads_only (or_zero m)"
  by (auto simp: reads_only_def or_zero_def split: prod.splits outcome.splits) (metis snd_conv)+

lemma vec_index_0_Ok: "vec_index xs 0 s = (Ok a, t) \<Longrightarrow> \<exists>ys. xs = a # ys"
  by (cases xs) (auto simp: vec_index_def action_simps)

lemma relayer_extract_run:
  "relayer_extract_xcmp_channel_root sdk leaf s =
     (if decode_header sdk (sl_head_data leaf) = None then Err CodecError
      else case para_channel_root sdk (runtime_para_leaf leaf) of
             None \<Rightarrow> Err RelayerDefault | Some r \<Rightarrow> Ok r, s)"
  by (auto simp: relayer_extract_xcmp_channel_root_def para_channel_root_def runtime_para_leaf_def
        ok_or_def action_simps split: option.splits)

lemma or_zero_extract_Ok:
  "or_zero (relayer_extract_xcmp_channel_root sdk leaf) s = (Ok root, t) \<Longrightarrow> root \<noteq> 0 \<Longrightarrow>
   para_channel_root sdk (runtime_para_leaf leaf) = Some root"
  by (auto simp: or_zero_def relayer_extract_run split: option.splits if_splits)

text \<open>What the relayer knows of the tasks it runs beside: they too only take steps.\<close>

definition well_behaved :: "('mp, 'dg) sdk \<Rightarrow> (nat \<Rightarrow> 'mp relayer \<Rightarrow> 'mp relayer) \<Rightarrow> bool" where
  "well_behaved sdk other \<longleftrightarrow> (\<forall>k s. relayer_inv sdk s \<longrightarrow> (relayer_step sdk)\<^sup>*\<^sup>* s (other k s))"

abbreviation relayer_guar :: "('mp, 'dg) sdk \<Rightarrow> ('mp, 'a) relayer_action \<Rightarrow> bool" where
  "relayer_guar sdk \<equiv> guarantees (relayer_step sdk) (relayer_inv sdk)"

lemma guar_locked_write:
  "(\<And>s. relayer_step sdk s (f s)) \<Longrightarrow> relayer_guar sdk (locked_write free f)"
  by (cases free)
     (auto simp: locked_write_def intro: relayer_machine.guar_modify relayer_machine.guar_reads_only)

lemma guar_bind_locked_write:
  "(\<And>s. relayer_step sdk s (f s)) \<Longrightarrow> relayer_guar sdk (g ()) \<Longrightarrow>
   relayer_guar sdk (and_then (locked_write free f) g)"
  by (rule relayer_machine.guar_and_then) (auto intro: guar_locked_write)

lemma guar_bind_other:
  "well_behaved sdk other \<Longrightarrow> relayer_guar sdk (f ()) \<Longrightarrow>
   relayer_guar sdk (and_then (modify (other k)) f)"
  by (rule relayer_machine.guar_bind_modify) (simp_all add: well_behaved_def)

lemmas task_rules =
  guar_bind_other guar_bind_locked_write guar_locked_write
  relayer_machine.guar_bind_ok_or relayer_machine.guar_bind_ensure relayer_machine.guar_bind_gets
  relayer_machine.guar_if

lemma collect_relay_block_guar:
  assumes "well_behaved sdk other"
  shows "relayer_guar sdk (collect_relay_block sdk client other free block)"
  unfolding collect_relay_block_def Let_def
  by (intro task_rules assms relayer_machine.guar_bind_reads_only reads_only_or_default
        reads_only_or_zero reads_only_requests)
     (auto intro!: relayer_step.intros dest!: vec_index_0_Ok or_zero_extract_Ok
        simp: beefy_entry_ok_def header_entry_ok_def)

lemma collect_para_block_guar:
  assumes "well_behaved sdk other"
  shows "relayer_guar sdk (collect_para_block client other free block)"
  unfolding collect_para_block_def
  by (intro task_rules assms relayer_machine.guar_bind_reads_only reads_only_requests
        relayer_machine.guar_reads_only reads_only_basic)
     (auto intro!: relayer_step.intros simp: channel_proof_from_subxt_def)

lemma submit_tx_guar:
  "tx_ok sdk tx \<Longrightarrow> signer = tx_signer tx \<Longrightarrow> relayer_guar sdk (submit_tx client signer tx)"
  unfolding submit_tx_def
  by (intro relayer_machine.guar_bind_reads_only relayer_machine.guar_modify)
     (auto intro: relayer_step.submit)

lemma extrinsics_guar:
  "relayer_guar sdk (update_root_tx client root)"
  "relayer_guar sdk (submit_proof_tx sdk client proof)"
  "stages_linked sdk (runtime_xcmp_proof p) \<Longrightarrow> relayer_guar sdk (submit_xcmp_proof_tx client p root)"
  unfolding update_root_tx_def submit_proof_tx_def submit_xcmp_proof_tx_def
  by (intro task_rules submit_tx_guar; simp)+

lemma block_loop_guar:
  "(\<And>i. RpcOk i \<in> set blocks \<Longrightarrow> relayer_guar sdk (body i)) \<Longrightarrow> relayer_guar sdk (block_loop body blocks)"
  by (induction body blocks rule: block_loop.induct)
     (auto intro: relayer_machine.guar_reads_only relayer_machine.guar_and_then)

text \<open>The stages of a proof assembled from entries of the maps are linked.\<close>

lemma assembled_stages_linked:
  fixes s' :: "'mp relayer" and free' hdr
  defines "entries \<equiv> (if free' then map snd (filter (\<lambda>entry. fst (fst entry) = rp_root hdr)
      (leaves_beefy_mmr_map s')) else [])"
  assumes inv: "relayer_inv sdk s" "relayer_inv sdk s'"
    and hdr: "(if free then bt_get (para_headers_map s) (ch_root c) else None) = Some hdr"
    and ne: "entries \<noteq> []"
    and dec: "decode_opaque_leaves sdk (lp_leaves (snd (entries ! (length entries - 1)))) = Some ls"
  shows "stages_linked sdk (runtime_xcmp_proof
     \<lparr>sx_stage_1 = (mp, ls), sx_stage_2 = subxt_para_proof_from hdr,
      sx_stage_3 = subxt_from_channel_proof c, sx_stage_4 = s4\<rparr>)"
proof -
  have "entries ! (length entries - 1) \<in> set entries"
    using ne by simp
  then obtain k where "(k, entries ! (length entries - 1)) \<in> set (leaves_beefy_mmr_map s')"
    and k: "fst k = rp_root hdr"
    unfolding entries_def by (auto split: if_splits)
  then have "beefy_entry_ok sdk (k, entries ! (length entries - 1))"
    using inv(2) by (simp add: relayer_inv_def list_all_iff)
  moreover have "header_entry_ok sdk (ch_root c, hdr)"
    using hdr inv(1) by (auto simp: relayer_inv_def split: if_splits intro: list_all_bt_get)
  ultimately show ?thesis
    using dec k by (auto simp: stages_linked_def beefy_entry_ok_def header_entry_ok_def
      runtime_xcmp_proof_def subxt_para_proof_from_def channel_proof_from_subxt_def subxt_from_channel_proof_def)
qed

lemma generate_xcmp_proof_guar:
  assumes "well_behaved sdk other"
  shows "relayer_guar sdk (generate_xcmp_proof sdk client recv_client other free)"
  unfolding generate_xcmp_proof_def Let_def
  by (intro task_rules assms relayer_machine.guar_bind_reads_only reads_only_requests extrinsics_guar
        relayer_step.take_msg_root)
     (rule assembled_stages_linked; assumption)

section \<open>What is assembled\<close>

text \<open>
  The reference: the entry with the least message root, the channel proof stored for it, the
  parachain header stored for that proof's root, and the latest relay block whose BEEFY leaf has
  that header's heads root; then the four decodings.
\<close>

definition latest_beefy_entry ::
  "(h256 \<times> u32, h256 \<times> leaves_proof) btree_map \<Rightarrow> h256 \<Rightarrow> (h256 \<times> leaves_proof) option" where
  "latest_beefy_entry m root =
     (let sel = filter (\<lambda>entry. fst (fst entry) = root) m
      in if sel = [] then None else Some (snd (last sel)))"

definition pick_proof ::
  "('mp, 'dg) sdk \<Rightarrow> 'mp relayer \<Rightarrow> (h256 \<times> 'mp subxt_xcmp_proof \<times> h256) option" where
  "pick_proof sdk s =
     do { (msg_root, msgs) \<leftarrow> (case msg_root_map s of [] \<Rightarrow> None | entry # _ \<Rightarrow> Some entry);
          channel \<leftarrow> bt_get (msg_root_channel_merkle_map s) msg_root;
          hdr \<leftarrow> bt_get (para_headers_map s) (ch_root channel);
          (beefy_root, beefy) \<leftarrow> latest_beefy_entry (leaves_beefy_mmr_map s) (rp_root hdr);
          ls4 \<leftarrow> decode_opaque_leaves sdk (lp_leaves msgs);
          mp4 \<leftarrow> decode_mmr_proof sdk (lp_proof msgs);
          ls1 \<leftarrow> decode_opaque_leaves sdk (lp_leaves beefy);
          mp1 \<leftarrow> decode_mmr_proof sdk (lp_proof beefy);
          Some (msg_root,
            \<lparr>sx_stage_1 = (mp1, ls1), sx_stage_2 = subxt_para_proof_from hdr,
             sx_stage_3 = subxt_from_channel_proof channel, sx_stage_4 = (mp4, ls4)\<rparr>, beefy_root) }"

lemma and_then_rpc_try_eval [action_eval]:
  "and_then (rpc_try r e) f s = (case r of RpcErr \<Rightarrow> (Err e, s) | RpcOk a \<Rightarrow> f a s)"
  by (cases r) (simp_all add: rpc_try_def action_simps)

lemma submit_tx_eval:
  "submit_tx client signer tx s =
     (case sign_and_submit client signer tx of
        RpcErr \<Rightarrow> (Err SubxtError, s)
      | RpcOk _ \<Rightarrow> (Ok (), s\<lparr>submitted := submitted s @ [(endpoint client, signer, tx)]\<rparr>))"
  by (simp add: submit_tx_def action_eval split: rpc.split)

lemma latest_beefy_entry_alt:
  "latest_beefy_entry m root =
     (let sel = map snd (filter (\<lambda>entry. fst (fst entry) = root) m)
      in if sel = [] then None else Some (sel ! (length sel - 1)))"
  by (auto simp: latest_beefy_entry_def Let_def last_conv_nth)

definition quiet_generate ::
  "('mp, 'dg) sdk \<Rightarrow> 'mp client \<Rightarrow> 'mp client \<Rightarrow> ('mp, unit) relayer_action" where
  "quiet_generate sdk client recv_client = generate_xcmp_proof sdk client recv_client (\<lambda>_ s. s) (\<lambda>_. True)"

lemmas quiet_generate_eval =
  quiet_generate_def generate_xcmp_proof_def Let_def action_eval locked_write_def bt_contains_key_def
  submit_xcmp_proof_tx_def

lemma quiet_generate_None:
  assumes "pick_proof sdk s = None"
  shows "\<exists>e. quiet_generate sdk client recv_client s = (Err e, s)"
proof (cases "msg_root_map s")
  case Nil
  then show ?thesis by (simp add: quiet_generate_eval split: rpc.split)
next
  case (Cons entry rest)
  with assms show ?thesis
    by (cases entry)
       (auto simp: quiet_generate_eval pick_proof_def latest_beefy_entry_alt bt_get_def case_prod_beta
          split: rpc.split if_splits bind_splits)
qed

lemma quiet_generate_Some:
  assumes "pick_proof sdk s = Some (root, p, beefy_root)" and "blocks_at_latest client = RpcOk b"
  shows "quiet_generate sdk client recv_client s =
    (let s' = s\<lparr>msg_root_map := bt_remove root (msg_root_map s)\<rparr> in
     if runtime_api_at_latest client = RpcErr then (Err SubxtError, s')
     else submit_tx client Charlie (TxSubmitXcmpProof p beefy_root) s')"
proof -
  from assms(1) obtain msgs rest where "msg_root_map s = (root, msgs) # rest"
    by (auto simp: pick_proof_def bind_eq_Some_conv split: list.splits)
  with assms show ?thesis
    by (auto simp: quiet_generate_eval pick_proof_def bt_get_def latest_beefy_entry_alt bind_eq_Some_conv
         split: rpc.split if_splits)
qed

lemma latest_beefy_entry_latest:
  assumes "bt_invar m" and "latest_beefy_entry m root = Some v"
  obtains n where "bt_get m (root, n) = Some v" and "\<And>n' v'. bt_get m (root, n') = Some v' \<Longrightarrow> n' \<le> n"
proof -
  let ?sel = "filter (\<lambda>entry. fst (fst entry) = root) m"
  from assms(2) have ne: "?sel \<noteq> []" and v: "snd (last ?sel) = v"
    by (auto simp: latest_beefy_entry_def Let_def split: if_splits)
  obtain k where k: "last ?sel = (k, v)" using v by (cases "last ?sel") auto
  note sel = bt.last_selected_entry [where P = "\<lambda>k. fst k = root", OF assms(1) refl ne k]
  from sel(1,2) have "bt_get m (root, snd k) = Some v" by (cases k) auto
  moreover have "n' \<le> snd k" if "bt_get m (root, n') = Some v'" for n' v'
    using sel(3) [OF that] sel(2) by (cases k) auto
  ultimately show ?thesis using that by blast
qed

text \<open>
  What a relay node answers about a block when all goes well: its BEEFY root and proof, whose first
  leaf commits to \<open>heads_root\<close>, and the parachain's heads proof, whose header carries
  \<open>channels_root\<close>. What the sending parachain's node answers: the root and proof of its message
  MMR, and the channel proof for that root.
\<close>

definition relay_answers ::
  "('mp, 'dg) sdk \<Rightarrow> 'mp client \<Rightarrow> best_block \<Rightarrow> h256 \<Rightarrow> leaves_proof \<Rightarrow> h256 \<Rightarrow>
   relay_para_merkle_proof \<Rightarrow> h256 \<Rightarrow> bool" where
  "relay_answers sdk client block beefy_root proof heads_root hdr channels_root \<longleftrightarrow>
     mmr_root_rpc client None (Some 0) = RpcOk (Some beefy_root) \<and>
     (\<exists>n. chain_get_header_rpc client = RpcOk (Some n)) \<and>
     mmr_generate_proof_rpc client
       \<lparr>mp_blocks = [as_u64 (block_number block)], mp_best_known = None, mp_at = Some (block_hash block),
        mp_mmr_id = Some 0\<rparr> = RpcOk (Some proof) \<and>
     beefy_entry_ok sdk ((heads_root, block_number block), beefy_root, proof) \<and>
     get_para_heads_proof_api client (block_hash block) (RelayParaId 1000) = RpcOk (Some hdr) \<and>
     header_entry_ok sdk (channels_root, hdr)"

definition para_answers ::
  "'mp client \<Rightarrow> best_block \<Rightarrow> h256 \<Rightarrow> leaves_proof \<Rightarrow> subxt_channel_merkle_proof \<Rightarrow> bool" where
  "para_answers client block msg_root proof channel \<longleftrightarrow>
     mmr_root_rpc client (Some (block_hash block)) (Some 0) = RpcOk (Some msg_root) \<and>
     mmr_generate_proof_rpc client
       \<lparr>mp_blocks = [as_u64 (block_number block)], mp_best_known = None, mp_at = Some (block_hash block),
        mp_mmr_id = Some 0\<rparr> = RpcOk (Some proof) \<and>
     get_xcmp_channels_proof_api client (block_hash block) 0 = RpcOk (Some channel)"

lemma or_zero_extract_run:
  "header_entry_ok sdk (root, hdr) \<Longrightarrow>
   or_zero (relayer_extract_xcmp_channel_root sdk (subxt_para_leaf_from (rp_leaf hdr))) s = (Ok root, s)"
  by (auto simp: header_entry_ok_def or_zero_def relayer_extract_run para_channel_root_def
        runtime_para_leaf_def bind_eq_Some_conv split: option.splits)

lemma collect_relay_block_stores:
  assumes "relay_answers sdk client block beefy_root proof heads_root hdr channels_root"
  shows "collect_relay_block sdk client (\<lambda>_ s. s) (\<lambda>_. True) block s =
    (Ok (), s\<lparr>leaves_beefy_mmr_map :=
                bt_insert (heads_root, block_number block) (beefy_root, proof) (leaves_beefy_mmr_map s),
              para_headers_map := bt_insert channels_root hdr (para_headers_map s)\<rparr>)"
proof -
  from assms have "header_entry_ok sdk (channels_root, hdr)" by (simp add: relay_answers_def)
  note channels_root = or_zero_extract_run [OF this]
  from assms show ?thesis
    by (auto simp: collect_relay_block_def relay_answers_def beefy_entry_ok_def header_entry_ok_def
          generate_mmr_proof_def RECEIVER_CHANNEL_ID_def rpc_or_none_def or_default_def and_then_def
          ok_or_def ensure_def vec_index_def locked_write_def action_run channels_root Let_def)
qed

lemma collect_para_block_stores:
  assumes "para_answers client block msg_root proof channel"
    and "sc_leaf channel = msg_root \<or> bt_contains_key (msg_root_map s) (sc_leaf channel)"
  shows "collect_para_block client (\<lambda>_ s. s) (\<lambda>_. True) block s =
    (Ok (), s\<lparr>msg_root_map := bt_insert msg_root proof (msg_root_map s),
              channel_root_proof_map := bt_insert (sc_root channel) (channel_proof_from_subxt channel)
                (channel_root_proof_map s),
              msg_root_channel_merkle_map := bt_insert msg_root (channel_proof_from_subxt channel)
                (msg_root_channel_merkle_map s)\<rparr>)"
  using assms
  by (auto simp: collect_para_block_def para_answers_def generate_mmr_root_def generate_mmr_proof_def
        RECEIVER_CHANNEL_ID_def rpc_or_none_def rpc_try_def action_eval locked_write_def
        bt_contains_key_def bt_get_insert Let_def)

section \<open>Properties\<close>

definition example_client :: "h256 client" where
  "example_client =
     \<lparr>endpoint = DEFAULT_ENDPOINT_PARA_SENDER,
      mmr_root_rpc = (\<lambda>at_hash mmr_id. RpcOk (Some (if at_hash = None then 7 else 9))),
      mmr_generate_proof_rpc = (\<lambda>params. RpcOk (Some
        (if mp_at params = Some 100 then \<lparr>lp_leaves = [2], lp_proof = [7]\<rparr>
         else \<lparr>lp_leaves = [5, 6], lp_proof = [9]\<rparr>))),
      mmr_verify_stateless_rpc = (\<lambda>_ _. RpcOk (Some True)),
      chain_get_header_rpc = RpcOk (Some 4),
      get_para_heads_proof_api = (\<lambda>_ _. RpcOk (Some
        \<lparr>rp_root = 2, rp_proof = [], rp_num_leaves = 2, rp_leaf_index = 0,
         rp_leaf = \<lparr>rl_para_id = RelayParaId 1000, rl_head_data = [2]\<rparr>\<rparr>)),
      get_xcmp_channels_proof_api = (\<lambda>_ _. RpcOk (Some
        \<lparr>sc_root = 2, sc_proof = [], sc_num_leaves = 2, sc_leaf_index = 0, sc_leaf = 9\<rparr>)),
      blocks_at_latest = RpcOk 101, runtime_api_at_latest = RpcOk (),
      get_current_beefy_root_api = RpcOk 7, storage_at_latest = RpcOk (),
      fetch_xcmp_channel_root = (\<lambda>_. RpcOk (Some 9)), sign_and_submit = (\<lambda>_ _. RpcOk ())\<rparr>"

definition example_relayer :: "h256 relayer" where
  "example_relayer =
     snd (collect_relay_block example_sdk example_client (\<lambda>_ s. s) (\<lambda>_. True) \<lparr>block_number = 4, block_hash = 100\<rparr>
       (snd (collect_para_block example_client (\<lambda>_ s. s) (\<lambda>_. True) \<lparr>block_number = 3, block_hash = 101\<rparr>
         relayer_boot)))"

definition example_assembled :: "h256 subxt_xcmp_proof" where
  "example_assembled =
     \<lparr>sx_stage_1 = (7, [EncodableOpaqueLeaf [2]]),
      sx_stage_2 = \<lparr>sp_root = 2, sp_proof = [], sp_num_leaves = 2, sp_leaf_index = 0,
        sp_leaf = \<lparr>sl_para_id = ParachainParaId 1000, sl_head_data = [2]\<rparr>\<rparr>,
      sx_stage_3 = \<lparr>sc_root = 2, sc_proof = [], sc_num_leaves = 2, sc_leaf_index = 0, sc_leaf = 9\<rparr>,
      sx_stage_4 = (9, [EncodableOpaqueLeaf [5, 6]])\<rparr>"

lemma well_behaved_idle: "well_behaved sdk (\<lambda>_ s. s)"
  by (simp add: well_behaved_def)

lemma example_relayer_inv: "relayer_inv example_sdk example_relayer"
proof -
  have "relayer_inv example_sdk relayer_boot"
    by (rule relayer_machine.start_invariant) simp
  then show ?thesis
    unfolding example_relayer_def
    by (intro relayer_machine.guar_keeps_invariant collect_relay_block_guar collect_para_block_guar
          well_behaved_idle)
qed

lemma example_relay_answers:
  "relay_answers example_sdk example_client \<lparr>block_number = 4, block_hash = 100\<rparr> 7
     \<lparr>lp_leaves = [2], lp_proof = [7]\<rparr> 2
     \<lparr>rp_root = 2, rp_proof = [], rp_num_leaves = 2, rp_leaf_index = 0,
      rp_leaf = \<lparr>rl_para_id = RelayParaId 1000, rl_head_data = [2]\<rparr>\<rparr> 2"
  by (simp add: relay_answers_def example_client_def beefy_entry_ok_def header_entry_ok_def
        para_channel_root_def runtime_para_leaf_def subxt_para_leaf_from_def)

lemma example_para_answers:
  "para_answers example_client \<lparr>block_number = 3, block_hash = 101\<rparr> 9 \<lparr>lp_leaves = [5, 6], lp_proof = [9]\<rparr>
     \<lparr>sc_root = 2, sc_proof = [], sc_num_leaves = 2, sc_leaf_index = 0, sc_leaf = 9\<rparr>"
  by (simp add: para_answers_def example_client_def)

lemma example_relayer_picks: "pick_proof example_sdk example_relayer = Some (9, example_assembled, 7)"
  unfolding example_relayer_def
  by (simp add: collect_relay_block_stores [OF example_relay_answers]
        collect_para_block_stores [OF example_para_answers] relayer_boot_def pick_proof_def
        latest_beefy_entry_def Let_def bt_get_def example_assembled_def channel_proof_from_subxt_def
        subxt_from_channel_proof_def subxt_para_proof_from_def subxt_para_leaf_from_def
        parachain_para_id_from_def)

text \<open>
  Claim C9: when no other task interferes, \<open>generate_xcmp_proof\<close> is the reference \<open>pick_proof\<close>: it
  fails and leaves everything as it was when the maps hold no complete proof, and otherwise takes
  the picked message root out of the map and submits exactly the picked proof, once, to the
  client it was given, signed by Charlie. If the runtime or the submission then fails, the
  message root is gone and nothing was submitted.
\<close>

theorem generate_xcmp_proof_submits_picked_proof:
  "case pick_proof sdk s of
     None \<Rightarrow> \<exists>e. generate_xcmp_proof sdk client recv_client (\<lambda>_ s. s) (\<lambda>_. True) s = (Err e, s)
   | Some (root, p, beefy_root) \<Rightarrow>
       generate_xcmp_proof sdk client recv_client (\<lambda>_ s. s) (\<lambda>_. True) s =
         (let s' = s\<lparr>msg_root_map := bt_remove root (msg_root_map s)\<rparr> in
          if blocks_at_latest client = RpcErr then (Err SubxtError, s)
          else if runtime_api_at_latest client = RpcErr then (Err SubxtError, s')
          else if sign_and_submit client Charlie (TxSubmitXcmpProof p beefy_root) = RpcErr
          then (Err SubxtError, s')
          else (Ok (), s'\<lparr>submitted := submitted s @
                 [(endpoint client, Charlie, TxSubmitXcmpProof p beefy_root)]\<rparr>))"
proof (cases "pick_proof sdk s")
  case None
  then show ?thesis
    using quiet_generate_None [of sdk s client recv_client] by (simp add: quiet_generate_def)
next
  case (Some picked)
  obtain root p beefy_root where picked: "picked = (root, p, beefy_root)" by (cases picked)
  show ?thesis
  proof (cases "blocks_at_latest client")
    case (RpcOk b)
    with Some picked show ?thesis
      using quiet_generate_Some [of sdk s root p beefy_root client b recv_client]
      by (auto simp: quiet_generate_def Let_def submit_tx_eval split: rpc.split)
  qed (simp add: Some picked generate_xcmp_proof_def action_eval)
qed

lemma pick_proof_least_and_latest:
  assumes "relayer_inv sdk s" and "pick_proof sdk s = Some (root, p, beefy_root)"
  shows "\<exists>msgs n beefy. bt_get (msg_root_map s) root = Some msgs \<and>
    (\<forall>root'. bt_contains_key (msg_root_map s) root' \<longrightarrow> root \<le> root') \<and>
    decode_opaque_leaves sdk (lp_leaves msgs) = Some (snd (sx_stage_4 p)) \<and>
    bt_get (leaves_beefy_mmr_map s) (sp_root (sx_stage_2 p), n) = Some (beefy_root, beefy) \<and>
    (\<forall>n'. bt_contains_key (leaves_beefy_mmr_map s) (sp_root (sx_stage_2 p), n') \<longrightarrow> n' \<le> n) \<and>
    decode_opaque_leaves sdk (lp_leaves beefy) = Some (snd (sx_stage_1 p))"
proof -
  from assms(2) obtain msgs rest beefy where first: "msg_root_map s = (root, msgs) # rest"
    and latest: "latest_beefy_entry (leaves_beefy_mmr_map s) (sp_root (sx_stage_2 p)) = Some (beefy_root, beefy)"
    and leaves: "decode_opaque_leaves sdk (lp_leaves msgs) = Some (snd (sx_stage_4 p))"
      "decode_opaque_leaves sdk (lp_leaves beefy) = Some (snd (sx_stage_1 p))"
    by (auto simp: pick_proof_def bind_eq_Some_conv subxt_para_proof_from_def split: list.splits)
  from assms(1) have inv: "bt_invar (msg_root_map s)" "bt_invar (leaves_beefy_mmr_map s)"
    by (simp_all add: relayer_inv_def)
  obtain n where "bt_get (leaves_beefy_mmr_map s) (sp_root (sx_stage_2 p), n) = Some (beefy_root, beefy)"
    and "\<And>n' v'. bt_get (leaves_beefy_mmr_map s) (sp_root (sx_stage_2 p), n') = Some v' \<Longrightarrow> n' \<le> n"
    using latest_beefy_entry_latest [OF inv(2) latest] by blast
  with leaves first show ?thesis
    using bt.first_entry_is_least [OF inv(1) first]
    by (intro exI [of _ msgs] exI [of _ n] exI [of _ beefy]) (auto simp: bt_contains_key_def bt_get_def)
qed

lemma quiet_generate_OkE:
  assumes "quiet_generate sdk client recv_client s = (Ok (), t)"
  obtains root p beefy_root where "pick_proof sdk s = Some (root, p, beefy_root)"
    and "t = s\<lparr>msg_root_map := bt_remove root (msg_root_map s),
           submitted := submitted s @ [(endpoint client, Charlie, TxSubmitXcmpProof p beefy_root)]\<rparr>"
proof (cases "pick_proof sdk s")
  case None
  with quiet_generate_None [OF this, of client recv_client] assms show ?thesis by auto
next
  case (Some picked)
  obtain root p beefy_root where picked: "picked = (root, p, beefy_root)" by (cases picked)
  show ?thesis
  proof (cases "blocks_at_latest client")
    case (RpcOk b)
    with that [of root p beefy_root] assms Some picked show ?thesis
      by (auto simp: quiet_generate_Some [of _ _ _ _ _ _ b] Let_def submit_tx_eval split: rpc.splits if_splits)
  qed (use assms in \<open>simp add: quiet_generate_def generate_xcmp_proof_def action_eval\<close>)
qed

text \<open>
  Claim C22: a successful \<open>generate_xcmp_proof\<close>, without interference, submits one proof and takes one message root out of the map: the least
  of all that wait, whose entry is stage 4 of the proof; and stage 1 is the entry of the latest relay block the relayer
  knows for the heads root of stage 2, whose BEEFY root is the one the extrinsic names.
\<close>

theorem submission_is_least_and_latest:
  assumes "relayer_inv sdk s"
    and "generate_xcmp_proof sdk client recv_client (\<lambda>_ s. s) (\<lambda>_. True) s = (Ok (), t)"
  shows "\<exists>root msgs p n beefy_root beefy.
    msg_root_map t = bt_remove root (msg_root_map s) \<and>
    submitted t = submitted s @ [(endpoint client, Charlie, TxSubmitXcmpProof p beefy_root)] \<and>
    bt_get (msg_root_map s) root = Some msgs \<and>
    (\<forall>root'. bt_contains_key (msg_root_map s) root' \<longrightarrow> root \<le> root') \<and>
    decode_opaque_leaves sdk (lp_leaves msgs) = Some (snd (sx_stage_4 p)) \<and>
    bt_get (leaves_beefy_mmr_map s) (sp_root (sx_stage_2 p), n) = Some (beefy_root, beefy) \<and>
    (\<forall>n'. bt_contains_key (leaves_beefy_mmr_map s) (sp_root (sx_stage_2 p), n') \<longrightarrow> n' \<le> n) \<and>
    decode_opaque_leaves sdk (lp_leaves beefy) = Some (snd (sx_stage_1 p))"
proof -
  obtain root p beefy_root where pick: "pick_proof sdk s = Some (root, p, beefy_root)"
    and t: "t = s\<lparr>msg_root_map := bt_remove root (msg_root_map s),
       submitted := submitted s @ [(endpoint client, Charlie, TxSubmitXcmpProof p beefy_root)]\<rparr>"
    using quiet_generate_OkE assms(2) unfolding quiet_generate_def by blast
  from pick_proof_least_and_latest [OF assms(1) pick] obtain msgs n beefy where
    "bt_get (msg_root_map s) root = Some msgs"
    "\<forall>root'. bt_contains_key (msg_root_map s) root' \<longrightarrow> root \<le> root'"
    "decode_opaque_leaves sdk (lp_leaves msgs) = Some (snd (sx_stage_4 p))"
    "bt_get (leaves_beefy_mmr_map s) (sp_root (sx_stage_2 p), n) = Some (beefy_root, beefy)"
    "\<forall>n'. bt_contains_key (leaves_beefy_mmr_map s) (sp_root (sx_stage_2 p), n') \<longrightarrow> n' \<le> n"
    "decode_opaque_leaves sdk (lp_leaves beefy) = Some (snd (sx_stage_1 p))" by (elim exE conjE)
  moreover have "msg_root_map t = bt_remove root (msg_root_map s)"
    "submitted t = submitted s @ [(endpoint client, Charlie, TxSubmitXcmpProof p beefy_root)]"
    by (simp_all add: t)
  ultimately show ?thesis by (intro exI conjI)
qed

text \<open>
  A relayer that learnt the root 12 first and then 9, and knows two relay blocks for the heads root 2: it submits for
  root 9, with the BEEFY root 7 of the later block, and 12 still waits.
\<close>

definition example_busy_relayer :: "h256 relayer" where
  "example_busy_relayer = example_relayer
     \<lparr>msg_root_map := bt_insert 9 \<lparr>lp_leaves = [5, 6], lp_proof = [9]\<rparr> (bt_insert 12 \<lparr>lp_leaves = [5], lp_proof = [9]\<rparr> []),
      leaves_beefy_mmr_map := bt_insert (2, 3) (6, \<lparr>lp_leaves = [2], lp_proof = [6]\<rparr>) (leaves_beefy_mmr_map example_relayer)\<rparr>"

lemma example_busy_relayer_maps:
  "msg_root_map example_busy_relayer = [(9, \<lparr>lp_leaves = [5, 6], lp_proof = [9]\<rparr>), (12, \<lparr>lp_leaves = [5], lp_proof = [9]\<rparr>)]"
  "leaves_beefy_mmr_map example_busy_relayer =
     [((2, 3), (6, \<lparr>lp_leaves = [2], lp_proof = [6]\<rparr>)), ((2, 4), (7, \<lparr>lp_leaves = [2], lp_proof = [7]\<rparr>))]"
  "submitted example_busy_relayer = []"
  by (simp_all add: example_busy_relayer_def example_relayer_def relayer_boot_def
        collect_relay_block_stores [OF example_relay_answers] collect_para_block_stores [OF example_para_answers])

lemma example_busy_relayer_inv: "relayer_inv example_sdk example_busy_relayer"
proof -
  have "bt_invar (msg_root_map example_busy_relayer)"
    by (simp add: example_busy_relayer_maps bt_invar_def)
  with example_relayer_inv show ?thesis
    by (auto simp: relayer_inv_def example_busy_relayer_def bt_invar_insert beefy_entry_ok_def intro!: list_all_bt_insert)
qed

lemma example_busy_relayer_picks:
  "pick_proof example_sdk example_busy_relayer = Some (9, example_assembled, 7)"
  by (simp add: pick_proof_def example_busy_relayer_maps)
     (simp add: example_busy_relayer_def example_relayer_def relayer_boot_def collect_relay_block_stores [OF example_relay_answers]
        collect_para_block_stores [OF example_para_answers] latest_beefy_entry_def bt_get_def Let_def
        example_assembled_def channel_proof_from_subxt_def subxt_from_channel_proof_def subxt_para_proof_from_def
        subxt_para_leaf_from_def parachain_para_id_from_def)

theorem submission_is_least_and_latest_witness:
  "\<exists>t p. generate_xcmp_proof example_sdk example_client example_client (\<lambda>_ s. s) (\<lambda>_. True) example_busy_relayer = (Ok (), t) \<and>
     map fst (msg_root_map t) = [12] \<and>
     submitted t = [(DEFAULT_ENDPOINT_PARA_SENDER, Charlie, TxSubmitXcmpProof p 7)]"
proof -
  obtain t where t: "generate_xcmp_proof example_sdk example_client example_client (\<lambda>_ s. s) (\<lambda>_. True) example_busy_relayer = (Ok (), t)"
    using quiet_generate_Some [OF example_busy_relayer_picks, of example_client 101 example_client]
    by (auto simp: quiet_generate_def submit_tx_eval example_client_def)
  from submission_is_least_and_latest [OF example_busy_relayer_inv t] obtain root msgs p n beefy_root beefy where
      sent: "msg_root_map t = bt_remove root (msg_root_map example_busy_relayer)"
        "submitted t = submitted example_busy_relayer @ [(endpoint example_client, Charlie, TxSubmitXcmpProof p beefy_root)]"
    and root: "bt_get (msg_root_map example_busy_relayer) root = Some msgs"
        "\<forall>root'. bt_contains_key (msg_root_map example_busy_relayer) root' \<longrightarrow> root \<le> root'"
    and beefy: "bt_get (leaves_beefy_mmr_map example_busy_relayer) (sp_root (sx_stage_2 p), n) = Some (beefy_root, beefy)"
        "\<forall>n'. bt_contains_key (leaves_beefy_mmr_map example_busy_relayer) (sp_root (sx_stage_2 p), n') \<longrightarrow> n' \<le> n"
    by (elim exE conjE)
  have "root = 9"
    using root(1) root(2) [rule_format, of 9] by (auto simp: example_busy_relayer_maps bt_get_def bt_contains_key_def split: if_splits)
  moreover have "beefy_root = 7"
    using beefy(1) beefy(2) [rule_format, of 4] by (auto simp: example_busy_relayer_maps bt_get_def bt_contains_key_def split: if_splits)
  ultimately show ?thesis
    using t sent by (simp add: example_busy_relayer_maps example_client_def)
qed

text \<open>
  Whatever the other tasks do between its locked sections, as long as they too only take the
  relayer's steps, and whichever locks are taken, every XCMP proof that has been submitted when
  \<open>generate_xcmp_proof\<close> ends has its stages linked: its first BEEFY leaf decodes and commits to
  the heads root of stage 2, and the header of stage 2 carries the channel root of stage 3.
\<close>

theorem submitted_proofs_are_linked:
  assumes "well_behaved sdk other" and "relayer_inv sdk s"
    and "(ep, signer, TxSubmitXcmpProof p r) \<in>
           set (submitted (snd (generate_xcmp_proof sdk client recv_client other free s)))"
  shows "stages_linked sdk (runtime_xcmp_proof p) \<and> signer = Charlie"
  using relayer_machine.guar_keeps_invariant [OF generate_xcmp_proof_guar [OF assms(1)] assms(2)] assms(3)
  by (fastforce simp: relayer_inv_def list_all_iff)

theorem submitted_proofs_are_linked_witness:
  "stages_linked example_sdk (runtime_xcmp_proof example_assembled) \<and> Charlie = Charlie"
  by (rule submitted_proofs_are_linked [OF well_behaved_idle example_relayer_inv,
        where ep = DEFAULT_ENDPOINT_PARA_SENDER and r = 7 and client = example_client
          and recv_client = example_client and free = "\<lambda>_. True"])
     (use quiet_generate_Some [OF example_relayer_picks, of example_client 101 example_client] in
        \<open>simp add: quiet_generate_def submit_tx_eval example_client_def\<close>)

text \<open>
  Claim C25: the relayer only ever looks at the least waiting message root: while no channel proof is
  stored for it, no number of further attempts changes anything, however complete the data of the
  other roots.
\<close>

theorem least_root_blocks_the_others:
  assumes "msg_root_map s = (root, msgs) # rest" and "bt_get (msg_root_channel_merkle_map s) root = None"
  shows "((\<lambda>s. snd (generate_xcmp_proof sdk client recv_client (\<lambda>_ s. s) (\<lambda>_. True) s)) ^^ n) s = s"
proof -
  have "pick_proof sdk s = None"
    using assms by (simp add: pick_proof_def)
  then have "snd (quiet_generate sdk client recv_client s) = s"
    using quiet_generate_None [of sdk s client recv_client] by auto
  then show ?thesis
    by (induction n) (simp_all add: quiet_generate_def)
qed

theorem least_root_blocks_the_others_witness:
  "((\<lambda>s. snd (generate_xcmp_proof example_sdk example_client example_client (\<lambda>_ s. s) (\<lambda>_. True) s)) ^^ 5)
     (example_relayer\<lparr>msg_root_map := bt_insert 1 \<lparr>lp_leaves = [], lp_proof = []\<rparr> [(9, \<lparr>lp_leaves = [5, 6], lp_proof = [9]\<rparr>)]\<rparr>) =
   example_relayer\<lparr>msg_root_map := bt_insert 1 \<lparr>lp_leaves = [], lp_proof = []\<rparr> [(9, \<lparr>lp_leaves = [5, 6], lp_proof = [9]\<rparr>)]\<rparr>"
  by (rule least_root_blocks_the_others [where root = 1])
     (simp_all add: example_relayer_def relayer_boot_def bt_get_def
        collect_relay_block_stores [OF example_relay_answers]
        collect_para_block_stores [OF example_para_answers])

text \<open>
  The relayer's own test of the extraction of channel roots: as headers decode to what was encoded, it passes only
  if the default digest carries the root zero; a digest that carries no root makes the extraction fail with the
  default error, and the test with it.
\<close>

theorem test_decode_passes_iff:
  assumes "\<And>hdr. decode_header sdk (encode_header hdr) = Some \<lparr>digest = fh_digest hdr\<rparr>"
  shows "test_decode sdk encode_header dg \<longleftrightarrow> extract_xcmp_channel_merkle_root sdk dg = Some 0"
proof -
  have "relayer_extract_xcmp_channel_root sdk \<lparr>sl_para_id = pid, sl_head_data = encode_header hdr\<rparr> () =
      ok_or (extract_xcmp_channel_merkle_root sdk (fh_digest hdr)) RelayerDefault ()" for pid hdr
    by (simp add: relayer_extract_xcmp_channel_root_def assms action_simps)
  then show ?thesis
    by (cases "extract_xcmp_channel_merkle_root sdk dg") (simp_all add: test_decode_def ok_or_def ret_def fail_def)
qed

end
