(* ===== verification/Relayer_Tasks.thy ===== *)
theory Relayer_Tasks
  imports Relayer_Machine "HOL-Library.Sublist"
begin

text \<open>
  The relayer (\<^verbatim>\<open>src/xcmp_relayer/src/main.rs\<close>), second part: the task that updates the
  channel root and submits proofs for every best block (\<^verbatim>\<open>get_proof_and_verify\<close>), the
  logging tasks with the proof size statistics, the retrying request and \<^verbatim>\<open>main\<close>. Then the bodies of the three tasks
  that share the maps are put together: what they do in any interleaving is made of relayer steps.
  Arithmetic on \<^verbatim>\<open>u64\<close> and \<^verbatim>\<open>u32\<close> wraps, as in a release build of the workspace.
\<close>

section \<open>Updating the root and submitting proofs\<close>

text \<open>A result that is matched on instead of being passed up with \<^verbatim>\<open>?\<close>.\<close>

definition attempt :: "('s, 'e, 'a) action \<Rightarrow> ('s, 'e, 'a option) action" where
  "attempt m = (\<lambda>s. case m s of
      (Ok a, s') \<Rightarrow> (Ok (Some a), s')
    | (Err _, s') \<Rightarrow> (Ok None, s')
    | (Panic, s') \<Rightarrow> (Panic, s'))"

definition get_proof_and_verify_start :: "'mp client \<Rightarrow> ('s, relayer_error, h256 \<times> leaves_proof) action" where
  "get_proof_and_verify_start client =
     and_then (generate_mmr_root client (Some RECEIVER_CHANNEL_ID) None) (\<lambda>root.
     and_then (generate_mmr_proof client 1 (Some RECEIVER_CHANNEL_ID) None) (\<lambda>proof.
     and_then (rpc_try (mmr_verify_stateless_rpc client root proof) RpcError) (\<lambda>request.
     and_then (ok_or request RelayerDefault) (\<lambda>verification.
     ret (root, proof)))))"

text \<open>One best block. The variables \<open>root\<close> and \<open>proof\<close> live across blocks.\<close>

definition verify_block ::
  "('mp, 'dg) sdk \<Rightarrow> 'mp client \<Rightarrow> 'mp client \<Rightarrow> (nat \<Rightarrow> 'mp relayer \<Rightarrow> 'mp relayer) \<Rightarrow> (nat \<Rightarrow> bool) \<Rightarrow>
   h256 \<times> leaves_proof \<Rightarrow> ('mp, h256 \<times> leaves_proof) relayer_action" where
  "verify_block sdk client recv_client other lock_free vars =
     (let root = fst vars; proof = snd vars in
      and_then (rpc_try (storage_at_latest client) SubxtError) (\<lambda>_.
      let onchain_root = (case fetch_xcmp_channel_root client 0 of
            RpcOk (Some root) \<Rightarrow> root | RpcOk None \<Rightarrow> 0 | RpcErr \<Rightarrow> 0) in
      and_then (attempt (update_root_tx client root)) (\<lambda>_.
      and_then (attempt (generate_xcmp_proof sdk client recv_client other lock_free)) (\<lambda>_.
      if onchain_root = root then
        and_then (attempt (submit_proof_tx sdk client proof)) (\<lambda>submitted.
        case submitted of
          Some _ \<Rightarrow>
            and_then (generate_mmr_root client (Some RECEIVER_CHANNEL_ID) None) (\<lambda>root.
            and_then (generate_mmr_proof client 1 (Some RECEIVER_CHANNEL_ID) None) (\<lambda>proof.
            ret (root, proof)))
        | None \<Rightarrow> ret (root, proof))
      else ret (root, proof)))))"

type_synonym 'mp verify_input =
  "'mp client \<times> 'mp client \<times> (nat \<Rightarrow> 'mp relayer \<Rightarrow> 'mp relayer) \<times> (nat \<Rightarrow> bool)"

fun verify_loop ::
  "('mp, 'dg) sdk \<Rightarrow> 'mp verify_input rpc list \<Rightarrow> h256 \<times> leaves_proof \<Rightarrow> ('mp, unit) relayer_action" where
  "verify_loop sdk [] vars = ret ()"
| "verify_loop sdk (RpcErr # blocks) vars = fail SubxtError"
| "verify_loop sdk (RpcOk (client, recv_client, other, lock_free) # blocks) vars =
     and_then (verify_block sdk client recv_client other lock_free vars) (verify_loop sdk blocks)"

definition get_proof_and_verify ::
  "('mp, 'dg) sdk \<Rightarrow> 'mp client \<Rightarrow> 'mp verify_input rpc list \<Rightarrow> ('mp, unit) relayer_action" where
  "get_proof_and_verify sdk client blocks =
     and_then (get_proof_and_verify_start client) (\<lambda>vars.
     and_then (attempt (verify_loop sdk blocks vars)) (\<lambda>_. ret ()))"

section \<open>Logging tasks\<close>

definition log_all_blocks :: "nat \<Rightarrow> ('s, 'e, client_type) action list" where
  "log_all_blocks num_clients = map client_type_from_index [0..<num_clients]"

definition log_all_mmr_roots :: "('mp client \<times> best_block) rpc list \<Rightarrow> (h256 list, relayer_error, unit) action" where
  "log_all_mmr_roots blocks =
     block_loop (\<lambda>(client, block).
       and_then (rpc_try (mmr_root_rpc client None (Some 0)) RpcError) (\<lambda>request.
       and_then (ok_or request RelayerDefault) (\<lambda>hash.
       modify (\<lambda>logged. logged @ [hash])))) blocks"

definition do_mean :: "u64 list \<Rightarrow> ('s, 'e, u64) action" where
  "do_mean vec =
     (let len = of_nat (length vec); sum = fold (\<lambda>difference sum. sum + difference) vec 0
      in if len = 0 then panic else ret (sum div len))"

record mmr_benchmark =
  proof_sizes :: "u64 list"
  mmr_blocks_to_query :: "u64 list"
  mmr_blocks_benchmark_counter :: u64
  means :: "u64 list"

definition mmr_benchmark_start :: mmr_benchmark where
  "mmr_benchmark_start =
     \<lparr>proof_sizes = [], mmr_blocks_to_query = [1], mmr_blocks_benchmark_counter = 1, means = []\<rparr>"

definition log_mmr_proof_block :: "'mp client \<Rightarrow> (mmr_benchmark, relayer_error, unit) action" where
  "log_mmr_proof_block client =
     and_then (gets mmr_blocks_to_query) (\<lambda>blocks.
     and_then (rpc_try (mmr_generate_proof_rpc client
        \<lparr>mp_blocks = blocks, mp_best_known = None, mp_at = None, mp_mmr_id = Some 0\<rparr>) RpcError) (\<lambda>request.
     and_then (ok_or request RelayerDefault) (\<lambda>proof.
     and_then (modify (\<lambda>b. b\<lparr>mmr_blocks_to_query := mmr_blocks_to_query b @ [mmr_blocks_benchmark_counter b]\<rparr>)) (\<lambda>_.
     and_then (modify (\<lambda>b. b\<lparr>mmr_blocks_benchmark_counter := mmr_blocks_benchmark_counter b + 1\<rparr>)) (\<lambda>_.
     let curr_proof_size = of_nat (length (lp_proof proof)) in
     and_then (modify (\<lambda>b. b\<lparr>proof_sizes := proof_sizes b @ [curr_proof_size]\<rparr>)) (\<lambda>_.
     and_then (gets proof_sizes) (\<lambda>sizes.
     and_then (do_mean sizes) (\<lambda>mean.
     modify (\<lambda>b. b\<lparr>means := means b @ [mean]\<rparr>)))))))))"

definition log_all_mmr_proofs :: "'mp client rpc list \<Rightarrow> (mmr_benchmark, relayer_error, unit) action" where
  "log_all_mmr_proofs blocks = block_loop log_mmr_proof_block blocks"

section \<open>The retrying request\<close>

definition MAX_ATTEMPTS :: u32 where
  "MAX_ATTEMPTS = 3"

text \<open>
  \<open>answer i\<close> is what the node answers to the \<open>i\<close>-th request of the loop; the second component
  counts the requests made.
\<close>

function retry_loop :: "(nat \<Rightarrow> 'a option rpc) \<Rightarrow> u32 \<Rightarrow> nat \<Rightarrow> (relayer_error, 'a) outcome \<times> nat" where
  "retry_loop answer attempts i =
     (case answer i of
        RpcOk (Some proof) \<Rightarrow> (Ok proof, Suc i)
      | RpcOk None \<Rightarrow> (Err ProofWasNone, Suc i)
      | RpcErr \<Rightarrow>
          if attempts < MAX_ATTEMPTS then retry_loop answer (attempts + 1) (Suc i)
          else (Err RpcError, Suc i))"
  by pat_completeness auto
termination
  by (relation "measure (\<lambda>(answer, attempts, i). unat (MAX_ATTEMPTS - attempts))")
     (simp_all add: MAX_ATTEMPTS_def, unat_arith)

declare retry_loop.simps [simp del]

definition try_generate_mmr_proof ::
  "(mmr_proof_params \<Rightarrow> nat \<Rightarrow> leaves_proof option rpc) \<Rightarrow> u64 \<Rightarrow> u64 option \<Rightarrow>
   (relayer_error, leaves_proof) outcome \<times> nat" where
  "try_generate_mmr_proof answer block_num channel_id =
     (let params = (case channel_id of
            Some ident \<Rightarrow> \<lparr>mp_blocks = [block_num], mp_best_known = None, mp_at = None, mp_mmr_id = Some ident\<rparr>
          | None \<Rightarrow> \<lparr>mp_blocks = [block_num], mp_best_known = None, mp_at = None, mp_mmr_id = None\<rparr>)
      in retry_loop (answer params) 0 0)"

section \<open>Start\<close>

datatype relayer_task =
    CollectRelayData string
  | CollectParaData string
  | LogAllMmrRoots string
  | LogAllMmrProofs string
  | GetProofAndVerify string string string
  | LogAllBlocks string nat

definition spawn :: "relayer_task \<Rightarrow> (relayer_task list, relayer_error, unit) action" where
  "spawn task = modify (\<lambda>tasks. tasks @ [task])"

text \<open>
  A client is a connection to a node over web sockets and one over HTTP. \<open>from_url\<close> and \<open>build\<close> are the constructors of
  the two client libraries; the first error is returned.
\<close>

definition MultiClient_new ::
  "(string \<Rightarrow> 'subxt rpc) \<Rightarrow> (string \<Rightarrow> 'http rpc) \<Rightarrow> ('subxt \<Rightarrow> 'http \<Rightarrow> 'mp client) \<Rightarrow> string \<Rightarrow> string \<Rightarrow>
   ('s, relayer_error, 'mp client) action" where
  "MultiClient_new from_url build client_of ws_endpoint rpc_endpoint =
     and_then (rpc_try (from_url ws_endpoint) SubxtError) (\<lambda>subxt_client.
     and_then (rpc_try (build rpc_endpoint) RpcError) (\<lambda>rpc_client.
     ret (client_of subxt_client rpc_client)))"

definition connect_outcome ::
  "(string \<Rightarrow> 'subxt rpc) \<Rightarrow> (string \<Rightarrow> 'http rpc) \<Rightarrow> ('subxt \<Rightarrow> 'http \<Rightarrow> 'mp client) \<Rightarrow> string \<Rightarrow> string \<Rightarrow>
   relayer_error + 'mp client" where
  "connect_outcome from_url build client_of ws_endpoint rpc_endpoint =
     (case (from_url ws_endpoint, build rpc_endpoint) of
        (RpcOk subxt_client, RpcOk rpc_client) \<Rightarrow> Inr (client_of subxt_client rpc_client)
      | (RpcErr, _) \<Rightarrow> Inl SubxtError
      | (RpcOk _, RpcErr) \<Rightarrow> Inl RpcError)"

lemma and_then_MultiClient_new:
  "and_then (MultiClient_new from_url build client_of e r) f s =
     (case connect_outcome from_url build client_of e r of Inr client \<Rightarrow> f client s | Inl err \<Rightarrow> (Err err, s))"
  by (simp add: MultiClient_new_def connect_outcome_def rpc_try_def action_eval split: rpc.split)

text \<open>\<^verbatim>\<open>main\<close>: the tasks it has spawned when it waits forever, or the error it ends with.\<close>

definition relayer_main ::
  "(string \<Rightarrow> 'subxt rpc) \<Rightarrow> (string \<Rightarrow> 'http rpc) \<Rightarrow> ('subxt \<Rightarrow> 'http \<Rightarrow> 'mp client) \<Rightarrow>
   (relayer_task list, relayer_error, unit) action" where
  "relayer_main from_url build client_of =
     and_then (MultiClient_new from_url build client_of DEFAULT_ENDPOINT_PARA_SENDER DEFAULT_RPC_ENDPOINT_PARA_SENDER) (\<lambda>para_sender_api.
     and_then (MultiClient_new from_url build client_of DEFAULT_ENDPOINT_PARA_RECEIVER DEFAULT_RPC_ENDPOINT_PARA_RECEIVER) (\<lambda>para_receiver_api.
     and_then (MultiClient_new from_url build client_of DEFAULT_ENDPOINT_RELAY DEFAULT_RPC_ENDPOINT_RELAY) (\<lambda>relay_api.
     and_then (spawn (CollectRelayData (endpoint relay_api))) (\<lambda>_.
     and_then (spawn (CollectParaData (endpoint para_sender_api))) (\<lambda>_.
     and_then (spawn (LogAllMmrRoots (endpoint para_sender_api))) (\<lambda>_.
     and_then (spawn (LogAllMmrProofs (endpoint para_sender_api))) (\<lambda>_.
     and_then (get_proof_and_verify_start para_sender_api) (\<lambda>_.
     and_then (spawn (GetProofAndVerify (endpoint para_sender_api) (endpoint relay_api) (endpoint para_receiver_api))) (\<lambda>_.
     and_then (spawn (LogAllBlocks (endpoint para_sender_api) 0)) (\<lambda>_.
     and_then (spawn (LogAllBlocks (endpoint para_receiver_api) 1)) (\<lambda>_.
     spawn (LogAllBlocks (endpoint relay_api) 2))))))))))))"

section \<open>The verifying task takes the relayer's steps\<close>

lemma snd_attempt [simp]: "snd (attempt m s) = snd (m s)"
  by (simp add: attempt_def split: prod.splits outcome.splits)

lemma attempt_Ok_run: "m s = (Ok a, s') \<Longrightarrow> attempt m s = (Ok (Some a), s')"
  "m s = (Err e, s') \<Longrightarrow> attempt m s = (Ok None, s')"
  by (simp_all add: attempt_def)

lemma guar_attempt: "relayer_guar sdk m \<Longrightarrow> relayer_guar sdk (attempt m)"
  by (simp add: guarantees_def)

lemma guar_bind_attempt:
  "relayer_guar sdk m \<Longrightarrow> (\<And>a. relayer_guar sdk (f a)) \<Longrightarrow> relayer_guar sdk (and_then (attempt m) f)"
  by (rule relayer_machine.guar_and_then [OF guar_attempt])

lemma reads_only_start [simp, intro]: "reads_only (get_proof_and_verify_start client)"
  unfolding get_proof_and_verify_start_def by (intro reads_only_and_then reads_only_requests reads_only_basic)

lemma guar_refresh: "relayer_guar sdk (and_then (generate_mmr_root client cid h) (\<lambda>root.
    and_then (generate_mmr_proof client n cid h) (\<lambda>proof. ret (root, proof))))"
  by (intro relayer_machine.guar_reads_only reads_only_and_then reads_only_requests reads_only_basic)

lemma guar_ret: "relayer_guar sdk (ret a)"
  by (intro relayer_machine.guar_reads_only reads_only_basic)

lemma verify_block_guar:
  assumes "well_behaved sdk other"
  shows "relayer_guar sdk (verify_block sdk client recv_client other free vars)"
  unfolding verify_block_def Let_def
  by (intro relayer_machine.guar_bind_reads_only guar_bind_attempt reads_only_requests
        extrinsics_guar(1,2) generate_xcmp_proof_guar assms relayer_machine.guar_if guar_ret)
     (auto split: option.split intro: guar_refresh guar_ret)

definition others_well_behaved :: "('mp, 'dg) sdk \<Rightarrow> ('i \<Rightarrow> nat \<Rightarrow> 'mp relayer \<Rightarrow> 'mp relayer) \<Rightarrow> 'i rpc list \<Rightarrow> bool" where
  "others_well_behaved sdk other_of blocks \<longleftrightarrow> (\<forall>i. RpcOk i \<in> set blocks \<longrightarrow> well_behaved sdk (other_of i))"

lemma others_well_behaved_Cons:
  "others_well_behaved sdk other_of (b # blocks) \<longleftrightarrow>
   (\<forall>i. b = RpcOk i \<longrightarrow> well_behaved sdk (other_of i)) \<and> others_well_behaved sdk other_of blocks"
  by (auto simp: others_well_behaved_def)

lemma verify_loop_guar:
  "others_well_behaved sdk (\<lambda>(client, recv_client, other, free). other) blocks \<Longrightarrow>
   relayer_guar sdk (verify_loop sdk blocks vars)"
proof (induction sdk blocks vars rule: verify_loop.induct)
  case (3 sdk client recv_client other lock_free blocks vars)
  then have "relayer_guar sdk (verify_loop sdk blocks vars')" for vars'
    by (simp add: others_well_behaved_Cons)
  moreover from 3 have "well_behaved sdk other"
    by (simp add: others_well_behaved_Cons)
  ultimately show ?case
    by (simp add: relayer_machine.guar_and_then verify_block_guar)
qed (auto intro: relayer_machine.guar_reads_only)

section \<open>The relayer's code, interleaved\<close>

text \<open>
  What the relayer can do to its state: nothing, one thing after another, or the body of one of its three tasks
  for some block, with any answers of the nodes, any locks taken, and again the relayer's code in each of the gaps
  before a lock. The task that submits is the only one of its kind, and the writes of the collecting tasks depend on the
  answers of the nodes alone, except for the last write of \<open>collect_para_block\<close>: so a collecting body of which only a part runs in
  a gap is the body with the other locks taken, or that last write, after a test made in an earlier gap (\<open>late_write\<close>, here with
  any entry).
\<close>

inductive relayer_code :: "('mp, 'dg) sdk \<Rightarrow> ('mp relayer \<Rightarrow> 'mp relayer) \<Rightarrow> bool" for sdk where
  idle: "relayer_code sdk (\<lambda>s. s)"
| in_turn: "relayer_code sdk f \<Longrightarrow> relayer_code sdk g \<Longrightarrow> relayer_code sdk (\<lambda>s. g (f s))"
| relay_block: "(\<And>k. relayer_code sdk (other k)) \<Longrightarrow>
    relayer_code sdk (\<lambda>s. snd (collect_relay_block sdk client other lock_free block s))"
| para_block: "(\<And>k. relayer_code sdk (other k)) \<Longrightarrow>
    relayer_code sdk (\<lambda>s. snd (collect_para_block client other lock_free block s))"
| best_block: "(\<And>k. relayer_code sdk (other k)) \<Longrightarrow>
    relayer_code sdk (\<lambda>s. snd (verify_block sdk client recv_client other lock_free vars s))"
| late_write: "relayer_code sdk (\<lambda>s. s\<lparr>msg_root_channel_merkle_map :=
    bt_insert root c (msg_root_channel_merkle_map s)\<rparr>)"

text \<open>The guarantees of the bodies close the induction: in the gaps of a body runs code that guarantees the steps already.\<close>

lemma relayer_code_steps:
  "relayer_code sdk f \<Longrightarrow> relayer_inv sdk s \<Longrightarrow> (relayer_step sdk)\<^sup>*\<^sup>* s (f s)"
proof (induction f arbitrary: s rule: relayer_code.induct)
  case (in_turn f g)
  have "(relayer_step sdk)\<^sup>*\<^sup>* s (f s)" using in_turn by blast
  moreover from this have "relayer_inv sdk (f s)"
    using in_turn.prems by (rule relayer_machine.steps_invariant)
  then have "(relayer_step sdk)\<^sup>*\<^sup>* (f s) (g (f s))" by (rule in_turn.IH(2))
  ultimately show ?case by simp
next
  case (relay_block other client lock_free block)
  then have "well_behaved sdk other" by (simp add: well_behaved_def)
  from guaranteesD [OF collect_relay_block_guar [OF this] relay_block.prems] show ?case .
next
  case (para_block other client lock_free block)
  then have "well_behaved sdk other" by (simp add: well_behaved_def)
  from guaranteesD [OF collect_para_block_guar [OF this] para_block.prems] show ?case .
next
  case (best_block other client recv_client lock_free vars)
  then have "well_behaved sdk other" by (simp add: well_behaved_def)
  from guaranteesD [OF verify_block_guar [OF this] best_block.prems] show ?case .
qed (auto intro: relayer_step.store_msg_channel)

lemma relayer_code_inv: "relayer_code sdk f \<Longrightarrow> relayer_inv sdk s \<Longrightarrow> relayer_inv sdk (f s)"
  using relayer_code_steps relayer_machine.steps_invariant by blast

lemma relayer_code_submits_linked:
  assumes "relayer_code sdk f" and "(ep, signer, TxSubmitXcmpProof p r) \<in> set (submitted (f relayer_boot))"
  shows "stages_linked sdk (runtime_xcmp_proof p) \<and> signer = Charlie"
proof -
  have "relayer_inv sdk (f relayer_boot)"
    by (rule relayer_code_inv [OF assms(1)], rule relayer_machine.start_invariant) simp
  with assms(2) show ?thesis by (fastforce simp: relayer_inv_def list_all_iff)
qed

section \<open>Evaluation of the other tasks\<close>

lemma block_loop_stops:
  "fst (block_loop body blocks s) \<noteq> Ok () \<Longrightarrow> block_loop body (blocks @ rest) s = block_loop body blocks s"
  by (induction body blocks arbitrary: s rule: block_loop.induct)
     (auto simp: action_simps and_then_def split: prod.splits outcome.splits)

lemma block_loop_append:
  "fst (block_loop body blocks s) = Ok () \<Longrightarrow>
   block_loop body (blocks @ rest) s = block_loop body rest (snd (block_loop body blocks s))"
  by (induction body blocks arbitrary: s rule: block_loop.induct)
     (auto simp: action_simps and_then_def split: prod.splits outcome.splits)

lemma unat_of_nat_u64: "n < 2 ^ 64 \<Longrightarrow> unat (of_nat n :: u64) = n"
  by (simp add: unsigned_of_nat take_bit_nat_eq_self)

lemma fold_plus_u64:
  "fold (\<lambda>difference sum. sum + difference) vec (acc :: u64) = acc + of_nat (sum_list (map unat vec))"
  by (induction vec arbitrary: acc) (simp_all add: add.assoc)

lemma length_le_sum_bound: "length vec < 2 ^ 64 \<Longrightarrow> vec \<noteq> [] \<Longrightarrow> (of_nat (length vec) :: u64) \<noteq> 0"
  using unat_of_nat_u64 [of "length vec"] by (metis length_0_conv unat_0)

lemma do_mean_run:
  assumes "vec \<noteq> []" and "length vec < 2 ^ 64" and "sum_list (map unat vec) < 2 ^ 64"
  shows "\<exists>mean. do_mean vec s = (Ok mean, s) \<and> unat mean = sum_list (map unat vec) div length vec"
  using assms length_le_sum_bound [OF assms(2,1)]
  by (simp add: do_mean_def Let_def fold_plus_u64 action_simps unat_div unat_of_nat_u64)

lemma do_mean_Ok: "vec \<noteq> [] \<Longrightarrow> length vec < 2 ^ 64 \<Longrightarrow> \<exists>mean. do_mean vec s = (Ok mean, s)"
  using length_le_sum_bound [of vec] by (simp add: do_mean_def Let_def action_simps)

text \<open>The four rounds of the retry loop, and what they amount to.\<close>

lemma retry_loop_rounds:
  "retry_loop answer 0 0 =
     (case answer 0 of RpcOk (Some p) \<Rightarrow> (Ok p, 1) | RpcOk None \<Rightarrow> (Err ProofWasNone, 1) | RpcErr \<Rightarrow>
      case answer 1 of RpcOk (Some p) \<Rightarrow> (Ok p, 2) | RpcOk None \<Rightarrow> (Err ProofWasNone, 2) | RpcErr \<Rightarrow>
      case answer 2 of RpcOk (Some p) \<Rightarrow> (Ok p, 3) | RpcOk None \<Rightarrow> (Err ProofWasNone, 3) | RpcErr \<Rightarrow>
      case answer 3 of RpcOk (Some p) \<Rightarrow> (Ok p, 4) | RpcOk None \<Rightarrow> (Err ProofWasNone, 4) | RpcErr \<Rightarrow>
      (Err RpcError, 4))"
proof -
  have less: "(0 :: u32) < 3" "(1 :: u32) < 3" "(2 :: u32) < 3" "\<not> (3 :: u32) < 3" by simp_all
  show ?thesis
    by (auto simp: retry_loop.simps [of _ 0] retry_loop.simps [of _ 1] retry_loop.simps [of _ 2]
          retry_loop.simps [of _ 3] MAX_ATTEMPTS_def less
          numeral_2_eq_2 [symmetric] split: rpc.split option.split)
qed

lemma all_less_4: "(\<forall>i < (3 :: nat). P i) \<longleftrightarrow> P 0 \<and> P 1 \<and> P 2"
  by (simp add: less_Suc_eq numeral_3_eq_3 numeral_2_eq_2) blast

lemma retry_loop_spec:
  assumes "retry_loop answer 0 0 = (r, requests)"
  shows "1 \<le> requests \<and> requests \<le> 4 \<and> (\<forall>i < requests - 1. answer i = RpcErr) \<and>
    (case answer (requests - 1) of
       RpcOk (Some proof) \<Rightarrow> r = Ok proof
     | RpcOk None \<Rightarrow> r = Err ProofWasNone
     | RpcErr \<Rightarrow> requests = 4 \<and> r = Err RpcError)"
  using assms unfolding retry_loop_rounds
  by (auto split: rpc.splits option.splits simp: all_less_4 less_2_cases_iff)

text \<open>The benchmark's variables after \<open>n\<close> answered blocks.\<close>

definition benchmark_after :: "nat \<Rightarrow> mmr_benchmark \<Rightarrow> bool" where
  "benchmark_after n b \<longleftrightarrow>
     mmr_blocks_to_query b = 1 # map of_nat [1..<Suc n] \<and> length (means b) = n \<and>
     length (proof_sizes b) = n \<and> mmr_blocks_benchmark_counter b = of_nat (Suc n)"

lemma log_mmr_proof_block_after:
  assumes "\<And>params. mmr_generate_proof_rpc client params = RpcOk (Some (answer params))"
    and "benchmark_after n b" and "Suc n < 2 ^ 64"
  shows "\<exists>b'. log_mmr_proof_block client b = (Ok (), b') \<and> benchmark_after (Suc n) b'"
proof -
  let ?size = "of_nat (length (lp_proof (answer \<lparr>mp_blocks = mmr_blocks_to_query b, mp_best_known = None,
      mp_at = None, mp_mmr_id = Some 0\<rparr>))) :: u64"
  have sizes: "length (proof_sizes b @ [?size]) < 2 ^ 64"
    using assms(2,3) by (simp add: benchmark_after_def)
  define b1 where "b1 = b\<lparr>mmr_blocks_to_query := mmr_blocks_to_query b @ [mmr_blocks_benchmark_counter b],
      mmr_blocks_benchmark_counter := mmr_blocks_benchmark_counter b + 1, proof_sizes := proof_sizes b @ [?size]\<rparr>"
  obtain mean where "do_mean (proof_sizes b @ [?size]) b1 = (Ok mean :: (relayer_error, u64) outcome, b1)"
    using do_mean_Ok [OF _ sizes, of b1] by auto
  then have "log_mmr_proof_block client b = (Ok (), b1\<lparr>means := means b @ [mean]\<rparr>)"
    by (simp add: log_mmr_proof_block_def assms(1) rpc_try_def action_eval Let_def b1_def)
       (simp add: and_then_def modify_def)
  moreover have "benchmark_after (Suc n) (b1\<lparr>means := means b @ [mean]\<rparr>)"
    using assms(2) by (simp add: benchmark_after_def b1_def)
  ultimately show ?thesis by blast
qed

lemma log_all_mmr_proofs_after:
  assumes "\<And>params. mmr_generate_proof_rpc client params = RpcOk (Some (answer params))" and "n < 2 ^ 64"
  shows "fst (log_all_mmr_proofs (replicate n (RpcOk client)) mmr_benchmark_start) = Ok () \<and>
    benchmark_after n (snd (log_all_mmr_proofs (replicate n (RpcOk client)) mmr_benchmark_start))"
  using assms(2)
proof (induction n)
  case 0
  show ?case
    by (simp add: log_all_mmr_proofs_def mmr_benchmark_start_def benchmark_after_def action_simps)
next
  case (Suc n)
  then have IH: "fst (block_loop log_mmr_proof_block (replicate n (RpcOk client)) mmr_benchmark_start) = Ok ()"
    "benchmark_after n (snd (block_loop log_mmr_proof_block (replicate n (RpcOk client)) mmr_benchmark_start))"
    by (simp_all add: log_all_mmr_proofs_def)
  have "replicate (Suc n) (RpcOk client) = replicate n (RpcOk client) @ [RpcOk client]"
    by (simp add: replicate_append_same)
  with IH log_mmr_proof_block_after [OF assms(1) IH(2) Suc.prems] show ?case
    by (auto simp: log_all_mmr_proofs_def block_loop_append and_then_def action_simps
        simp del: replicate_Suc)
qed

lemma get_proof_and_verify_start_any:
  "get_proof_and_verify_start client s = (fst (get_proof_and_verify_start client t), s)"
  by (simp add: get_proof_and_verify_start_def generate_mmr_root_def generate_mmr_proof_def Let_def
        action_eval split: rpc.split)

text \<open>Which extrinsics an action hands to which node, at most and in which order.\<close>

definition sends :: "string \<Rightarrow> dev_signer list \<Rightarrow> ('mp, 'a) relayer_action \<Rightarrow> bool" where
  "sends ep signers m \<longleftrightarrow>
     (\<forall>s. \<exists>new. submitted (snd (m s)) = submitted s @ new \<and>
        subseq (map (\<lambda>e. fst (snd e)) new) signers \<and> list_all (\<lambda>e. fst e = ep) new)"

lemma sends_reads_only: "reads_only m \<Longrightarrow> sends ep [] m"
  by (simp add: sends_def reads_onlyD)

lemma sends_ret: "sends ep [] (ret a)"
  by (intro sends_reads_only reads_only_basic)

lemma sends_refresh: "sends ep [] (and_then (generate_mmr_root client cid h) (\<lambda>root.
    and_then (generate_mmr_proof client n cid h) (\<lambda>proof. ret (root, proof))))"
  by (intro sends_reads_only reads_only_and_then reads_only_requests reads_only_basic)

lemma sends_attempt: "sends ep xs m \<Longrightarrow> sends ep xs (attempt m)"
  by (simp add: sends_def)

lemma sends_bind:
  assumes "sends ep xs m" and "\<And>a. sends ep ys (f a)"
  shows "sends ep (xs @ ys) (and_then m f)"
  unfolding sends_def
proof
  fix s
  obtain r t where rt: "m s = (r, t)" by fastforce
  from assms(1) rt obtain new where new: "submitted t = submitted s @ new"
      "subseq (map (\<lambda>e. fst (snd e)) new) xs" "list_all (\<lambda>e. fst e = ep) new"
    unfolding sends_def by (metis snd_conv)
  show "\<exists>new. submitted (snd (and_then m f s)) = submitted s @ new \<and>
      subseq (map (\<lambda>e. fst (snd e)) new) (xs @ ys) \<and> list_all (\<lambda>e. fst e = ep) new"
  proof (cases r)
    case (Ok a)
    from assms(2) [of a] obtain new' where "submitted (snd (f a t)) = submitted t @ new'"
      "subseq (map (\<lambda>e. fst (snd e)) new') ys" "list_all (\<lambda>e. fst e = ep) new'"
      unfolding sends_def by blast
    with new Ok rt show ?thesis
      by (intro exI [of _ "new @ new'"]) (simp add: and_then_def list_emb_append_mono)
  qed (use new rt in \<open>auto simp: and_then_def intro: list_emb_prefix\<close>)
qed

lemma sends_submit_tx: "sends (endpoint client) [signer] (submit_tx client signer tx)"
  by (auto simp: sends_def submit_tx_eval split: rpc.split)

lemma sends_extrinsics:
  "sends (endpoint client) [Alice] (update_root_tx client root)"
  "sends (endpoint client) [Bob] (submit_proof_tx sdk client proof)"
proof -
  show "sends (endpoint client) [Alice] (update_root_tx client root)"
    by (simp add: update_root_tx_def sends_submit_tx)
  have "sends (endpoint client) ([] @ [] @ [Bob]) (submit_proof_tx sdk client proof)"
    unfolding submit_proof_tx_def
    by (intro sends_bind sends_submit_tx sends_reads_only reads_only_basic)
  then show "sends (endpoint client) [Bob] (submit_proof_tx sdk client proof)" by simp
qed

lemma sends_generate: "sends (endpoint client) [Charlie] (quiet_generate sdk client recv_client)"
proof -
  have "\<exists>new. submitted (snd (quiet_generate sdk client recv_client s)) = submitted s @ new \<and>
      subseq (map (\<lambda>e. fst (snd e)) new) [Charlie] \<and> list_all (\<lambda>e. fst e = endpoint client) new" for s
  proof (cases "pick_proof sdk s")
    case None
    then show ?thesis using quiet_generate_None [of sdk s client recv_client] by auto
  next
    case (Some picked)
    then show ?thesis
      using quiet_generate_Some [of sdk s "fst picked" "fst (snd picked)" "snd (snd picked)" client _ recv_client]
      by (cases "blocks_at_latest client")
         (auto simp: Let_def submit_tx_eval quiet_generate_def generate_xcmp_proof_def and_then_rpc_try_eval
            split: rpc.split)
  qed
  then show ?thesis by (simp add: sends_def)
qed

text \<open>
  Which blocks a collecting task gets past: those about which the node answers every request, with leaves and a header that decode
  and a channel root that is not zero. Neither the locks nor the other tasks matter.
\<close>

lemma or_zero_extract_eval:
  "or_zero (relayer_extract_xcmp_channel_root sdk leaf) s =
     (Ok (case para_channel_root sdk (runtime_para_leaf leaf) of None \<Rightarrow> 0 | Some r \<Rightarrow> r), s)"
  by (auto simp: or_zero_def relayer_extract_run para_channel_root_def runtime_para_leaf_def split: option.split)

lemma goes_on_iff:
  "fst (and_then (ok_or x e) f s) = Ok b \<longleftrightarrow> (\<exists>a. x = Some a \<and> fst (f a s) = Ok b)"
  "fst (and_then (rpc_try r e) f s) = Ok b \<longleftrightarrow> (\<exists>a. r = RpcOk a \<and> fst (f a s) = Ok b)"
  "fst (and_then (ensure c e) g s) = Ok b \<longleftrightarrow> c \<and> fst (g () s) = Ok b"
  "fst (and_then (vec_index xs 0) h s) = Ok b \<longleftrightarrow> (\<exists>y ys. xs = y # ys \<and> fst (h y s) = Ok b)"
  "fst (and_then (modify m) g s) = fst (g () (m s))"
  "fst (and_then (locked_write free m) g s) = fst (g () (if free then m s else s))"
  "fst (locked_write free m s) = Ok u"
  "fst (and_then (gets q) k s) = fst (k (q s) s)"
  by (auto simp: action_eval locked_write_def vec_index_def and_then_rpc_try_eval split: rpc.split) (cases xs; simp add: action_simps)+

lemma rpc_or_none_Some_iff: "rpc_or_none r = Some a \<longleftrightarrow> r = RpcOk (Some a)"
  by (cases r) (simp_all add: rpc_or_none_def)

lemma or_default_proof_goes_on_iff:
  "fst (and_then (or_default (generate_mmr_proof client n (Some cid) at_hash)) f s) = Ok b \<longleftrightarrow>
   (\<exists>proof. mmr_generate_proof_rpc client \<lparr>mp_blocks = [n], mp_best_known = None, mp_at = at_hash, mp_mmr_id = Some cid\<rparr> =
      RpcOk (Some proof) \<and> fst (f proof s) = Ok b)"
  by (auto simp: generate_mmr_proof_def ok_or_def or_default_def and_then_def ret_def fail_def rpc_or_none_def Let_def split: option.split rpc.split)

lemma channel_root_goes_on_iff:
  "fst (and_then (or_zero (relayer_extract_xcmp_channel_root sdk leaf)) (\<lambda>r. and_then (ensure (\<not> r = 0) e) (f r)) s) = Ok b \<longleftrightarrow>
   (\<exists>r. r \<noteq> 0 \<and> para_channel_root sdk (runtime_para_leaf leaf) = Some r \<and> fst (f r () s) = Ok b)"
proof -
  have "and_then (or_zero (relayer_extract_xcmp_channel_root sdk leaf)) (\<lambda>r. and_then (ensure (\<not> r = 0) e) (f r)) s =
      (let r = (case para_channel_root sdk (runtime_para_leaf leaf) of None \<Rightarrow> 0 | Some r \<Rightarrow> r)
       in and_then (ensure (\<not> r = 0) e) (f r) s)"
    by (simp add: and_then_def [of "or_zero _"] or_zero_extract_eval Let_def)
  then show ?thesis
    by (simp add: Let_def goes_on_iff split: option.split)
qed

lemma collect_relay_block_Ok_iff:
  "fst (collect_relay_block sdk client other free block s) = Ok () \<longleftrightarrow>
   (\<exists>beefy_root proof heads_root hdr channels_root.
      relay_answers sdk client block beefy_root proof heads_root hdr channels_root)"
  by (simp add: collect_relay_block_def goes_on_iff or_default_proof_goes_on_iff channel_root_goes_on_iff Let_def
       rpc_or_none_Some_iff relay_answers_def beefy_entry_ok_def header_entry_ok_def RECEIVER_CHANNEL_ID_def) blast

lemma collect_para_block_Ok_iff:
  "fst (collect_para_block client other free block s) = Ok () \<longleftrightarrow>
   (\<exists>msg_root proof channel. para_answers client block msg_root proof channel)"
proof -
  have branch: "fst (and_then (gets q) (\<lambda>c. if \<not> c then ret () else and_then (modify g) (\<lambda>_. locked_write b h)) t) = (Ok () :: (relayer_error, unit) outcome)"
    for q g b h and t :: "'a relayer"
    by (simp add: goes_on_iff action_run)
  show ?thesis
    by (simp add: collect_para_block_def goes_on_iff(1-7) branch generate_mmr_root_def generate_mmr_proof_def and_then_assoc_eval Let_def
       rpc_or_none_Some_iff para_answers_def RECEIVER_CHANNEL_ID_def) auto
qed

fun relay_block_answered ::
  "('mp, 'dg) sdk \<Rightarrow> ('mp client \<times> (nat \<Rightarrow> 'mp relayer \<Rightarrow> 'mp relayer) \<times> (nat \<Rightarrow> bool) \<times> best_block) rpc \<Rightarrow> bool" where
  "relay_block_answered sdk RpcErr = False"
| "relay_block_answered sdk (RpcOk (client, other, lock_free, block)) =
     (\<exists>beefy_root proof heads_root hdr channels_root.
        relay_answers sdk client block beefy_root proof heads_root hdr channels_root)"

fun para_block_answered ::
  "('mp client \<times> (nat \<Rightarrow> 'mp relayer \<Rightarrow> 'mp relayer) \<times> (nat \<Rightarrow> bool) \<times> best_block) rpc \<Rightarrow> bool" where
  "para_block_answered RpcErr = False"
| "para_block_answered (RpcOk (client, other, lock_free, block)) =
     (\<exists>msg_root proof channel. para_answers client block msg_root proof channel)"

lemma block_loop_Ok_iff:
  assumes "\<And>i s. fst (body i s) = Ok () \<longleftrightarrow> answered (RpcOk i)" and "\<not> answered RpcErr"
  shows "fst (block_loop body blocks s) = Ok () \<longleftrightarrow> list_all answered blocks"
  using assms
proof (induction body blocks arbitrary: s rule: block_loop.induct)
  case (3 body block blocks)
  obtain r t where rt: "body block s = (r, t)" by fastforce
  with 3 show ?case
    using 3(2) [of block s] by (cases r) (simp_all add: and_then_def)
qed (simp_all add: action_simps)

lemma collect_relay_data_Ok_iff:
  "fst (collect_relay_data sdk blocks s) = Ok () \<longleftrightarrow> list_all (relay_block_answered sdk) blocks"
  unfolding collect_relay_data_def
  by (rule block_loop_Ok_iff) (auto simp: collect_relay_block_Ok_iff split: prod.split)

lemma collect_para_data_Ok_iff:
  "fst (collect_para_data blocks s) = Ok () \<longleftrightarrow> list_all para_block_answered blocks"
  unfolding collect_para_data_def
  by (rule block_loop_Ok_iff) (auto simp: collect_para_block_Ok_iff split: prod.split)

text \<open>A run of the relayer: a parachain block, a relay block, and a best block of the verifying task.\<close>

definition example_relayer_run :: "h256 relayer \<Rightarrow> h256 relayer" where
  "example_relayer_run = (\<lambda>s.
     snd (verify_block example_sdk example_client example_client (\<lambda>_ s. s) (\<lambda>_. True) (0, \<lparr>lp_leaves = [], lp_proof = []\<rparr>)
       (snd (collect_relay_block example_sdk example_client (\<lambda>_ s. s) (\<lambda>_. True) \<lparr>block_number = 4, block_hash = 100\<rparr>
         (snd (collect_para_block example_client (\<lambda>_ s. s) (\<lambda>_. True) \<lparr>block_number = 3, block_hash = 101\<rparr> s))))))"

lemma example_relayer_run_code: "relayer_code example_sdk example_relayer_run"
proof -
  let ?para = "\<lambda>s. snd (collect_para_block example_client (\<lambda>_ s. s) (\<lambda>_. True) \<lparr>block_number = 3, block_hash = 101\<rparr> s)"
  let ?relay = "\<lambda>s. snd (collect_relay_block example_sdk example_client (\<lambda>_ s. s) (\<lambda>_. True) \<lparr>block_number = 4, block_hash = 100\<rparr> s)"
  have "relayer_code example_sdk ?para" "relayer_code example_sdk ?relay"
    by (rule relayer_code.para_block relayer_code.relay_block, rule relayer_code.idle)+
  from relayer_code.in_turn [OF this] show ?thesis
    unfolding example_relayer_run_def
    by (rule relayer_code.in_turn) (rule relayer_code.best_block, rule relayer_code.idle)
qed

lemma pick_proof_submitted: "pick_proof sdk (s\<lparr>submitted := txs\<rparr>) = pick_proof sdk s"
  by (simp add: pick_proof_def)

lemma example_relayer_run_submits:
  "(DEFAULT_ENDPOINT_PARA_SENDER, Charlie, TxSubmitXcmpProof example_assembled 7) \<in>
     set (submitted (example_relayer_run relayer_boot))"
proof -
  have client: "blocks_at_latest example_client = RpcOk 101" "runtime_api_at_latest example_client = RpcOk ()"
      "endpoint example_client = DEFAULT_ENDPOINT_PARA_SENDER" "storage_at_latest example_client = RpcOk ()"
      "fetch_xcmp_channel_root example_client 0 = RpcOk (Some 9)"
      "\<And>signer tx. sign_and_submit example_client signer tx = RpcOk ()"
    by (simp_all add: example_client_def)
  define s where "s = example_relayer\<lparr>submitted := submitted example_relayer @ [(DEFAULT_ENDPOINT_PARA_SENDER, Alice, TxUpdateRoot 0 0)]\<rparr>"
  have "pick_proof example_sdk s = Some (9, example_assembled, 7)"
    by (simp add: s_def pick_proof_submitted example_relayer_picks)
  note generate = quiet_generate_Some [OF this client(1), of example_client]
  have "update_root_tx example_client 0 example_relayer = (Ok (), s)"
    by (simp add: update_root_tx_def submit_tx_eval client s_def)
  then show ?thesis
    unfolding example_relayer_run_def example_relayer_def [symmetric]
    by (simp add: verify_block_def and_then_rpc_try_eval client quiet_generate_def [symmetric])
       (simp add: and_then_def attempt_def generate client Let_def submit_tx_eval ret_def)
qed

section \<open>Properties of the tasks\<close>

text \<open>
  Claim C10: each of the three tasks that touch the shared maps, run on any subscription to its end or to
  its first error, does nothing but relayer steps, provided the other tasks do the same in
  between. So the invariant holds whatever the interleaving.
\<close>

theorem relayer_tasks_only_take_steps:
  assumes "relayer_inv sdk s"
    and "others_well_behaved sdk (\<lambda>(client, other, free, block). other) relay_blocks"
    and "others_well_behaved sdk (\<lambda>(client, other, free, block). other) para_blocks"
    and "others_well_behaved sdk (\<lambda>(client, recv_client, other, free). other) verify_blocks"
  shows "(relayer_step sdk)\<^sup>*\<^sup>* s (snd (collect_relay_data sdk relay_blocks s)) \<and>
         (relayer_step sdk)\<^sup>*\<^sup>* s (snd (collect_para_data para_blocks s)) \<and>
         (relayer_step sdk)\<^sup>*\<^sup>* s (snd (get_proof_and_verify sdk client verify_blocks s))"
proof (intro conjI)
  have "relayer_guar sdk (collect_relay_data sdk relay_blocks)"
    unfolding collect_relay_data_def using assms(2)
    by (auto simp: others_well_behaved_def intro!: block_loop_guar collect_relay_block_guar)
  with assms(1) show "(relayer_step sdk)\<^sup>*\<^sup>* s (snd (collect_relay_data sdk relay_blocks s))"
    by (simp add: guarantees_def)
  have "relayer_guar sdk (collect_para_data para_blocks)"
    unfolding collect_para_data_def using assms(3)
    by (auto simp: others_well_behaved_def intro!: block_loop_guar collect_para_block_guar)
  with assms(1) show "(relayer_step sdk)\<^sup>*\<^sup>* s (snd (collect_para_data para_blocks s))"
    by (simp add: guarantees_def)
  have "relayer_guar sdk (get_proof_and_verify sdk client verify_blocks)"
    unfolding get_proof_and_verify_def
    by (intro relayer_machine.guar_bind_reads_only reads_only_start guar_bind_attempt
          verify_loop_guar assms(4) guar_ret)
  with assms(1) show "(relayer_step sdk)\<^sup>*\<^sup>* s (snd (get_proof_and_verify sdk client verify_blocks s))"
    by (simp add: guarantees_def)
qed

theorem relayer_tasks_only_take_steps_witness:
  "(relayer_step example_sdk)\<^sup>*\<^sup>* relayer_boot (snd (collect_relay_data example_sdk
     [RpcOk (example_client,
        (\<lambda>k s. snd (collect_para_block example_client (\<lambda>_ s. s) (\<lambda>_. True) \<lparr>block_number = 3, block_hash = 101\<rparr> s)),
        (\<lambda>_. True), \<lparr>block_number = 4, block_hash = 100\<rparr>)] relayer_boot))"
proof -
  have "well_behaved example_sdk (\<lambda>k s. snd (collect_para_block example_client (\<lambda>_ s. s) (\<lambda>_. True)
      \<lparr>block_number = 3, block_hash = 101\<rparr> s))"
    using collect_para_block_guar [OF well_behaved_idle] by (simp add: well_behaved_def guarantees_def)
  moreover have "relayer_inv example_sdk relayer_boot"
    by (rule relayer_machine.start_invariant) simp
  ultimately show ?thesis
    using relayer_tasks_only_take_steps [where sdk = example_sdk and s = relayer_boot and para_blocks = "[]"
        and verify_blocks = "[]" and relay_blocks = "[RpcOk (example_client,
        (\<lambda>k s. snd (collect_para_block example_client (\<lambda>_ s. s) (\<lambda>_. True) \<lparr>block_number = 3, block_hash = 101\<rparr> s)),
        (\<lambda>_. True), \<lparr>block_number = 4, block_hash = 100\<rparr>)]"]
    by (simp add: others_well_behaved_def)
qed

text \<open>
  Claim C26: which blocks end a collecting task. It gets through a subscription exactly when no item is an error and each block is
  fully answered: for a relay block the BEEFY root, the header, a proof whose leaves decode with a first leaf that decodes, and
  a heads proof whose header carries a channel root other than zero; for a parachain block the root, the proof and the channel proof.
  A lock that is taken and a channel leaf that is not known do not end it, nor does anything the other tasks do. The first block
  that is not fully answered ends the task for good: what follows has no effect.
\<close>

theorem collecting_stops_at_first_unanswered_block:
  "(fst (collect_relay_data sdk blocks s) = Ok () \<longleftrightarrow> list_all (relay_block_answered sdk) blocks) \<and>
   (fst (collect_para_data blocks s) = Ok () \<longleftrightarrow> list_all para_block_answered blocks) \<and>
   (\<not> relay_block_answered sdk b \<longrightarrow>
      collect_relay_data sdk (blocks @ b # rest) s = collect_relay_data sdk (blocks @ [b]) s) \<and>
   (\<not> para_block_answered b \<longrightarrow>
      collect_para_data (blocks @ b # rest) s = collect_para_data (blocks @ [b]) s)"
proof -
  have "collect_relay_data sdk (blocks @ b # rest) s = collect_relay_data sdk (blocks @ [b]) s"
    if "\<not> relay_block_answered sdk b"
    using that collect_relay_data_Ok_iff [of sdk "blocks @ [b]" s]
      block_loop_stops [of _ "blocks @ [b]" s rest] by (simp add: collect_relay_data_def)
  moreover have "collect_para_data (blocks @ b # rest) s = collect_para_data (blocks @ [b]) s"
    if "\<not> para_block_answered b"
    using that collect_para_data_Ok_iff [of "blocks @ [b]" s]
      block_loop_stops [of _ "blocks @ [b]" s rest] by (simp add: collect_para_data_def)
  ultimately show ?thesis by (simp add: collect_relay_data_Ok_iff collect_para_data_Ok_iff)
qed

text \<open>A relay node that has no header to give: the block after it is never looked at.\<close>

theorem collecting_stops_at_first_unanswered_block_witness:
  "let silent = RpcOk (example_client\<lparr>chain_get_header_rpc := RpcOk None\<rparr>, (\<lambda>_ s. s), (\<lambda>_. True), \<lparr>block_number = 3, block_hash = 99\<rparr>);
       good = RpcOk (example_client, (\<lambda>_ s. s), (\<lambda>_. False), \<lparr>block_number = 4, block_hash = 100\<rparr>)
   in fst (collect_relay_data example_sdk [good] relayer_boot) = Ok () \<and>
      fst (collect_relay_data example_sdk [good, silent] relayer_boot) \<noteq> Ok () \<and>
      collect_relay_data example_sdk [silent, good] relayer_boot = collect_relay_data example_sdk [silent] relayer_boot"
proof -
  let ?silent = "RpcOk (example_client\<lparr>chain_get_header_rpc := RpcOk None\<rparr>, (\<lambda>_ s. s), (\<lambda>_. True), \<lparr>block_number = 3, block_hash = 99\<rparr>)"
  let ?good = "RpcOk (example_client, (\<lambda>_ s. s), (\<lambda>_. False), \<lparr>block_number = 4, block_hash = 100\<rparr>)"
  have silent: "\<not> relay_block_answered example_sdk ?silent" by (simp add: relay_answers_def)
  have good: "relay_block_answered example_sdk ?good"
    unfolding relay_block_answered.simps using example_relay_answers by blast
  note stops = collecting_stops_at_first_unanswered_block [where sdk = example_sdk and s = relayer_boot]
  have "fst (collect_relay_data example_sdk [?good] relayer_boot) = Ok ()"
    using stops [THEN conjunct1, of "[?good]"] good by (simp only: list.pred_inject simp_thms)
  moreover have "fst (collect_relay_data example_sdk [?good, ?silent] relayer_boot) \<noteq> Ok ()"
    using stops [THEN conjunct1, of "[?good, ?silent]"] silent by (simp only: list.pred_inject simp_thms)
  moreover have "collect_relay_data example_sdk [?silent, ?good] relayer_boot =
      collect_relay_data example_sdk [?silent] relayer_boot"
    using stops [THEN conjunct2, THEN conjunct2, THEN conjunct1, THEN mp, of ?silent "[]" "[?good]"] silent
    by (simp only: append.simps simp_thms)
  ultimately show ?thesis unfolding Let_def by blast
qed

text \<open>
  Claim C27: the retrying request makes at least one and at most four requests; all but the last failed;
  an answer ends the loop at once, a missing proof is an error, and after four failures the
  failure is returned.
\<close>

theorem try_generate_mmr_proof_at_most_four_requests:
  fixes answer :: "mmr_proof_params \<Rightarrow> nat \<Rightarrow> leaves_proof option rpc"
  assumes "try_generate_mmr_proof answer n cid = (r, requests)"
  shows "\<exists>params. mp_blocks params = [n] \<and> mp_mmr_id params = cid \<and>
    1 \<le> requests \<and> requests \<le> 4 \<and> (\<forall>i < requests - 1. answer params i = RpcErr) \<and>
    (case answer params (requests - 1) of
       RpcOk (Some proof) \<Rightarrow> r = Ok proof
     | RpcOk None \<Rightarrow> r = Err ProofWasNone
     | RpcErr \<Rightarrow> requests = 4 \<and> r = Err RpcError)"
proof -
  let ?params = "\<lparr>mp_blocks = [n], mp_best_known = None, mp_at = None, mp_mmr_id = cid\<rparr>"
  have "retry_loop (answer ?params) 0 0 = (r, requests)"
    using assms by (cases cid) (simp_all add: try_generate_mmr_proof_def)
  then have "1 \<le> requests \<and> requests \<le> 4 \<and> (\<forall>i < requests - 1. answer ?params i = RpcErr) \<and>
    (case answer ?params (requests - 1) of
       RpcOk (Some proof) \<Rightarrow> r = Ok proof
     | RpcOk None \<Rightarrow> r = Err ProofWasNone
     | RpcErr \<Rightarrow> requests = 4 \<and> r = Err RpcError)"
    by (rule retry_loop_spec)
  then show ?thesis by (intro exI [of _ ?params]) simp
qed

theorem try_generate_mmr_proof_at_most_four_requests_witness:
  "try_generate_mmr_proof (\<lambda>_ i. if i < 2 then RpcErr else RpcOk (Some \<lparr>lp_leaves = [5], lp_proof = [9]\<rparr>)) 1 (Some 0) =
     (Ok \<lparr>lp_leaves = [5], lp_proof = [9]\<rparr>, 3) \<and>
   (\<exists>requests. try_generate_mmr_proof (\<lambda>_ _. RpcErr) 1 None = (Err RpcError, requests) \<and> requests = 4)"
proof -
  let ?late = "\<lambda>(_ :: mmr_proof_params) (i :: nat). if i < 2 then RpcErr else RpcOk (Some \<lparr>lp_leaves = [5], lp_proof = [9]\<rparr>)"
  let ?never = "\<lambda>(_ :: mmr_proof_params) (_ :: nat). RpcErr :: leaves_proof option rpc"
  obtain r n where rn: "try_generate_mmr_proof ?late 1 (Some 0) = (r, n)" by fastforce
  obtain r' n' where rn': "try_generate_mmr_proof ?never 1 None = (r', n')" by fastforce
  from try_generate_mmr_proof_at_most_four_requests [OF rn]
  have late: "1 \<le> n" "n \<le> 4" "\<forall>i < n - 1. i < 2" "n - 1 \<ge> 2 \<longrightarrow> r = Ok \<lparr>lp_leaves = [5], lp_proof = [9]\<rparr>"
      "n - 1 < 2 \<longrightarrow> n = 4"
    by (auto split: if_splits)
  have "n \<noteq> 4" using late(3) [rule_format, of 2] by auto
  moreover from this have "\<not> n - 1 < 2" using late(5) by blast
  ultimately have "n = 3" using late(2) by linarith
  with late(4) have "(r, n) = (Ok \<lparr>lp_leaves = [5], lp_proof = [9]\<rparr>, 3)" by simp
  moreover from try_generate_mmr_proof_at_most_four_requests [OF rn'] have "(r', n') = (Err RpcError, 4)" by auto
  ultimately show ?thesis using rn rn' by metis
qed

text \<open>
  \<open>do_mean\<close> panics exactly on no values (it divides by zero) and otherwise, when there are
  fewer than \<open>2 ^ 64\<close> of them and their sum fits \<^verbatim>\<open>u64\<close>, returns the average rounded down.
\<close>

theorem do_mean_is_floor_average:
  assumes "length vec < 2 ^ 64" and "sum_list (map unat vec) < 2 ^ 64"
  shows "if vec = [] then do_mean vec s = (Panic, s)
         else \<exists>mean. do_mean vec s = (Ok mean, s) \<and> unat mean = sum_list (map unat vec) div length vec"
  using assms do_mean_run [of vec s] by (auto simp: do_mean_def action_simps)

theorem do_mean_is_floor_average_witness:
  "\<exists>mean. do_mean [3, 4, 4] () = (Ok mean, ()) \<and> unat mean = 3"
  using do_mean_is_floor_average [of "[3, 4, 4]" "()"] by simp




lemma and_then_start:
  "and_then (get_proof_and_verify_start client) f s =
     (case fst (get_proof_and_verify_start client ()) of
        Ok a \<Rightarrow> f a s | Err e \<Rightarrow> (Err e, s) | Panic \<Rightarrow> (Panic, s))"
  using get_proof_and_verify_start_any [of client s "()"] by (simp add: and_then_def split: outcome.split)

text \<open>
  What \<^verbatim>\<open>main\<close> starts: with no connection to one of the three nodes nothing is
  spawned, and the error is the one of the first client that could not be built; when the first root or
  proof of the sender cannot be had, it ends with an error
  after the collecting and MMR logging tasks were spawned; otherwise all tasks run, and the
  proofs of the verifying task go to the sender's node.
\<close>

theorem relayer_main_spawns:
  "relayer_main from_url build client_of [] =
     (case (connect_outcome from_url build client_of DEFAULT_ENDPOINT_PARA_SENDER DEFAULT_RPC_ENDPOINT_PARA_SENDER,
            connect_outcome from_url build client_of DEFAULT_ENDPOINT_PARA_RECEIVER DEFAULT_RPC_ENDPOINT_PARA_RECEIVER,
            connect_outcome from_url build client_of DEFAULT_ENDPOINT_RELAY DEFAULT_RPC_ENDPOINT_RELAY) of
        (Inr sender, Inr receiver, Inr relay) \<Rightarrow>
          (let early = [CollectRelayData (endpoint relay), CollectParaData (endpoint sender),
                        LogAllMmrRoots (endpoint sender), LogAllMmrProofs (endpoint sender)]
           in case fst (get_proof_and_verify_start sender ()) of
                Ok _ \<Rightarrow> (Ok (), early @
                  [GetProofAndVerify (endpoint sender) (endpoint relay) (endpoint receiver),
                   LogAllBlocks (endpoint sender) 0, LogAllBlocks (endpoint receiver) 1,
                   LogAllBlocks (endpoint relay) 2])
              | Err e \<Rightarrow> (Err e, early)
              | Panic \<Rightarrow> (Panic, early))
      | (Inl e, _, _) \<Rightarrow> (Err e, [])
      | (_, Inl e, _) \<Rightarrow> (Err e, [])
      | (_, _, Inl e) \<Rightarrow> (Err e, []))"
  by (simp add: relayer_main_def spawn_def and_then_MultiClient_new action_eval and_then_start Let_def
      split: sum.split outcome.split)

end
