(* ===== verification/Runtime_Xcmp.thy ===== *)
theory Runtime_Xcmp
  imports Message_Stuffer
begin

text \<open>
  The XCMP part of the runtime (\<^verbatim>\<open>src/runtime/src/lib.rs\<close>): the provider of outbound
  messages, the collector of channel roots, the generator of channel proofs, the two instances of
  the message stuffer with the two instances of \<^verbatim>\<open>pallet_mmr\<close> they feed, and the runtime
  API the relayer calls. \<^verbatim>\<open>pallet_mmr\<close> is not part of the repository: the record
  \<open>mmr_pallet\<close> holds the functions the runtime calls on it, over a type \<open>'m\<close> of MMR storage.
  Runtime arithmetic wraps, as in the release build of the WebAssembly blob.
\<close>

section \<open>Outbound messages\<close>

text \<open>
  \<open>outbound pid n\<close> is \<^verbatim>\<open>OutboundXcmpMessages::try_get(pid, n)\<close>. The loop may run
  forever, so it is a partial function whose value is \<open>None\<close> when it does.
\<close>

partial_function (option) collect_fragments ::
  "(u32 \<Rightarrow> u16 \<Rightarrow> bytes option) \<Rightarrow> u32 \<Rightarrow> u16 \<Rightarrow> bytes \<Rightarrow> bytes option" where
  "collect_fragments outbound pid counter msg_buffer =
     (case outbound pid counter of
        Some buffer \<Rightarrow> collect_fragments outbound pid (counter + 1) (msg_buffer @ buffer)
      | None \<Rightarrow> Some msg_buffer)"

definition get_xcmp_messages :: "(u32 \<Rightarrow> u16 \<Rightarrow> bytes option) \<Rightarrow> h256 \<Rightarrow> u32 \<Rightarrow> bytes option" where
  "get_xcmp_messages outbound block_hash pid = collect_fragments outbound pid 0 [1, 2, 3]"

section \<open>The MMR pallet\<close>

datatype mmr_error = GetRoot | GenerateProof | Verify | OtherMmrError

record ('m, 'mp) mmr_pallet =
  mmr_root_hash :: "'m \<Rightarrow> h256"
  mmr_root_of :: "'m \<Rightarrow> h256"
  mmr_leaves :: "'m \<Rightarrow> u64"
  mmr_push :: "'m \<Rightarrow> mmr_leaf \<Rightarrow> 'm"
  mmr_hook :: "(stuffer \<Rightarrow> (mmr_leaf \<times> stuffer) option) \<Rightarrow> (h256 \<Rightarrow> stuffer \<Rightarrow> stuffer) \<Rightarrow>
    stuffer \<times> 'm \<Rightarrow> (stuffer \<times> 'm) option"
  mmr_generate_proof :: "'m \<Rightarrow> u32 list \<Rightarrow> u32 option \<Rightarrow> mmr_error + (mmr_leaf list \<times> 'mp)"
  mmr_verify_leaves :: "'m \<Rightarrow> mmr_leaf list \<Rightarrow> 'mp \<Rightarrow> mmr_error + unit"
  opaque_from_leaf :: "mmr_leaf \<Rightarrow> encodable_opaque_leaf"
  try_decode_leaf :: "bytes \<Rightarrow> mmr_leaf option"

record 'm runtime =
  msg_stuffer_para_a :: stuffer
  msg_stuffer_para_b :: stuffer
  mmr_para_a :: 'm
  mmr_para_b :: 'm

section \<open>Channel roots and proofs\<close>

definition collect_roots :: "('mp, 'dg) sdk \<Rightarrow> ('m, 'mp) mmr_pallet \<Rightarrow> 'm runtime \<Rightarrow> h256" where
  "collect_roots sdk mmr rt =
     (let xcmp_channel_mmr_roots = [mmr_root_hash mmr (mmr_para_a rt), mmr_root_hash mmr (mmr_para_b rt)]
      in bmt_merkle_root sdk (map (\<lambda>root. h256_encode sdk root) xcmp_channel_mmr_roots))"

definition gen_merkle_proof ::
  "('mp, 'dg) sdk \<Rightarrow> ('m, 'mp) mmr_pallet \<Rightarrow> 'm runtime \<Rightarrow> u64 \<Rightarrow> channel_merkle_proof option" where
  "gen_merkle_proof sdk mmr rt channel_id =
     (let index_to_prove = 0;
          merkle_proof = bmt_merkle_proof sdk
            [mmr_root_hash mmr (mmr_para_a rt), mmr_root_hash mmr (mmr_para_b rt)] index_to_prove;
          result_proof = \<lparr>ch_root = bmt_root merkle_proof, ch_proof = bmt_proof_items merkle_proof,
            ch_num_leaves = as_u64 (bmt_number_of_leaves merkle_proof),
            ch_leaf_index = as_u64 (bmt_leaf_index merkle_proof), ch_leaf = bmt_leaf_value merkle_proof\<rparr>
      in Some result_proof)"

section \<open>Parameters\<close>

definition LeafVersion :: "u8 \<times> u8" where
  "LeafVersion = (0, 0)"

definition ParaAIdentifier :: u32 where
  "ParaAIdentifier = 1"

definition ParaBIdentifier :: u32 where
  "ParaBIdentifier = 2"

definition MaxBeefyRootsKept :: u32 where
  "MaxBeefyRootsKept = 64000"

section \<open>A block begins\<close>

text \<open>
  The hooks run in the order of \<^verbatim>\<open>construct_runtime!\<close>: the two stuffers, then the two
  MMRs. Each MMR is configured with the leaf data of its instance of the stuffer and with
  \<^verbatim>\<open>OnNewRootSatisfier\<close>; its hook is \<open>mmr_hook\<close>, whose first two arguments these are.
  \<open>get_root\<close> is what \<^verbatim>\<open>ParachainSystem\<close> knows of the BEEFY root, the same for
  both instances.
\<close>

definition mmr_on_initialize ::
  "('mp, 'dg) sdk \<Rightarrow> ('m, 'mp) mmr_pallet \<Rightarrow> (u32 \<Rightarrow> u16 \<Rightarrow> bytes option) \<Rightarrow> u32 \<Rightarrow> u32 \<times> h256 \<Rightarrow>
   stuffer \<times> 'm \<Rightarrow> (stuffer \<times> 'm) option" where
  "mmr_on_initialize sdk mmr outbound para_identifier parent sm =
     mmr_hook mmr (leaf_data sdk (get_xcmp_messages outbound) para_identifier LeafVersion parent) on_new_root sm"

definition initialize_block ::
  "('mp, 'dg) sdk \<Rightarrow> ('m, 'mp) mmr_pallet \<Rightarrow> (u32 \<Rightarrow> u16 \<Rightarrow> bytes option) \<Rightarrow> h256 option \<Rightarrow> u32 \<Rightarrow>
   u32 \<times> h256 \<Rightarrow> 'm runtime \<Rightarrow> 'm runtime option" where
  "initialize_block sdk mmr outbound get_root n parent rt =
     (let a = snd (on_initialize sdk get_root n (msg_stuffer_para_a rt));
          b = snd (on_initialize sdk get_root n (msg_stuffer_para_b rt))
      in case mmr_on_initialize sdk mmr outbound ParaAIdentifier parent (a, mmr_para_a rt) of
           None \<Rightarrow> None
         | Some (a', mmr_a) \<Rightarrow>
             (case mmr_on_initialize sdk mmr outbound ParaBIdentifier parent (b, mmr_para_b rt) of
                None \<Rightarrow> None
              | Some (b', mmr_b) \<Rightarrow>
                  Some \<lparr>msg_stuffer_para_a = a', msg_stuffer_para_b = b',
                        mmr_para_a = mmr_a, mmr_para_b = mmr_b\<rparr>))"

section \<open>Runtime API\<close>

definition beefy_root_fallback :: h256 where
  "beefy_root_fallback = horner_sum id 256 (replicate 32 1)"

definition get_current_beefy_root :: "h256 option \<Rightarrow> h256" where
  "get_current_beefy_root get_root = (case get_root of Some root \<Rightarrow> root | None \<Rightarrow> beefy_root_fallback)"

definition get_xcmp_channels_proof ::
  "('mp, 'dg) sdk \<Rightarrow> ('m, 'mp) mmr_pallet \<Rightarrow> 'm runtime \<Rightarrow> u64 \<Rightarrow> channel_merkle_proof option" where
  "get_xcmp_channels_proof sdk mmr rt channel_id = gen_merkle_proof sdk mmr rt channel_id"

definition api_mmr_root :: "('m, 'mp) mmr_pallet \<Rightarrow> 'm runtime \<Rightarrow> u64 \<Rightarrow> mmr_error + h256" where
  "api_mmr_root mmr rt mmr_id =
     (if mmr_id = 0 then Inr (mmr_root_of mmr (mmr_para_a rt))
      else if mmr_id = 1 then Inr (mmr_root_of mmr (mmr_para_b rt))
      else Inl GetRoot)"

definition api_mmr_leaf_count :: "('m, 'mp) mmr_pallet \<Rightarrow> 'm runtime \<Rightarrow> mmr_error + u64" where
  "api_mmr_leaf_count mmr rt = Inr (mmr_leaves mmr (mmr_para_a rt))"

definition encode_leaves ::
  "('m, 'mp) mmr_pallet \<Rightarrow> mmr_error + (mmr_leaf list \<times> 'mp) \<Rightarrow>
   mmr_error + (encodable_opaque_leaf list \<times> 'mp)" where
  "encode_leaves mmr r =
     map_sum id (\<lambda>(leaves, proof). (map (\<lambda>leaf. opaque_from_leaf mmr leaf) leaves, proof)) r"

definition api_generate_proof ::
  "('m, 'mp) mmr_pallet \<Rightarrow> 'm runtime \<Rightarrow> u32 list \<Rightarrow> u32 option \<Rightarrow> u64 \<Rightarrow>
   mmr_error + (encodable_opaque_leaf list \<times> 'mp)" where
  "api_generate_proof mmr rt block_numbers best_known_block_number mmr_id =
     (if mmr_id = 0
      then encode_leaves mmr (mmr_generate_proof mmr (mmr_para_a rt) block_numbers best_known_block_number)
      else if mmr_id = 1
      then encode_leaves mmr (mmr_generate_proof mmr (mmr_para_b rt) block_numbers best_known_block_number)
      else Inl GenerateProof)"

definition api_verify_proof ::
  "('mp, 'dg) sdk \<Rightarrow> ('m, 'mp) mmr_pallet \<Rightarrow> 'm runtime \<Rightarrow> encodable_opaque_leaf list \<Rightarrow> 'mp \<Rightarrow>
   mmr_error + unit" where
  "api_verify_proof sdk mmr rt leaves proof =
     (case those (map (\<lambda>leaf. try_decode_leaf mmr (into_opaque_leaf sdk leaf)) leaves) of
        None \<Rightarrow> Inl Verify
      | Some leaves \<Rightarrow> mmr_verify_leaves mmr (mmr_para_a rt) leaves proof)"

definition api_verify_proof_stateless ::
  "('mp, 'dg) sdk \<Rightarrow> h256 \<Rightarrow> encodable_opaque_leaf list \<Rightarrow> 'mp \<Rightarrow> mmr_error + unit" where
  "api_verify_proof_stateless sdk root leaves proof =
     (let nodes = map (\<lambda>leaf. DataNode (into_opaque_leaf sdk leaf)) leaves
      in if verify_leaves_proof sdk root nodes proof then Inr () else Inl Verify)"

section \<open>Documented behaviour of the MMR pallet\<close>

text \<open>
  On each block \<^verbatim>\<open>pallet_mmr\<close> asks for the block's leaf data, appends it to the MMR and hands
  the new root to \<^verbatim>\<open>OnNewRoot\<close>; it writes nothing else of the stuffer's storage.
\<close>

definition mmr_appends_leaf :: "('m, 'mp) mmr_pallet \<Rightarrow> bool" where
  "mmr_appends_leaf mmr \<longleftrightarrow> (\<forall>provider on_root s m.
     mmr_hook mmr provider on_root (s, m) =
       map_option (\<lambda>(leaf, s'). (on_root (mmr_root_hash mmr (mmr_push mmr m leaf)) s', mmr_push mmr m leaf))
         (provider s))"

text \<open>\<open>leaves m\<close> are the leaves an MMR was built from: pushing a leaf appends it.\<close>

definition leaves_of_mmr :: "('m, 'mp) mmr_pallet \<Rightarrow> ('m \<Rightarrow> mmr_leaf list) \<Rightarrow> bool" where
  "leaves_of_mmr mmr leaves \<longleftrightarrow> (\<forall>m leaf. leaves (mmr_push mmr m leaf) = leaves m @ [leaf])"

section \<open>How the message loop ends\<close>

text \<open>
  The contract of \<^verbatim>\<open>trait XcmpMessageProvider\<close> as the stuffer uses it: asking for the
  messages of a block returns, for the recipients whose queue is \<open>bounded\<close>. Under it the MMR
  always gets its leaf.
\<close>

locale xcmp_message_provider =
  fixes provider :: "h256 \<Rightarrow> u32 \<Rightarrow> bytes option"
    and bounded :: "u32 \<Rightarrow> bool"
  assumes provides: "bounded pid \<Longrightarrow> \<exists>msgs. provider block_hash pid = Some msgs"
begin

lemma leaf_data_returns:
  assumes "bounded pid"
  shows "\<exists>leaf s'. leaf_data sdk provider pid ver parent s = Some (leaf, s') \<and>
     provider (snd parent) pid = Some (xcmp_msgs leaf) \<and> parent_number_and_hash leaf = parent \<and>
     s' = deposit_event (XcmpMessageSent (hash_of sdk (xcmp_msgs leaf)) (fst parent)) s"
  using provides [OF assms, of "snd parent"] by (auto simp: leaf_data_def Let_def)

end

lemma collect_fragments_prefix:
  "(\<And>j. j < k \<Longrightarrow> outbound pid (counter + of_nat j) \<noteq> None) \<Longrightarrow> outbound pid (counter + of_nat k) = None \<Longrightarrow>
   collect_fragments outbound pid counter buf =
     Some (buf @ concat (map (\<lambda>j. the (outbound pid (counter + of_nat j))) [0..<k]))"
proof (induction k arbitrary: counter buf)
  case 0
  then show ?case by (simp add: collect_fragments.simps)
next
  case (Suc k)
  obtain b where b: "outbound pid counter = Some b" using Suc.prems(1) [of 0] by auto
  have "collect_fragments outbound pid (counter + 1) (buf @ b) =
      Some ((buf @ b) @ concat (map (\<lambda>j. the (outbound pid (counter + 1 + of_nat j))) [0..<k]))"
    by (rule Suc.IH) (use Suc.prems(1) [of "Suc _"] Suc.prems(2) in \<open>simp_all add: ac_simps\<close>)
  then show ?case
    by (simp add: collect_fragments.simps [of outbound pid counter] b upt_conv_Cons map_Suc_upt [symmetric]
        comp_def ac_simps del: upt_Suc)
qed

lemma collect_fragments_ends:
  "collect_fragments outbound pid counter buf = Some msgs \<Longrightarrow> \<exists>k. outbound pid k = None"
  by (rule collect_fragments.raw_induct [where P = "\<lambda>outbound pid counter buf msgs. \<exists>k. outbound pid k = None"])
     (auto split: option.splits)

lemma collect_fragments_run:
  "collect_fragments outbound pid 0 buf =
     (if \<exists>k. outbound pid k = None
      then Some (buf @ concat (map (\<lambda>i. the (outbound pid (of_nat i)))
             [0..<(LEAST i. outbound pid (of_nat i) = None)]))
      else None)"
proof (cases "\<exists>k. outbound pid k = None")
  case True
  then obtain k where "outbound pid k = None" by blast
  then have "outbound pid (of_nat (unat k)) = None" by simp
  note least = LeastI [of "\<lambda>i. outbound pid (of_nat i) = None", OF this]
  have "collect_fragments outbound pid 0 buf =
      Some (buf @ concat (map (\<lambda>i. the (outbound pid (0 + of_nat i)))
        [0..<(LEAST i. outbound pid (of_nat i) = None)]))"
    by (rule collect_fragments_prefix) (use least not_less_Least in force)+
  with True show ?thesis by simp
next
  case False
  then have "collect_fragments outbound pid 0 buf \<noteq> Some msgs" for msgs
    using collect_fragments_ends by blast
  with False show ?thesis by auto
qed

lemma get_xcmp_messages_run:
  "get_xcmp_messages outbound h pid =
     (if \<exists>k. outbound pid k = None
      then Some ([1, 2, 3] @ concat (map (\<lambda>i. the (outbound pid (of_nat i)))
             [0..<(LEAST i. outbound pid (of_nat i) = None)]))
      else None)"
  unfolding get_xcmp_messages_def by (rule collect_fragments_run)

interpretation runtime_provider: xcmp_message_provider "get_xcmp_messages outbound"
  "\<lambda>pid. \<exists>k. outbound pid k = None" for outbound
  by unfold_locales (simp add: get_xcmp_messages_run)

section \<open>Blocks and calls\<close>

definition stuffed_leaf :: "bytes \<Rightarrow> u32 \<times> h256 \<Rightarrow> mmr_leaf" where
  "stuffed_leaf msgs parent = \<lparr>xcmp_msgs = msgs, leaf_version = LeafVersion, parent_number_and_hash = parent\<rparr>"

lemma mmr_on_initialize_Some_iff:
  "mmr_appends_leaf mmr \<Longrightarrow>
   mmr_on_initialize sdk mmr outbound pid parent (s, m) = Some (s', m') \<longleftrightarrow>
   (\<exists>msgs. get_xcmp_messages outbound (snd parent) pid = Some msgs \<and>
      s' = deposit_event (XcmpMessageSent (hash_of sdk msgs) (fst parent)) s \<and>
      m' = mmr_push mmr m (stuffed_leaf msgs parent))"
  by (auto simp: mmr_on_initialize_def mmr_appends_leaf_def leaf_data_def stuffed_leaf_def on_new_root_def Let_def
        split: option.splits)

lemma initialize_block_Some_iff:
  "mmr_appends_leaf mmr \<Longrightarrow>
   initialize_block sdk mmr outbound get_root n parent rt = Some rt' \<longleftrightarrow>
   (\<exists>msgs_a msgs_b.
      get_xcmp_messages outbound (snd parent) ParaAIdentifier = Some msgs_a \<and>
      get_xcmp_messages outbound (snd parent) ParaBIdentifier = Some msgs_b \<and>
      rt' = \<lparr>msg_stuffer_para_a = deposit_event (XcmpMessageSent (hash_of sdk msgs_a) (fst parent))
               (snd (on_initialize sdk get_root n (msg_stuffer_para_a rt))),
             msg_stuffer_para_b = deposit_event (XcmpMessageSent (hash_of sdk msgs_b) (fst parent))
               (snd (on_initialize sdk get_root n (msg_stuffer_para_b rt))),
             mmr_para_a = mmr_push mmr (mmr_para_a rt) (stuffed_leaf msgs_a parent),
             mmr_para_b = mmr_push mmr (mmr_para_b rt) (stuffed_leaf msgs_b parent)\<rparr>)"
  by (auto simp: initialize_block_def Let_def mmr_on_initialize_Some_iff
        split: option.splits) (metis mmr_on_initialize_Some_iff option.distinct(1))+

definition runtime_genesis :: "'m \<Rightarrow> 'm runtime" where
  "runtime_genesis m =
     \<lparr>msg_stuffer_para_a = stuffer_genesis, msg_stuffer_para_b = stuffer_genesis,
      mmr_para_a = m, mmr_para_b = m\<rparr>"

fun is_call :: "('mp, 'o) stuffer_op \<Rightarrow> bool" where
  "is_call (OnInitialize _ _) = False"
| "is_call (LeafData _ _ _ _) = False"
| "is_call _ = True"

inductive runtime_step ::
  "('mp, 'dg) sdk \<Rightarrow> ('m, 'mp) mmr_pallet \<Rightarrow> ('o \<Rightarrow> 'acc option) \<Rightarrow> 'm runtime \<Rightarrow> 'm runtime \<Rightarrow> bool"
  for sdk mmr es where
  block: "initialize_block sdk mmr outbound get_root n parent rt = Some rt' \<Longrightarrow>
    runtime_step sdk mmr es rt rt'"
| call_a: "is_call op \<Longrightarrow>
    runtime_step sdk mmr es rt (rt\<lparr>msg_stuffer_para_a := stuffer_exec sdk es op (msg_stuffer_para_a rt)\<rparr>)"
| call_b: "is_call op \<Longrightarrow>
    runtime_step sdk mmr es rt (rt\<lparr>msg_stuffer_para_b := stuffer_exec sdk es op (msg_stuffer_para_b rt)\<rparr>)"

inductive_cases runtime_stepE: "runtime_step sdk mmr es rt rt'"

definition same_beefy_roots :: "'m runtime \<Rightarrow> bool" where
  "same_beefy_roots rt \<longleftrightarrow>
     seen_beefy_roots (msg_stuffer_para_a rt) = seen_beefy_roots (msg_stuffer_para_b rt) \<and>
     seen_beefy_roots_order (msg_stuffer_para_a rt) = seen_beefy_roots_order (msg_stuffer_para_b rt)"

lemma call_keeps_beefy_roots:
  assumes "is_call op"
  shows "seen_beefy_roots (stuffer_exec sdk es op s) = seen_beefy_roots s"
    and "seen_beefy_roots_order (stuffer_exec sdk es op s) = seen_beefy_roots_order s"
  using assms exec_keeps_beefy_roots [of op sdk es s] by (cases op; simp)+

lemma step_same_beefy_roots:
  "mmr_appends_leaf mmr \<Longrightarrow> same_beefy_roots rt \<Longrightarrow> runtime_step sdk mmr es rt rt' \<Longrightarrow> same_beefy_roots rt'"
  by (erule runtime_stepE)
     (auto simp: same_beefy_roots_def initialize_block_Some_iff call_keeps_beefy_roots)

lemma genesis_same_beefy_roots: "rt = runtime_genesis m \<Longrightarrow> same_beefy_roots rt"
  by (simp add: runtime_genesis_def same_beefy_roots_def)

interpretation runtime_machine: invariant_machine "\<lambda>rt. \<exists>m. rt = runtime_genesis m"
  "runtime_step sdk mmr es" "\<lambda>rt. mmr_appends_leaf mmr \<longrightarrow> same_beefy_roots rt" for sdk mmr es
  by unfold_locales (blast intro: step_same_beefy_roots genesis_same_beefy_roots)+

text \<open>Channel proofs and the root they are for.\<close>

lemma channel_proof_stage_3:
  assumes "h256_codec_is_as_ref sdk" and "merkle_proof_root sdk" and "merkle_proof_shape sdk"
    and "merkle_proof_verifies sdk"
  shows "\<exists>c n i. get_xcmp_channels_proof sdk mmr rt channel_id = Some c \<and>
    ch_root c = collect_roots sdk mmr rt \<and> ch_leaf c = mmr_root_hash mmr (mmr_para_a rt) \<and>
    try_into_u32 (ch_num_leaves c) = Some n \<and> try_into_u32 (ch_leaf_index c) = Some i \<and>
    bmt_verify_proof sdk (ch_root c) (ch_proof c) n i (leaf_from_ref sdk (h256_as_ref sdk (ch_leaf c)))"
proof -
  let ?hs = "[mmr_root_hash mmr (mmr_para_a rt), mmr_root_hash mmr (mmr_para_b rt)]"
  let ?p = "bmt_merkle_proof sdk ?hs 0"
  have range: "unat (0 :: u32) < length ?hs \<and> length ?hs < 2 ^ 32" by simp
  have "bmt_root ?p = bmt_merkle_root sdk (map (h256_as_ref sdk) ?hs)"
    using assms(2) range unfolding merkle_proof_root_def by blast
  moreover have "bmt_leaf_value ?p = ?hs ! unat (0 :: u32)"
    using assms(3) range unfolding merkle_proof_shape_def by blast
  moreover have "bmt_verify_proof sdk (bmt_root ?p) (bmt_proof_items ?p) (bmt_number_of_leaves ?p)
      (bmt_leaf_index ?p) (leaf_from_ref sdk (h256_as_ref sdk (bmt_leaf_value ?p)))"
    using assms(4) range unfolding merkle_proof_verifies_def Let_def by blast
  ultimately show ?thesis
    using assms(1) by (simp add: get_xcmp_channels_proof_def gen_merkle_proof_def collect_roots_def
      h256_codec_is_as_ref_def Let_def)
qed

section \<open>Properties\<close>

definition example_mmr :: "(mmr_leaf list, h256) mmr_pallet" where
  "example_mmr =
     \<lparr>mmr_root_hash = (\<lambda>m. of_nat (length m)), mmr_root_of = (\<lambda>m. of_nat (length m)),
      mmr_leaves = (\<lambda>m. of_nat (length m)), mmr_push = (\<lambda>m leaf. m @ [leaf]),
      mmr_hook = (\<lambda>provider on_root sm. map_option (\<lambda>(leaf, s).
        (on_root (of_nat (Suc (length (snd sm)))) s, snd sm @ [leaf])) (provider (fst sm))),
      mmr_generate_proof = (\<lambda>m blocks best.
        if list_all (\<lambda>n. unat n < length m) blocks then Inr (map (\<lambda>n. m ! unat n) blocks, of_nat (length m))
        else Inl GenerateProof),
      mmr_verify_leaves = (\<lambda>m leaves p. if set leaves \<subseteq> set m then Inr () else Inl Verify),
      opaque_from_leaf = (\<lambda>leaf. EncodableOpaqueLeaf (xcmp_msgs leaf)),
      try_decode_leaf = (\<lambda>bs. Some (stuffed_leaf bs (0, 0)))\<rparr>"

definition example_outbound :: "u32 \<Rightarrow> u16 \<Rightarrow> bytes option" where
  "example_outbound pid n = (if pid = ParaAIdentifier \<and> n < 2 then Some [10 + ucast n] else None)"

lemma example_mmr_appends_leaf: "mmr_appends_leaf example_mmr"
  by (simp add: mmr_appends_leaf_def example_mmr_def)

text \<open>
  Claim C18: the message loop returns exactly when some index of the recipient's queue is empty, and then
  with the bytes 1, 2, 3 followed by the fragments from index 0 up to the first gap, in order; with
  all 65536 indices filled the wrapping counter never finds a gap and the call does not return.
\<close>

theorem get_xcmp_messages_returns_first_run_of_fragments:
  "get_xcmp_messages outbound h pid =
     (if \<exists>k. outbound pid k = None
      then Some ([1, 2, 3] @ concat (map (\<lambda>i. the (outbound pid (of_nat i)))
             [0..<(LEAST i. outbound pid (of_nat i) = None)]))
      else None)"
  by (rule get_xcmp_messages_run)

text \<open>
  Claim C21: a block's start stuffs the messages of both channels: when both queues have a gap the hooks
  return, each MMR has one more leaf with its own channel's messages, the leaf version and the
  parent block, and each stuffer has recorded the same BEEFY root under the same number and
  deposited one event with the hash of its messages.
\<close>

theorem initialize_block_stuffs_both_channels:
  assumes "mmr_appends_leaf mmr"
    and "\<exists>k. outbound ParaAIdentifier k = None" and "\<exists>k. outbound ParaBIdentifier k = None"
  shows "\<exists>msgs_a msgs_b.
    get_xcmp_messages outbound (snd parent) ParaAIdentifier = Some msgs_a \<and>
    get_xcmp_messages outbound (snd parent) ParaBIdentifier = Some msgs_b \<and>
    initialize_block sdk mmr outbound get_root n parent rt = Some
      \<lparr>msg_stuffer_para_a = deposit_event (XcmpMessageSent (hash_of sdk msgs_a) (fst parent))
         (snd (on_initialize sdk get_root n (msg_stuffer_para_a rt))),
       msg_stuffer_para_b = deposit_event (XcmpMessageSent (hash_of sdk msgs_b) (fst parent))
         (snd (on_initialize sdk get_root n (msg_stuffer_para_b rt))),
       mmr_para_a = mmr_push mmr (mmr_para_a rt) (stuffed_leaf msgs_a parent),
       mmr_para_b = mmr_push mmr (mmr_para_b rt) (stuffed_leaf msgs_b parent)\<rparr>"
  using runtime_provider.provides [of outbound ParaAIdentifier "snd parent"]
    runtime_provider.provides [of outbound ParaBIdentifier "snd parent"] assms
  by (auto simp: initialize_block_Some_iff)

theorem initialize_block_stuffs_both_channels_witness:
  "\<exists>msgs_a msgs_b.
    get_xcmp_messages example_outbound 5 ParaAIdentifier = Some msgs_a \<and>
    get_xcmp_messages example_outbound 5 ParaBIdentifier = Some msgs_b \<and>
    initialize_block example_sdk example_mmr example_outbound (Some 7) 1 (0, 5) (runtime_genesis []) = Some
      \<lparr>msg_stuffer_para_a = deposit_event (XcmpMessageSent (hash_of example_sdk msgs_a) 0)
         (snd (on_initialize example_sdk (Some 7) 1 stuffer_genesis)),
       msg_stuffer_para_b = deposit_event (XcmpMessageSent (hash_of example_sdk msgs_b) 0)
         (snd (on_initialize example_sdk (Some 7) 1 stuffer_genesis)),
       mmr_para_a = [stuffed_leaf msgs_a (0, 5)], mmr_para_b = [stuffed_leaf msgs_b (0, 5)]\<rparr>"
proof -
  have gaps: "\<exists>k. example_outbound ParaAIdentifier k = None" "\<exists>k. example_outbound ParaBIdentifier k = None"
    by (auto simp: example_outbound_def ParaAIdentifier_def ParaBIdentifier_def intro: exI [of _ 2])
  show ?thesis
    using initialize_block_stuffs_both_channels [OF example_mmr_appends_leaf gaps, of "(0, 5)" example_sdk "Some 7" 1
        "runtime_genesis []"]
    by (simp add: runtime_genesis_def example_mmr_def)
qed

text \<open>
  Claim C36: both instances of the stuffer always know the same BEEFY roots, so any XCMP proof gets the
  same result from both, whichever channel its messages belong to. This holds in every state
  reached from genesis by blocks and by calls to either instance.
\<close>

theorem instances_know_the_same_roots:
  assumes "mmr_appends_leaf mmr" and "(runtime_step sdk mmr es)\<^sup>*\<^sup>* (runtime_genesis m) rt"
  shows "submit_xcmp_proof sdk es origin p r (msg_stuffer_para_a rt) = (res, msg_stuffer_para_a rt) \<longleftrightarrow>
         submit_xcmp_proof sdk es origin p r (msg_stuffer_para_b rt) = (res, msg_stuffer_para_b rt)"
proof -
  have "same_beefy_roots rt"
    using runtime_machine.reachable_invariant [OF _ assms(2)] assms(1) by blast
  then show ?thesis
    by (simp add: same_beefy_roots_def submit_xcmp_proof_table)
qed

theorem instances_know_the_same_roots_witness:
  "submit_xcmp_proof example_sdk example_signer (Some 1) example_proof 7
     (msg_stuffer_para_b (runtime_genesis ([] :: mmr_leaf list))) =
   (Err (Module XcmpBeefyRootTargetedNeverSeen), stuffer_genesis)"
  using instances_know_the_same_roots [OF example_mmr_appends_leaf, of example_sdk example_signer "[]" "runtime_genesis []"
      "Some 1" example_proof 7 "Err (Module XcmpBeefyRootTargetedNeverSeen)"]
  by (simp add: runtime_genesis_def submit_xcmp_proof_table submit_checks_def example_signer_def
        stuffer_genesis_def Let_def)

text \<open>
  Claim C20: the channel proof the runtime hands out is a proof against the channels root it commits to,
  and passes every check of stage 3: its leaf is the root of channel A's MMR whatever channel was
  asked for, its counts fit \<^verbatim>\<open>u32\<close>, and it verifies. This rests on the documented behaviour of
  \<^verbatim>\<open>binary_merkle_tree\<close>.
\<close>

theorem channel_proof_passes_stage_3:
  assumes "h256_codec_is_as_ref sdk" and "merkle_proof_root sdk" and "merkle_proof_shape sdk"
    and "merkle_proof_verifies sdk"
  shows "\<exists>c n i. get_xcmp_channels_proof sdk mmr rt channel_id = Some c \<and>
    ch_root c = collect_roots sdk mmr rt \<and> ch_leaf c = mmr_root_hash mmr (mmr_para_a rt) \<and>
    try_into_u32 (ch_num_leaves c) = Some n \<and> try_into_u32 (ch_leaf_index c) = Some i \<and>
    bmt_verify_proof sdk (ch_root c) (ch_proof c) n i (leaf_from_ref sdk (h256_as_ref sdk (ch_leaf c)))"
  by (rule channel_proof_stage_3 [OF assms])

theorem channel_proof_passes_stage_3_witness:
  "\<exists>c n i. get_xcmp_channels_proof example_sdk example_mmr (runtime_genesis []) 5 = Some c \<and>
    ch_root c = collect_roots example_sdk example_mmr (runtime_genesis []) \<and>
    ch_leaf c = mmr_root_hash example_mmr (mmr_para_a (runtime_genesis [])) \<and>
    try_into_u32 (ch_num_leaves c) = Some n \<and> try_into_u32 (ch_leaf_index c) = Some i \<and>
    bmt_verify_proof example_sdk (ch_root c) (ch_proof c) n i
      (leaf_from_ref example_sdk (h256_as_ref example_sdk (ch_leaf c)))"
  by (rule channel_proof_passes_stage_3 [OF example_sdk_laws(2-4) example_sdk_merkle_proof_verifies])

text \<open>
  Claim C31: the bound \<^verbatim>\<open>MaxBeefyRootsKept\<close> on the order of seen roots is never enforced: once
  more blocks than that have begun, the stored list is longer than the bound, since
  \<^verbatim>\<open>force_from\<close> checks nothing and nothing is ever removed.
\<close>

theorem seen_roots_outgrow_their_bound:
  assumes "force_from_unchecked sdk"
    and "unat MaxBeefyRootsKept < length (filter (\<lambda>op. \<exists>g n. op = OnInitialize g n) ops)"
  shows "unat MaxBeefyRootsKept < length (seen_beefy_roots_order (stuffer_run sdk es ops stuffer_genesis))"
  using assms by (simp add: run_seen_beefy_roots_order beefy_history_length stuffer_genesis_def)

theorem seen_roots_outgrow_their_bound_witness:
  "unat MaxBeefyRootsKept < length (seen_beefy_roots_order
     (stuffer_run example_sdk example_signer
        (replicate 64001 (OnInitialize (Some 7) 1 :: (h256, nat option) stuffer_op)) stuffer_genesis))"
  by (rule seen_roots_outgrow_their_bound [OF example_sdk_laws(1)])
     (simp add: MaxBeefyRootsKept_def filter_replicate)

text \<open>
  Claim C32: without a BEEFY root the API and the pallet disagree: the hook records the zero hash, but the
  API reports 32 bytes of 1, which is not zero, and on a fresh chain a proof that targets the
  reported root is refused as never seen.
\<close>

theorem reported_root_was_never_recorded:
  assumes "es origin \<noteq> None"
  shows "get_current_beefy_root None \<noteq> 0 \<and>
    seen_beefy_roots (snd (on_initialize sdk None n stuffer_genesis)) 0 = Some n \<and>
    submit_xcmp_proof sdk es origin p (get_current_beefy_root None) (snd (on_initialize sdk None n stuffer_genesis)) =
      (Err (Module XcmpBeefyRootTargetedNeverSeen), snd (on_initialize sdk None n stuffer_genesis))"
proof -
  have "beefy_root_fallback \<noteq> 0" by code_simp
  with assms show ?thesis
    by (simp add: get_current_beefy_root_def submit_xcmp_proof_table submit_checks_def stuffer_genesis_def Let_def)
qed

theorem reported_root_was_never_recorded_witness:
  "submit_xcmp_proof example_sdk example_signer (Some 1) example_proof (get_current_beefy_root None)
     (snd (on_initialize example_sdk None 1 stuffer_genesis)) =
   (Err (Module XcmpBeefyRootTargetedNeverSeen), snd (on_initialize example_sdk None 1 stuffer_genesis))"
  using reported_root_was_never_recorded [of example_signer "Some 1" example_sdk 1 example_proof]
  by (simp add: example_signer_def)

text \<open>
  The API knows exactly the channels 0 and 1: any other identifier is an error for roots and
  proofs; and leaf counts and stateful verification look at channel A only, so they do not change
  when channel B's MMR does.
\<close>

theorem mmr_api_channels:
  "((\<exists>r. api_mmr_root mmr rt mmr_id = Inr r) \<longleftrightarrow> mmr_id \<in> {0, 1}) \<and>
   (mmr_id \<notin> {0, 1} \<longrightarrow> api_generate_proof mmr rt blocks best mmr_id = Inl GenerateProof) \<and>
   api_mmr_leaf_count mmr (rt\<lparr>mmr_para_b := m\<rparr>) = api_mmr_leaf_count mmr rt \<and>
   api_verify_proof sdk mmr (rt\<lparr>mmr_para_b := m\<rparr>) leaves proof = api_verify_proof sdk mmr rt leaves proof"
  by (simp add: api_mmr_root_def api_generate_proof_def api_mmr_leaf_count_def api_verify_proof_def
        split: option.split)

theorem mmr_api_channels_witness:
  "api_generate_proof example_mmr (runtime_genesis []) [0] None 2 = Inl GenerateProof"
  using mmr_api_channels [of example_mmr "runtime_genesis []" 2 "[0]" None "[]" example_sdk "[]" 0]
  by simp

end
