(* ===== verification/Runtime_Config.thy ===== *)
theory Runtime_Config
  imports Sdk_Interface
begin

text \<open>
  The constants the runtime is configured with (\<^verbatim>\<open>src/runtime/src/lib.rs\<close> and
  \<^verbatim>\<open>src/runtime/src/weights\<close>): times, balances, weights, the block limits, the polynomial
  that turns weight into a fee, and the pallets with their indices. The units of weight, the
  arithmetic of \<^verbatim>\<open>Perbill\<close> and the size of a proof of validity belong to the SDK and are
  fields of the record \<open>weight_sdk\<close>.
\<close>

datatype dispatch_class = Normal | Operational | Mandatory

record class_weights =
  base_extrinsic :: weight
  max_total :: "weight option"
  reserved :: "weight option"

record weight_sdk =
  WEIGHT_REF_TIME_PER_SECOND :: u64
  WEIGHT_REF_TIME_PER_MILLIS :: u64
  WEIGHT_REF_TIME_PER_MICROS :: u64
  WEIGHT_REF_TIME_PER_NANOS :: u64
  MAX_POV_SIZE :: u32
  perbill_from_rational :: "u128 \<Rightarrow> u128 \<Rightarrow> u32"
  perbill_mul :: "u32 \<Rightarrow> u128 \<Rightarrow> u128"
  percent_of_weight :: "u8 \<Rightarrow> weight \<Rightarrow> weight"
  builder_class :: "dispatch_class \<Rightarrow> class_weights"

section \<open>Time and balances\<close>

definition MILLISECS_PER_BLOCK :: u64 where
  "MILLISECS_PER_BLOCK = 12000"

definition SLOT_DURATION :: u64 where
  "SLOT_DURATION = MILLISECS_PER_BLOCK"

definition MINUTES :: u32 where
  "MINUTES = 60000 div ucast MILLISECS_PER_BLOCK"

definition HOURS :: u32 where
  "HOURS = MINUTES * 60"

definition DAYS :: u32 where
  "DAYS = HOURS * 24"

definition UNIT :: u128 where
  "UNIT = 1000000000000"

definition MILLIUNIT :: u128 where
  "MILLIUNIT = 1000000000"

definition MICROUNIT :: u128 where
  "MICROUNIT = 1000000"

definition EXISTENTIAL_DEPOSIT :: u128 where
  "EXISTENTIAL_DEPOSIT = MILLIUNIT"

definition TransactionByteFee :: u128 where
  "TransactionByteFee = 10 * MICROUNIT"

definition Period :: u32 where
  "Period = 6 * HOURS"

definition Offset :: u32 where
  "Offset = 0"

definition SessionLength :: u32 where
  "SessionLength = 6 * HOURS"

section \<open>Weights\<close>

definition saturating_mul_u64 :: "u64 \<Rightarrow> u64 \<Rightarrow> u64" where
  "saturating_mul_u64 a b = (if unat a * unat b < 2 ^ 64 then a * b else - 1)"

definition weight_saturating_div :: "weight \<Rightarrow> u64 \<Rightarrow> weight" where
  "weight_saturating_div w k = \<lparr>ref_time = ref_time w div k, proof_size = proof_size w div k\<rparr>"

definition weight_minus :: "weight \<Rightarrow> weight \<Rightarrow> weight" where
  "weight_minus v w = \<lparr>ref_time = ref_time v - ref_time w, proof_size = proof_size v - proof_size w\<rparr>"

definition BlockExecutionWeight :: "weight_sdk \<Rightarrow> weight" where
  "BlockExecutionWeight ws =
     \<lparr>ref_time = saturating_mul_u64 (WEIGHT_REF_TIME_PER_NANOS ws) 5000000, proof_size = 0\<rparr>"

definition ExtrinsicBaseWeight :: "weight_sdk \<Rightarrow> weight" where
  "ExtrinsicBaseWeight ws =
     \<lparr>ref_time = saturating_mul_u64 (WEIGHT_REF_TIME_PER_NANOS ws) 125000, proof_size = 0\<rparr>"

record runtime_db_weight =
  db_read :: u64
  db_write :: u64

definition RocksDbWeight :: "weight_sdk \<Rightarrow> runtime_db_weight" where
  "RocksDbWeight ws = \<lparr>db_read = 25000 * WEIGHT_REF_TIME_PER_NANOS ws,
                       db_write = 100000 * WEIGHT_REF_TIME_PER_NANOS ws\<rparr>"

definition ParityDbWeight :: "weight_sdk \<Rightarrow> runtime_db_weight" where
  "ParityDbWeight ws = \<lparr>db_read = 8000 * WEIGHT_REF_TIME_PER_NANOS ws,
                        db_write = 50000 * WEIGHT_REF_TIME_PER_NANOS ws\<rparr>"

text \<open>
  The tests of the weight files, of the weight they read. A number of reads or writes weighs a saturating
  multiple of one.
\<close>

definition db_reads :: "runtime_db_weight \<Rightarrow> u64 \<Rightarrow> weight" where
  "db_reads w n = \<lparr>ref_time = saturating_mul_u64 (db_read w) n, proof_size = 0\<rparr>"

definition db_writes_of :: "runtime_db_weight \<Rightarrow> u64 \<Rightarrow> weight" where
  "db_writes_of w n = \<lparr>ref_time = saturating_mul_u64 (db_write w) n, proof_size = 0\<rparr>"

definition block_weights_sane :: "weight_sdk \<Rightarrow> weight \<Rightarrow> bool" where
  "block_weights_sane ws w \<longleftrightarrow>
     100 * WEIGHT_REF_TIME_PER_MICROS ws \<le> ref_time w \<and> ref_time w \<le> 50 * WEIGHT_REF_TIME_PER_MILLIS ws"

definition extrinsic_weights_sane :: "weight_sdk \<Rightarrow> weight \<Rightarrow> bool" where
  "extrinsic_weights_sane ws w \<longleftrightarrow>
     10 * WEIGHT_REF_TIME_PER_MICROS ws \<le> ref_time w \<and> ref_time w \<le> WEIGHT_REF_TIME_PER_MILLIS ws"

definition paritydb_weights_sane :: "weight_sdk \<Rightarrow> runtime_db_weight \<Rightarrow> bool" where
  "paritydb_weights_sane ws W \<longleftrightarrow>
     WEIGHT_REF_TIME_PER_MICROS ws \<le> ref_time (db_reads W 1) \<and>
     WEIGHT_REF_TIME_PER_MICROS ws \<le> ref_time (db_writes_of W 1) \<and>
     ref_time (db_reads W 1) \<le> WEIGHT_REF_TIME_PER_MILLIS ws \<and>
     ref_time (db_writes_of W 1) \<le> WEIGHT_REF_TIME_PER_MILLIS ws"

definition rocksdb_weights_sane :: "weight_sdk \<Rightarrow> runtime_db_weight \<Rightarrow> bool" where
  "rocksdb_weights_sane ws W \<longleftrightarrow>
     WEIGHT_REF_TIME_PER_MICROS ws \<le> ref_time (db_reads W 1) \<and>
     WEIGHT_REF_TIME_PER_MICROS ws \<le> ref_time (db_writes_of W 1) \<and>
     ref_time (db_reads W 1) \<le> WEIGHT_REF_TIME_PER_MILLIS ws \<and>
     ref_time (db_writes_of W 1) \<le> WEIGHT_REF_TIME_PER_MILLIS ws"

definition AVERAGE_ON_INITIALIZE_RATIO :: u8 where
  "AVERAGE_ON_INITIALIZE_RATIO = 5"

definition NORMAL_DISPATCH_RATIO :: u8 where
  "NORMAL_DISPATCH_RATIO = 75"

definition MAXIMUM_BLOCK_WEIGHT :: "weight_sdk \<Rightarrow> weight" where
  "MAXIMUM_BLOCK_WEIGHT ws =
     \<lparr>ref_time = WEIGHT_REF_TIME_PER_SECOND ws div 2, proof_size = as_u64 (MAX_POV_SIZE ws)\<rparr>"

definition ReservedXcmpWeight :: "weight_sdk \<Rightarrow> weight" where
  "ReservedXcmpWeight ws = weight_saturating_div (MAXIMUM_BLOCK_WEIGHT ws) 4"

definition ReservedDmpWeight :: "weight_sdk \<Rightarrow> weight" where
  "ReservedDmpWeight ws = weight_saturating_div (MAXIMUM_BLOCK_WEIGHT ws) 4"

text \<open>
  The off-chain index prefixes of the two MMR instances: the SDK's default for channel A, a byte
  string of its own for channel B.
\<close>

definition ParaAMmr_INDEXING_PREFIX :: "bytes \<Rightarrow> bytes" where
  "ParaAMmr_INDEXING_PREFIX mmr_indexing_prefix = mmr_indexing_prefix"

definition ParaBMmr_INDEXING_PREFIX :: bytes where
  "ParaBMmr_INDEXING_PREFIX = map of_char ''para_b_mmr''"

record block_weights =
  base_block :: weight
  per_class :: "dispatch_class \<Rightarrow> class_weights"
  avg_block_initialization :: u8

text \<open>
  What the builder starts from is \<open>builder_class\<close>; the final \<^verbatim>\<open>build_or_panic\<close> only validates.
\<close>

definition RuntimeBlockWeights :: "weight_sdk \<Rightarrow> block_weights" where
  "RuntimeBlockWeights ws =
     (let normal = percent_of_weight ws NORMAL_DISPATCH_RATIO (MAXIMUM_BLOCK_WEIGHT ws) in
      \<lparr>base_block = BlockExecutionWeight ws,
       per_class = (\<lambda>c. let weights = (builder_class ws c)\<lparr>base_extrinsic := ExtrinsicBaseWeight ws\<rparr> in
         (case c of
            Normal \<Rightarrow> weights\<lparr>max_total := Some normal\<rparr>
          | Operational \<Rightarrow> weights\<lparr>max_total := Some (MAXIMUM_BLOCK_WEIGHT ws),
              reserved := Some (weight_minus (MAXIMUM_BLOCK_WEIGHT ws) normal)\<rparr>
          | Mandatory \<Rightarrow> weights)),
       avg_block_initialization = AVERAGE_ON_INITIALIZE_RATIO\<rparr>)"

section \<open>Fees\<close>

record fee_coefficient =
  degree :: u8
  negative :: bool
  coeff_frac :: u32
  coeff_integer :: u128

definition weight_to_fee_polynomial :: "weight_sdk \<Rightarrow> fee_coefficient list" where
  "weight_to_fee_polynomial ws =
     (let p = MILLIUNIT div 10;
          q = 100 * ucast (ref_time (ExtrinsicBaseWeight ws))
      in [\<lparr>degree = 1, negative = False, coeff_frac = perbill_from_rational ws (p mod q) q,
           coeff_integer = p div q\<rparr>])"

text \<open>
  The value of a polynomial of degree one, as \<^verbatim>\<open>WeightToFeePolynomial\<close> documents it: the
  fraction of the weight plus the integer multiple of it.
\<close>

definition linear_fee :: "weight_sdk \<Rightarrow> fee_coefficient list \<Rightarrow> u128 \<Rightarrow> u128" where
  "linear_fee ws coeffs w =
     sum_list (map (\<lambda>c. perbill_mul ws (coeff_frac c) w + coeff_integer c * w) coeffs)"

section \<open>Pallets\<close>

datatype pallet =
    System | ParachainSystem | Timestamp | ParachainInfo | Balances | TransactionPayment | Sudo
  | Authorship | CollatorSelection | Session | Aura | AuraExt
  | XcmpQueue | PolkadotXcm | CumulusXcm | DmpQueue
  | MsgStufferParaA | MsgStufferParaB | MmrParaA | MmrParaB

text \<open>\<^verbatim>\<open>construct_runtime!\<close>: the pallets in the order their hooks run, with their indices.\<close>

definition construct_runtime :: "(pallet \<times> u8) list" where
  "construct_runtime =
     [(System, 0), (ParachainSystem, 1), (Timestamp, 2), (ParachainInfo, 3),
      (Balances, 10), (TransactionPayment, 11), (Sudo, 15),
      (Authorship, 20), (CollatorSelection, 21), (Session, 22), (Aura, 23), (AuraExt, 24),
      (XcmpQueue, 30), (PolkadotXcm, 31), (CumulusXcm, 32), (DmpQueue, 33),
      (MsgStufferParaA, 50), (MsgStufferParaB, 51), (MmrParaA, 52), (MmrParaB, 53)]"

text \<open>
  The pallets are ordered by their index, which is the order of their hooks.
\<close>

definition pallet_index :: "pallet \<Rightarrow> u8" where
  "pallet_index p = the (map_of construct_runtime p)"

lemma map_pallet_index:
  "map pallet_index (map fst construct_runtime) = map snd construct_runtime"
  by (simp add: pallet_index_def construct_runtime_def)

lemma every_pallet_is_listed: "p \<in> fst ` set construct_runtime"
  by (cases p) (simp_all add: construct_runtime_def)

lemma indices_strictly_increase: "sorted_wrt (<) (map snd construct_runtime)"
  by (simp add: construct_runtime_def)

lemma pallet_index_inj: "pallet_index p = pallet_index q \<longleftrightarrow> p = q"
proof
  assume same: "pallet_index p = pallet_index q"
  have "distinct (map pallet_index (map fst construct_runtime))"
    unfolding map_pallet_index using indices_strictly_increase by (simp add: strict_sorted_iff)
  then have "inj_on pallet_index (set (map fst construct_runtime))"
    by (simp only: distinct_map)
  with same show "p = q"
    using every_pallet_is_listed [of p] every_pallet_is_listed [of q] by (auto dest: inj_onD)
qed simp

instantiation pallet :: linorder
begin

definition less_eq_pallet :: "pallet \<Rightarrow> pallet \<Rightarrow> bool" where
  "less_eq_pallet p q \<longleftrightarrow> pallet_index p \<le> pallet_index q"

definition less_pallet :: "pallet \<Rightarrow> pallet \<Rightarrow> bool" where
  "less_pallet p q \<longleftrightarrow> pallet_index p < pallet_index q"

instance
  by standard (auto simp: less_eq_pallet_def less_pallet_def pallet_index_inj [symmetric])

end

lemma hooks_run_in_order: "sorted_wrt (<) (map fst construct_runtime)"
proof -
  have "sorted_wrt (<) (map pallet_index (map fst construct_runtime))"
    unfolding map_pallet_index by (rule indices_strictly_increase)
  then show ?thesis by (simp only: sorted_wrt_map less_pallet_def)
qed

section \<open>Documented behaviour of the SDK's weights\<close>

definition ref_time_units :: "weight_sdk \<Rightarrow> bool" where
  "ref_time_units ws \<longleftrightarrow> WEIGHT_REF_TIME_PER_NANOS ws = 1000 \<and> WEIGHT_REF_TIME_PER_MICROS ws = 1000000 \<and>
     WEIGHT_REF_TIME_PER_MILLIS ws = 1000000000 \<and> WEIGHT_REF_TIME_PER_SECOND ws = 1000000000000"

text \<open>Fractions that are a whole number of parts per billion are exact, and so are their multiples.\<close>

definition perbill_exact :: "weight_sdk \<Rightarrow> bool" where
  "perbill_exact ws \<longleftrightarrow>
     (\<forall>p q. 0 < q \<and> p \<le> q \<and> unat q dvd unat p * 10 ^ 9 \<longrightarrow>
        unat (perbill_from_rational ws p q) = unat p * 10 ^ 9 div unat q) \<and>
     (\<forall>parts x. unat parts \<le> 10 ^ 9 \<and> 10 ^ 9 dvd unat parts * unat x \<longrightarrow>
        unat (perbill_mul ws parts x) = unat parts * unat x div 10 ^ 9)"

definition example_weight_sdk :: weight_sdk where
  "example_weight_sdk =
     \<lparr>WEIGHT_REF_TIME_PER_SECOND = 1000000000000, WEIGHT_REF_TIME_PER_MILLIS = 1000000000,
      WEIGHT_REF_TIME_PER_MICROS = 1000000, WEIGHT_REF_TIME_PER_NANOS = 1000, MAX_POV_SIZE = 5242880,
      perbill_from_rational = (\<lambda>p q. of_nat (unat p * 10 ^ 9 div unat q)),
      perbill_mul = (\<lambda>parts x. of_nat (unat parts * unat x div 10 ^ 9)),
      percent_of_weight = (\<lambda>k w. \<lparr>ref_time = ucast k * ref_time w div 100,
                                   proof_size = ucast k * proof_size w div 100\<rparr>),
      builder_class = (\<lambda>_. \<lparr>base_extrinsic = \<lparr>ref_time = 0, proof_size = 0\<rparr>, max_total = None, reserved = None\<rparr>)\<rparr>"

lemma unat_of_nat_fits:
  "n < 2 ^ LENGTH('a) \<Longrightarrow> unat (of_nat n :: 'a::len word) = n"
  by (simp add: unsigned_of_nat take_bit_nat_eq_self)

lemma example_perbill_exact: "perbill_exact example_weight_sdk"
proof -
  have "unat (of_nat (unat p * 10 ^ 9 div unat q) :: u32) = unat p * 10 ^ 9 div unat q"
    if "0 < q" "p \<le> q" for p q :: u128
  proof (rule unat_of_nat_fits)
    have "unat p * 10 ^ 9 div unat q \<le> unat q * 10 ^ 9 div unat q"
      using that by (intro div_le_mono mult_le_mono1) (simp add: word_le_nat_alt)
    also have "\<dots> \<le> 10 ^ 9" using that by (simp add: word_less_nat_alt)
    finally show "unat p * 10 ^ 9 div unat q < 2 ^ LENGTH(32)" by simp
  qed
  moreover have "unat (of_nat (unat parts * unat x div 10 ^ 9) :: u128) = unat parts * unat x div 10 ^ 9"
    if "unat parts \<le> 10 ^ 9" for parts :: u32 and x :: u128
  proof (rule unat_of_nat_fits)
    have "unat parts * unat x div 10 ^ 9 \<le> 10 ^ 9 * unat x div 10 ^ 9"
      using that by (intro div_le_mono mult_le_mono1)
    also have "\<dots> = unat x" by simp
    also have "\<dots> < 2 ^ LENGTH(128)" by (rule unsigned_less)
    finally show "unat parts * unat x div 10 ^ 9 < 2 ^ LENGTH(128)" .
  qed
  ultimately show ?thesis
    by (simp add: perbill_exact_def example_weight_sdk_def)
qed

lemma example_ref_time_units: "ref_time_units example_weight_sdk"
  by (simp add: ref_time_units_def example_weight_sdk_def)

section \<open>Properties\<close>

text \<open>
  The generated weights are sane, as the tests in the weight files ask: importing an empty
  block takes between 100 microseconds and 50 milliseconds, a no-op extrinsic between 10
  microseconds and 1 millisecond, and each database access of either backend between 1
  microsecond and 1 millisecond.
\<close>

theorem generated_weights_are_sane:
  assumes "ref_time_units ws"
  shows "block_weights_sane ws (BlockExecutionWeight ws) \<and> extrinsic_weights_sane ws (ExtrinsicBaseWeight ws) \<and>
    rocksdb_weights_sane ws (RocksDbWeight ws) \<and> paritydb_weights_sane ws (ParityDbWeight ws)"
  using assms
  by (simp add: ref_time_units_def BlockExecutionWeight_def ExtrinsicBaseWeight_def RocksDbWeight_def
        ParityDbWeight_def saturating_mul_u64_def block_weights_sane_def extrinsic_weights_sane_def
        rocksdb_weights_sane_def paritydb_weights_sane_def db_reads_def db_writes_of_def)

theorem generated_weights_are_sane_witness:
  "block_weights_sane example_weight_sdk (BlockExecutionWeight example_weight_sdk) \<and>
   paritydb_weights_sane example_weight_sdk (ParityDbWeight example_weight_sdk)"
  using generated_weights_are_sane [OF example_ref_time_units] by blast

text \<open>
  The weight fee of an extrinsic of the base weight is one MICROUNIT, a thousandth of a
  MILLIUNIT (the comment at the polynomial says a tenth).
\<close>

theorem base_weight_costs_one_microunit:
  assumes "ref_time_units ws" and "perbill_exact ws"
  shows "linear_fee ws (weight_to_fee_polynomial ws) (ucast (ref_time (ExtrinsicBaseWeight ws))) = MICROUNIT"
proof -
  have base: "ref_time (ExtrinsicBaseWeight ws) = 125000000"
    using assms(1) by (simp add: ref_time_units_def ExtrinsicBaseWeight_def saturating_mul_u64_def)
  have frac: "unat (perbill_from_rational ws 100000000 12500000000) = 8000000"
    using assms(2) unfolding perbill_exact_def by (auto dest!: spec [of _ "100000000 :: u128"])
  then have "perbill_from_rational ws 100000000 12500000000 = 8000000"
    by (simp add: word_unat_eq_iff)
  moreover have "unat (perbill_mul ws 8000000 125000000) = 1000000"
    using assms(2) unfolding perbill_exact_def by (auto dest!: spec [of _ "8000000 :: u32"])
  then have "perbill_mul ws 8000000 125000000 = 1000000"
    by (simp add: word_unat_eq_iff)
  ultimately show ?thesis
    by (simp add: linear_fee_def weight_to_fee_polynomial_def base MILLIUNIT_def MICROUNIT_def)
qed

theorem base_weight_costs_one_microunit_witness:
  "linear_fee example_weight_sdk (weight_to_fee_polynomial example_weight_sdk)
     (ucast (ref_time (ExtrinsicBaseWeight example_weight_sdk))) = MICROUNIT"
  by (rule base_weight_costs_one_microunit [OF example_ref_time_units example_perbill_exact])

text \<open>
  The pallet indices of the runtime are strictly increasing in the order the hooks run, so no
  two pallets share an index; every pallet is listed, and both stuffers initialise before the MMRs
  that read from them.
\<close>

theorem pallet_indices_increase:
  "sorted_wrt (<) (map snd construct_runtime) \<and> (\<forall>p. p \<in> fst ` set construct_runtime) \<and>
   sorted_wrt (<) (map fst construct_runtime) \<and>
   dropWhile (\<lambda>e. fst e \<noteq> MsgStufferParaA) construct_runtime =
     [(MsgStufferParaA, 50), (MsgStufferParaB, 51), (MmrParaA, 52), (MmrParaB, 53)]"
  using every_pallet_is_listed indices_strictly_increase hooks_run_in_order
  by (simp add: construct_runtime_def)

text \<open>
  The time constants are consistent and none of them overflows: a day's blocks last a day, and
  a session lasts six hours, which is also the period of session rotation.
\<close>

theorem time_constants_agree:
  "unat DAYS * unat MILLISECS_PER_BLOCK = 24 * 60 * 60 * 1000 \<and> Period = SessionLength \<and>
   unat SessionLength * unat SLOT_DURATION = 6 * 60 * 60 * 1000 \<and> Offset < Period"
  by (simp add: DAYS_def HOURS_def MINUTES_def MILLISECS_PER_BLOCK_def Period_def SessionLength_def
        SLOT_DURATION_def Offset_def)

end
