(* ===== verification/Chain_Spec.thy ===== *)
theory Chain_Spec
  imports Runtime_Config
begin

text \<open>
  The node's chain specifications (\<^verbatim>\<open>src/node/src/chain_spec.rs\<close>), how a specification is
  chosen by its identifier (\<^verbatim>\<open>load_spec\<close> in \<^verbatim>\<open>command.rs\<close>). Key derivation, the runtime blob the build generates, the XCM version and
  reading a JSON file are parameters. Fields that the sources leave to \<^verbatim>\<open>Default\<close> are left
  out.
\<close>

section \<open>Data\<close>

record extensions =
  relay_chain :: string
  ext_para_id :: u32

datatype chain_type = Development | Local

datatype property_value = PString string | PNat nat

record 'aura session_keys =
  aura :: 'aura

record ('acc, 'aura) genesis_config =
  system_code :: bytes
  balances :: "('acc \<times> u128) list"
  parachain_id :: u32
  invulnerables :: "'acc list"
  candidacy_bond :: u128
  session_key_list :: "('acc \<times> 'acc \<times> 'aura session_keys) list"
  safe_xcm_version :: "u32 option"
  sudo_key :: "'acc option"

record ('acc, 'aura) chain_spec =
  spec_name :: string
  spec_id :: string
  chain_type :: chain_type
  genesis :: "(unit, ('acc, 'aura) genesis_config) outcome"
  boot_nodes :: "string list"
  telemetry :: "string option"
  protocol_id :: "string option"
  fork_id :: "string option"
  properties :: "(string \<times> property_value) list option"
  spec_extensions :: extensions

text \<open>What the node takes from elsewhere.\<close>

record ('acc, 'aura) node_env =
  account_from_string :: "string \<Rightarrow> 'acc"
  aura_from_string :: "string \<Rightarrow> 'aura"
  wasm_binary :: "bytes option"
  xcm_version :: u32

definition SAFE_XCM_VERSION :: "('acc, 'aura) node_env \<Rightarrow> u32" where
  "SAFE_XCM_VERSION env = xcm_version env"

text \<open>\<open>get_extension\<close> is the SDK's search in the extensions of a specification of any kind.\<close>

definition extensions_try_get :: "('ext \<Rightarrow> extensions option) \<Rightarrow> ('spec \<Rightarrow> 'ext) \<Rightarrow> 'spec \<Rightarrow> extensions option" where
  "extensions_try_get get_extension extensions_of chain_spec = get_extension (extensions_of chain_spec)"

section \<open>Keys\<close>

definition get_from_seed :: "(string \<Rightarrow> 'p) \<Rightarrow> string \<Rightarrow> 'p" where
  "get_from_seed from_string seed = from_string (''//'' @ seed)"

definition get_collator_keys_from_seed :: "('acc, 'aura) node_env \<Rightarrow> string \<Rightarrow> 'aura" where
  "get_collator_keys_from_seed env seed = get_from_seed (aura_from_string env) seed"

definition get_account_id_from_seed :: "('acc, 'aura) node_env \<Rightarrow> string \<Rightarrow> 'acc" where
  "get_account_id_from_seed env seed = get_from_seed (account_from_string env) seed"

definition template_session_keys :: "'aura \<Rightarrow> 'aura session_keys" where
  "template_session_keys keys = \<lparr>aura = keys\<rparr>"

section \<open>Genesis\<close>

definition testnet_genesis ::
  "('acc, 'aura) node_env \<Rightarrow> ('acc \<times> 'aura) list \<Rightarrow> 'acc list \<Rightarrow> 'acc \<Rightarrow> u32 \<Rightarrow>
   (unit, ('acc, 'aura) genesis_config) outcome" where
  "testnet_genesis env invulns endowed_accounts root ident =
     (case wasm_binary env of
        None \<Rightarrow> Panic
      | Some code \<Rightarrow> Ok
          \<lparr>system_code = code,
           balances = map (\<lambda>k. (k, push_bit 60 1)) endowed_accounts,
           parachain_id = ident,
           invulnerables = map (\<lambda>(acc, _). acc) invulns,
           candidacy_bond = EXISTENTIAL_DEPOSIT * 16,
           session_key_list = map (\<lambda>(acc, aura). (acc, acc, template_session_keys aura)) invulns,
           safe_xcm_version = Some (SAFE_XCM_VERSION env),
           sudo_key = Some root\<rparr>)"

definition initial_collators :: "('acc, 'aura) node_env \<Rightarrow> ('acc \<times> 'aura) list" where
  "initial_collators env =
     [(get_account_id_from_seed env ''Alice'', get_collator_keys_from_seed env ''Alice''),
      (get_account_id_from_seed env ''Bob'', get_collator_keys_from_seed env ''Bob'')]"

definition endowed_seeds :: "string list" where
  "endowed_seeds =
     [''Alice'', ''Bob'', ''Charlie'', ''Dave'', ''Eve'', ''Ferdie'', ''Alice//stash'', ''Bob//stash'',
      ''Charlie//stash'', ''Dave//stash'', ''Eve//stash'', ''Ferdie//stash'']"

definition unit_properties :: "(string \<times> property_value) list" where
  "unit_properties =
     [(''tokenSymbol'', PString ''UNIT''), (''tokenDecimals'', PNat 12), (''ss58Format'', PNat 42)]"

definition development_config :: "('acc, 'aura) node_env \<Rightarrow> ('acc, 'aura) chain_spec" where
  "development_config env =
     \<lparr>spec_name = ''Development'', spec_id = ''dev'', chain_type = Development,
      genesis = testnet_genesis env (initial_collators env) (map (get_account_id_from_seed env) endowed_seeds)
        (get_account_id_from_seed env ''Alice'') 1000,
      boot_nodes = [], telemetry = None, protocol_id = None, fork_id = None, properties = None,
      spec_extensions = \<lparr>relay_chain = ''rococo-local'', ext_para_id = 1000\<rparr>\<rparr>"

definition local_testnet_config :: "('acc, 'aura) node_env \<Rightarrow> ('acc, 'aura) chain_spec" where
  "local_testnet_config env =
     \<lparr>spec_name = ''Local Testnet'', spec_id = ''local_testnet'', chain_type = Local,
      genesis = testnet_genesis env (initial_collators env) (map (get_account_id_from_seed env) endowed_seeds)
        (get_account_id_from_seed env ''Alice'') 1000,
      boot_nodes = [], telemetry = None, protocol_id = Some ''template-local'', fork_id = None,
      properties = Some unit_properties,
      spec_extensions = \<lparr>relay_chain = ''rococo-local'', ext_para_id = 1000\<rparr>\<rparr>"

section \<open>Choosing a specification\<close>

definition load_spec ::
  "('acc, 'aura) node_env \<Rightarrow> (string \<Rightarrow> string + ('acc, 'aura) chain_spec) \<Rightarrow> string \<Rightarrow>
   string + ('acc, 'aura) chain_spec" where
  "load_spec env from_json_file ident =
     (if ident = ''dev'' then Inr (development_config env)
      else if ident = ''template-rococo'' then Inr (local_testnet_config env)
      else if ident = '''' \<or> ident = ''local'' then Inr (local_testnet_config env)
      else from_json_file ident)"

section \<open>The built-in genesis\<close>

definition builtin_genesis :: "('acc, 'aura) node_env \<Rightarrow> bytes \<Rightarrow> ('acc, 'aura) genesis_config" where
  "builtin_genesis env code =
     \<lparr>system_code = code,
      balances = map (\<lambda>seed. (get_account_id_from_seed env seed, 2 ^ 60)) endowed_seeds,
      parachain_id = 1000,
      invulnerables = map (get_account_id_from_seed env) [''Alice'', ''Bob''],
      candidacy_bond = 16 * MILLIUNIT,
      session_key_list = map (\<lambda>seed. (get_account_id_from_seed env seed, get_account_id_from_seed env seed,
          \<lparr>aura = get_collator_keys_from_seed env seed\<rparr>)) [''Alice'', ''Bob''],
      safe_xcm_version = Some (SAFE_XCM_VERSION env),
      sudo_key = Some (get_account_id_from_seed env ''Alice'')\<rparr>"

lemma genesis_of_builtin_specs:
  assumes "wasm_binary env = Some code"
  shows "genesis (development_config env) = Ok (builtin_genesis env code)"
    and "genesis (local_testnet_config env) = Ok (builtin_genesis env code)"
  using assms
  by (simp_all add: development_config_def local_testnet_config_def testnet_genesis_def builtin_genesis_def
        initial_collators_def template_session_keys_def EXISTENTIAL_DEPOSIT_def push_bit_eq_mult comp_def)

lemma account_ids_distinct:
  "inj (account_from_string env) \<Longrightarrow>
   get_account_id_from_seed env s = get_account_id_from_seed env t \<longleftrightarrow> s = t"
  by (auto simp: get_account_id_from_seed_def get_from_seed_def dest: injD)

lemma endowed_accounts_distinct:
  "inj (account_from_string env) \<Longrightarrow> distinct (map (get_account_id_from_seed env) endowed_seeds)"
  by (rule distinct_map [THEN iffD2]) (auto simp: account_ids_distinct inj_on_def endowed_seeds_def)

section \<open>Properties\<close>

definition example_env :: "(string, string) node_env" where
  "example_env = \<lparr>account_from_string = (\<lambda>s. s), aura_from_string = (\<lambda>s. s), wasm_binary = Some [0], xcm_version = 3\<rparr>"



text \<open>
  Which specification an identifier selects: \<^verbatim>\<open>dev\<close> the development one, the empty
  string, \<^verbatim>\<open>local\<close> and \<^verbatim>\<open>template-rococo\<close> the local testnet, anything else is read from
  the file of that name, with its error passed on.
\<close>

theorem load_spec_selects:
  "load_spec env from_json ident =
     (if ident = ''dev'' then Inr (development_config env)
      else if ident \<in> {'''', ''local'', ''template-rococo''} then Inr (local_testnet_config env)
      else from_json ident)"
  by (simp add: load_spec_def)

end
