(* ===== verification/System_Machine.thy ===== *)
theory System_Machine
  imports Relayer_Tasks Runtime_Xcmp
begin

text \<open>
  The chain and the relayer together. The state of the system is the runtime of the parachain, the
  relayer's maps and what it has submitted, the BEEFY roots the blocks have brought so far, and the
  verdicts of the pallet on the XCMP proofs that reached it. Blocks begin, the bodies of the relayer's tasks run (with the
  bodies of the others in their gaps), anybody calls either instance of the pallet, and what the relayer has submitted is executed
  on instance A (the relayer's extrinsics name \<^verbatim>\<open>msg_stuffer_para_a\<close>), at any later time, any number of
  times and in any order. The second half is a typing of the runtime's MMRs that every step keeps.
\<close>

section \<open>The system\<close>

record ('m, 'mp) system =
  chain :: "'m runtime"
  relayer_state :: "'mp relayer"
  block_roots :: "h256 list"
  verdicts :: "('mp subxt_xcmp_proof \<times> h256 \<times> (stuffer_error dispatch_error, unit) outcome) list"

definition system_boot :: "'m \<Rightarrow> ('m, 'mp) system" where
  "system_boot m = \<lparr>chain = runtime_genesis m, relayer_state = relayer_boot, block_roots = [], verdicts = []\<rparr>"

text \<open>An extrinsic of the relayer executed by the runtime.\<close>

fun apply_tx ::
  "('mp, 'dg) sdk \<Rightarrow> ('o \<Rightarrow> 'acc option) \<Rightarrow> 'o \<Rightarrow> 'mp relayer_tx \<Rightarrow> unit stuffer_call" where
  "apply_tx sdk es origin (TxUpdateRoot root cid) = update_root es origin root cid"
| "apply_tx sdk es origin (TxSubmitTestProof mp leaves cid) = submit_test_proof sdk es origin mp leaves cid"
| "apply_tx sdk es origin (TxSubmitXcmpProof p r) = submit_xcmp_proof sdk es origin (runtime_xcmp_proof p) r"

fun verdict_of ::
  "'mp relayer_tx \<Rightarrow> (stuffer_error dispatch_error, unit) outcome \<Rightarrow>
   ('mp subxt_xcmp_proof \<times> h256 \<times> (stuffer_error dispatch_error, unit) outcome) list" where
  "verdict_of (TxSubmitXcmpProof p r) res = [(p, r, res)]"
| "verdict_of _ _ = []"

inductive system_step ::
  "('mp, 'dg) sdk \<Rightarrow> ('m, 'mp) mmr_pallet \<Rightarrow> ('o \<Rightarrow> 'acc option) \<Rightarrow> ('m, 'mp) system \<Rightarrow> ('m, 'mp) system \<Rightarrow> bool"
  for sdk mmr es where
  block: "initialize_block sdk mmr outbound get_root n parent (chain st) = Some rt \<Longrightarrow>
    system_step sdk mmr es st (st\<lparr>chain := rt,
      block_roots := block_roots st @ [case get_root of Some r \<Rightarrow> r | None \<Rightarrow> 0]\<rparr>)"
| task: "relayer_code sdk f \<Longrightarrow> system_step sdk mmr es st (st\<lparr>relayer_state := f (relayer_state st)\<rparr>)"
| outsider_a: "is_call op \<Longrightarrow>
    system_step sdk mmr es st (st\<lparr>chain := (chain st)\<lparr>msg_stuffer_para_a := stuffer_exec sdk es op (msg_stuffer_para_a (chain st))\<rparr>\<rparr>)"
| outsider_b: "is_call op \<Longrightarrow>
    system_step sdk mmr es st (st\<lparr>chain := (chain st)\<lparr>msg_stuffer_para_b := stuffer_exec sdk es op (msg_stuffer_para_b (chain st))\<rparr>\<rparr>)"
| deliver: "(ep, signer, tx) \<in> set (submitted (relayer_state st)) \<Longrightarrow>
    apply_tx sdk es origin tx (msg_stuffer_para_a (chain st)) = (res, s) \<Longrightarrow>
    system_step sdk mmr es st (st\<lparr>chain := (chain st)\<lparr>msg_stuffer_para_a := s\<rparr>, verdicts := verdicts st @ verdict_of tx res\<rparr>)"

inductive_cases system_stepE: "system_step sdk mmr es st st'"

section \<open>Links that hold\<close>

definition linking_errors :: "stuffer_error set" where
  "linking_errors = {XcmpStage2LeafDoesntDecode, XcmpStage2RootDoesntMatch, XcmpStage3HeaderDoesntDecode,
     XcmpStage3CannotBeExtracted, XcmpStage3RootDoesntMatch}"

lemma linked_stages_checks:
  assumes "stages_linked sdk p"
  shows "\<exists>leaf leaves bl. snd (stage_1 p) = leaf # leaves \<and>
    decode_beefy_leaf sdk (into_opaque_leaf sdk leaf) = Some bl \<and> leaf_extra bl = pa_root (stage_2 p) \<and>
    para_channel_root sdk (pa_leaf (stage_2 p)) = Some (ch_root (stage_3 p))"
  using assms by (auto simp: stages_linked_def split: list.splits)

lemma linked_stages_never_fail_linking:
  assumes "stages_linked sdk p" and "e \<in> linking_errors"
  shows "fst (submit_xcmp_proof sdk es origin p r s) \<noteq> Err (Module e)"
proof
  assume "fst (submit_xcmp_proof sdk es origin p r s) = Err (Module e)"
  then have "(False, Err (Module e)) \<in> set (submit_checks sdk (es origin \<noteq> None) (seen_beefy_roots s r \<noteq> None) p r)"
    using first_failure_in_checks [of "submit_checks sdk (es origin \<noteq> None) (seen_beefy_roots s r \<noteq> None) p r" "Ok ()"]
    by (simp add: submit_xcmp_proof_table)
  with linked_stages_checks [OF assms(1)] assms(2) show False
    unfolding linking_errors_def by (elim exE conjE) (auto simp: submit_checks_def Let_def para_channel_root_Some_iff)
qed

section \<open>The invariant of the system\<close>

definition chain_inv :: "('m, 'mp) system \<Rightarrow> bool" where
  "chain_inv st \<longleftrightarrow> same_beefy_roots (chain st) \<and>
     dom (seen_beefy_roots (msg_stuffer_para_a (chain st))) = set (block_roots st)"

definition verdict_ok :: "('mp, 'dg) sdk \<Rightarrow> h256 set \<Rightarrow>
  'mp subxt_xcmp_proof \<times> h256 \<times> (stuffer_error dispatch_error, unit) outcome \<Rightarrow> bool" where
  "verdict_ok sdk roots v =
     (case v of (p, r, res) \<Rightarrow>
        (res = Ok () \<longrightarrow> r \<in> roots \<and> xcmp_chain sdk r (runtime_xcmp_proof p)) \<and>
        (\<forall>e \<in> linking_errors. res \<noteq> Err (Module e)))"

definition system_inv :: "('mp, 'dg) sdk \<Rightarrow> ('m, 'mp) mmr_pallet \<Rightarrow> ('m, 'mp) system \<Rightarrow> bool" where
  "system_inv sdk mmr st \<longleftrightarrow>
     relayer_inv sdk (relayer_state st) \<and>
     (mmr_appends_leaf mmr \<longrightarrow> chain_inv st \<and> list_all (verdict_ok sdk (set (block_roots st))) (verdicts st))"

lemma boot_system_inv: "system_inv sdk mmr (system_boot m)"
  using relayer_machine.start_invariant [OF refl]
  by (simp add: system_inv_def system_boot_def chain_inv_def runtime_genesis_def same_beefy_roots_def stuffer_genesis_def)

lemma verdict_ok_mono: "list_all (verdict_ok sdk R) vs \<Longrightarrow> R \<subseteq> R' \<Longrightarrow> list_all (verdict_ok sdk R') vs"
  by (fastforce simp: list_all_iff verdict_ok_def split: prod.splits)

lemma apply_tx_keeps_beefy_roots:
  "apply_tx sdk es origin tx s = (res, t) \<Longrightarrow>
   seen_beefy_roots t = seen_beefy_roots s \<and> seen_beefy_roots_order t = seen_beefy_roots_order s"
  by (cases tx) (auto simp: update_root_run submit_test_proof_run submit_xcmp_proof_table split: if_splits)

lemma apply_tx_verdict:
  assumes "tx_ok sdk tx" and "apply_tx sdk es origin tx s = (res, t)" and "dom (seen_beefy_roots s) = R"
  shows "list_all (verdict_ok sdk R) (verdict_of tx res)"
proof (cases tx)
  case (TxSubmitXcmpProof p r)
  with assms(2) have res: "res = fst (submit_xcmp_proof sdk es origin (runtime_xcmp_proof p) r s)" by simp
  have "\<forall>e \<in> linking_errors. res \<noteq> Err (Module e)"
    using assms(1) unfolding res TxSubmitXcmpProof by (simp add: linked_stages_never_fail_linking)
  moreover have "res = Ok () \<Longrightarrow> r \<in> R \<and> xcmp_chain sdk r (runtime_xcmp_proof p)"
    using assms(3) unfolding res submit_xcmp_proof_ok_iff by auto
  ultimately show ?thesis by (simp add: TxSubmitXcmpProof verdict_ok_def)
qed simp_all

lemma block_records_root:
  assumes "mmr_appends_leaf mmr" and "initialize_block sdk mmr outbound get_root n parent rt = Some rt'"
  shows "dom (seen_beefy_roots (msg_stuffer_para_a rt')) =
    insert (case get_root of Some r \<Rightarrow> r | None \<Rightarrow> 0) (dom (seen_beefy_roots (msg_stuffer_para_a rt)))"
  using assms(2) unfolding initialize_block_Some_iff [OF assms(1)] by (elim exE conjE) simp

lemma set_stuffer_chain_inv:
  assumes "chain_inv st"
  shows "seen_beefy_roots s = seen_beefy_roots (msg_stuffer_para_a (chain st)) \<Longrightarrow>
      seen_beefy_roots_order s = seen_beefy_roots_order (msg_stuffer_para_a (chain st)) \<Longrightarrow>
      chain_inv (st\<lparr>chain := (chain st)\<lparr>msg_stuffer_para_a := s\<rparr>, verdicts := vs\<rparr>)"
    and "seen_beefy_roots s = seen_beefy_roots (msg_stuffer_para_b (chain st)) \<Longrightarrow>
      seen_beefy_roots_order s = seen_beefy_roots_order (msg_stuffer_para_b (chain st)) \<Longrightarrow>
      chain_inv (st\<lparr>chain := (chain st)\<lparr>msg_stuffer_para_b := s\<rparr>, verdicts := vs\<rparr>)"
  using assms unfolding chain_inv_def same_beefy_roots_def by (simp; metis)+

lemma step_system_inv:
  assumes "system_inv sdk mmr st" and "system_step sdk mmr es st st'"
  shows "system_inv sdk mmr st'"
  using assms(2)
proof (cases rule: system_step.cases)
  case (block outbound get_root n parent rt)
  have "same_beefy_roots rt" if "mmr_appends_leaf mmr" "same_beefy_roots (chain st)"
    using step_same_beefy_roots [OF that runtime_step.block [OF block(2)]] .
  moreover note block_records_root [OF _ block(2)]
  ultimately show ?thesis
    using assms(1) by (auto simp: block(1) system_inv_def chain_inv_def intro: verdict_ok_mono)
next
  case (task f)
  with assms(1) relayer_code_inv [OF task(2)] show ?thesis by (auto simp: system_inv_def chain_inv_def)
next
  case (outsider_a op)
  with assms(1) show ?thesis
    using set_stuffer_chain_inv(1) [of st "stuffer_exec sdk es op (msg_stuffer_para_a (chain st))" "verdicts st"]
    by (simp add: system_inv_def call_keeps_beefy_roots)
next
  case (outsider_b op)
  with assms(1) show ?thesis
    using set_stuffer_chain_inv(2) [of st "stuffer_exec sdk es op (msg_stuffer_para_b (chain st))" "verdicts st"]
    by (simp add: system_inv_def call_keeps_beefy_roots)
next
  case (deliver ep signer tx origin res s)
  have tx: "tx_ok sdk tx"
    using assms(1) deliver(2) by (fastforce simp: system_inv_def relayer_inv_def list_all_iff)
  show ?thesis
    using assms(1) apply_tx_keeps_beefy_roots [OF deliver(3)] apply_tx_verdict [OF tx deliver(3)]
      set_stuffer_chain_inv(1) [of st s "verdicts st @ verdict_of tx res"]
    by (auto simp: deliver(1) system_inv_def) (simp add: chain_inv_def)
qed

interpretation system_machine: invariant_machine "\<lambda>st. \<exists>m. st = system_boot m" "system_step sdk mmr es"
  "system_inv sdk mmr" for sdk mmr es
  by unfold_locales (auto intro: boot_system_inv step_system_inv)

section \<open>The typing of the MMRs\<close>

text \<open>
  A leaf is well typed when it has
  the configured version and starts with the marker bytes; a runtime is well typed when all leaves of both
  MMRs are, the two MMRs were fed by the same blocks in the same order, and there is one leaf in each
  for every BEEFY root recorded.
\<close>

definition leaf_typed :: "mmr_leaf \<Rightarrow> bool" where
  "leaf_typed leaf \<longleftrightarrow> leaf_version leaf = LeafVersion \<and> take 3 (xcmp_msgs leaf) = [1, 2, 3]"

definition runtime_typed :: "('m \<Rightarrow> mmr_leaf list) \<Rightarrow> 'm runtime \<Rightarrow> bool" where
  "runtime_typed leaves rt \<longleftrightarrow>
     list_all leaf_typed (leaves (mmr_para_a rt)) \<and> list_all leaf_typed (leaves (mmr_para_b rt)) \<and>
     map parent_number_and_hash (leaves (mmr_para_a rt)) = map parent_number_and_hash (leaves (mmr_para_b rt)) \<and>
     length (leaves (mmr_para_a rt)) = length (seen_beefy_roots_order (msg_stuffer_para_a rt))"

definition typing_laws :: "('mp, 'dg) sdk \<Rightarrow> ('m, 'mp) mmr_pallet \<Rightarrow> ('m \<Rightarrow> mmr_leaf list) \<Rightarrow> bool" where
  "typing_laws sdk mmr leaves \<longleftrightarrow> force_from_unchecked sdk \<and> mmr_appends_leaf mmr \<and> leaves_of_mmr mmr leaves"

lemma stuffed_leaf_typed:
  "get_xcmp_messages outbound h pid = Some msgs \<Longrightarrow> leaf_typed (stuffed_leaf msgs parent)"
  by (auto simp: leaf_typed_def stuffed_leaf_def get_xcmp_messages_run split: if_splits)

lemma step_runtime_typed:
  assumes "typing_laws sdk mmr leaves" and "runtime_typed leaves rt" and "runtime_step sdk mmr es rt rt'"
  shows "runtime_typed leaves rt'"
  using assms(3)
proof (cases rule: runtime_step.cases)
  case (block outbound get_root n parent)
  have mmr: "mmr_appends_leaf mmr" using assms(1) by (simp add: typing_laws_def)
  from block(1) obtain msgs_a msgs_b where
      msgs: "get_xcmp_messages outbound (snd parent) ParaAIdentifier = Some msgs_a"
        "get_xcmp_messages outbound (snd parent) ParaBIdentifier = Some msgs_b"
    and rt': "mmr_para_a rt' = mmr_push mmr (mmr_para_a rt) (stuffed_leaf msgs_a parent)"
        "mmr_para_b rt' = mmr_push mmr (mmr_para_b rt) (stuffed_leaf msgs_b parent)"
        "seen_beefy_roots_order (msg_stuffer_para_a rt') =
           force_from sdk (seen_beefy_roots_order (msg_stuffer_para_a rt) @ [case get_root of Some r \<Rightarrow> r | None \<Rightarrow> 0])"
    unfolding initialize_block_Some_iff [OF mmr] by (elim exE conjE) simp
  show ?thesis
    using assms(1,2) stuffed_leaf_typed [OF msgs(1)] stuffed_leaf_typed [OF msgs(2)]
    by (simp add: runtime_typed_def rt' typing_laws_def leaves_of_mmr_def force_from_unchecked_def stuffed_leaf_def)
next
  case (call_a op)
  with assms(2) show ?thesis by (simp add: runtime_typed_def call_keeps_beefy_roots)
next
  case (call_b op)
  with assms(2) show ?thesis by (simp add: runtime_typed_def)
qed

interpretation typed_runtime: invariant_machine "\<lambda>rt. \<exists>m. leaves m = [] \<and> rt = runtime_genesis m"
  "runtime_step sdk mmr es" "\<lambda>rt. typing_laws sdk mmr leaves \<longrightarrow> runtime_typed leaves rt" for leaves sdk mmr es
proof
  show "typing_laws sdk mmr leaves \<longrightarrow> runtime_typed leaves rt" if "\<exists>m. leaves m = [] \<and> rt = runtime_genesis m" for rt
    using that by (auto simp: runtime_typed_def runtime_genesis_def stuffer_genesis_def)
qed (blast intro: step_runtime_typed)

section \<open>Properties\<close>

lemma example_typing_laws: "typing_laws example_sdk example_mmr (\<lambda>m. m)"
  using example_sdk_laws(1) example_mmr_appends_leaf
  by (simp add: typing_laws_def leaves_of_mmr_def) (simp add: example_mmr_def)

lemma example_block:
  "\<exists>rt. initialize_block example_sdk example_mmr example_outbound (Some 7) 1 (0, 5) (runtime_genesis []) = Some rt \<and>
     seen_beefy_roots (msg_stuffer_para_a rt) 7 = Some 1"
proof -
  have "\<exists>k. example_outbound ParaAIdentifier k = None" "\<exists>k. example_outbound ParaBIdentifier k = None"
    by (auto simp: example_outbound_def ParaAIdentifier_def ParaBIdentifier_def intro: exI [of _ 2])
  then obtain msgs_a msgs_b where
      "get_xcmp_messages example_outbound (snd (0, 5)) ParaAIdentifier = Some msgs_a"
      "get_xcmp_messages example_outbound (snd (0, 5)) ParaBIdentifier = Some msgs_b"
    using runtime_provider.provides by metis
  then show ?thesis
    unfolding initialize_block_Some_iff [OF example_mmr_appends_leaf] by simp
qed

lemma example_assembled_chain: "xcmp_chain example_sdk 7 (runtime_xcmp_proof example_assembled)"
  by (simp add: xcmp_chain_def example_assembled_def runtime_xcmp_proof_def channel_proof_from_subxt_def
        runtime_para_leaf_def try_into_u32_def para_channel_root_def opaque_nodes_def)

lemma example_assembled_linked: "stages_linked example_sdk (runtime_xcmp_proof example_assembled)"
  using example_assembled_chain by (auto simp: xcmp_chain_def stages_linked_def)

text \<open>A run: the relayer collects, assembles and submits a proof, a block brings its BEEFY root, and the proof is delivered and accepted.\<close>

lemma example_system_run:
  "\<exists>st. (system_step example_sdk example_mmr example_signer)\<^sup>*\<^sup>* (system_boot []) st \<and>
     (example_assembled, 7, Ok ()) \<in> set (verdicts st)"
proof -
  let ?step = "system_step example_sdk example_mmr example_signer"
  let ?tx = "TxSubmitXcmpProof example_assembled 7"
  obtain rt where rt: "initialize_block example_sdk example_mmr example_outbound (Some 7) 1 (0, 5) (runtime_genesis []) = Some rt"
      "seen_beefy_roots (msg_stuffer_para_a rt) 7 = Some 1"
    using example_block by blast
  define st1 where "st1 = (system_boot [] :: (mmr_leaf list, h256) system)\<lparr>relayer_state := example_relayer_run relayer_boot\<rparr>"
  define st2 where "st2 = st1\<lparr>chain := rt, block_roots := block_roots st1 @ [7]\<rparr>"
  from system_step.task [OF example_relayer_run_code, of example_mmr example_signer "system_boot []"]
  have "?step (system_boot []) st1"
    unfolding st1_def by (simp add: system_boot_def)
  moreover have "?step st1 st2"
    using system_step.block [of example_sdk example_mmr example_outbound "Some 7" 1 "(0, 5)" st1 rt] rt(1)
    by (simp add: st2_def) (simp add: st1_def system_boot_def)
  moreover have "apply_tx example_sdk example_signer (Some 1) ?tx (msg_stuffer_para_a (chain st2)) = (Ok (), msg_stuffer_para_a rt)"
    using submit_xcmp_proof_ok_iff [of example_sdk example_signer "Some 1" "runtime_xcmp_proof example_assembled" 7 "msg_stuffer_para_a rt"]
      submit_xcmp_proof_storage [of example_sdk example_signer "Some 1" "runtime_xcmp_proof example_assembled" 7 "msg_stuffer_para_a rt"]
      example_assembled_chain rt(2)
    by (simp add: st2_def example_signer_def prod_eq_iff)
  then have "?step st2 (st2\<lparr>chain := (chain st2)\<lparr>msg_stuffer_para_a := msg_stuffer_para_a rt\<rparr>,
      verdicts := verdicts st2 @ verdict_of ?tx (Ok ())\<rparr>)"
    by (intro system_step.deliver [of DEFAULT_ENDPOINT_PARA_SENDER Charlie])
       (simp_all add: st2_def st1_def example_relayer_run_submits)
  ultimately show ?thesis
    by (intro exI conjI) (erule rtranclp.rtrancl_into_rtrancl [rotated], erule rtranclp.rtrancl_into_rtrancl [rotated],
       erule r_into_rtranclp, simp)
qed

text \<open>
  Claim C4: the closed system is sound: in every state reached from the boot by blocks, runs of the relayer's tasks (with the
  other tasks in their gaps), calls of anybody and deliveries of what the relayer submitted, each XCMP proof of the relayer the
  chain has accepted is a chain of four verified stages from a BEEFY root that some block of this chain brought; and none was
  refused because its stages do not link: \<open>generate_xcmp_proof\<close> looks each stage up under the root that the next one names, in maps
  the collecting tasks only fill with entries that decode to their keys.
\<close>

theorem system_verdicts_are_sound:
  assumes "mmr_appends_leaf mmr" and "(system_step sdk mmr es)\<^sup>*\<^sup>* (system_boot m) st"
    and "(p, r, res) \<in> set (verdicts st)"
  shows "(res = Ok () \<longrightarrow> r \<in> set (block_roots st) \<and> xcmp_chain sdk r (runtime_xcmp_proof p)) \<and>
    (\<forall>e \<in> linking_errors. res \<noteq> Err (Module e))"
proof -
  have "system_inv sdk mmr st"
    by (rule system_machine.reachable_invariant [OF _ assms(2)]) blast
  with assms(1,3) show ?thesis by (fastforce simp: system_inv_def list_all_iff verdict_ok_def)
qed

theorem system_verdicts_are_sound_witness:
  "\<exists>st. (system_step example_sdk example_mmr example_signer)\<^sup>*\<^sup>* (system_boot []) st \<and>
     (example_assembled, 7, Ok ()) \<in> set (verdicts st) \<and> 7 \<in> set (block_roots st)"
proof -
  obtain st where st: "(system_step example_sdk example_mmr example_signer)\<^sup>*\<^sup>* (system_boot []) st"
      "(example_assembled, 7, Ok ()) \<in> set (verdicts st)"
    using example_system_run by blast
  from system_verdicts_are_sound [OF example_mmr_appends_leaf st] st show ?thesis by blast
qed

text \<open>
  Claim C8: what the chain decides about a delivered proof depends on the history of its blocks alone: in every
  reachable state of the closed system, either instance of the pallet accepts a proof exactly when the caller is signed, some
  block has brought the targeted BEEFY root, and the stages form a chain; nothing other users or the relayer did before
  matters.
\<close>

theorem system_accepts_by_history:
  assumes "mmr_appends_leaf mmr" and "(system_step sdk mmr es)\<^sup>*\<^sup>* (system_boot m) st"
  shows "(fst (submit_xcmp_proof sdk es origin p r (msg_stuffer_para_a (chain st))) = Ok () \<longleftrightarrow>
      es origin \<noteq> None \<and> r \<in> set (block_roots st) \<and> xcmp_chain sdk r p) \<and>
    (fst (submit_xcmp_proof sdk es origin p r (msg_stuffer_para_b (chain st))) = Ok () \<longleftrightarrow>
      es origin \<noteq> None \<and> r \<in> set (block_roots st) \<and> xcmp_chain sdk r p)"
proof -
  have "system_inv sdk mmr st"
    by (rule system_machine.reachable_invariant [OF _ assms(2)]) blast
  with assms(1) have "chain_inv st" by (simp add: system_inv_def)
  then have "seen_beefy_roots (msg_stuffer_para_a (chain st)) r \<noteq> None \<longleftrightarrow> r \<in> set (block_roots st)"
    "seen_beefy_roots (msg_stuffer_para_b (chain st)) = seen_beefy_roots (msg_stuffer_para_a (chain st))"
    unfolding chain_inv_def same_beefy_roots_def by (metis domIff)+
  then show ?thesis by (simp add: submit_xcmp_proof_ok_iff)
qed

theorem system_accepts_by_history_witness:
  "\<exists>st. (system_step example_sdk example_mmr example_signer)\<^sup>*\<^sup>* (system_boot []) st \<and>
     fst (submit_xcmp_proof example_sdk example_signer (Some 1) (runtime_xcmp_proof example_assembled) 7
       (msg_stuffer_para_b (chain st))) = Ok () \<and>
     fst (submit_xcmp_proof example_sdk example_signer (Some 1) (runtime_xcmp_proof example_assembled) 8
       (msg_stuffer_para_a (chain st))) \<noteq> Ok ()"
proof -
  obtain rt where rt: "initialize_block example_sdk example_mmr example_outbound (Some 7) 1 (0, 5) (runtime_genesis []) = Some rt"
    using example_block by blast
  define st where "st = (system_boot [] :: (mmr_leaf list, h256) system)\<lparr>chain := rt, block_roots := [7]\<rparr>"
  have "system_step example_sdk example_mmr example_signer (system_boot []) st"
    using system_step.block [of example_sdk example_mmr example_outbound "Some 7" 1 "(0, 5)" "system_boot []" rt] rt
    by (simp add: st_def system_boot_def)
  then have run: "(system_step example_sdk example_mmr example_signer)\<^sup>*\<^sup>* (system_boot []) st" by blast
  have "block_roots st = [7]" by (simp add: st_def)
  with system_accepts_by_history [OF example_mmr_appends_leaf run, of "Some 1" "runtime_xcmp_proof example_assembled"]
    example_assembled_chain run
  show ?thesis by (intro exI [of _ st]) (simp add: example_signer_def)
qed

text \<open>
  Claim C17: the runtime stays well typed: in every state reached from a genesis with empty MMRs, each leaf of both channels has the
  configured leaf version and starts with the marker bytes, the leaves of the two channels name the same parent
  blocks in the same order, and there is exactly one leaf per recorded BEEFY root.
\<close>

theorem reachable_runtime_is_well_typed:
  assumes "force_from_unchecked sdk" and "mmr_appends_leaf mmr" and "leaves_of_mmr mmr leaves" and "leaves m = []"
    and "(runtime_step sdk mmr es)\<^sup>*\<^sup>* (runtime_genesis m) rt"
  shows "list_all leaf_typed (leaves (mmr_para_a rt)) \<and> list_all leaf_typed (leaves (mmr_para_b rt)) \<and>
    map parent_number_and_hash (leaves (mmr_para_a rt)) = map parent_number_and_hash (leaves (mmr_para_b rt)) \<and>
    length (leaves (mmr_para_a rt)) = length (seen_beefy_roots_order (msg_stuffer_para_a rt))"
  using typed_runtime.reachable_invariant [OF _ assms(5), of leaves] assms(1-4)
  by (auto simp: runtime_typed_def typing_laws_def)

theorem reachable_runtime_is_well_typed_witness:
  "\<exists>rt. initialize_block example_sdk example_mmr example_outbound (Some 7) 1 (0, 5) (runtime_genesis []) = Some rt \<and>
     list_all leaf_typed (mmr_para_a rt) \<and>
     length (mmr_para_a rt) = length (seen_beefy_roots_order (msg_stuffer_para_a rt))"
proof -
  obtain rt where rt: "initialize_block example_sdk example_mmr example_outbound (Some 7) 1 (0, 5) (runtime_genesis []) = Some rt"
    using example_block by blast
  have "leaves_of_mmr example_mmr (\<lambda>m. m)" using example_typing_laws by (simp add: typing_laws_def)
  from reachable_runtime_is_well_typed [OF example_sdk_laws(1) example_mmr_appends_leaf this refl
      r_into_rtranclp [where r = "runtime_step example_sdk example_mmr example_signer", OF runtime_step.block [OF rt]]] rt
  show ?thesis by blast
qed

end
