(* ===== verification/Xcm_Config.thy ===== *)
theory Xcm_Config
  imports Runtime_Config
begin

text \<open>
  The XCM configuration of the runtime (\<^verbatim>\<open>src/runtime/src/xcm_config.rs\<close>): which locations are
  what, how a location becomes an account or an origin, which messages pass the barrier, how messages
  are routed and weighed. The sources compose types of the SDK; each of these types is a field of the
  record \<open>xcm_sdk\<close>, and the composition is the definition. Mutable arguments of a barrier (the
  instructions, the credit, the properties) are one state \<open>'x\<close> it may change while it decides.
\<close>

section \<open>Locations\<close>

datatype body_id = Executive | Defense | OtherBody nat

datatype 'j body_part = Voice | OtherPart 'j

datatype 'j junction = Parachain u32 | Plurality body_id "'j body_part" | OtherJunction 'j

text \<open>\<open>Here\<close> is the empty list and \<^verbatim>\<open>X1(j)\<close> a list of one junction.\<close>

record 'j multi_location =
  parents :: u8
  interior :: "'j junction list"

definition RelayLocation :: "'j multi_location" where
  "RelayLocation = \<lparr>parents = 1, interior = []\<rparr>"

definition RelayNetwork :: "'n option" where
  "RelayNetwork = None"

definition UniversalLocation :: "u32 \<Rightarrow> 'j junction list" where
  "UniversalLocation parachain_id = [Parachain parachain_id]"

definition ParentOrParentsExecutivePlurality :: "'j multi_location \<Rightarrow> bool" where
  "ParentOrParentsExecutivePlurality location =
     (parents location = 1 \<and>
      (case interior location of
         [] \<Rightarrow> True
       | [Plurality Executive _] \<Rightarrow> True
       | _ \<Rightarrow> False))"

definition StakingAdminBodyId :: body_id where
  "StakingAdminBodyId = Defense"

definition UnitWeightCost :: weight where
  "UnitWeightCost = \<lparr>ref_time = 1000000000, proof_size = 64 * 1024\<rparr>"

definition MaxInstructions :: u32 where
  "MaxInstructions = 100"

definition MaxAssetsIntoHolding :: u32 where
  "MaxAssetsIntoHolding = 64"

section \<open>What the SDK provides\<close>

text \<open>\<^verbatim>\<open>Everything\<close> and \<^verbatim>\<open>Nothing\<close> contain every value and no value.\<close>

datatype 'a filter = Everything | Nothing | Only "'a \<Rightarrow> bool"

fun contains :: "'a filter \<Rightarrow> 'a \<Rightarrow> bool" where
  "contains Everything _ = True"
| "contains Nothing _ = False"
| "contains (Only p) a = p a"

datatype origin_kind = Native | SovereignAccount | Superuser | XcmKind

type_synonym ('x, 'err, 'j) barrier = "'j multi_location \<Rightarrow> ('x, 'err, unit) action"
type_synonym ('acc, 'j) location_conversion = "'j multi_location \<Rightarrow> 'acc option"
type_synonym ('o, 'j) origin_conversion = "'j multi_location \<Rightarrow> origin_kind \<Rightarrow> 'j multi_location + 'o"
type_synonym ('msg, 'err, 'j) router = "'j multi_location \<Rightarrow> 'msg \<Rightarrow> 'err + 'msg"

record ('x, 'err, 'j, 'acc, 'o, 'msg, 'n) xcm_sdk =
  ParentIsPreset :: "('acc, 'j) location_conversion"
  SiblingParachainConvertsVia :: "('acc, 'j) location_conversion"
  AccountId32Aliases :: "'n option \<Rightarrow> ('acc, 'j) location_conversion"
  location_tuple :: "('acc, 'j) location_conversion list \<Rightarrow> ('acc, 'j) location_conversion"
  SovereignSignedViaLocation :: "('acc, 'j) location_conversion \<Rightarrow> ('o, 'j) origin_conversion"
  RelayChainAsNative :: "'o \<Rightarrow> ('o, 'j) origin_conversion"
  SiblingParachainAsNative :: "('o, 'j) origin_conversion"
  SignedAccountId32AsNative :: "'n option \<Rightarrow> ('o, 'j) origin_conversion"
  XcmPassthrough :: "('o, 'j) origin_conversion"
  origin_tuple :: "('o, 'j) origin_conversion list \<Rightarrow> ('o, 'j) origin_conversion"
  RelayChainOrigin :: 'o
  TakeWeightCredit :: "('x, 'err, 'j) barrier"
  AllowTopLevelPaidExecutionFrom :: "'j multi_location filter \<Rightarrow> ('x, 'err, 'j) barrier"
  AllowExplicitUnpaidExecutionFrom :: "'j multi_location filter \<Rightarrow> ('x, 'err, 'j) barrier"
  DenyReserveTransferToRelayChain :: "('x, 'err, 'j) barrier"
  DenyThenTry :: "('x, 'err, 'j) barrier \<Rightarrow> ('x, 'err, 'j) barrier \<Rightarrow> ('x, 'err, 'j) barrier"
  WithComputedOrigin :: "('x, 'err, 'j) barrier \<Rightarrow> 'j junction list \<Rightarrow> u32 \<Rightarrow> ('x, 'err, 'j) barrier"
  TrailingSetTopicAsId :: "('x, 'err, 'j) barrier \<Rightarrow> ('x, 'err, 'j) barrier"
  barrier_tuple :: "('x, 'err, 'j) barrier list \<Rightarrow> ('x, 'err, 'j) barrier"
  ParentAsUmp :: "('msg, 'err, 'j) router"
  XcmpQueueRouter :: "('msg, 'err, 'j) router"
  router_tuple :: "('msg, 'err, 'j) router list \<Rightarrow> ('msg, 'err, 'j) router"
  WithUniqueTopic :: "('msg, 'err, 'j) router \<Rightarrow> ('msg, 'err, 'j) router"
  FixedWeightBounds :: "weight \<Rightarrow> u32 \<Rightarrow> 'msg \<Rightarrow> weight option"
  NativeAsset :: "'j multi_location \<Rightarrow> 'j multi_location \<Rightarrow> bool"
  SignedToAccountId32 :: "'n option \<Rightarrow> 'o \<Rightarrow> 'j multi_location option"
  EnsureXcmOrigin :: "('o \<Rightarrow> 'j multi_location option) \<Rightarrow> 'o \<Rightarrow> 'j multi_location option"

section \<open>The configuration\<close>

definition LocationToAccountId ::
  "('x, 'err, 'j, 'acc, 'o, 'msg, 'n) xcm_sdk \<Rightarrow> ('acc, 'j) location_conversion" where
  "LocationToAccountId xs =
     location_tuple xs
       [ParentIsPreset xs, SiblingParachainConvertsVia xs, AccountId32Aliases xs RelayNetwork]"

definition XcmOriginToTransactDispatchOrigin ::
  "('x, 'err, 'j, 'acc, 'o, 'msg, 'n) xcm_sdk \<Rightarrow> ('o, 'j) origin_conversion" where
  "XcmOriginToTransactDispatchOrigin xs =
     origin_tuple xs
       [SovereignSignedViaLocation xs (LocationToAccountId xs), RelayChainAsNative xs (RelayChainOrigin xs),
        SiblingParachainAsNative xs, SignedAccountId32AsNative xs RelayNetwork, XcmPassthrough xs]"

definition Barrier :: "('x, 'err, 'j, 'acc, 'o, 'msg, 'n) xcm_sdk \<Rightarrow> u32 \<Rightarrow> ('x, 'err, 'j) barrier" where
  "Barrier xs parachain_id =
     TrailingSetTopicAsId xs
       (DenyThenTry xs
         (DenyReserveTransferToRelayChain xs)
         (barrier_tuple xs
           [TakeWeightCredit xs,
            WithComputedOrigin xs
              (barrier_tuple xs
                [AllowTopLevelPaidExecutionFrom xs Everything,
                 AllowExplicitUnpaidExecutionFrom xs (Only ParentOrParentsExecutivePlurality)])
              (UniversalLocation parachain_id) 8]))"

definition XcmRouter :: "('x, 'err, 'j, 'acc, 'o, 'msg, 'n) xcm_sdk \<Rightarrow> ('msg, 'err, 'j) router" where
  "XcmRouter xs = WithUniqueTopic xs (router_tuple xs [ParentAsUmp xs, XcmpQueueRouter xs])"

text \<open>
  A currency adapter handles the assets of one location through a pallet, for the accounts a conversion
  gives; \<^verbatim>\<open>()\<close> as its last argument is no account for teleports.
\<close>

record ('acc, 'j) currency_adapter =
  ca_currency :: pallet
  ca_is_concrete :: "'j multi_location"
  ca_account_of :: "('acc, 'j) location_conversion"
  ca_checked_account :: "'acc option"

definition LocalAssetTransactor ::
  "('x, 'err, 'j, 'acc, 'o, 'msg, 'n) xcm_sdk \<Rightarrow> ('acc, 'j) currency_adapter" where
  "LocalAssetTransactor xs =
     \<lparr>ca_currency = Balances, ca_is_concrete = RelayLocation, ca_account_of = LocationToAccountId xs,
      ca_checked_account = None\<rparr>"

record 'j fee_trader =
  ft_weight_to_fee :: "fee_coefficient list"
  ft_asset :: "'j multi_location"
  ft_currency :: pallet

record ('x, 'err, 'j, 'acc, 'o, 'msg) xcm_config =
  XcmSender :: "('msg, 'err, 'j) router"
  AssetTransactor :: "('acc, 'j) currency_adapter"
  OriginConverter :: "('o, 'j) origin_conversion"
  IsReserve :: "'j multi_location \<Rightarrow> 'j multi_location \<Rightarrow> bool"
  IsTeleporter :: "'j multi_location \<Rightarrow> 'j multi_location \<Rightarrow> bool"
  ConfigUniversalLocation :: "'j junction list"
  ConfigBarrier :: "('x, 'err, 'j) barrier"
  Weigher :: "'msg \<Rightarrow> weight option"
  Trader :: "'j fee_trader option"
  ResponseHandler :: "pallet option"
  AssetTrap :: "pallet option"
  AssetClaims :: "pallet option"
  SubscriptionService :: "pallet option"
  PalletInstancesInfo :: "(pallet \<times> u8) list"
  ConfigMaxAssetsIntoHolding :: u32
  AssetLocker :: "pallet option"
  AssetExchanger :: "pallet option"
  FeeManager :: "pallet option"
  MessageExporter :: "pallet option"
  UniversalAliases :: "unit filter"
  SafeCallFilter :: "unit filter"
  Aliasers :: "unit filter"

text \<open>
  Teleporting is disabled: \<^verbatim>\<open>()\<close> accepts no pair of asset and location. The fees the trader takes go to
  the author of the block.
\<close>

definition XcmConfig ::
  "('x, 'err, 'j, 'acc, 'o, 'msg, 'n) xcm_sdk \<Rightarrow> weight_sdk \<Rightarrow> u32 \<Rightarrow> ('x, 'err, 'j, 'acc, 'o, 'msg) xcm_config" where
  "XcmConfig xs ws parachain_id =
     \<lparr>XcmSender = XcmRouter xs,
      AssetTransactor = LocalAssetTransactor xs,
      OriginConverter = XcmOriginToTransactDispatchOrigin xs,
      IsReserve = NativeAsset xs,
      IsTeleporter = (\<lambda>_ _. False),
      ConfigUniversalLocation = UniversalLocation parachain_id,
      ConfigBarrier = Barrier xs parachain_id,
      Weigher = FixedWeightBounds xs UnitWeightCost MaxInstructions,
      Trader = Some \<lparr>ft_weight_to_fee = weight_to_fee_polynomial ws, ft_asset = RelayLocation, ft_currency = Balances\<rparr>,
      ResponseHandler = Some PolkadotXcm, AssetTrap = Some PolkadotXcm, AssetClaims = Some PolkadotXcm,
      SubscriptionService = Some PolkadotXcm,
      PalletInstancesInfo = construct_runtime,
      ConfigMaxAssetsIntoHolding = MaxAssetsIntoHolding,
      AssetLocker = None, AssetExchanger = None, FeeManager = None, MessageExporter = None,
      UniversalAliases = Nothing,
      SafeCallFilter = Everything,
      Aliasers = Nothing\<rparr>"

definition LocalOriginToLocation :: "('x, 'err, 'j, 'acc, 'o, 'msg, 'n) xcm_sdk \<Rightarrow> 'o \<Rightarrow> 'j multi_location option" where
  "LocalOriginToLocation xs = SignedToAccountId32 xs RelayNetwork"

record ('err, 'j, 'acc, 'o, 'msg) pallet_xcm_config =
  SendXcmOrigin :: "'o \<Rightarrow> 'j multi_location option"
  PalletXcmRouter :: "('msg, 'err, 'j) router"
  ExecuteXcmOrigin :: "'o \<Rightarrow> 'j multi_location option"
  XcmExecuteFilter :: "unit filter"
  XcmTeleportFilter :: "unit filter"
  XcmReserveTransferFilter :: "unit filter"
  PalletWeigher :: "'msg \<Rightarrow> weight option"
  PalletUniversalLocation :: "'j junction list"
  VERSION_DISCOVERY_QUEUE_SIZE :: u32
  SovereignAccountOf :: "('acc, 'j) location_conversion"
  MaxLockers :: u32
  MaxRemoteLockConsumers :: u32

definition pallet_xcm_config_for_runtime ::
  "('x, 'err, 'j, 'acc, 'o, 'msg, 'n) xcm_sdk \<Rightarrow> u32 \<Rightarrow> ('err, 'j, 'acc, 'o, 'msg) pallet_xcm_config" where
  "pallet_xcm_config_for_runtime xs parachain_id =
     \<lparr>SendXcmOrigin = EnsureXcmOrigin xs (LocalOriginToLocation xs),
      PalletXcmRouter = XcmRouter xs,
      ExecuteXcmOrigin = EnsureXcmOrigin xs (LocalOriginToLocation xs),
      XcmExecuteFilter = Nothing, XcmTeleportFilter = Everything, XcmReserveTransferFilter = Nothing,
      PalletWeigher = FixedWeightBounds xs UnitWeightCost MaxInstructions,
      PalletUniversalLocation = UniversalLocation parachain_id,
      VERSION_DISCOVERY_QUEUE_SIZE = 100,
      SovereignAccountOf = LocationToAccountId xs,
      MaxLockers = 8, MaxRemoteLockConsumers = 0\<rparr>"

section \<open>Documented behaviour of the SDK's combinators\<close>

text \<open>
  \<^verbatim>\<open>DenyThenTry\<close> tries the second barrier when the first does not deny; a tuple of barriers stops at the
  first that admits the message and rejects it when all do; \<^verbatim>\<open>TrailingSetTopicAsId\<close> judges the message
  without a topic at its end (\<open>strip\<close>); \<^verbatim>\<open>WithComputedOrigin\<close> follows the leading instructions that change the origin
  (\<open>computed\<close>) and judges the rest for that origin.
\<close>

definition barrier_combinators ::
  "('x, 'err, 'j, 'acc, 'o, 'msg, 'n) xcm_sdk \<Rightarrow> ('x \<Rightarrow> 'x) \<Rightarrow>
   ('j junction list \<Rightarrow> u32 \<Rightarrow> 'j multi_location \<Rightarrow> 'x \<Rightarrow> 'err + ('j multi_location \<times> 'x)) \<Rightarrow> bool" where
  "barrier_combinators xs strip computed \<longleftrightarrow>
     (\<forall>deny allow origin. DenyThenTry xs deny allow origin = and_then (deny origin) (\<lambda>_. allow origin)) \<and>
     (\<forall>origin x. \<exists>e. fst (barrier_tuple xs [] origin x) = Err e) \<and>
     (\<forall>b bs origin x. barrier_tuple xs (b # bs) origin x =
        (case b origin x of (Err _, y) \<Rightarrow> barrier_tuple xs bs origin y | r \<Rightarrow> r)) \<and>
     (\<forall>b origin x. fst (TrailingSetTopicAsId xs b origin x) = fst (b origin (strip x))) \<and>
     (\<forall>b universal n origin x. fst (WithComputedOrigin xs b universal n origin x) =
        (case computed universal n origin x of Inl e \<Rightarrow> Err e | Inr (origin', y) \<Rightarrow> fst (b origin' y)))"

text \<open>The two admitting barriers look at the origin with the filter they are given, and do not panic.\<close>

definition barriers_check_origin :: "('x, 'err, 'j, 'acc, 'o, 'msg, 'n) xcm_sdk \<Rightarrow> bool" where
  "barriers_check_origin xs \<longleftrightarrow>
     (\<forall>p origin x. fst (AllowExplicitUnpaidExecutionFrom xs p origin x) = Ok () \<longrightarrow> contains p origin) \<and>
     (\<forall>p origin x. fst (AllowTopLevelPaidExecutionFrom xs p origin x) \<noteq> Panic) \<and>
     (\<forall>origin x. fst (TakeWeightCredit xs origin x) \<noteq> Panic)"

lemma barrier_tuple_2:
  assumes "barrier_combinators xs strip computed" and "fst (a origin x) \<noteq> Panic"
  shows "fst (barrier_tuple xs [a, b] origin x) = Ok () \<longleftrightarrow>
     fst (a origin x) = Ok () \<or> fst (a origin x) \<noteq> Ok () \<and> fst (b origin (snd (a origin x))) = Ok ()"
proof -
  have cons: "barrier_tuple xs (c # cs) origin y = (case c origin y of (Err _, z) \<Rightarrow> barrier_tuple xs cs origin z | r \<Rightarrow> r)"
    for c cs y using assms(1) unfolding barrier_combinators_def by blast
  have nil: "\<exists>e. fst (barrier_tuple xs [] origin y) = Err e" for y
    using assms(1) unfolding barrier_combinators_def by blast
  have single: "fst (barrier_tuple xs [b] origin y) = Ok () \<longleftrightarrow> fst (b origin y) = Ok ()" for y
    using nil by (cases "b origin y"; cases "fst (b origin y)") (simp_all add: cons, metis outcome.distinct(1))
  show ?thesis
    using assms(2) by (cases "a origin x"; cases "fst (a origin x)") (simp_all add: cons [of a] single)
qed

lemma parent_or_executive_iff:
  "ParentOrParentsExecutivePlurality location \<longleftrightarrow>
     location = RelayLocation \<or> (\<exists>part. location = \<lparr>parents = 1, interior = [Plurality Executive part]\<rparr>)"
  by (cases location)
     (auto simp: ParentOrParentsExecutivePlurality_def RelayLocation_def split: list.splits junction.splits body_id.splits)

text \<open>
  A message of \<open>count\<close> instructions (nested ones included) weighs as many units and what its \<^verbatim>\<open>Transact\<close> instructions ask for
  at most, in all (\<open>transact\<close>: reference time and proof size); it has no weight when there are too many instructions or when
  a sum does not fit 64 bits.
\<close>

definition fixed_weights :: "('x, 'err, 'j, 'acc, 'o, 'msg, 'n) xcm_sdk \<Rightarrow> ('msg \<Rightarrow> nat) \<Rightarrow> ('msg \<Rightarrow> nat \<times> nat) \<Rightarrow> bool" where
  "fixed_weights xs count transact \<longleftrightarrow> (\<forall>unit max msg. FixedWeightBounds xs unit max msg =
     (let time = unat (ref_time unit) * count msg + fst (transact msg);
          size = unat (proof_size unit) * count msg + snd (transact msg)
      in if count msg \<le> unat max \<and> time < 2 ^ 64 \<and> size < 2 ^ 64
         then Some \<lparr>ref_time = of_nat time, proof_size = of_nat size\<rparr> else None))"

definition weight_fits :: "weight \<Rightarrow> weight \<Rightarrow> bool" where
  "weight_fits w limit \<longleftrightarrow> ref_time w \<le> ref_time limit \<and> proof_size w \<le> proof_size limit"

text \<open>The converters of locations: each knows one kind of location; a tuple takes the first answer.\<close>

definition location_converters :: "('x, 'err, 'j, 'acc, 'o, 'msg, 'n) xcm_sdk \<Rightarrow> bool" where
  "location_converters xs \<longleftrightarrow>
     (\<forall>l. ParentIsPreset xs l \<noteq> None \<longleftrightarrow> l = RelayLocation) \<and>
     (\<forall>l. SiblingParachainConvertsVia xs l \<noteq> None \<longleftrightarrow> (\<exists>pid. l = \<lparr>parents = 1, interior = [Parachain pid]\<rparr>)) \<and>
     (\<forall>net l. AccountId32Aliases xs net l \<noteq> None \<longrightarrow> (\<exists>j. l = \<lparr>parents = 0, interior = [OtherJunction j]\<rparr>)) \<and>
     (\<forall>l. location_tuple xs [] l = None) \<and>
     (\<forall>c cs l. location_tuple xs (c # cs) l = (case c l of Some acc \<Rightarrow> Some acc | None \<Rightarrow> location_tuple xs cs l))"

section \<open>A concrete SDK\<close>

text \<open>
  Messages are lists of instruction names; the state of a barrier is the message. Every \<^verbatim>\<open>Transact\<close> asks for the same weight.
\<close>

definition example_transact :: "string list \<Rightarrow> nat \<times> nat" where
  "example_transact msg = (2000000000 * count_list msg ''Transact'', 3000000 * count_list msg ''Transact'')"

definition example_xcm_sdk :: "(string list, string, nat, string, string, string list, nat) xcm_sdk" where
  "example_xcm_sdk =
     \<lparr>ParentIsPreset = (\<lambda>l. if l = RelayLocation then Some ''Parent'' else None),
      SiblingParachainConvertsVia = (\<lambda>l. case interior l of [Parachain _] \<Rightarrow> if parents l = 1 then Some ''sibl'' else None | _ \<Rightarrow> None),
      AccountId32Aliases = (\<lambda>_ l. case interior l of [OtherJunction _] \<Rightarrow> if parents l = 0 then Some ''account'' else None | _ \<Rightarrow> None),
      location_tuple = (\<lambda>cs l. foldr (\<lambda>c r. case c l of Some a \<Rightarrow> Some a | None \<Rightarrow> r) cs None),
      SovereignSignedViaLocation = (\<lambda>conv l kind. case conv l of Some a \<Rightarrow> Inr a | None \<Rightarrow> Inl l),
      RelayChainAsNative = (\<lambda>o1 l kind. Inl l), SiblingParachainAsNative = (\<lambda>l kind. Inl l),
      SignedAccountId32AsNative = (\<lambda>_ l kind. Inl l), XcmPassthrough = (\<lambda>l kind. Inl l),
      origin_tuple = (\<lambda>cs l kind. case cs of [] \<Rightarrow> Inl l | c # _ \<Rightarrow> c l kind), RelayChainOrigin = ''relay'',
      TakeWeightCredit = (\<lambda>_. fail ''Overweight''),
      AllowTopLevelPaidExecutionFrom = (\<lambda>p l x. if ''BuyExecution'' \<in> set x \<and> contains p l then (Ok (), x) else (Err ''no'', x)),
      AllowExplicitUnpaidExecutionFrom = (\<lambda>p l x. if ''UnpaidExecution'' \<in> set x \<and> contains p l then (Ok (), x) else (Err ''no'', x)),
      DenyReserveTransferToRelayChain = (\<lambda>_ x. if ''InitiateReserveWithdraw'' \<in> set x then (Err ''denied'', x) else (Ok (), x)),
      DenyThenTry = (\<lambda>d a l. and_then (d l) (\<lambda>_. a l)),
      WithComputedOrigin = (\<lambda>b _ _ l. b l),
      TrailingSetTopicAsId = (\<lambda>b l. b l),
      barrier_tuple = (\<lambda>bs l. foldr (\<lambda>b r x. case b l x of (Err _, y) \<Rightarrow> r y | res \<Rightarrow> res) bs (fail ''Unsupported'')),
      ParentAsUmp = (\<lambda>_ msg. Inr msg), XcmpQueueRouter = (\<lambda>_ msg. Inr msg),
      router_tuple = (\<lambda>rs l msg. case rs of [] \<Rightarrow> Inl ''NotApplicable'' | r # _ \<Rightarrow> r l msg), WithUniqueTopic = (\<lambda>r. r),
      FixedWeightBounds = (\<lambda>u m msg.
        let time = unat (ref_time u) * length msg + fst (example_transact msg);
            size = unat (proof_size u) * length msg + snd (example_transact msg)
        in if length msg \<le> unat m \<and> time < 2 ^ 64 \<and> size < 2 ^ 64
           then Some \<lparr>ref_time = of_nat time, proof_size = of_nat size\<rparr> else None),
      NativeAsset = (=),
      SignedToAccountId32 = (\<lambda>_ o1. if o1 = ''Alice'' then Some \<lparr>parents = 0, interior = [OtherJunction 1]\<rparr> else None),
      EnsureXcmOrigin = (\<lambda>conv. conv)\<rparr>"

lemma example_xcm_sdk_barriers:
  "barrier_tuple example_xcm_sdk =
     (\<lambda>bs l. foldr (\<lambda>b r x. case b l x of (Err _, y) \<Rightarrow> r y | res \<Rightarrow> res) bs (fail ''Unsupported''))"
  "DenyThenTry example_xcm_sdk = (\<lambda>d a l. and_then (d l) (\<lambda>_. a l))"
  "WithComputedOrigin example_xcm_sdk = (\<lambda>b _ _ l. b l)" "TrailingSetTopicAsId example_xcm_sdk = (\<lambda>b l. b l)"
  by (simp_all add: example_xcm_sdk_def)

lemma example_barrier_combinators:
  "barrier_combinators example_xcm_sdk (\<lambda>x. x) (\<lambda>_ _ l x. Inr (l, x))"
  unfolding barrier_combinators_def example_xcm_sdk_barriers by (simp add: action_simps)

lemma example_barriers_check_origin: "barriers_check_origin example_xcm_sdk"
  by (simp add: barriers_check_origin_def example_xcm_sdk_def action_simps)

lemma example_location_converters: "location_converters example_xcm_sdk"
  unfolding location_converters_def
proof (intro conjI allI)
  fix l :: "nat multi_location"
  show "SiblingParachainConvertsVia example_xcm_sdk l \<noteq> None \<longleftrightarrow> (\<exists>pid. l = \<lparr>parents = 1, interior = [Parachain pid]\<rparr>)"
    by (cases l) (auto simp: example_xcm_sdk_def split: list.splits junction.splits)
  show "AccountId32Aliases example_xcm_sdk net l \<noteq> None \<longrightarrow> (\<exists>j. l = \<lparr>parents = 0, interior = [OtherJunction j]\<rparr>)" for net
    by (cases l) (auto simp: example_xcm_sdk_def split: list.splits junction.splits)
qed (simp_all add: example_xcm_sdk_def split: option.split)

section \<open>Properties\<close>

text \<open>
  Claim C15: which messages the barrier admits: it strips a topic at the end, refuses every reserve transfer to the
  relay chain whatever else holds, and admits the rest exactly when there is weight credit, or when,
  for the origin the leading instructions compute (at most eight of them), the message pays for its execution, or
  asks for free execution and the computed origin is the relay chain or its Executive body. Nobody
  else executes for free.
\<close>

theorem barrier_admits_iff:
  assumes "barrier_combinators xs strip computed" and "barriers_check_origin xs"
  shows "fst (Barrier xs parachain_id origin x) = Ok () \<longleftrightarrow>
    (let y = strip x; credit = TakeWeightCredit xs origin (snd (DenyReserveTransferToRelayChain xs origin y)) in
     fst (DenyReserveTransferToRelayChain xs origin y) = Ok () \<and>
     (fst credit = Ok () \<or>
      (\<exists>origin' z. computed (UniversalLocation parachain_id) 8 origin (snd credit) = Inr (origin', z) \<and>
         (let paid = AllowTopLevelPaidExecutionFrom xs Everything origin' z in
          fst paid = Ok () \<or>
          fst (AllowExplicitUnpaidExecutionFrom xs (Only ParentOrParentsExecutivePlurality) origin' (snd paid)) = Ok () \<and>
          (origin' = RelayLocation \<or> (\<exists>part. origin' = \<lparr>parents = 1, interior = [Plurality Executive part]\<rparr>))))))"
proof -
  let ?deny = "DenyReserveTransferToRelayChain xs" and ?credit = "TakeWeightCredit xs"
  let ?paid = "AllowTopLevelPaidExecutionFrom xs Everything"
  let ?free = "AllowExplicitUnpaidExecutionFrom xs (Only ParentOrParentsExecutivePlurality)"
  let ?inner = "barrier_tuple xs [?paid, ?free]"
  let ?computed = "WithComputedOrigin xs ?inner (UniversalLocation parachain_id) 8"
  have free: "fst (?free o' z) = Ok () \<Longrightarrow>
      o' = RelayLocation \<or> (\<exists>part. o' = \<lparr>parents = 1, interior = [Plurality Executive part]\<rparr>)" for o' z
    using assms(2) unfolding barriers_check_origin_def parent_or_executive_iff [symmetric]
    by (metis contains.simps(3))
  have inner: "fst (?inner o' z) = Ok () \<longleftrightarrow> fst (?paid o' z) = Ok () \<or> fst (?free o' (snd (?paid o' z))) = Ok ()" for o' z
    using barrier_tuple_2 [OF assms(1)] assms(2) unfolding barriers_check_origin_def by metis
  have outer: "fst (barrier_tuple xs [?credit, ?computed] o' z) = Ok () \<longleftrightarrow>
      fst (?credit o' z) = Ok () \<or> fst (?computed o' (snd (?credit o' z))) = Ok ()" for o' z
    using barrier_tuple_2 [OF assms(1)] assms(2) unfolding barriers_check_origin_def by metis
  have comp: "fst (?computed o' z) = Ok () \<longleftrightarrow>
      (\<exists>o'' y. computed (UniversalLocation parachain_id) 8 o' z = Inr (o'', y) \<and> fst (?inner o'' y) = Ok ())" for o' z
    using assms(1) unfolding barrier_combinators_def by (auto split: sum.splits)
  have deny: "fst (and_then (?deny o') (\<lambda>u. b) z) = Ok () \<longleftrightarrow> fst (?deny o' z) = Ok () \<and> fst (b (snd (?deny o' z))) = Ok ()"
    for o' z b
    by (auto simp: and_then_def split: prod.splits outcome.splits)
  have barrier: "fst (Barrier xs parachain_id origin x) =
      fst (and_then (?deny origin) (\<lambda>_. barrier_tuple xs [?credit, ?computed] origin) (strip x))"
    using assms(1) unfolding Barrier_def barrier_combinators_def by simp
  show ?thesis
    unfolding barrier deny outer comp inner Let_def using free by blast
qed

theorem barrier_admits_iff_witness:
  "fst (Barrier example_xcm_sdk 1000 RelayLocation [''UnpaidExecution'']) = Ok () \<and>
   fst (Barrier example_xcm_sdk 1000 \<lparr>parents = 1, interior = [Parachain 2]\<rparr> [''UnpaidExecution'']) \<noteq> Ok ()"
  unfolding barrier_admits_iff [OF example_barrier_combinators example_barriers_check_origin]
  by (simp add: example_xcm_sdk_def action_simps Let_def ParentOrParentsExecutivePlurality_def RelayLocation_def)

text \<open>
  Claim C33: which messages can ever run. The weigher accepts up to 100 instructions whose weights, with what the \<^verbatim>\<open>Transact\<close>
  instructions ask for, fit 64 bits. A weighed message fits a whole block, or the weight reserved for XCMP, only with at most 80,
  or 20, instructions, because of the proof size counted per instruction, and without \<^verbatim>\<open>Transact\<close> exactly then; what
  \<^verbatim>\<open>Transact\<close> asks for comes out of the rest. So messages of 81 to 100 instructions are weighed but never fit any block.
\<close>

theorem message_weight_bounds:
  assumes "fixed_weights xs count transact" and "ref_time_units ws" and "MAX_POV_SIZE ws = 5242880"
  shows "(Weigher (XcmConfig xs ws parachain_id) msg \<noteq> None \<longleftrightarrow>
       count msg \<le> 100 \<and> 1000000000 * count msg + fst (transact msg) < 2 ^ 64 \<and>
       65536 * count msg + snd (transact msg) < 2 ^ 64) \<and>
    (\<forall>w. Weigher (XcmConfig xs ws parachain_id) msg = Some w \<longrightarrow>
       (weight_fits w (MAXIMUM_BLOCK_WEIGHT ws) \<longleftrightarrow>
          1000000000 * count msg + fst (transact msg) \<le> 500000000000 \<and> 65536 * count msg + snd (transact msg) \<le> 5242880) \<and>
       (weight_fits w (ReservedXcmpWeight ws) \<longleftrightarrow>
          1000000000 * count msg + fst (transact msg) \<le> 125000000000 \<and> 65536 * count msg + snd (transact msg) \<le> 1310720) \<and>
       (weight_fits w (MAXIMUM_BLOCK_WEIGHT ws) \<longrightarrow> count msg \<le> 80) \<and>
       (weight_fits w (ReservedXcmpWeight ws) \<longrightarrow> count msg \<le> 20) \<and>
       (transact msg = (0, 0) \<longrightarrow> (weight_fits w (MAXIMUM_BLOCK_WEIGHT ws) \<longleftrightarrow> count msg \<le> 80) \<and>
          (weight_fits w (ReservedXcmpWeight ws) \<longleftrightarrow> count msg \<le> 20)))"
proof -
  let ?time = "1000000000 * count msg + fst (transact msg)" and ?size = "65536 * count msg + snd (transact msg)"
  have weigher: "Weigher (XcmConfig xs ws parachain_id) msg =
     (if count msg \<le> 100 \<and> ?time < 2 ^ 64 \<and> ?size < 2 ^ 64
      then Some \<lparr>ref_time = of_nat ?time, proof_size = of_nat ?size\<rparr> else None)"
    using assms(1) by (simp add: fixed_weights_def XcmConfig_def UnitWeightCost_def MaxInstructions_def Let_def)
  have limits: "unat (ref_time (MAXIMUM_BLOCK_WEIGHT ws)) = 500000000000" "unat (proof_size (MAXIMUM_BLOCK_WEIGHT ws)) = 5242880"
    "unat (ref_time (ReservedXcmpWeight ws)) = 125000000000" "unat (proof_size (ReservedXcmpWeight ws)) = 1310720"
    using assms(2,3)
    by (simp_all add: MAXIMUM_BLOCK_WEIGHT_def ReservedXcmpWeight_def weight_saturating_div_def ref_time_units_def as_u64_def)
  have fits: "weight_fits \<lparr>ref_time = of_nat a, proof_size = of_nat b\<rparr> limit \<longleftrightarrow>
      a \<le> unat (ref_time limit) \<and> b \<le> unat (proof_size limit)" if "a < 2 ^ 64" "b < 2 ^ 64" for a b limit
    using that by (simp add: weight_fits_def word_le_nat_alt unsigned_of_nat take_bit_nat_eq_self)
  show ?thesis
  proof (intro conjI allI impI)
    show "Weigher (XcmConfig xs ws parachain_id) msg \<noteq> None \<longleftrightarrow> count msg \<le> 100 \<and> ?time < 2 ^ 64 \<and> ?size < 2 ^ 64"
      unfolding weigher by simp
  next
    fix w assume w: "Weigher (XcmConfig xs ws parachain_id) msg = Some w"
    have block: "weight_fits w (MAXIMUM_BLOCK_WEIGHT ws) \<longleftrightarrow> ?time \<le> 500000000000 \<and> ?size \<le> 5242880"
      and xcmp: "weight_fits w (ReservedXcmpWeight ws) \<longleftrightarrow> ?time \<le> 125000000000 \<and> ?size \<le> 1310720"
      using w fits [of ?time ?size] unfolding weigher limits [symmetric] by (auto split: if_splits)
    show "weight_fits w (MAXIMUM_BLOCK_WEIGHT ws) \<longleftrightarrow> ?time \<le> 500000000000 \<and> ?size \<le> 5242880"
      "weight_fits w (ReservedXcmpWeight ws) \<longleftrightarrow> ?time \<le> 125000000000 \<and> ?size \<le> 1310720"
      by (rule block, rule xcmp)
    show "count msg \<le> 80" if "weight_fits w (MAXIMUM_BLOCK_WEIGHT ws)" using that block by simp
    show "count msg \<le> 20" if "weight_fits w (ReservedXcmpWeight ws)" using that xcmp by simp
    show "weight_fits w (MAXIMUM_BLOCK_WEIGHT ws) \<longleftrightarrow> count msg \<le> 80"
      "weight_fits w (ReservedXcmpWeight ws) \<longleftrightarrow> count msg \<le> 20" if "transact msg = (0, 0)"
      using that block xcmp by auto
  qed
qed

lemma example_fixed_weights: "fixed_weights example_xcm_sdk length example_transact"
  by (simp add: fixed_weights_def example_xcm_sdk_def)

text \<open>Ninety instructions are weighed and do not fit; two that ask for too much with \<^verbatim>\<open>Transact\<close> do not fit either.\<close>

theorem message_weight_bounds_witness:
  "(\<exists>w. Weigher (XcmConfig example_xcm_sdk example_weight_sdk 1000) (replicate 90 ''ClearOrigin'') = Some w \<and>
     \<not> weight_fits w (MAXIMUM_BLOCK_WEIGHT example_weight_sdk)) \<and>
   (\<exists>w. Weigher (XcmConfig example_xcm_sdk example_weight_sdk 1000) [''Transact'', ''Transact''] = Some w \<and>
     \<not> weight_fits w (MAXIMUM_BLOCK_WEIGHT example_weight_sdk))"
proof -
  have pov: "MAX_POV_SIZE example_weight_sdk = 5242880" by (simp add: example_weight_sdk_def)
  have transact: "example_transact (replicate 90 ''ClearOrigin'') = (0, 0)"
    "example_transact [''Transact'', ''Transact''] = (4000000000, 6000000)"
    by (simp_all add: example_transact_def count_list_0_iff)
  note bounds = message_weight_bounds [OF example_fixed_weights example_ref_time_units pov, of 1000]
  show ?thesis
    using bounds [of "replicate 90 ''ClearOrigin''"] bounds [of "[''Transact'', ''Transact'']"] by (auto simp: transact)
qed

text \<open>
  Who owns an account by location: the relay chain has the parent account, a sibling parachain its sovereign account, a local
  account itself, and no other location has an account; no location is claimed by two of the
  converters, so their order does not matter.
\<close>

theorem location_to_account_is_unambiguous:
  assumes "location_converters xs"
  shows "LocationToAccountId xs location =
    (if location = RelayLocation then ParentIsPreset xs location
     else if \<exists>pid. location = \<lparr>parents = 1, interior = [Parachain pid]\<rparr> then SiblingParachainConvertsVia xs location
     else AccountId32Aliases xs RelayNetwork location) \<and>
    location_tuple xs (rev [ParentIsPreset xs, SiblingParachainConvertsVia xs, AccountId32Aliases xs RelayNetwork]) location =
      LocationToAccountId xs location \<and>
    (LocationToAccountId xs location \<noteq> None \<longrightarrow>
       location = RelayLocation \<or> (\<exists>pid. location = \<lparr>parents = 1, interior = [Parachain pid]\<rparr>) \<or>
       (\<exists>j. location = \<lparr>parents = 0, interior = [OtherJunction j]\<rparr>))"
proof -
  note laws = assms [unfolded location_converters_def]
  have tuple: "location_tuple xs [a, b, c] location =
      (case a location of Some acc \<Rightarrow> Some acc | None \<Rightarrow> case b location of Some acc \<Rightarrow> Some acc | None \<Rightarrow> c location)" for a b c
    using laws by (simp split: option.split)
  have parent: "ParentIsPreset xs location = None \<longleftrightarrow> location \<noteq> RelayLocation"
    and sibling: "SiblingParachainConvertsVia xs location = None \<longleftrightarrow> (\<nexists>pid. location = \<lparr>parents = 1, interior = [Parachain pid]\<rparr>)"
    and local: "AccountId32Aliases xs RelayNetwork location \<noteq> None \<longrightarrow> (\<exists>j. location = \<lparr>parents = 0, interior = [OtherJunction j]\<rparr>)"
    using laws by blast+
  show ?thesis
    unfolding LocationToAccountId_def rev.simps append_Nil append_Cons tuple
    using parent sibling local by (auto simp: RelayLocation_def split: option.splits)
qed

theorem location_to_account_is_unambiguous_witness:
  "LocationToAccountId example_xcm_sdk \<lparr>parents = 1, interior = [Parachain 7]\<rparr> = Some ''sibl'' \<and>
   LocationToAccountId example_xcm_sdk \<lparr>parents = 2, interior = []\<rparr> = None"
  using location_to_account_is_unambiguous [OF example_location_converters, of "\<lparr>parents = 1, interior = [Parachain 7]\<rparr>"]
    location_to_account_is_unambiguous [OF example_location_converters, of "\<lparr>parents = 2, interior = []\<rparr>"]
  by (simp add: example_xcm_sdk_def RelayLocation_def)

text \<open>
  A signed origin becomes the location of its account, any other origin has no location;
  \<^verbatim>\<open>EnsureXcmOrigin\<close> accepts the origins its conversion knows.
\<close>

definition local_origins ::
  "('x, 'err, 'j, 'acc, 'o, 'msg, 'n) xcm_sdk \<Rightarrow> ('o \<Rightarrow> 'acc option) \<Rightarrow> ('n option \<Rightarrow> 'acc \<Rightarrow> 'j) \<Rightarrow> bool" where
  "local_origins xs signed_by junction_of \<longleftrightarrow>
     (\<forall>net origin. SignedToAccountId32 xs net origin =
        map_option (\<lambda>acc. \<lparr>parents = 0, interior = [OtherJunction (junction_of net acc)]\<rparr>) (signed_by origin)) \<and>
     (\<forall>conv origin. EnsureXcmOrigin xs conv origin = conv origin)"

text \<open>
  Every signed account of the chain may send XCM messages in its own name, and nobody else may (the comment at the
  conversion of origins says that no local origin may). What it may do locally is nothing: execution
  and reserve transfers are filtered out for every message, and assets are never accepted as teleported.
\<close>

theorem signed_accounts_may_send:
  assumes "local_origins xs signed_by junction_of"
  shows "SendXcmOrigin (pallet_xcm_config_for_runtime xs pid) origin =
      map_option (\<lambda>acc. \<lparr>parents = 0, interior = [OtherJunction (junction_of None acc)]\<rparr>) (signed_by origin) \<and>
    \<not> contains (XcmExecuteFilter (pallet_xcm_config_for_runtime xs pid)) msg \<and>
    \<not> contains (XcmReserveTransferFilter (pallet_xcm_config_for_runtime xs pid)) msg \<and>
    \<not> IsTeleporter (XcmConfig xs ws pid) asset location"
  using assms
  by (simp add: local_origins_def pallet_xcm_config_for_runtime_def XcmConfig_def LocalOriginToLocation_def RelayNetwork_def)

theorem signed_accounts_may_send_witness:
  "SendXcmOrigin (pallet_xcm_config_for_runtime example_xcm_sdk 1000) ''Alice'' =
     Some \<lparr>parents = 0, interior = [OtherJunction 1]\<rparr>"
proof -
  have "local_origins example_xcm_sdk (\<lambda>origin. if origin = ''Alice'' then Some origin else None) (\<lambda>_ _. 1)"
    by (simp add: local_origins_def example_xcm_sdk_def)
  from signed_accounts_may_send [OF this] show ?thesis by simp
qed

end
