(* ===== verification/Runtime_Pallets.thy ===== *)
theory Runtime_Pallets
  imports Chain_Spec Xcm_Config
begin

text \<open>
  What \<^verbatim>\<open>src/runtime/src/lib.rs\<close> configures of the pallets of the SDK, beside the constants of
  \<open>Runtime_Config\<close>: the version of the runtime, the checks every signed extrinsic goes through, the limits of
  the pallets, who may change the set of collators, the fee queries of the runtime API, the check of
  the inherents of a block, and the runtime API that runs benchmarks and upgrades. The pallets are not part of the
  repository: what they compute is a field of a record the definitions take as an argument.
\<close>

section \<open>The version\<close>

record 'apis runtime_version =
  rv_spec_name :: string
  rv_impl_name :: string
  authoring_version :: u32
  spec_version :: u32
  impl_version :: u32
  apis :: 'apis
  transaction_version :: u32
  state_version :: u8

definition VERSION :: "'apis \<Rightarrow> 'apis runtime_version" where
  "VERSION RUNTIME_API_VERSIONS =
     \<lparr>rv_spec_name = ''template-parachain'', rv_impl_name = ''template-parachain'', authoring_version = 1,
      spec_version = 1, impl_version = 0, apis = RUNTIME_API_VERSIONS, transaction_version = 1, state_version = 1\<rparr>"

section \<open>The checks of a signed extrinsic\<close>

datatype signed_extension =
    CheckNonZeroSender | CheckSpecVersion | CheckTxVersion | CheckGenesis | CheckEra | CheckNonce | CheckWeight
  | ChargeTransactionPayment

text \<open>\<open>extension_tuple\<close> is what the SDK does with a tuple of extensions before it dispatches the call.\<close>

definition SignedExtra :: "(signed_extension list \<Rightarrow> ('s, 'e, unit) action) \<Rightarrow> ('s, 'e, unit) action" where
  "SignedExtra extension_tuple =
     extension_tuple [CheckNonZeroSender, CheckSpecVersion, CheckTxVersion, CheckGenesis, CheckEra, CheckNonce,
       CheckWeight, ChargeTransactionPayment]"

section \<open>Limits\<close>

definition SS58Prefix :: u16 where
  "SS58Prefix = 42"

definition RuntimeBlockLength :: "(u32 \<Rightarrow> u8 \<Rightarrow> 'len) \<Rightarrow> 'len" where
  "RuntimeBlockLength max_with_normal_ratio = max_with_normal_ratio (5 * 1024 * 1024) NORMAL_DISPATCH_RATIO"

definition MinimumPeriod :: u64 where
  "MinimumPeriod = SLOT_DURATION div 2"

record 'balance balances_config =
  MaxLocks :: "u32 option"
  DustRemoval :: "pallet option"
  ExistentialDeposit :: 'balance
  AccountStore :: pallet
  MaxReserves :: u32
  MaxHolds :: u32
  MaxFreezes :: u32
  ReserveIdentifier_length :: nat

definition balances_config_for_runtime :: "u128 balances_config" where
  "balances_config_for_runtime =
     \<lparr>MaxLocks = Some 50, DustRemoval = None, ExistentialDeposit = EXISTENTIAL_DEPOSIT, AccountStore = System,
      MaxReserves = 50, MaxHolds = 0, MaxFreezes = 0, ReserveIdentifier_length = 8\<rparr>"

record aura_config =
  MaxAuthorities :: u32
  AllowMultipleBlocksPerSlot :: bool

definition aura_config_for_runtime :: aura_config where
  "aura_config_for_runtime = \<lparr>MaxAuthorities = 100000, AllowMultipleBlocksPerSlot = False\<rparr>"

record collator_selection_config =
  PotId :: bytes
  MaxCandidates :: u32
  MinEligibleCollators :: u32
  MaxInvulnerables :: u32
  KickThreshold :: u32

definition collator_selection_config_for_runtime :: collator_selection_config where
  "collator_selection_config_for_runtime =
     \<lparr>PotId = map of_char ''PotStake'', MaxCandidates = 100, MinEligibleCollators = 4, MaxInvulnerables = 20,
      KickThreshold = Period\<rparr>"

text \<open>Sessions end as \<^verbatim>\<open>PeriodicSessions<Period, Offset>\<close> says for a block number.\<close>

definition ShouldEndSession :: "(u32 \<Rightarrow> u32 \<Rightarrow> u32 \<Rightarrow> bool) \<Rightarrow> u32 \<Rightarrow> bool" where
  "ShouldEndSession periodic_sessions now = periodic_sessions Period Offset now"

section \<open>Who may change the collators\<close>

record ('o, 'j) origin_sdk =
  EitherOfDiverse :: "('o \<Rightarrow> bool) \<Rightarrow> ('o \<Rightarrow> bool) \<Rightarrow> 'o \<Rightarrow> bool"
  EnsureRoot :: "'o \<Rightarrow> bool"
  EnsureXcm :: "'j multi_location filter \<Rightarrow> 'o \<Rightarrow> bool"
  IsVoiceOfBody :: "'j multi_location \<Rightarrow> body_id \<Rightarrow> 'j multi_location filter"

definition CollatorSelectionUpdateOrigin :: "('o, 'j) origin_sdk \<Rightarrow> 'o \<Rightarrow> bool" where
  "CollatorSelectionUpdateOrigin os =
     EitherOfDiverse os (EnsureRoot os) (EnsureXcm os (IsVoiceOfBody os RelayLocation StakingAdminBodyId))"

section \<open>Fee queries\<close>

text \<open>
  The transaction payment pallet computes fees from the two conversions it is configured with, of a
  weight and of a length (which it passes as a weight).
\<close>

record payment_sdk =
  ConstantMultiplier :: "u128 \<Rightarrow> weight \<Rightarrow> u128"
  payment_length_to_fee :: "(weight \<Rightarrow> u128) \<Rightarrow> u32 \<Rightarrow> u128"
  payment_weight_to_fee :: "(u128 \<Rightarrow> u128) \<Rightarrow> weight \<Rightarrow> u128"

definition LengthToFee :: "payment_sdk \<Rightarrow> weight \<Rightarrow> u128" where
  "LengthToFee ps = ConstantMultiplier ps TransactionByteFee"

definition OperationalFeeMultiplier :: u8 where
  "OperationalFeeMultiplier = 5"

definition query_weight_to_fee :: "payment_sdk \<Rightarrow> weight_sdk \<Rightarrow> weight \<Rightarrow> u128" where
  "query_weight_to_fee ps ws weight = payment_weight_to_fee ps (linear_fee ws (weight_to_fee_polynomial ws)) weight"

definition query_length_to_fee :: "payment_sdk \<Rightarrow> u32 \<Rightarrow> u128" where
  "query_length_to_fee ps len = payment_length_to_fee ps (LengthToFee ps) len"

section \<open>Inherents\<close>

record ('block, 'prf, 'slot, 'provider, 'data, 'res) inherents_sdk =
  read_slot :: "'prf \<Rightarrow> 'slot option"
  from_relay_chain_slot_and_duration :: "'slot \<Rightarrow> u64 \<Rightarrow> 'provider"
  create_inherent_data :: "'provider \<Rightarrow> 'data option"
  check_extrinsics :: "'data \<Rightarrow> 'block \<Rightarrow> 'res"

text \<open>The duration is in seconds; both \<^verbatim>\<open>expect\<close>s panic.\<close>

definition check_inherents ::
  "('block, 'prf, 'slot, 'provider, 'data, 'res) inherents_sdk \<Rightarrow> 'block \<Rightarrow> 'prf \<Rightarrow> (unit, 'res) outcome" where
  "check_inherents sdk block relay_state_proof =
     (case read_slot sdk relay_state_proof of
        None \<Rightarrow> Panic
      | Some relay_chain_slot \<Rightarrow>
          (case create_inherent_data sdk (from_relay_chain_slot_and_duration sdk relay_chain_slot 6) of
             None \<Rightarrow> Panic
           | Some inherent_data \<Rightarrow> Ok (check_extrinsics sdk inherent_data block)))"

section \<open>Benchmarks and upgrades\<close>

definition benches :: "(string \<times> pallet) list" where
  "benches =
     [(''frame_system'', System), (''pallet_balances'', Balances), (''pallet_session'', Session),
      (''pallet_timestamp'', Timestamp), (''pallet_sudo'', Sudo), (''pallet_collator_selection'', CollatorSelection),
      (''cumulus_pallet_xcmp_queue'', XcmpQueue)]"

text \<open>
  The macro \<^verbatim>\<open>add_benchmarks!\<close> of the SDK runs \<open>add_benchmark\<close> on every entry of \<open>benches\<close>: it may add batches
  to the list or return an error. The storage keys it leaves out are \<open>whitelist\<close>.
\<close>

fun add_benchmarks :: "(string \<Rightarrow> ('batch list, string, unit) action) \<Rightarrow> (string \<times> pallet) list \<Rightarrow>
  ('batch list, string, unit) action" where
  "add_benchmarks add_benchmark [] = ret ()"
| "add_benchmarks add_benchmark ((name, _) # entries) =
     and_then (add_benchmark name) (\<lambda>_. add_benchmarks add_benchmark entries)"

definition dispatch_benchmark ::
  "('cfg \<Rightarrow> 'keys \<Rightarrow> string \<Rightarrow> ('batch list, string, unit) action) \<Rightarrow> 'keys \<Rightarrow> 'cfg \<Rightarrow> (string, 'batch list) outcome" where
  "dispatch_benchmark add_benchmark whitelist config =
     fst (and_then (add_benchmarks (add_benchmark config whitelist) benches) (\<lambda>_.
          and_then (gets (\<lambda>batches. batches)) (\<lambda>batches.
          and_then (ensure (batches \<noteq> []) ''Benchmark not found for this pallet.'') (\<lambda>_.
          ret batches))) [])"

definition on_runtime_upgrade :: "('checks \<Rightarrow> 'e + weight) \<Rightarrow> 'w \<Rightarrow> 'checks \<Rightarrow> ('e, weight \<times> 'w) outcome" where
  "on_runtime_upgrade try_runtime_upgrade max_block checks =
     (case try_runtime_upgrade checks of
        Inl _ \<Rightarrow> Panic
      | Inr weight \<Rightarrow> Ok (weight, max_block))"

definition try_execute_block_api ::
  "('block \<Rightarrow> bool \<Rightarrow> bool \<Rightarrow> 'sel \<Rightarrow> 'e + weight) \<Rightarrow> 'block \<Rightarrow> bool \<Rightarrow> bool \<Rightarrow> 'sel \<Rightarrow> ('e, weight) outcome" where
  "try_execute_block_api try_execute_block block state_root_check signature_check select =
     (case try_execute_block block state_root_check signature_check select of Inl _ \<Rightarrow> Panic | Inr weight \<Rightarrow> Ok weight)"

lemma add_benchmarks_none:
  "(\<And>name. name \<in> fst ` set entries \<Longrightarrow> add_benchmark name = ret ()) \<Longrightarrow> add_benchmarks add_benchmark entries = ret ()"
  by (induction entries) (auto simp: action_simps)

section \<open>Documented behaviour\<close>

text \<open>A tuple of extensions runs them in order and stops at the first that fails.\<close>

definition extensions_in_order ::
  "(signed_extension list \<Rightarrow> ('s, 'e, unit) action) \<Rightarrow> (signed_extension \<Rightarrow> ('s, 'e, unit) action) \<Rightarrow> bool" where
  "extensions_in_order extension_tuple run \<longleftrightarrow> extension_tuple [] = ret () \<and>
     (\<forall>c cs. extension_tuple (c # cs) = and_then (run c) (\<lambda>_. extension_tuple cs))"

text \<open>
  An origin passes \<^verbatim>\<open>EitherOfDiverse\<close> when it passes one of the two, \<^verbatim>\<open>EnsureXcm\<close> when it stands for a
  location (\<open>location_of\<close>) in the filter; the voice of a body is the plurality of that body, at the given location, whose part
  is \<open>Voice\<close>.
\<close>

definition origins_as_documented ::
  "('o, 'j) origin_sdk \<Rightarrow> ('o \<Rightarrow> 'j multi_location option) \<Rightarrow> bool" where
  "origins_as_documented os location_of \<longleftrightarrow>
     (\<forall>a b origin. EitherOfDiverse os a b origin \<longleftrightarrow> a origin \<or> b origin) \<and>
     (\<forall>p origin. EnsureXcm os p origin \<longleftrightarrow> (\<exists>l. location_of origin = Some l \<and> contains p l)) \<and>
     (\<forall>prefix body l. contains (IsVoiceOfBody os prefix body) l \<longleftrightarrow>
        l = prefix\<lparr>interior := interior prefix @ [Plurality body Voice]\<rparr>)"

text \<open>A length is charged as the reference time of a weight; the multiplication saturates.\<close>

definition payment_as_documented :: "payment_sdk \<Rightarrow> bool" where
  "payment_as_documented ps \<longleftrightarrow>
     (\<forall>to_fee len. payment_length_to_fee ps to_fee len = to_fee \<lparr>ref_time = as_u64 len, proof_size = 0\<rparr>) \<and>
     (\<forall>m w. unat (ConstantMultiplier ps m w) = min (unat m * unat (ref_time w)) (2 ^ 128 - 1))"

text \<open>The macro runs the benchmarks of the pallet the configuration names, and nothing for another pallet.\<close>

definition benchmarks_by_name ::
  "('cfg \<Rightarrow> 'keys \<Rightarrow> string \<Rightarrow> ('batch list, string, unit) action) \<Rightarrow> ('cfg \<Rightarrow> string) \<Rightarrow> bool" where
  "benchmarks_by_name add_benchmark pallet_of \<longleftrightarrow>
     (\<forall>config whitelist name. name \<noteq> pallet_of config \<longrightarrow> add_benchmark config whitelist name = ret ())"

text \<open>\<^verbatim>\<open>PeriodicSessions\<close>: a session ends at the offset and then once every period.\<close>

definition sessions_are_periodic :: "(u32 \<Rightarrow> u32 \<Rightarrow> u32 \<Rightarrow> bool) \<Rightarrow> bool" where
  "sessions_are_periodic periodic_sessions \<longleftrightarrow> (\<forall>period offset now.
     periodic_sessions period offset now \<longleftrightarrow> offset \<le> now \<and> (now - offset) mod period = 0)"

section \<open>A concrete SDK\<close>

definition example_payment_sdk :: payment_sdk where
  "example_payment_sdk =
     \<lparr>ConstantMultiplier = (\<lambda>m w. of_nat (min (unat m * unat (ref_time w)) (2 ^ 128 - 1))),
      payment_length_to_fee = (\<lambda>to_fee len. to_fee \<lparr>ref_time = as_u64 len, proof_size = 0\<rparr>),
      payment_weight_to_fee = (\<lambda>to_fee w. to_fee (ucast (ref_time w)))\<rparr>"

lemma example_payment_as_documented: "payment_as_documented example_payment_sdk"
  unfolding payment_as_documented_def example_payment_sdk_def
  by (auto intro!: unat_of_nat_fits)

text \<open>Origins are root or a location.\<close>

definition example_origin_sdk :: "(nat multi_location option, nat) origin_sdk" where
  "example_origin_sdk =
     \<lparr>EitherOfDiverse = (\<lambda>a b origin. a origin \<or> b origin),
      EnsureRoot = (\<lambda>origin. origin = None),
      EnsureXcm = (\<lambda>p origin. case origin of Some l \<Rightarrow> contains p l | None \<Rightarrow> False),
      IsVoiceOfBody = (\<lambda>prefix body. Only (\<lambda>l. parents l = parents prefix \<and>
        (case rev (interior l) of
           Plurality b Voice # rest \<Rightarrow> b = body \<and> rev rest = interior prefix
         | _ \<Rightarrow> False)))\<rparr>"

lemma voice_at_end_iff:
  "(case rev js of Plurality b Voice # rest \<Rightarrow> b = body \<and> rev rest = prefix | _ \<Rightarrow> False) \<longleftrightarrow>
     js = prefix @ [Plurality body Voice]"
  by (cases js rule: rev_cases) (auto split: junction.splits body_part.splits)

lemma example_origins_as_documented: "origins_as_documented example_origin_sdk (\<lambda>origin. origin)"
proof -
  have voice: "parents l = parents prefix \<and> interior l = interior prefix @ [Plurality body Voice] \<longleftrightarrow>
      l = prefix\<lparr>interior := interior prefix @ [Plurality body Voice]\<rparr>"
    for l :: "nat multi_location" and body and prefix :: "nat multi_location"
    by (cases l; cases prefix) auto
  show ?thesis
    unfolding origins_as_documented_def example_origin_sdk_def
    by (simp add: voice_at_end_iff voice split: option.split)
qed

section \<open>Properties\<close>



text \<open>
  An extrinsic pays its fee only after every check has passed: when the charge is the only extension that
  changes the purse it is taken from, then either the charge runs last, on the purse as it was, and
  decides the result, or the extrinsic is refused with its purse unchanged.
\<close>

theorem fees_are_charged_last:
  assumes "extensions_in_order extension_tuple run"
    and "\<forall>c s. c \<noteq> ChargeTransactionPayment \<longrightarrow> purse (snd (run c s)) = purse s"
  shows "(\<exists>t. purse t = purse s \<and>
      (SignedExtra extension_tuple s = run ChargeTransactionPayment t \<or>
       snd (SignedExtra extension_tuple s) = t \<and> fst (SignedExtra extension_tuple s) \<noteq> Ok ()))"
proof -
  have order: "extension_tuple (c # cs) = and_then (run c) (\<lambda>_. extension_tuple cs)" "extension_tuple [] = ret ()" for c cs
    using assms(1) by (simp_all add: extensions_in_order_def)
  have last: "extension_tuple [ChargeTransactionPayment] t = run ChargeTransactionPayment t" for t
    by (auto simp: order and_then_def ret_def split: prod.splits outcome.splits)
  have step: "\<exists>t. purse t = purse s \<and> (extension_tuple (cs @ [ChargeTransactionPayment]) s = run ChargeTransactionPayment t \<or>
      snd (extension_tuple (cs @ [ChargeTransactionPayment]) s) = t \<and>
      fst (extension_tuple (cs @ [ChargeTransactionPayment]) s) \<noteq> Ok ())"
    if "ChargeTransactionPayment \<notin> set cs" for cs s
    using that
  proof (induction cs arbitrary: s)
    case (Cons c cs)
    obtain r t where r: "run c s = (r, t)" by (cases "run c s")
    have "purse t = purse s" using assms(2) Cons.prems r by (metis list.set_intros(1) snd_conv)
    then show ?case
      using Cons.IH [of t] Cons.prems r by (cases r) (auto simp: order and_then_def)
  qed (use last in auto)
  show ?thesis
    unfolding SignedExtra_def using step [of "[CheckNonZeroSender, CheckSpecVersion, CheckTxVersion, CheckGenesis, CheckEra,
      CheckNonce, CheckWeight]" s] by simp
qed

theorem fees_are_charged_last_witness:
  "\<exists>t. t = (3 :: nat) \<and>
     (SignedExtra (\<lambda>cs. foldr (\<lambda>c m. and_then (if c = ChargeTransactionPayment then modify (\<lambda>n. n - 1) else ret ()) (\<lambda>_. m)) cs (ret ())) 3
        = (Ok (), t - 1))"
  using fees_are_charged_last [of
      "\<lambda>cs. foldr (\<lambda>c m. and_then (if c = ChargeTransactionPayment then modify (\<lambda>n. n - 1) else ret ()) (\<lambda>_. m)) cs (ret ())"
      "\<lambda>c. if c = ChargeTransactionPayment then modify (\<lambda>n. n - 1 :: nat) else ret ()" "\<lambda>n. n" 3]
  by (auto simp: extensions_in_order_def SignedExtra_def action_simps)

text \<open>
  The built-in genesis states stay within the limits of the pallets: the invulnerable collators fit the
  collator selection pallet and the authorities of Aura, no endowed account is dust, a session lasts longer than
  one slot, and the token properties of the local testnet agree with the runtime (the address format is its prefix, the
  decimals those of a UNIT).
\<close>

theorem builtin_genesis_fits_limits:
  assumes "spec = development_config env \<or> spec = local_testnet_config env" and "genesis spec = Ok g"
  shows "length (invulnerables g) \<le> unat (MaxInvulnerables collator_selection_config_for_runtime) \<and>
    length (session_key_list g) \<le> unat (MaxAuthorities aura_config_for_runtime) \<and>
    (\<forall>(acc, amount) \<in> set (balances g). ExistentialDeposit balances_config_for_runtime \<le> amount) \<and>
    properties (local_testnet_config env) = Some [(''tokenSymbol'', PString ''UNIT''),
      (''tokenDecimals'', PNat 12), (''ss58Format'', PNat (unat SS58Prefix))] \<and> 10 ^ 12 = UNIT"
proof -
  obtain code where "wasm_binary env = Some code"
    using assms by (cases "wasm_binary env")
      (auto simp: development_config_def local_testnet_config_def testnet_genesis_def)
  then have "g = builtin_genesis env code"
    using assms genesis_of_builtin_specs [of env code] by auto
  then show ?thesis
    by (auto simp: builtin_genesis_def collator_selection_config_for_runtime_def aura_config_for_runtime_def
        balances_config_for_runtime_def EXISTENTIAL_DEPOSIT_def MILLIUNIT_def UNIT_def SS58Prefix_def
        local_testnet_config_def unit_properties_def)
qed

theorem builtin_genesis_fits_limits_witness:
  "\<exists>g. genesis (local_testnet_config example_env) = Ok g \<and> length (invulnerables g) \<le> 20"
proof -
  have "genesis (local_testnet_config example_env) = Ok (builtin_genesis example_env [0])"
    by (rule genesis_of_builtin_specs) (simp add: example_env_def)
  with builtin_genesis_fits_limits [of "local_testnet_config example_env" example_env] show ?thesis
    by (auto simp: collator_selection_config_for_runtime_def)
qed

text \<open>
  A byte of an extrinsic costs exactly ten MICROUNIT: the fee query for a length never saturates, whatever the
  length.
\<close>

theorem length_fee_is_exact:
  assumes "payment_as_documented ps"
  shows "unat (query_length_to_fee ps len) = 10 * 10 ^ 6 * unat len"
proof -
  have "unat (query_length_to_fee ps len) = min (10000000 * unat len) (2 ^ 128 - 1)"
    using assms by (simp add: payment_as_documented_def query_length_to_fee_def LengthToFee_def
        TransactionByteFee_def MICROUNIT_def unat_as_u64)
  with unat_u32_bound [of len] show ?thesis by simp
qed

theorem length_fee_is_exact_witness: "unat (query_length_to_fee example_payment_sdk 100) = 10 ^ 9"
  using length_fee_is_exact [OF example_payment_as_documented, of 100] by simp

text \<open>
  A request to benchmark the message stuffer, the MMRs or the template pallet always fails with the
  error that no benchmark was found: none of them is listed for benchmarking.
\<close>

theorem own_pallets_have_no_benchmarks:
  assumes "benchmarks_by_name add_benchmark pallet_of"
    and "pallet_of config \<in> {''pallet_xcmp_message_stuffer'', ''pallet_mmr'', ''pallet_parachain_template''}"
  shows "dispatch_benchmark add_benchmark whitelist config = Err ''Benchmark not found for this pallet.''"
proof -
  have none: "add_benchmark config whitelist name = ret ()" if "name \<noteq> pallet_of config" for name
    using assms(1) that by (simp add: benchmarks_by_name_def)
  have "name \<noteq> pallet_of config" if "name \<in> fst ` set benches" for name
    using assms(2) that by (auto simp: benches_def)
  then have "add_benchmarks (add_benchmark config whitelist) benches = ret ()"
    using none by (intro add_benchmarks_none) blast
  then show ?thesis
    by (simp add: dispatch_benchmark_def action_simps)
qed

theorem own_pallets_have_no_benchmarks_witness:
  "dispatch_benchmark (\<lambda>config _ name. if name = config then modify ((#) name) else ret ()) ()
     ''pallet_xcmp_message_stuffer'' = Err ''Benchmark not found for this pallet.''"
  by (rule own_pallets_have_no_benchmarks [where pallet_of = "\<lambda>config. config"]) (simp_all add: benchmarks_by_name_def)

text \<open>
  A session ends exactly at the blocks whose expected time is a multiple of six hours, the threshold for kicking
  a collator is a whole number of sessions, as its comment asks, and a slot is twice the minimum
  period between blocks, none of the constants having overflowed.
\<close>

theorem sessions_rotate_every_six_hours:
  assumes "sessions_are_periodic periodic_sessions"
  shows "(ShouldEndSession periodic_sessions now \<longleftrightarrow> 6 * 60 * 60 * 1000 dvd unat now * unat MILLISECS_PER_BLOCK) \<and>
    unat Period dvd unat (KickThreshold collator_selection_config_for_runtime) \<and>
    2 * unat MinimumPeriod = unat SLOT_DURATION"
proof -
  have "ShouldEndSession periodic_sessions now \<longleftrightarrow> unat now mod 1800 = 0"
    using assms by (simp add: sessions_are_periodic_def ShouldEndSession_def Period_def Offset_def HOURS_def MINUTES_def
        MILLISECS_PER_BLOCK_def word_unat_eq_iff unat_mod)
  moreover have "21600000 dvd unat now * 12000 \<longleftrightarrow> 1800 dvd unat now"
    using dvd_times_right_cancel_iff [of 12000 1800 "unat now"] by simp
  ultimately show ?thesis
    by (simp add: collator_selection_config_for_runtime_def MinimumPeriod_def SLOT_DURATION_def MILLISECS_PER_BLOCK_def
        dvd_eq_mod_eq_0)
qed

text \<open>
  Checking the inherents of a block panics exactly when the proof of the relay chain's state has no slot or no inherent data can be
  made of it; otherwise the block is checked against the data of that slot with slots of six seconds.
\<close>

theorem check_inherents_panics_iff:
  "check_inherents sdk block prf = Panic \<longleftrightarrow>
     (\<forall>slot. read_slot sdk prf = Some slot \<longrightarrow>
        create_inherent_data sdk (from_relay_chain_slot_and_duration sdk slot 6) = None)"
  by (simp add: check_inherents_def split: option.split)

end
