(* ===== verification/Runtime_Block.thy ===== *)
theory Runtime_Block
  imports Runtime_Xcmp Runtime_Pallets
begin

text \<open>
  Whole blocks (\<^verbatim>\<open>src/runtime/src/lib.rs\<close>): the hooks of all pallets in the order of
  \<^verbatim>\<open>construct_runtime!\<close>, the dispatch of a \<^verbatim>\<open>RuntimeCall\<close> to its pallet, and the runtime API that
  starts, fills, finishes and executes blocks. The storage is that of the two stuffers and the two MMRs
  (the record \<open>runtime\<close> of \<open>Runtime_Xcmp\<close>) and the storage of the other pallets, a type \<open>'rest\<close>. The other
  pallets and \<^verbatim>\<open>frame_executive\<close> are not part of the repository: they are fields of the record
  \<open>frame_sdk\<close>. What the sources give to them is the composition: the list of pallets, the extensions of a signed
  extrinsic and the calls. The system pallet has calls that write storage by key (\<^verbatim>\<open>set_storage\<close>, \<^verbatim>\<open>kill_storage\<close>,
  \<^verbatim>\<open>kill_prefix\<close>), which the root origin can have dispatched, by the sudo pallet or by a message of the relay chain: a history variable counts them, and the
  theorems are about blocks in which it does not move. The lemmas show that a chain of such blocks takes exactly the
  steps of the machine of \<open>Runtime_Xcmp\<close>, one block start each.
\<close>

section \<open>Storage, calls and blocks\<close>

record ('m, 'rest) storage =
  xcmp :: "'m runtime"
  other_pallets :: 'rest
  raw_writes :: nat

datatype 'mp stuffer_call_data =
    SubmitTestProofCall 'mp "encodable_opaque_leaf list" u64
  | UpdateRootCall h256 u64
  | SubmitXcmpProofCall "'mp xcmp_proof" h256

text \<open>The calls of the two stuffers, and those of the other pallets, whose arguments are a type \<open>'c\<close>.\<close>

datatype ('mp, 'c) runtime_call =
    MsgStufferParaACall "'mp stuffer_call_data"
  | MsgStufferParaBCall "'mp stuffer_call_data"
  | OtherPalletCall pallet 'c

datatype 'e runtime_error = StufferError "stuffer_error dispatch_error" | OtherPalletError 'e

record ('hd, 'xt) block =
  block_header :: 'hd
  extrinsics :: "'xt list"

type_synonym ('m, 'rest, 'e, 'a) storage_action = "(('m, 'rest) storage, 'e runtime_error, 'a) action"
type_synonym ('m, 'rest) hooks = "u32 \<Rightarrow> ('m, 'rest) storage \<Rightarrow> ('m, 'rest) storage option"
type_synonym ('m, 'rest, 'mp, 'o, 'c, 'e) dispatcher =
  "'o \<Rightarrow> ('mp, 'c) runtime_call \<Rightarrow> ('m, 'rest, 'e, unit) storage_action"

section \<open>What the SDK provides\<close>

text \<open>
  The hooks and calls of the other pallets; what \<^verbatim>\<open>ParachainSystem\<close> knows of the BEEFY root, the outbound
  messages of \<^verbatim>\<open>XcmpQueue\<close> and the parent block of \<^verbatim>\<open>System\<close>; the extensions; and the executive, which is
  given the hooks, the extensions and the dispatch of the runtime.
\<close>

record ('m, 'rest, 'mp, 'o, 'c, 'e, 'hd, 'xt) frame_sdk =
  pallet_hook :: "pallet \<Rightarrow> u32 \<Rightarrow> ('m, 'rest) storage \<Rightarrow> ('m, 'rest) storage"
  pallet_call :: "pallet \<Rightarrow> 'c \<Rightarrow> 'o \<Rightarrow> ('m, 'rest, 'e, unit) storage_action"
  beefy_root_of :: "'rest \<Rightarrow> h256 option"
  outbound_of :: "'rest \<Rightarrow> u32 \<Rightarrow> u16 \<Rightarrow> bytes option"
  parent_of :: "'rest \<Rightarrow> u32 \<times> h256"
  extension_tuple :: "'xt \<Rightarrow> signed_extension list \<Rightarrow> ('m, 'rest, 'e, unit) storage_action"
  Executive_initialize_block :: "('m, 'rest) hooks \<Rightarrow> 'hd \<Rightarrow> ('m, 'rest) storage \<Rightarrow> ('m, 'rest) storage option"
  Executive_apply_extrinsic ::
    "('xt \<Rightarrow> ('m, 'rest, 'e, unit) storage_action) \<Rightarrow> ('m, 'rest, 'mp, 'o, 'c, 'e) dispatcher \<Rightarrow>
     'xt \<Rightarrow> ('m, 'rest, 'e, ('e runtime_error, unit) outcome) storage_action"
  Executive_finalize_block :: "('m, 'rest) storage \<Rightarrow> 'hd \<times> ('m, 'rest) storage"
  Executive_execute_block ::
    "('m, 'rest) hooks \<Rightarrow> ('xt \<Rightarrow> ('m, 'rest, 'e, unit) storage_action) \<Rightarrow>
     ('m, 'rest, 'mp, 'o, 'c, 'e) dispatcher \<Rightarrow> ('hd, 'xt) block \<Rightarrow> ('m, 'rest) storage \<Rightarrow>
     ((unit, unit) outcome \<times> ('m, 'rest) storage) option"

section \<open>Hooks\<close>

text \<open>The hook of one pallet; a hook that never returns is \<open>None\<close>.\<close>

definition runtime_hook ::
  "('mp, 'dg) sdk \<Rightarrow> ('m, 'mp) mmr_pallet \<Rightarrow> ('m, 'rest, 'mp, 'o, 'c, 'e, 'hd, 'xt) frame_sdk \<Rightarrow> u32 \<Rightarrow> pallet \<Rightarrow>
   ('m, 'rest) storage \<Rightarrow> ('m, 'rest) storage option" where
  "runtime_hook sdk mmr fs n p s =
     (let rt = xcmp s; root = beefy_root_of fs (other_pallets s);
          outbound = outbound_of fs (other_pallets s); parent = parent_of fs (other_pallets s) in
      case p of
        MsgStufferParaA \<Rightarrow> Some (s\<lparr>xcmp := rt\<lparr>msg_stuffer_para_a := snd (on_initialize sdk root n (msg_stuffer_para_a rt))\<rparr>\<rparr>)
      | MsgStufferParaB \<Rightarrow> Some (s\<lparr>xcmp := rt\<lparr>msg_stuffer_para_b := snd (on_initialize sdk root n (msg_stuffer_para_b rt))\<rparr>\<rparr>)
      | MmrParaA \<Rightarrow> map_option (\<lambda>(a, m). s\<lparr>xcmp := rt\<lparr>msg_stuffer_para_a := a, mmr_para_a := m\<rparr>\<rparr>)
          (mmr_on_initialize sdk mmr outbound ParaAIdentifier parent (msg_stuffer_para_a rt, mmr_para_a rt))
      | MmrParaB \<Rightarrow> map_option (\<lambda>(b, m). s\<lparr>xcmp := rt\<lparr>msg_stuffer_para_b := b, mmr_para_b := m\<rparr>\<rparr>)
          (mmr_on_initialize sdk mmr outbound ParaBIdentifier parent (msg_stuffer_para_b rt, mmr_para_b rt))
      | _ \<Rightarrow> Some (pallet_hook fs p n s))"

fun run_hooks :: "('p \<Rightarrow> 's \<Rightarrow> 's option) \<Rightarrow> 'p list \<Rightarrow> 's \<Rightarrow> 's option" where
  "run_hooks hook [] s = Some s"
| "run_hooks hook (p # ps) s = (case hook p s of None \<Rightarrow> None | Some t \<Rightarrow> run_hooks hook ps t)"

definition AllPalletsWithSystem ::
  "('mp, 'dg) sdk \<Rightarrow> ('m, 'mp) mmr_pallet \<Rightarrow> ('m, 'rest, 'mp, 'o, 'c, 'e, 'hd, 'xt) frame_sdk \<Rightarrow> ('m, 'rest) hooks" where
  "AllPalletsWithSystem sdk mmr fs n = run_hooks (runtime_hook sdk mmr fs n) (map fst construct_runtime)"

section \<open>Dispatch\<close>

fun dispatch_stuffer ::
  "('mp, 'dg) sdk \<Rightarrow> ('o \<Rightarrow> 'acc option) \<Rightarrow> 'o \<Rightarrow> 'mp stuffer_call_data \<Rightarrow> unit stuffer_call" where
  "dispatch_stuffer sdk es origin (SubmitTestProofCall mp leaves cid) = submit_test_proof sdk es origin mp leaves cid"
| "dispatch_stuffer sdk es origin (UpdateRootCall root cid) = update_root es origin root cid"
| "dispatch_stuffer sdk es origin (SubmitXcmpProofCall p r) = submit_xcmp_proof sdk es origin p r"

text \<open>A call of a stuffer runs on the storage of its instance.\<close>

definition on_para_a :: "(stuffer, 'x, 'a) action \<Rightarrow> (('m, 'rest) storage, 'x, 'a) action" where
  "on_para_a call s =
     (case call (msg_stuffer_para_a (xcmp s)) of (r, t) \<Rightarrow> (r, s\<lparr>xcmp := (xcmp s)\<lparr>msg_stuffer_para_a := t\<rparr>\<rparr>))"

definition on_para_b :: "(stuffer, 'x, 'a) action \<Rightarrow> (('m, 'rest) storage, 'x, 'a) action" where
  "on_para_b call s =
     (case call (msg_stuffer_para_b (xcmp s)) of (r, t) \<Rightarrow> (r, s\<lparr>xcmp := (xcmp s)\<lparr>msg_stuffer_para_b := t\<rparr>\<rparr>))"

fun dispatch_call ::
  "('mp, 'dg) sdk \<Rightarrow> ('o \<Rightarrow> 'acc option) \<Rightarrow> ('m, 'rest, 'mp, 'o, 'c, 'e, 'hd, 'xt) frame_sdk \<Rightarrow>
   ('m, 'rest, 'mp, 'o, 'c, 'e) dispatcher" where
  "dispatch_call sdk es fs origin (MsgStufferParaACall call) = map_err StufferError (on_para_a (dispatch_stuffer sdk es origin call))"
| "dispatch_call sdk es fs origin (MsgStufferParaBCall call) = map_err StufferError (on_para_b (dispatch_stuffer sdk es origin call))"
| "dispatch_call sdk es fs origin (OtherPalletCall p call) = pallet_call fs p call origin"

section \<open>The block API\<close>

definition api_initialize_block ::
  "('mp, 'dg) sdk \<Rightarrow> ('m, 'mp) mmr_pallet \<Rightarrow> ('m, 'rest, 'mp, 'o, 'c, 'e, 'hd, 'xt) frame_sdk \<Rightarrow> 'hd \<Rightarrow>
   ('m, 'rest) storage \<Rightarrow> ('m, 'rest) storage option" where
  "api_initialize_block sdk mmr fs hdr = Executive_initialize_block fs (AllPalletsWithSystem sdk mmr fs) hdr"

definition api_apply_extrinsic ::
  "('mp, 'dg) sdk \<Rightarrow> ('o \<Rightarrow> 'acc option) \<Rightarrow> ('m, 'rest, 'mp, 'o, 'c, 'e, 'hd, 'xt) frame_sdk \<Rightarrow> 'xt \<Rightarrow>
   ('m, 'rest, 'e, ('e runtime_error, unit) outcome) storage_action" where
  "api_apply_extrinsic sdk es fs extrinsic =
     Executive_apply_extrinsic fs (\<lambda>xt. SignedExtra (extension_tuple fs xt)) (dispatch_call sdk es fs) extrinsic"

definition api_finalize_block ::
  "('m, 'rest, 'mp, 'o, 'c, 'e, 'hd, 'xt) frame_sdk \<Rightarrow> ('m, 'rest) storage \<Rightarrow> 'hd \<times> ('m, 'rest) storage" where
  "api_finalize_block fs = Executive_finalize_block fs"

definition api_execute_block ::
  "('mp, 'dg) sdk \<Rightarrow> ('m, 'mp) mmr_pallet \<Rightarrow> ('o \<Rightarrow> 'acc option) \<Rightarrow> ('m, 'rest, 'mp, 'o, 'c, 'e, 'hd, 'xt) frame_sdk \<Rightarrow>
   ('hd, 'xt) block \<Rightarrow> ('m, 'rest) storage \<Rightarrow> ((unit, unit) outcome \<times> ('m, 'rest) storage) option" where
  "api_execute_block sdk mmr es fs blk =
     Executive_execute_block fs (AllPalletsWithSystem sdk mmr fs) (\<lambda>xt. SignedExtra (extension_tuple fs xt))
       (dispatch_call sdk es fs) blk"

section \<open>Documented behaviour of the executive and the pallets\<close>

text \<open>
  What the documentation leaves open: the number of a header, and the origin and the call an extrinsic stands for.
\<close>

record ('mp, 'o, 'c, 'hd, 'xt) executive_spec =
  number_of :: "'hd \<Rightarrow> u32"
  origin_and_call :: "'xt \<Rightarrow> 'o \<times> ('mp, 'c) runtime_call"

text \<open>Two storages that differ in the other pallets only.\<close>

definition same_xcmp :: "('m, 'rest) storage \<Rightarrow> ('m, 'rest) storage \<Rightarrow> bool" where
  "same_xcmp s t \<longleftrightarrow> xcmp t = xcmp s \<and> raw_writes t = raw_writes s"

text \<open>Applying the extrinsics of a block that is imported: one that cannot be applied is a panic.\<close>

fun apply_all :: "('xt \<Rightarrow> ('s, 'x, 'a) action) \<Rightarrow> 'xt list \<Rightarrow> 's \<Rightarrow> (unit, unit) outcome \<times> 's" where
  "apply_all apply [] s = (Ok (), s)"
| "apply_all apply (xt # xts) s = (case apply xt s of (Ok _, t) \<Rightarrow> apply_all apply xts t | (_, t) \<Rightarrow> (Panic, t))"

text \<open>
  What the executive does when it returns. Before and after the hooks the system pallet keeps its own
  records (it resets its events and notes what the header says; a block's checks of its parent and its inherents only read).
  An extrinsic that is applied has its call dispatched once, after the extensions when it is signed; a dispatch that fails is
  undone, its error is the result, and what is noted before and after is in other pallets. A block that is executed was started
  with its header, all its extrinsics were applied in order, and then it was finished. Nothing is said of a block that is
  refused.
\<close>

definition starts_with_hooks ::
  "('m, 'rest, 'mp, 'o, 'c, 'e, 'hd, 'xt) frame_sdk \<Rightarrow> ('mp, 'o, 'c, 'hd, 'xt) executive_spec \<Rightarrow> bool" where
  "starts_with_hooks fs sp \<longleftrightarrow>
     (\<forall>hooks hdr s t. Executive_initialize_block fs hooks hdr s = Some t \<longrightarrow>
        (\<exists>u v. same_xcmp s u \<and> hooks (number_of sp hdr) u = Some v \<and> same_xcmp v t))"

definition applies_calls ::
  "('m, 'rest, 'mp, 'o, 'c, 'e, 'hd, 'xt) frame_sdk \<Rightarrow> ('mp, 'o, 'c, 'hd, 'xt) executive_spec \<Rightarrow> bool" where
  "applies_calls fs sp \<longleftrightarrow>
     (\<forall>extra dispatch xt s res t. Executive_apply_extrinsic fs extra dispatch xt s = (Ok res, t) \<longrightarrow>
        (\<exists>origin call u v w. origin_and_call sp xt = (origin, call) \<and>
           same_xcmp s u \<and> (same_xcmp u v \<or> snd (extra xt u) = v) \<and> same_xcmp v w \<and>
           (res = Ok () \<longleftrightarrow> fst (dispatch origin call w) = Ok ()) \<and>
           same_xcmp (if res = Ok () then snd (dispatch origin call w) else w) t))"

definition executes_in_order :: "('m, 'rest, 'mp, 'o, 'c, 'e, 'hd, 'xt) frame_sdk \<Rightarrow> bool" where
  "executes_in_order fs \<longleftrightarrow>
     (\<forall>hooks extra dispatch blk s t. Executive_execute_block fs hooks extra dispatch blk s = Some (Ok (), t) \<longrightarrow>
        (\<exists>u v. Executive_initialize_block fs hooks (block_header blk) s = Some u \<and>
           apply_all (Executive_apply_extrinsic fs extra dispatch) (extrinsics blk) u = (Ok (), v) \<and>
           t = snd (Executive_finalize_block fs v)))"

text \<open>
  Storage belongs to its pallet: unless storage is written by key, the other pallets change that of the stuffers only by dispatching
  their calls (a sudo call does, and an XCM message may), and the extensions not at all.
\<close>

inductive call_step :: "('mp, 'dg) sdk \<Rightarrow> ('o \<Rightarrow> 'acc option) \<Rightarrow> 'm runtime \<Rightarrow> 'm runtime \<Rightarrow> bool" for sdk es where
  a: "call_step sdk es rt (rt\<lparr>msg_stuffer_para_a := snd (dispatch_stuffer sdk es origin call (msg_stuffer_para_a rt))\<rparr>)"
| b: "call_step sdk es rt (rt\<lparr>msg_stuffer_para_b := snd (dispatch_stuffer sdk es origin call (msg_stuffer_para_b rt))\<rparr>)"

inductive_cases call_stepE: "call_step sdk es rt rt'"

definition touches :: "('mp, 'dg) sdk \<Rightarrow> ('o \<Rightarrow> 'acc option) \<Rightarrow> ('m, 'rest) storage \<Rightarrow> ('m, 'rest) storage \<Rightarrow> bool" where
  "touches sdk es s t \<longleftrightarrow> raw_writes s \<le> raw_writes t \<and>
     (raw_writes t = raw_writes s \<longrightarrow> (call_step sdk es)\<^sup>*\<^sup>* (xcmp s) (xcmp t))"

definition storage_is_private ::
  "('mp, 'dg) sdk \<Rightarrow> ('o \<Rightarrow> 'acc option) \<Rightarrow> ('m, 'rest, 'mp, 'o, 'c, 'e, 'hd, 'xt) frame_sdk \<Rightarrow> bool" where
  "storage_is_private sdk es fs \<longleftrightarrow>
     (\<forall>p n s. touches sdk es s (pallet_hook fs p n s)) \<and>
     (\<forall>p call origin s. touches sdk es s (snd (pallet_call fs p call origin s))) \<and>
     (\<forall>xt exts s. same_xcmp s (snd (extension_tuple fs xt exts s))) \<and>
     (\<forall>s. touches sdk es s (snd (Executive_finalize_block fs s)))"

definition frame_laws ::
  "('mp, 'dg) sdk \<Rightarrow> ('o \<Rightarrow> 'acc option) \<Rightarrow> ('m, 'rest, 'mp, 'o, 'c, 'e, 'hd, 'xt) frame_sdk \<Rightarrow>
   ('mp, 'o, 'c, 'hd, 'xt) executive_spec \<Rightarrow> bool" where
  "frame_laws sdk es fs sp \<longleftrightarrow>
     starts_with_hooks fs sp \<and> applies_calls fs sp \<and> executes_in_order fs \<and> storage_is_private sdk es fs"

lemma frame_lawsD:
  assumes "frame_laws sdk es fs sp"
  shows "starts_with_hooks fs sp" "applies_calls fs sp" "executes_in_order fs" "storage_is_private sdk es fs"
  using assms by (simp_all add: frame_laws_def)

lemma touches_refl [simp]: "touches sdk es s s"
  by (simp add: touches_def)

lemma touches_trans: "touches sdk es s t \<Longrightarrow> touches sdk es t u \<Longrightarrow> touches sdk es s u"
  by (auto simp: touches_def intro: rtranclp_trans)

lemma same_xcmp_touches: "same_xcmp s t \<Longrightarrow> touches sdk es s t"
  by (simp add: same_xcmp_def touches_def)

section \<open>What calls do\<close>

lemma dispatch_stuffer_exec:
  "\<exists>op. is_call op \<and> snd (dispatch_stuffer sdk es origin call s) = stuffer_exec sdk es op s"
proof (cases call)
  case (SubmitTestProofCall mp leaves cid)
  then show ?thesis by (intro exI [of _ "SubmitTestProof origin mp leaves cid"]) simp
next
  case (UpdateRootCall root cid)
  then show ?thesis by (intro exI [of _ "UpdateRoot origin root cid"]) simp
next
  case (SubmitXcmpProofCall p r)
  then show ?thesis by (intro exI [of _ "SubmitXcmpProof origin p r"]) simp
qed

lemma call_step_runtime_step: "call_step sdk es rt rt' \<Longrightarrow> runtime_step sdk mmr es rt rt'"
  by (erule call_stepE) (metis dispatch_stuffer_exec runtime_step.call_a runtime_step.call_b)+

lemma calls_runtime_steps: "(call_step sdk es)\<^sup>*\<^sup>* rt rt' \<Longrightarrow> (runtime_step sdk mmr es)\<^sup>*\<^sup>* rt rt'"
  by (erule rtranclp_mono [THEN predicate2D, rotated]) (blast intro: call_step_runtime_step)

text \<open>Calls never touch the MMRs, nor the record of BEEFY roots.\<close>

definition same_commitments :: "'m runtime \<Rightarrow> 'm runtime \<Rightarrow> bool" where
  "same_commitments rt rt' \<longleftrightarrow> mmr_para_a rt' = mmr_para_a rt \<and> mmr_para_b rt' = mmr_para_b rt \<and>
     seen_beefy_roots_order (msg_stuffer_para_a rt') = seen_beefy_roots_order (msg_stuffer_para_a rt) \<and>
     seen_beefy_roots_order (msg_stuffer_para_b rt') = seen_beefy_roots_order (msg_stuffer_para_b rt)"

lemma dispatch_keeps_order:
  "seen_beefy_roots_order (snd (dispatch_stuffer sdk es origin call s)) = seen_beefy_roots_order s"
  using dispatch_stuffer_exec [of sdk es origin call s] call_keeps_beefy_roots(2) by metis

lemma calls_keep_commitments: "(call_step sdk es)\<^sup>*\<^sup>* rt rt' \<Longrightarrow> same_commitments rt rt'"
  by (induction rule: rtranclp_induct) (auto simp: same_commitments_def dispatch_keeps_order elim!: call_stepE)

lemma snd_map_err [simp]: "snd (map_err f m s) = snd (m s)"
  by (simp add: map_err_def split: prod.splits outcome.splits)

lemma xcmp_on_para [simp]:
  "xcmp (snd (on_para_a m s)) = (xcmp s)\<lparr>msg_stuffer_para_a := snd (m (msg_stuffer_para_a (xcmp s)))\<rparr>"
  "xcmp (snd (on_para_b m s)) = (xcmp s)\<lparr>msg_stuffer_para_b := snd (m (msg_stuffer_para_b (xcmp s)))\<rparr>"
  by (simp_all add: on_para_a_def on_para_b_def split: prod.splits)

lemma raw_writes_on_para [simp]:
  "raw_writes (snd (on_para_a m s)) = raw_writes s" "raw_writes (snd (on_para_b m s)) = raw_writes s"
  by (simp_all add: on_para_a_def on_para_b_def split: prod.splits)

lemma dispatch_call_touches:
  assumes "storage_is_private sdk es fs"
  shows "touches sdk es s (snd (dispatch_call sdk es fs origin call s))"
proof (cases call)
  case (OtherPalletCall p c)
  with assms show ?thesis by (simp add: storage_is_private_def)
qed (auto simp: touches_def intro: call_step.intros)

section \<open>What a block does\<close>

lemma run_hooks_append:
  "run_hooks hook (ps @ qs) s = (case run_hooks hook ps s of None \<Rightarrow> None | Some t \<Rightarrow> run_hooks hook qs t)"
  by (induction ps arbitrary: s) (simp_all split: option.split)

definition sdk_pallets :: "pallet list" where
  "sdk_pallets = map fst (takeWhile (\<lambda>e. fst e \<noteq> MsgStufferParaA) construct_runtime)"

lemma construct_runtime_split:
  "map fst construct_runtime = sdk_pallets @ [MsgStufferParaA, MsgStufferParaB, MmrParaA, MmrParaB]"
  by (simp add: sdk_pallets_def construct_runtime_def)

lemma sdk_pallets_notin: "p \<in> set sdk_pallets \<Longrightarrow> p \<notin> {MsgStufferParaA, MsgStufferParaB, MmrParaA, MmrParaB}"
  by (auto simp: sdk_pallets_def construct_runtime_def)

lemma sdk_hook: "p \<in> set sdk_pallets \<Longrightarrow> runtime_hook sdk mmr fs n p s = Some (pallet_hook fs p n s)"
  using sdk_pallets_notin [of p] by (cases p) (simp_all add: runtime_hook_def)

lemma sdk_hooks_touch:
  assumes "storage_is_private sdk es fs" and "set ps \<subseteq> set sdk_pallets"
  shows "\<exists>t. run_hooks (runtime_hook sdk mmr fs n) ps s = Some t \<and> touches sdk es s t"
  using assms(2)
proof (induction ps arbitrary: s)
  case (Cons p ps)
  have hook: "runtime_hook sdk mmr fs n p s = Some (pallet_hook fs p n s)"
    using Cons.prems by (simp add: sdk_hook)
  have "touches sdk es s (pallet_hook fs p n s)"
    using assms(1) by (simp add: storage_is_private_def)
  with Cons.IH [of "pallet_hook fs p n s"] Cons.prems show ?case
    by (auto simp: hook intro: touches_trans)
qed simp

text \<open>The last four hooks are the start of a block in \<open>Runtime_Xcmp\<close>.\<close>

lemma xcmp_hooks:
  "run_hooks (runtime_hook sdk mmr fs n) [MsgStufferParaA, MsgStufferParaB, MmrParaA, MmrParaB] s =
     map_option (\<lambda>rt. s\<lparr>xcmp := rt\<rparr>)
       (initialize_block sdk mmr (outbound_of fs (other_pallets s)) (beefy_root_of fs (other_pallets s)) n
         (parent_of fs (other_pallets s)) (xcmp s))"
  by (cases "xcmp s") (simp add: runtime_hook_def initialize_block_def Let_def split: option.split)

lemma hooks_start_a_block:
  assumes "storage_is_private sdk es fs" and "AllPalletsWithSystem sdk mmr fs n s = Some t"
  shows "\<exists>u. touches sdk es s u \<and> raw_writes t = raw_writes u \<and>
    initialize_block sdk mmr (outbound_of fs (other_pallets t)) (beefy_root_of fs (other_pallets t)) n
      (parent_of fs (other_pallets t)) (xcmp u) = Some (xcmp t)"
proof -
  obtain u where u: "run_hooks (runtime_hook sdk mmr fs n) sdk_pallets s = Some u" "touches sdk es s u"
    using sdk_hooks_touch [OF assms(1), of sdk_pallets mmr n s] by blast
  then have "run_hooks (runtime_hook sdk mmr fs n) [MsgStufferParaA, MsgStufferParaB, MmrParaA, MmrParaB] u = Some t"
    using assms(2) unfolding AllPalletsWithSystem_def construct_runtime_split run_hooks_append by simp
  then obtain rt where "initialize_block sdk mmr (outbound_of fs (other_pallets u)) (beefy_root_of fs (other_pallets u)) n
      (parent_of fs (other_pallets u)) (xcmp u) = Some rt" "t = u\<lparr>xcmp := rt\<rparr>"
    unfolding xcmp_hooks by auto
  with u(2) show ?thesis by auto
qed

text \<open>An extrinsic that was applied: its call was dispatched in a storage with the same XCMP part.\<close>

lemma applied_extrinsic:
  assumes "frame_laws sdk es fs sp" and "api_apply_extrinsic sdk es fs xt s = (Ok res, t)"
  shows "\<exists>origin call w. origin_and_call sp xt = (origin, call) \<and> same_xcmp s w \<and>
    (res = Ok () \<longleftrightarrow> fst (dispatch_call sdk es fs origin call w) = Ok ()) \<and>
    same_xcmp (if res = Ok () then snd (dispatch_call sdk es fs origin call w) else w) t"
proof -
  obtain origin call u v w where xt: "origin_and_call sp xt = (origin, call)"
    and u: "same_xcmp s u" "same_xcmp u v \<or> snd (SignedExtra (extension_tuple fs xt) u) = v" "same_xcmp v w"
    and res: "res = Ok () \<longleftrightarrow> fst (dispatch_call sdk es fs origin call w) = Ok ()"
      "same_xcmp (if res = Ok () then snd (dispatch_call sdk es fs origin call w) else w) t"
    using frame_lawsD(2) [OF assms(1), unfolded applies_calls_def, rule_format, OF assms(2) [unfolded api_apply_extrinsic_def]]
    by (elim exE conjE)
  have "same_xcmp u v"
    using u(2) frame_lawsD(4) [OF assms(1)] by (auto simp: storage_is_private_def SignedExtra_def)
  with u(1,3) have "same_xcmp s w" by (simp add: same_xcmp_def)
  with xt res show ?thesis by blast
qed

lemma apply_extrinsic_touches:
  assumes "frame_laws sdk es fs sp" and "api_apply_extrinsic sdk es fs xt s = (Ok res, t)"
  shows "touches sdk es s t"
proof -
  obtain origin call w where w: "same_xcmp s w"
    "same_xcmp (if res = Ok () then snd (dispatch_call sdk es fs origin call w) else w) t"
    using applied_extrinsic [OF assms] by blast
  then show ?thesis
    using dispatch_call_touches [OF frame_lawsD(4) [OF assms(1)], of w origin call]
    by (cases "res = Ok ()") (simp_all, (blast intro: touches_trans same_xcmp_touches)+)
qed

lemma apply_all_touches:
  assumes "frame_laws sdk es fs sp" and "apply_all (api_apply_extrinsic sdk es fs) xts s = (Ok (), t)"
  shows "touches sdk es s t"
  using assms(2)
proof (induction xts arbitrary: s)
  case (Cons xt xts)
  then obtain res u where "api_apply_extrinsic sdk es fs xt s = (Ok res, u)"
    "apply_all (api_apply_extrinsic sdk es fs) xts u = (Ok (), t)"
    by (auto split: prod.splits outcome.splits)
  with Cons.IH apply_extrinsic_touches [OF assms(1)] show ?case by (blast intro: touches_trans)
qed simp

text \<open>Executing a block: it starts, its extrinsics are applied, it is finished.\<close>

lemma executed_block:
  assumes "frame_laws sdk es fs sp" and "api_execute_block sdk mmr es fs blk s = Some (Ok (), t)"
  shows "\<exists>s1 s2 rest. touches sdk es s s1 \<and> raw_writes s2 = raw_writes s1 \<and>
    initialize_block sdk mmr (outbound_of fs rest) (beefy_root_of fs rest)
      (number_of sp (block_header blk)) (parent_of fs rest) (xcmp s1) = Some (xcmp s2) \<and>
    touches sdk es s2 t"
proof -
  note laws = frame_lawsD [OF assms(1)]
  obtain u v where u: "Executive_initialize_block fs (AllPalletsWithSystem sdk mmr fs) (block_header blk) s = Some u"
    and v: "apply_all (api_apply_extrinsic sdk es fs) (extrinsics blk) u = (Ok (), v)"
    and t: "t = snd (Executive_finalize_block fs v)"
    using assms(2) laws(3) unfolding api_execute_block_def executes_in_order_def api_apply_extrinsic_def [abs_def] by blast
  obtain s0 s2 where s0: "same_xcmp s s0" "AllPalletsWithSystem sdk mmr fs (number_of sp (block_header blk)) s0 = Some s2" "same_xcmp s2 u"
    using laws(1) u unfolding starts_with_hooks_def by blast
  obtain s1 where s1: "touches sdk es s0 s1" "raw_writes s2 = raw_writes s1"
    "initialize_block sdk mmr (outbound_of fs (other_pallets s2)) (beefy_root_of fs (other_pallets s2))
      (number_of sp (block_header blk)) (parent_of fs (other_pallets s2)) (xcmp s1) = Some (xcmp s2)"
    using hooks_start_a_block [OF laws(4) s0(2)] by blast
  have "touches sdk es v t" using laws(4) by (simp add: storage_is_private_def t)
  then have "touches sdk es s2 t"
    using same_xcmp_touches [OF s0(3)] apply_all_touches [OF assms(1) v] by (blast intro: touches_trans)
  moreover have "touches sdk es s s1"
    using same_xcmp_touches [OF s0(1)] s1(1) by (rule touches_trans)
  ultimately show ?thesis using s1(2,3) by blast
qed

text \<open>The history variable only grows, and while it stands still a block is one block start between calls.\<close>

lemma executed_block_raw_writes:
  assumes "frame_laws sdk es fs sp" and "api_execute_block sdk mmr es fs blk s = Some (Ok (), t)"
  shows "raw_writes s \<le> raw_writes t"
  using executed_block [OF assms] by (auto simp: touches_def)

lemma executed_block_steps:
  assumes "frame_laws sdk es fs sp" and "api_execute_block sdk mmr es fs blk s = Some (Ok (), t)"
    and "raw_writes t = raw_writes s"
  shows "\<exists>rt1 rt2 rest. (call_step sdk es)\<^sup>*\<^sup>* (xcmp s) rt1 \<and>
    initialize_block sdk mmr (outbound_of fs rest) (beefy_root_of fs rest)
      (number_of sp (block_header blk)) (parent_of fs rest) rt1 = Some rt2 \<and>
    (call_step sdk es)\<^sup>*\<^sup>* rt2 (xcmp t)"
proof -
  obtain s1 s2 rest where b: "touches sdk es s s1" "raw_writes s2 = raw_writes s1"
    "initialize_block sdk mmr (outbound_of fs rest) (beefy_root_of fs rest)
      (number_of sp (block_header blk)) (parent_of fs rest) (xcmp s1) = Some (xcmp s2)" "touches sdk es s2 t"
    using executed_block [OF assms(1,2)] by blast
  with assms(3) have "raw_writes s1 = raw_writes s" "raw_writes t = raw_writes s2" by (auto simp: touches_def)
  with b(1,4) have "(call_step sdk es)\<^sup>*\<^sup>* (xcmp s) (xcmp s1)" "(call_step sdk es)\<^sup>*\<^sup>* (xcmp s2) (xcmp t)"
    by (simp_all add: touches_def)
  with b(3) show ?thesis by blast
qed

section \<open>Chains of blocks\<close>

inductive chain_step ::
  "('mp, 'dg) sdk \<Rightarrow> ('m, 'mp) mmr_pallet \<Rightarrow> ('o \<Rightarrow> 'acc option) \<Rightarrow> ('m, 'rest, 'mp, 'o, 'c, 'e, 'hd, 'xt) frame_sdk \<Rightarrow>
   ('m, 'rest) storage \<Rightarrow> ('m, 'rest) storage \<Rightarrow> bool" for sdk mmr es fs where
  executed: "api_execute_block sdk mmr es fs blk s = Some (Ok (), t) \<Longrightarrow> raw_writes t = raw_writes s \<Longrightarrow>
    chain_step sdk mmr es fs s t"

inductive_cases chain_stepE: "chain_step sdk mmr es fs s t"

fun execute_blocks ::
  "('mp, 'dg) sdk \<Rightarrow> ('m, 'mp) mmr_pallet \<Rightarrow> ('o \<Rightarrow> 'acc option) \<Rightarrow> ('m, 'rest, 'mp, 'o, 'c, 'e, 'hd, 'xt) frame_sdk \<Rightarrow>
   ('hd, 'xt) block list \<Rightarrow> ('m, 'rest) storage \<Rightarrow> ('m, 'rest) storage option" where
  "execute_blocks sdk mmr es fs [] s = Some s"
| "execute_blocks sdk mmr es fs (blk # blks) s =
     (case api_execute_block sdk mmr es fs blk s of
        Some (Ok _, t) \<Rightarrow> execute_blocks sdk mmr es fs blks t
      | _ \<Rightarrow> None)"

lemma execute_blocks_Cons:
  "execute_blocks sdk mmr es fs (blk # blks) s = Some t \<longleftrightarrow>
     (\<exists>u. api_execute_block sdk mmr es fs blk s = Some (Ok (), u) \<and> execute_blocks sdk mmr es fs blks u = Some t)"
  by (auto split: option.splits prod.splits outcome.splits)

lemma execute_blocks_raw_writes:
  assumes "frame_laws sdk es fs sp" and "execute_blocks sdk mmr es fs blks s = Some t"
  shows "raw_writes s \<le> raw_writes t"
  using assms(2)
proof (induction blks arbitrary: s)
  case (Cons blk blks)
  then obtain u where "api_execute_block sdk mmr es fs blk s = Some (Ok (), u)" "execute_blocks sdk mmr es fs blks u = Some t"
    unfolding execute_blocks_Cons by blast
  with Cons.IH executed_block_raw_writes [OF assms(1)] show ?case by (blast intro: le_trans)
qed simp

text \<open>A chain without writes by key is one of blocks without them.\<close>

lemma execute_blocks_quiet_Cons:
  assumes "frame_laws sdk es fs sp" and "execute_blocks sdk mmr es fs (blk # blks) s = Some t" and "raw_writes t = raw_writes s"
  obtains u where "api_execute_block sdk mmr es fs blk s = Some (Ok (), u)" and "raw_writes u = raw_writes s"
    and "execute_blocks sdk mmr es fs blks u = Some t" and "raw_writes t = raw_writes u"
proof -
  obtain u where u: "api_execute_block sdk mmr es fs blk s = Some (Ok (), u)" "execute_blocks sdk mmr es fs blks u = Some t"
    using assms(2) unfolding execute_blocks_Cons by blast
  have "raw_writes s \<le> raw_writes u" "raw_writes u \<le> raw_writes t"
    using executed_block_raw_writes [OF assms(1) u(1)] execute_blocks_raw_writes [OF assms(1) u(2)] by auto
  with u assms(3) that show ?thesis by simp
qed

lemma execute_blocks_steps:
  assumes "frame_laws sdk es fs sp" and "execute_blocks sdk mmr es fs blks s = Some t" and "raw_writes t = raw_writes s"
  shows "(chain_step sdk mmr es fs)\<^sup>*\<^sup>* s t"
  using assms(2,3)
proof (induction blks arbitrary: s)
  case (Cons blk blks)
  obtain u where u: "api_execute_block sdk mmr es fs blk s = Some (Ok (), u)" "raw_writes u = raw_writes s"
    "execute_blocks sdk mmr es fs blks u = Some t" "raw_writes t = raw_writes u"
    using execute_blocks_quiet_Cons [OF assms(1) Cons.prems] .
  have "chain_step sdk mmr es fs s u" using u(1,2) by (rule chain_step.executed)
  with Cons.IH [OF u(3,4)] show ?case by (rule converse_rtranclp_into_rtranclp [rotated])
qed simp

lemma chain_step_simulated:
  assumes "frame_laws sdk es fs sp" and "chain_step sdk mmr es fs s t"
  shows "(runtime_step sdk mmr es)\<^sup>*\<^sup>* (xcmp s) (xcmp t)"
proof -
  obtain blk where "api_execute_block sdk mmr es fs blk s = Some (Ok (), t)" "raw_writes t = raw_writes s"
    using assms(2) by (blast elim: chain_stepE)
  then obtain rt1 rt2 outbound root n parent where "(call_step sdk es)\<^sup>*\<^sup>* (xcmp s) rt1"
    "initialize_block sdk mmr outbound root n parent rt1 = Some rt2" "(call_step sdk es)\<^sup>*\<^sup>* rt2 (xcmp t)"
    using executed_block_steps [OF assms(1)] by blast
  then show ?thesis
    by (meson calls_runtime_steps runtime_step.block rtranclp.rtrancl_into_rtrancl rtranclp_trans)
qed

interpretation block_simulation: simulation
  "\<lambda>s. frame_laws sdk es fs sp \<and> (\<exists>m. xcmp s = runtime_genesis m)" "chain_step sdk mmr es fs"
  "\<lambda>_. frame_laws sdk es fs sp" "runtime_step sdk mmr es" xcmp for sdk es fs sp mmr
  by unfold_locales (simp_all add: chain_step_simulated)

lemma executed_chain_reachable:
  assumes "frame_laws sdk es fs sp" and "xcmp s = runtime_genesis m"
    and "execute_blocks sdk mmr es fs blks s = Some t" and "raw_writes t = raw_writes s"
  shows "(runtime_step sdk mmr es)\<^sup>*\<^sup>* (runtime_genesis m) (xcmp t)"
proof -
  have "frame_laws sdk es fs sp \<and> (\<exists>m. xcmp s = runtime_genesis m)" using assms(1,2) by blast
  from block_simulation.reachable_simulated [OF this execute_blocks_steps [OF assms(1,3,4)]] assms(2) show ?thesis by simp
qed

text \<open>What one block commits to.\<close>

lemma executed_block_commits:
  assumes "frame_laws sdk es fs sp" and "mmr_appends_leaf mmr" and "force_from_unchecked sdk"
    and "api_execute_block sdk mmr es fs blk s = Some (Ok (), t)" and "raw_writes t = raw_writes s"
  shows "\<exists>msgs_a msgs_b parent root.
    mmr_para_a (xcmp t) = mmr_push mmr (mmr_para_a (xcmp s)) (stuffed_leaf msgs_a parent) \<and>
    mmr_para_b (xcmp t) = mmr_push mmr (mmr_para_b (xcmp s)) (stuffed_leaf msgs_b parent) \<and>
    seen_beefy_roots_order (msg_stuffer_para_a (xcmp t)) = seen_beefy_roots_order (msg_stuffer_para_a (xcmp s)) @ [root] \<and>
    seen_beefy_roots_order (msg_stuffer_para_b (xcmp t)) = seen_beefy_roots_order (msg_stuffer_para_b (xcmp s)) @ [root]"
proof -
  obtain rt1 rt2 outbound root n parent where steps: "(call_step sdk es)\<^sup>*\<^sup>* (xcmp s) rt1" "(call_step sdk es)\<^sup>*\<^sup>* rt2 (xcmp t)"
    and init: "initialize_block sdk mmr outbound root n parent rt1 = Some rt2"
    using executed_block_steps [OF assms(1,4,5)] by blast
  have "same_commitments (xcmp s) rt1" "same_commitments rt2 (xcmp t)"
    using steps by (blast intro: calls_keep_commitments)+
  moreover obtain msgs_a msgs_b where
    "rt2 = \<lparr>msg_stuffer_para_a = deposit_event (XcmpMessageSent (hash_of sdk msgs_a) (fst parent))
               (snd (on_initialize sdk root n (msg_stuffer_para_a rt1))),
             msg_stuffer_para_b = deposit_event (XcmpMessageSent (hash_of sdk msgs_b) (fst parent))
               (snd (on_initialize sdk root n (msg_stuffer_para_b rt1))),
             mmr_para_a = mmr_push mmr (mmr_para_a rt1) (stuffed_leaf msgs_a parent),
             mmr_para_b = mmr_push mmr (mmr_para_b rt1) (stuffed_leaf msgs_b parent)\<rparr>"
    using init assms(2) by (auto simp: initialize_block_Some_iff)
  ultimately show ?thesis
    using assms(3) unfolding same_commitments_def force_from_unchecked_def
    by (intro exI [of _ msgs_a] exI [of _ msgs_b] exI [of _ parent] exI conjI) simp_all
qed

section \<open>What extrinsics report\<close>

text \<open>In every reachable runtime the order lists of both stuffers have the roots their maps have.\<close>

definition roots_listed :: "'m runtime \<Rightarrow> bool" where
  "roots_listed rt \<longleftrightarrow>
     set (seen_beefy_roots_order (msg_stuffer_para_a rt)) = dom (seen_beefy_roots (msg_stuffer_para_a rt)) \<and>
     set (seen_beefy_roots_order (msg_stuffer_para_b rt)) = dom (seen_beefy_roots (msg_stuffer_para_b rt))"

lemma genesis_roots_listed: "rt = runtime_genesis m \<Longrightarrow> roots_listed rt"
  by (simp add: roots_listed_def runtime_genesis_def stuffer_genesis_def)

lemma on_initialize_lists_root:
  "force_from_unchecked sdk \<Longrightarrow> set (seen_beefy_roots_order s) = dom (seen_beefy_roots s) \<Longrightarrow>
   set (seen_beefy_roots_order (snd (on_initialize sdk get_root n s))) = dom (seen_beefy_roots (snd (on_initialize sdk get_root n s)))"
  by (auto simp: on_initialize_def Let_def force_from_unchecked_def)

lemma step_roots_listed:
  assumes "force_from_unchecked sdk" and "mmr_appends_leaf mmr" and "roots_listed rt" and "runtime_step sdk mmr es rt rt'"
  shows "roots_listed rt'"
  using assms(4)
proof (cases rule: runtime_step.cases)
  case (block outbound get_root n parent)
  with assms(3) on_initialize_lists_root [OF assms(1)] show ?thesis
    by (auto simp: initialize_block_Some_iff [OF assms(2)] roots_listed_def)
qed (use assms(3) in \<open>simp_all add: roots_listed_def call_keeps_beefy_roots\<close>)

interpretation listed_roots: invariant_machine "\<lambda>rt. \<exists>m. rt = runtime_genesis m" "runtime_step sdk mmr es"
  "\<lambda>rt. force_from_unchecked sdk \<longrightarrow> mmr_appends_leaf mmr \<longrightarrow> roots_listed rt" for sdk mmr es
  by unfold_locales (blast intro: genesis_roots_listed step_roots_listed)+

text \<open>The verdict of an applied extrinsic that calls a stuffer is the one of the call, on the storage before it.\<close>

lemma fst_map_err_Ok: "fst (map_err f m s) = Ok a \<longleftrightarrow> fst (m s) = Ok a"
  by (simp add: map_err_def split: prod.splits outcome.splits)

lemma fst_on_para:
  "fst (on_para_a m s) = fst (m (msg_stuffer_para_a (xcmp s)))" "fst (on_para_b m s) = fst (m (msg_stuffer_para_b (xcmp s)))"
  by (simp_all add: on_para_a_def on_para_b_def split: prod.splits)

section \<open>A concrete executive\<close>

text \<open>
  The storage of the other pallets is the block number, which is all a header has; an extrinsic is an
  origin with a call. The calls of the system pallet write storage by key: they reset the XCMP part.
\<close>

definition transactional :: "('s, 'x, unit) action \<Rightarrow> ('s, 'x, ('x, unit) outcome) action" where
  "transactional m s =
     (case m s of (Ok u, t) \<Rightarrow> (Ok (Ok u), t) | (Err e, _) \<Rightarrow> (Ok (Err e), s) | (Panic, _) \<Rightarrow> (Panic, s))"

definition example_frame ::
  "(mmr_leaf list, u32, h256, nat option, unit, unit, u32, nat option \<times> (h256, unit) runtime_call) frame_sdk" where
  "example_frame =
     \<lparr>pallet_hook = (\<lambda>_ _ s. s),
      pallet_call = (\<lambda>p _ _. if p = System
        then modify (\<lambda>s. s\<lparr>xcmp := runtime_genesis [], raw_writes := raw_writes s + 1\<rparr>) else ret ()),
      beefy_root_of = (\<lambda>_. Some 7),
      outbound_of = (\<lambda>_. example_outbound), parent_of = (\<lambda>number. (number - 1, 5)),
      extension_tuple = (\<lambda>_ _. ret ()),
      Executive_initialize_block = (\<lambda>hooks number s. hooks number (s\<lparr>other_pallets := number\<rparr>)),
      Executive_apply_extrinsic = (\<lambda>extra dispatch xt.
        and_then (extra xt) (\<lambda>_. transactional (dispatch (fst xt) (snd xt)))),
      Executive_finalize_block = (\<lambda>s. (other_pallets s, s)),
      Executive_execute_block = (\<lambda>hooks extra dispatch blk s.
        map_option (\<lambda>t. case apply_all (\<lambda>xt. and_then (extra xt) (\<lambda>_. transactional (dispatch (fst xt) (snd xt)))) (extrinsics blk) t of
             (Ok u, t) \<Rightarrow> (if other_pallets t = block_header blk then Ok () else Panic, t) | (r, t) \<Rightarrow> (r, t))
          (hooks (block_header blk) (s\<lparr>other_pallets := block_header blk\<rparr>)))\<rparr>"

definition example_executive :: "(h256, nat option, unit, u32, nat option \<times> (h256, unit) runtime_call) executive_spec" where
  "example_executive = \<lparr>number_of = (\<lambda>number. number), origin_and_call = (\<lambda>xt. xt)\<rparr>"

lemma example_frame_simps:
  "pallet_hook example_frame p n s = s"
  "pallet_call example_frame p c origin = (if p = System
     then modify (\<lambda>s. s\<lparr>xcmp := runtime_genesis [], raw_writes := raw_writes s + 1\<rparr>) else ret ())"
  "beefy_root_of example_frame rest = Some 7" "outbound_of example_frame rest = example_outbound"
  "parent_of example_frame rest = (rest - 1, 5)" "extension_tuple example_frame xt exts = ret ()"
  "Executive_initialize_block example_frame hooks number s = hooks number (s\<lparr>other_pallets := number\<rparr>)"
  "Executive_apply_extrinsic example_frame extra dispatch xt =
     and_then (extra xt) (\<lambda>_. transactional (dispatch (fst xt) (snd xt)))"
  "Executive_finalize_block example_frame s = (other_pallets s, s)"
  "Executive_execute_block example_frame hooks extra dispatch blk s =
     map_option (\<lambda>t. case apply_all (Executive_apply_extrinsic example_frame extra dispatch) (extrinsics blk) t of
          (Ok u, t) \<Rightarrow> (if other_pallets t = block_header blk then Ok () else Panic, t) | (r, t) \<Rightarrow> (r, t))
       (Executive_initialize_block example_frame hooks (block_header blk) s)"
  by (simp_all add: example_frame_def)

lemma transactional_same:
  assumes "transactional m s = (Ok res, t)"
  shows "(res = Ok () \<longleftrightarrow> fst (m s) = Ok ()) \<and> t = (if res = Ok () then snd (m s) else s)"
  using assms by (auto simp: transactional_def split: prod.splits outcome.splits)

lemma example_frame_executive:
  "starts_with_hooks example_frame example_executive" "applies_calls example_frame example_executive"
  "executes_in_order example_frame"
proof -
  show "starts_with_hooks example_frame example_executive"
    unfolding starts_with_hooks_def
  proof (intro allI impI)
    fix hooks hdr s and t :: "(mmr_leaf list, u32) storage"
    assume "Executive_initialize_block example_frame hooks hdr s = Some t"
    then show "\<exists>u v. same_xcmp s u \<and> hooks (number_of example_executive hdr) u = Some v \<and> same_xcmp v t"
      by (intro exI [of _ "s\<lparr>other_pallets := hdr\<rparr>"] exI [of _ t])
         (simp add: example_frame_simps example_executive_def same_xcmp_def)
  qed
  show "executes_in_order example_frame"
    unfolding executes_in_order_def
  proof (intro allI impI)
    fix hooks extra dispatch s and blk :: "(u32, nat option \<times> (h256, unit) runtime_call) block"
      and t :: "(mmr_leaf list, u32) storage"
    let ?apply = "apply_all (Executive_apply_extrinsic example_frame extra dispatch) (extrinsics blk)"
    assume "Executive_execute_block example_frame hooks extra dispatch blk s = Some (Ok (), t)"
    then obtain u where "Executive_initialize_block example_frame hooks (block_header blk) s = Some u"
      "(case ?apply u of (Ok _, t) \<Rightarrow> (if other_pallets t = block_header blk then Ok () else Panic, t) | (r, t) \<Rightarrow> (r, t)) = (Ok (), t)"
      unfolding example_frame_simps(10) by auto
    then show "\<exists>u v. Executive_initialize_block example_frame hooks (block_header blk) s = Some u \<and>
        ?apply u = (Ok (), v) \<and> t = snd (Executive_finalize_block example_frame v)"
      by (intro exI [of _ u] exI [of _ t])
         (cases "?apply u"; auto simp: example_frame_simps(9) split: outcome.splits if_splits)
  qed
  show "applies_calls example_frame example_executive"
    unfolding applies_calls_def
  proof (intro allI impI)
    fix extra dispatch xt s res and t :: "(mmr_leaf list, u32) storage"
    assume "Executive_apply_extrinsic example_frame extra dispatch xt s = (Ok res, t)"
    then obtain v where "snd (extra xt s) = v" "transactional (dispatch (fst xt) (snd xt)) v = (Ok res, t)"
      unfolding example_frame_simps by (auto simp: and_then_def split: prod.splits outcome.splits)
    with transactional_same [OF this(2)]
    show "\<exists>origin call u v w. origin_and_call example_executive xt = (origin, call) \<and>
           same_xcmp s u \<and> (same_xcmp u v \<or> snd (extra xt u) = v) \<and> same_xcmp v w \<and>
           (res = Ok () \<longleftrightarrow> fst (dispatch origin call w) = Ok ()) \<and>
           same_xcmp (if res = Ok () then snd (dispatch origin call w) else w) t"
      by (intro exI [of _ "fst xt"] exI [of _ "snd xt"] exI [of _ s] exI [of _ v])
         (simp add: example_executive_def same_xcmp_def)
  qed
qed

lemma example_frame_laws: "frame_laws example_sdk example_signer example_frame example_executive"
  unfolding frame_laws_def storage_is_private_def
  by (simp add: example_frame_executive) (simp add: example_frame_simps same_xcmp_def touches_def action_simps)

definition example_storage :: "(mmr_leaf list, u32) storage" where
  "example_storage = \<lparr>xcmp = runtime_genesis [], other_pallets = 0, raw_writes = 0\<rparr>"

definition example_call :: "nat option \<times> (h256, unit) runtime_call" where
  "example_call = (Some 1, MsgStufferParaACall (UpdateRootCall 9 0))"

lemma example_start:
  "\<exists>t. api_initialize_block example_sdk example_mmr example_frame number s = Some t \<and> other_pallets t = number \<and>
     raw_writes t = raw_writes s \<and> seen_beefy_roots (msg_stuffer_para_b (xcmp t)) 7 \<noteq> None"
proof -
  have gaps: "\<exists>k. example_outbound ParaAIdentifier k = None" "\<exists>k. example_outbound ParaBIdentifier k = None"
    by (auto simp: example_outbound_def ParaAIdentifier_def ParaBIdentifier_def intro: exI [of _ 2])
  let ?s = "s\<lparr>other_pallets := number\<rparr>"
  have sdk: "run_hooks (runtime_hook example_sdk example_mmr example_frame number) ps ?s = Some ?s"
    if "set ps \<subseteq> set sdk_pallets" for ps
    using that by (induction ps) (simp_all add: sdk_hook example_frame_simps)
  have "\<exists>rt. initialize_block example_sdk example_mmr example_outbound (Some 7) number (number - 1, 5) (xcmp s) = Some rt \<and>
      seen_beefy_roots (msg_stuffer_para_b rt) 7 \<noteq> None"
    using runtime_provider.provides [of example_outbound ParaAIdentifier 5, OF gaps(1)]
      runtime_provider.provides [of example_outbound ParaBIdentifier 5, OF gaps(2)]
    by (auto simp: initialize_block_Some_iff [OF example_mmr_appends_leaf])
  then show ?thesis
    by (auto simp: api_initialize_block_def AllPalletsWithSystem_def construct_runtime_split run_hooks_append
        example_frame_simps sdk xcmp_hooks simp del: run_hooks.simps)
qed

lemma example_apply_extrinsic:
  "api_apply_extrinsic example_sdk example_signer example_frame (origin, call) =
     transactional (dispatch_call example_sdk example_signer example_frame origin call)"
  by (simp add: api_apply_extrinsic_def example_frame_simps SignedExtra_def and_then_ret)

lemma example_applies:
  "\<exists>u. apply_all (api_apply_extrinsic example_sdk example_signer example_frame) [example_call] t = (Ok (), u) \<and>
     other_pallets u = other_pallets t \<and> raw_writes u = raw_writes t"
  by (simp add: example_call_def example_apply_extrinsic transactional_def map_err_def on_para_a_def update_root_run
      example_signer_def)

lemma example_execute_block:
  "api_execute_block example_sdk example_mmr example_signer example_frame blk s =
     map_option (\<lambda>t. case apply_all (api_apply_extrinsic example_sdk example_signer example_frame) (extrinsics blk) t of
          (Ok u, t) \<Rightarrow> (if other_pallets t = block_header blk then Ok () else Panic, t) | (r, t) \<Rightarrow> (r, t))
       (api_initialize_block example_sdk example_mmr example_frame (block_header blk) s)"
  unfolding api_execute_block_def api_initialize_block_def api_apply_extrinsic_def [abs_def] by (rule example_frame_simps(10))

lemma example_executes:
  "\<exists>t. api_execute_block example_sdk example_mmr example_signer example_frame
     \<lparr>block_header = number, extrinsics = [example_call]\<rparr> s = Some (Ok (), t) \<and> raw_writes t = raw_writes s"
proof -
  obtain t where t: "api_initialize_block example_sdk example_mmr example_frame number s = Some t" "other_pallets t = number"
      "raw_writes t = raw_writes s"
    using example_start by blast
  moreover obtain u where "apply_all (api_apply_extrinsic example_sdk example_signer example_frame) [example_call] t = (Ok (), u)"
    "other_pallets u = other_pallets t" "raw_writes u = raw_writes t" using example_applies by blast
  ultimately show ?thesis
    by (simp add: example_execute_block)
qed

lemma example_storage_facts:
  "xcmp example_storage = runtime_genesis []"
  "seen_beefy_roots_order (msg_stuffer_para_b (xcmp example_storage)) = []"
  by (simp_all add: example_storage_def runtime_genesis_def stuffer_genesis_def)

section \<open>Properties\<close>

text \<open>
  Claim C7: executing blocks, as long as nobody has storage written by key (the root origin can, with the calls of the system
  pallet), takes the XCMP part of the chain only through steps of the runtime machine, whatever else the extrinsics and the other
  pallets do: every chain of such blocks from genesis ends in a reachable state of it, so everything proved of reachable states
  holds of chains of executed blocks, in particular that both stuffers know the same BEEFY roots.
\<close>

theorem executed_blocks_refine_runtime:
  assumes "frame_laws sdk es fs sp" and "mmr_appends_leaf mmr"
    and "xcmp s = runtime_genesis m" and "execute_blocks sdk mmr es fs blks s = Some t" and "raw_writes t = raw_writes s"
  shows "(runtime_step sdk mmr es)\<^sup>*\<^sup>* (runtime_genesis m) (xcmp t) \<and> same_beefy_roots (xcmp t)"
proof -
  have steps: "(runtime_step sdk mmr es)\<^sup>*\<^sup>* (runtime_genesis m) (xcmp t)"
    by (rule executed_chain_reachable [OF assms(1,3-5)])
  have "mmr_appends_leaf mmr \<longrightarrow> same_beefy_roots (xcmp t)"
    by (rule runtime_machine.reachable_invariant [OF _ steps]) blast
  with assms(2) steps show ?thesis by blast
qed

theorem executed_blocks_refine_runtime_witness:
  "\<exists>t. execute_blocks example_sdk example_mmr example_signer example_frame
       [\<lparr>block_header = 1, extrinsics = [example_call]\<rparr>, \<lparr>block_header = 2, extrinsics = [example_call]\<rparr>] example_storage = Some t \<and>
     same_beefy_roots (xcmp t)"
proof -
  obtain u where u: "api_execute_block example_sdk example_mmr example_signer example_frame
      \<lparr>block_header = 1, extrinsics = [example_call]\<rparr> example_storage = Some (Ok (), u)" "raw_writes u = raw_writes example_storage"
    using example_executes by blast
  obtain t where t: "api_execute_block example_sdk example_mmr example_signer example_frame
      \<lparr>block_header = 2, extrinsics = [example_call]\<rparr> u = Some (Ok (), t)" "raw_writes t = raw_writes u"
    using example_executes by blast
  have run: "execute_blocks example_sdk example_mmr example_signer example_frame
       [\<lparr>block_header = 1, extrinsics = [example_call]\<rparr>, \<lparr>block_header = 2, extrinsics = [example_call]\<rparr>] example_storage = Some t"
    using u(1) t(1) by simp
  have "raw_writes t = raw_writes example_storage" using u(2) t(2) by simp
  from executed_blocks_refine_runtime [OF example_frame_laws example_mmr_appends_leaf example_storage_facts(1) run this] run
  show ?thesis by blast
qed

text \<open>
  Claim C13: every executed block commits exactly once: after a chain of blocks in which nobody had storage written by key, each
  channel's MMR has grown by one leaf per block, in order, the two leaves of a block naming the same parent, and each stuffer has
  recorded one BEEFY root per block, the same in both. No other extrinsic adds a leaf or a root.
\<close>

theorem blocks_commit_once:
  assumes "frame_laws sdk es fs sp" and "mmr_appends_leaf mmr" and "force_from_unchecked sdk"
    and "execute_blocks sdk mmr es fs blks s = Some t" and "raw_writes t = raw_writes s"
  shows "\<exists>commits roots. length commits = length blks \<and> length roots = length blks \<and>
    mmr_para_a (xcmp t) = fold (\<lambda>(a, b, parent) m. mmr_push mmr m (stuffed_leaf a parent)) commits (mmr_para_a (xcmp s)) \<and>
    mmr_para_b (xcmp t) = fold (\<lambda>(a, b, parent) m. mmr_push mmr m (stuffed_leaf b parent)) commits (mmr_para_b (xcmp s)) \<and>
    seen_beefy_roots_order (msg_stuffer_para_a (xcmp t)) = seen_beefy_roots_order (msg_stuffer_para_a (xcmp s)) @ roots \<and>
    seen_beefy_roots_order (msg_stuffer_para_b (xcmp t)) = seen_beefy_roots_order (msg_stuffer_para_b (xcmp s)) @ roots"
  using assms(4,5)
proof (induction blks arbitrary: s)
  case (Cons blk blks)
  obtain u where u: "api_execute_block sdk mmr es fs blk s = Some (Ok (), u)" "raw_writes u = raw_writes s"
    "execute_blocks sdk mmr es fs blks u = Some t" "raw_writes t = raw_writes u"
    using execute_blocks_quiet_Cons [OF assms(1) Cons.prems] .
  obtain a b parent root where first:
    "mmr_para_a (xcmp u) = mmr_push mmr (mmr_para_a (xcmp s)) (stuffed_leaf a parent)"
    "mmr_para_b (xcmp u) = mmr_push mmr (mmr_para_b (xcmp s)) (stuffed_leaf b parent)"
    "seen_beefy_roots_order (msg_stuffer_para_a (xcmp u)) = seen_beefy_roots_order (msg_stuffer_para_a (xcmp s)) @ [root]"
    "seen_beefy_roots_order (msg_stuffer_para_b (xcmp u)) = seen_beefy_roots_order (msg_stuffer_para_b (xcmp s)) @ [root]"
    using executed_block_commits [OF assms(1-3) u(1,2)] by blast
  obtain commits roots where "length commits = length blks \<and> length roots = length blks \<and>
    mmr_para_a (xcmp t) = fold (\<lambda>(a, b, parent) m. mmr_push mmr m (stuffed_leaf a parent)) commits (mmr_para_a (xcmp u)) \<and>
    mmr_para_b (xcmp t) = fold (\<lambda>(a, b, parent) m. mmr_push mmr m (stuffed_leaf b parent)) commits (mmr_para_b (xcmp u)) \<and>
    seen_beefy_roots_order (msg_stuffer_para_a (xcmp t)) = seen_beefy_roots_order (msg_stuffer_para_a (xcmp u)) @ roots \<and>
    seen_beefy_roots_order (msg_stuffer_para_b (xcmp t)) = seen_beefy_roots_order (msg_stuffer_para_b (xcmp u)) @ roots"
    using Cons.IH [OF u(3,4)] by blast
  with first show ?case
    by (intro exI [of _ "(a, b, parent) # commits"] exI [of _ "root # roots"]) simp
qed simp

theorem blocks_commit_once_witness:
  "\<exists>t. execute_blocks example_sdk example_mmr example_signer example_frame
       [\<lparr>block_header = 1, extrinsics = [example_call]\<rparr>] example_storage = Some t \<and>
     length (seen_beefy_roots_order (msg_stuffer_para_b (xcmp t))) = 1"
proof -
  obtain t where t: "execute_blocks example_sdk example_mmr example_signer example_frame
       [\<lparr>block_header = 1, extrinsics = [example_call]\<rparr>] example_storage = Some t" "raw_writes t = raw_writes example_storage"
    using example_executes [of 1 example_storage] by auto
  with blocks_commit_once [OF example_frame_laws example_mmr_appends_leaf example_sdk_laws(1) t] show ?thesis
    by (auto simp: example_storage_facts(2))
qed

text \<open>
  Claim C6: what a chain of executed blocks says about a proof: after any executed blocks in which nobody had storage written by
  key, an applied extrinsic with an XCMP proof for either channel succeeds exactly when its origin is signed, one of these blocks
  recorded the targeted BEEFY root, and the four stages form a chain from that root. What other calls the blocks contained does
  not matter.
\<close>

theorem executed_chain_decides_proofs:
  assumes "frame_laws sdk es fs sp" and "mmr_appends_leaf mmr" and "force_from_unchecked sdk"
    and "xcmp s = runtime_genesis m" and "execute_blocks sdk mmr es fs blks s = Some t" and "raw_writes t = raw_writes s"
    and "origin_and_call sp xt = (origin, call)"
    and "call \<in> {MsgStufferParaACall (SubmitXcmpProofCall p r), MsgStufferParaBCall (SubmitXcmpProofCall p r)}"
    and "api_apply_extrinsic sdk es fs xt t = (Ok res, u)"
  shows "res = Ok () \<longleftrightarrow>
    es origin \<noteq> None \<and> r \<in> set (seen_beefy_roots_order (msg_stuffer_para_a (xcmp t))) \<and> xcmp_chain sdk r p"
proof -
  have steps: "(runtime_step sdk mmr es)\<^sup>*\<^sup>* (runtime_genesis m) (xcmp t)"
    by (rule executed_chain_reachable [OF assms(1,4-6)])
  have "roots_listed (xcmp t)"
    using listed_roots.reachable_invariant [OF _ steps] assms(2,3) by blast
  moreover have "same_beefy_roots (xcmp t)"
    using runtime_machine.reachable_invariant [OF _ steps] assms(2) by blast
  ultimately have seen: "seen_beefy_roots (msg_stuffer_para_a (xcmp t)) r \<noteq> None \<longleftrightarrow>
      r \<in> set (seen_beefy_roots_order (msg_stuffer_para_a (xcmp t)))"
    "seen_beefy_roots (msg_stuffer_para_b (xcmp t)) = seen_beefy_roots (msg_stuffer_para_a (xcmp t))"
    by (auto simp: roots_listed_def same_beefy_roots_def)
  obtain v where v: "same_xcmp t v" "res = Ok () \<longleftrightarrow> fst (dispatch_call sdk es fs origin call v) = Ok ()"
    using applied_extrinsic [OF assms(1,9)] assms(7) by auto
  show ?thesis
    unfolding v(2) seen(1) [symmetric] using assms(8) v(1)
    by (auto simp: fst_map_err_Ok fst_on_para same_xcmp_def submit_xcmp_proof_ok_iff seen(2))
qed

theorem executed_chain_decides_proofs_witness:
  "\<exists>t u. execute_blocks example_sdk example_mmr example_signer example_frame [\<lparr>block_header = 1, extrinsics = []\<rparr>] example_storage = Some t \<and>
     api_apply_extrinsic example_sdk example_signer example_frame
       (Some 1, MsgStufferParaBCall (SubmitXcmpProofCall example_proof 7)) t = (Ok (Ok ()), u) \<and>
     7 \<in> set (seen_beefy_roots_order (msg_stuffer_para_a (xcmp t)))"
proof -
  let ?xt = "(Some 1, MsgStufferParaBCall (SubmitXcmpProofCall example_proof 7)) :: nat option \<times> (h256, unit) runtime_call"
  obtain t where t: "api_initialize_block example_sdk example_mmr example_frame 1 example_storage = Some t" "other_pallets t = 1"
      "raw_writes t = raw_writes example_storage" "seen_beefy_roots (msg_stuffer_para_b (xcmp t)) 7 \<noteq> None"
    using example_start by blast
  have run: "execute_blocks example_sdk example_mmr example_signer example_frame [\<lparr>block_header = 1, extrinsics = []\<rparr>] example_storage = Some t"
    using t by (simp add: example_execute_block)
  from t(4) have ok: "fst (submit_xcmp_proof example_sdk example_signer (Some 1) example_proof 7 (msg_stuffer_para_b (xcmp t))) = Ok ()"
    by (simp add: submit_xcmp_proof_ok_iff example_chain example_signer_def)
  then obtain u where u: "api_apply_extrinsic example_sdk example_signer example_frame ?xt t = (Ok (Ok ()), u)"
    by (cases "submit_xcmp_proof example_sdk example_signer (Some 1) example_proof 7 (msg_stuffer_para_b (xcmp t))")
       (simp add: example_apply_extrinsic transactional_def map_err_def on_para_b_def)
  have "origin_and_call example_executive ?xt = ?xt" by (simp add: example_executive_def)
  from executed_chain_decides_proofs [OF example_frame_laws example_mmr_appends_leaf example_sdk_laws(1)
      example_storage_facts(1) run t(3) this _ u, of example_proof 7] run u
  show ?thesis by blast
qed

end
