(* ===== verification/Pallet_Configs.thy ===== *)
theory Pallet_Configs
  imports Runtime_Xcmp Runtime_Pallets
begin

text \<open>
  The \<^verbatim>\<open>Config\<close> implementations of \<^verbatim>\<open>src/runtime/src/lib.rs\<close>: how the runtime wires the pallets of the SDK with
  each other, with the XCM configuration and with the two instances of the message stuffer. One record per trait, one
  definition per implementation; the test runtimes of the two pallets instantiate the same records.
  An associated type that only fixes a representation is a value of \<open>prim_type\<close>; a type \<^verbatim>\<open>()\<close> is \<open>None\<close> or the
  empty list. What the SDK computes from a configuration is a parameter. The types of calls, origins, events,
  freezes and holds that \<^verbatim>\<open>construct_runtime!\<close> generates, and the tables of weights of the pallets' own calls, are left out.
\<close>

section \<open>The traits\<close>

datatype prim_type = TyU8 | TyU32 | TyU64 | TyU128 | TyAccountId32 | TyH256

datatype account_lookup = AccountIdLookup | IdentityLookup

datatype hashing = BlakeTwo256 | Keccak256

record ('p, 'version, 'len) frame_system_config =
  BaseCallFilter :: "unit filter"
  BlockWeights :: "block_weights option"
  BlockLength :: "'len option"
  DbWeight :: "runtime_db_weight option"
  Nonce :: prim_type
  Hash :: prim_type
  Hashing :: hashing
  AccountId :: prim_type
  Lookup :: account_lookup
  BlockHashCount :: u64
  Version :: "'version option"
  PalletInfo :: "('p \<times> u8) list"
  AccountData :: "prim_type option"
  OnNewAccount :: "pallet list"
  OnKilledAccount :: "pallet list"
  ConfigSS58Prefix :: u16
  OnSetCode :: "pallet option"
  MaxConsumers :: u32

record timestamp_config =
  Moment :: prim_type
  OnTimestampSet :: "pallet list"
  ConfigMinimumPeriod :: u64

record authorship_config =
  FindAuthor :: pallet
  EventHandler :: "pallet list"

datatype fee_multiplier_update = SlowAdjustingFeeUpdate

record payment_config =
  OnChargeTransaction :: "pallet \<times> pallet option"
  ConfigWeightToFee :: "fee_coefficient list"
  ConfigLengthToFee :: "weight \<Rightarrow> u128"
  FeeMultiplierUpdate :: fee_multiplier_update
  ConfigOperationalFeeMultiplier :: u8

datatype relay_number_check = RelayNumberStrictlyIncreases | AnyRelayNumber

record 'm parachain_system_config =
  OnSystemEvent :: "pallet list"
  SelfParaId :: "pallet option"
  OutboundXcmpMessageSource :: pallet
  DmpMessageHandler :: "pallet option"
  ConfigReservedDmpWeight :: "weight option"
  XcmpChannelRootCollector :: "('m runtime \<Rightarrow> h256) option"
  XcmpMessageHandler :: pallet
  ConfigReservedXcmpWeight :: "weight option"
  CheckAssociatedRelayNumber :: relay_number_check

record ('x, 'err, 'j, 'acc, 'o, 'msg) xcmp_queue_config =
  XcmExecutor :: "('x, 'err, 'j, 'acc, 'o, 'msg) xcm_config"
  ChannelInfo :: pallet
  VersionWrapper :: "pallet option"
  ExecuteOverweightOrigin :: "'o \<Rightarrow> bool"
  ControllerOrigin :: "'o \<Rightarrow> bool"
  ControllerOriginConverter :: "('o, 'j) origin_conversion"
  PriceForSiblingDelivery :: "pallet option"

record ('x, 'err, 'j, 'acc, 'o, 'msg) dmp_queue_config =
  DmpXcmExecutor :: "('x, 'err, 'j, 'acc, 'o, 'msg) xcm_config"
  DmpExecuteOverweightOrigin :: "'o \<Rightarrow> bool"

record session_config =
  SessionShouldEnd :: "u32 \<Rightarrow> bool"
  NextSessionRotation :: "u32 \<times> u32"
  SessionManager :: pallet
  SessionHandler :: "pallet list"
  Keys :: "(string \<times> pallet) list"

text \<open>The trait of the message stuffer itself, and of the MMR pallet it extends.\<close>

record 'o stuffer_config =
  ParaIdentifier :: u32
  ConfigLeafVersion :: "u8 \<times> u8"
  XcmpDataProvider :: "(u32 \<Rightarrow> u16 \<Rightarrow> bytes option) \<Rightarrow> h256 \<Rightarrow> u32 \<Rightarrow> bytes option"
  RelayerOrigin :: "'o \<Rightarrow> bool"
  BeefyRootProvider :: "pallet option"
  ConfigMaxBeefyRootsKept :: "u32 option"

record mmr_config =
  INDEXING_PREFIX :: bytes
  OnNewRoot :: "h256 \<Rightarrow> stuffer \<Rightarrow> stuffer"
  MmrHashing :: hashing
  LeafData :: pallet

section \<open>The runtime\<close>

text \<open>\<open>block_hash_count\<close> is a constant of the SDK's common runtime code.\<close>

definition frame_system_config_for_runtime ::
  "weight_sdk \<Rightarrow> (u32 \<Rightarrow> u8 \<Rightarrow> 'len) \<Rightarrow> 'apis \<Rightarrow> u64 \<Rightarrow> (pallet, 'apis runtime_version, 'len) frame_system_config" where
  "frame_system_config_for_runtime ws max_with_normal_ratio runtime_apis block_hash_count =
     \<lparr>BaseCallFilter = Everything,
      BlockWeights = Some (RuntimeBlockWeights ws),
      BlockLength = Some (RuntimeBlockLength max_with_normal_ratio),
      DbWeight = Some (RocksDbWeight ws),
      Nonce = TyU32, Hash = TyH256, Hashing = BlakeTwo256,
      AccountId = TyAccountId32, Lookup = AccountIdLookup,
      BlockHashCount = block_hash_count,
      Version = Some (VERSION runtime_apis),
      PalletInfo = construct_runtime,
      AccountData = Some TyU128,
      OnNewAccount = [], OnKilledAccount = [],
      ConfigSS58Prefix = SS58Prefix,
      OnSetCode = Some ParachainSystem,
      MaxConsumers = 16\<rparr>"

definition timestamp_config_for_runtime :: timestamp_config where
  "timestamp_config_for_runtime = \<lparr>Moment = TyU64, OnTimestampSet = [Aura], ConfigMinimumPeriod = MinimumPeriod\<rparr>"

definition authorship_config_for_runtime :: authorship_config where
  "authorship_config_for_runtime = \<lparr>FindAuthor = Aura, EventHandler = [CollatorSelection]\<rparr>"

definition payment_config_for_runtime :: "payment_sdk \<Rightarrow> weight_sdk \<Rightarrow> payment_config" where
  "payment_config_for_runtime ps ws =
     \<lparr>OnChargeTransaction = (Balances, None),
      ConfigWeightToFee = weight_to_fee_polynomial ws,
      ConfigLengthToFee = LengthToFee ps,
      FeeMultiplierUpdate = SlowAdjustingFeeUpdate,
      ConfigOperationalFeeMultiplier = OperationalFeeMultiplier\<rparr>"

definition parachain_system_config_for_runtime ::
  "('mp, 'dg) sdk \<Rightarrow> ('m, 'mp) mmr_pallet \<Rightarrow> weight_sdk \<Rightarrow> 'm parachain_system_config" where
  "parachain_system_config_for_runtime sdk mmr ws =
     \<lparr>OnSystemEvent = [], SelfParaId = Some ParachainInfo,
      OutboundXcmpMessageSource = XcmpQueue,
      DmpMessageHandler = Some DmpQueue, ConfigReservedDmpWeight = Some (ReservedDmpWeight ws),
      XcmpChannelRootCollector = Some (collect_roots sdk mmr),
      XcmpMessageHandler = XcmpQueue, ConfigReservedXcmpWeight = Some (ReservedXcmpWeight ws),
      CheckAssociatedRelayNumber = RelayNumberStrictlyIncreases\<rparr>"

definition xcmp_queue_config_for_runtime ::
  "('x, 'err, 'j, 'acc, 'o, 'msg, 'n) xcm_sdk \<Rightarrow> ('o, 'j) origin_sdk \<Rightarrow> weight_sdk \<Rightarrow> u32 \<Rightarrow>
   ('x, 'err, 'j, 'acc, 'o, 'msg) xcmp_queue_config" where
  "xcmp_queue_config_for_runtime xs os ws self_id =
     \<lparr>XcmExecutor = XcmConfig xs ws self_id, ChannelInfo = ParachainSystem, VersionWrapper = None,
      ExecuteOverweightOrigin = EnsureRoot os, ControllerOrigin = EnsureRoot os,
      ControllerOriginConverter = XcmOriginToTransactDispatchOrigin xs,
      PriceForSiblingDelivery = None\<rparr>"

definition dmp_queue_config_for_runtime ::
  "('x, 'err, 'j, 'acc, 'o, 'msg, 'n) xcm_sdk \<Rightarrow> ('o, 'j) origin_sdk \<Rightarrow> weight_sdk \<Rightarrow> u32 \<Rightarrow>
   ('x, 'err, 'j, 'acc, 'o, 'msg) dmp_queue_config" where
  "dmp_queue_config_for_runtime xs os ws self_id =
     \<lparr>DmpXcmExecutor = XcmConfig xs ws self_id, DmpExecuteOverweightOrigin = EnsureRoot os\<rparr>"

text \<open>The session keys are the pallets whose keys a collator has, by the names of the fields.\<close>

definition SessionKeys :: "(string \<times> pallet) list" where
  "SessionKeys = [(''aura'', Aura)]"

definition session_config_for_runtime :: "(u32 \<Rightarrow> u32 \<Rightarrow> u32 \<Rightarrow> bool) \<Rightarrow> session_config" where
  "session_config_for_runtime periodic_sessions =
     \<lparr>SessionShouldEnd = ShouldEndSession periodic_sessions, NextSessionRotation = (Period, Offset),
      SessionManager = CollatorSelection, SessionHandler = map snd SessionKeys, Keys = SessionKeys\<rparr>"

definition ParaAChannel_config :: "('o, 'j) origin_sdk \<Rightarrow> 'o stuffer_config" where
  "ParaAChannel_config os =
     \<lparr>ParaIdentifier = ParaAIdentifier, ConfigLeafVersion = LeafVersion, XcmpDataProvider = get_xcmp_messages,
      RelayerOrigin = EnsureRoot os, BeefyRootProvider = Some ParachainSystem,
      ConfigMaxBeefyRootsKept = Some MaxBeefyRootsKept\<rparr>"

definition ParaBChannel_config :: "('o, 'j) origin_sdk \<Rightarrow> 'o stuffer_config" where
  "ParaBChannel_config os =
     \<lparr>ParaIdentifier = ParaBIdentifier, ConfigLeafVersion = LeafVersion, XcmpDataProvider = get_xcmp_messages,
      RelayerOrigin = EnsureRoot os, BeefyRootProvider = Some ParachainSystem,
      ConfigMaxBeefyRootsKept = Some MaxBeefyRootsKept\<rparr>"

definition ParaAMmr_config :: "bytes \<Rightarrow> mmr_config" where
  "ParaAMmr_config mmr_indexing_prefix =
     \<lparr>INDEXING_PREFIX = ParaAMmr_INDEXING_PREFIX mmr_indexing_prefix, OnNewRoot = on_new_root,
      MmrHashing = Keccak256, LeafData = MsgStufferParaA\<rparr>"

definition ParaBMmr_config :: mmr_config where
  "ParaBMmr_config =
     \<lparr>INDEXING_PREFIX = ParaBMmr_INDEXING_PREFIX, OnNewRoot = on_new_root,
      MmrHashing = Keccak256, LeafData = MsgStufferParaB\<rparr>"

section \<open>What a configured channel does on a block\<close>

text \<open>
  The SDK calls the hook of an MMR pallet with the leaf data and the root handler of its configuration.
\<close>

definition configured_mmr_hook ::
  "('mp, 'dg) sdk \<Rightarrow> ('m, 'mp) mmr_pallet \<Rightarrow> 'o stuffer_config \<Rightarrow> mmr_config \<Rightarrow> (u32 \<Rightarrow> u16 \<Rightarrow> bytes option) \<Rightarrow>
   u32 \<times> h256 \<Rightarrow> stuffer \<times> 'm \<Rightarrow> (stuffer \<times> 'm) option" where
  "configured_mmr_hook sdk mmr channel mcfg outbound parent sm =
     mmr_hook mmr
       (leaf_data sdk (XcmpDataProvider channel outbound) (ParaIdentifier channel) (ConfigLeafVersion channel) parent)
       (OnNewRoot mcfg) sm"

text \<open>The hooks of the two instances, as \<open>Runtime_Xcmp\<close> has them, are those the configurations give.\<close>

lemma runtime_channels_as_configured:
  "configured_mmr_hook sdk mmr (ParaAChannel_config os) (ParaAMmr_config prefix) outbound parent =
     mmr_on_initialize sdk mmr outbound ParaAIdentifier parent"
  "configured_mmr_hook sdk mmr (ParaBChannel_config os) ParaBMmr_config outbound parent =
     mmr_on_initialize sdk mmr outbound ParaBIdentifier parent"
  by (simp_all add: configured_mmr_hook_def mmr_on_initialize_def ParaAChannel_config_def ParaAMmr_config_def
      ParaBChannel_config_def ParaBMmr_config_def fun_eq_iff)

section \<open>The wiring\<close>

text \<open>
  The stuffer an MMR takes its leaves from has its hook before the MMR's, so the root of a block is recorded before
  its leaf is appended; each channel has a stuffer, a recipient and an index prefix of its own when the SDK's default
  prefix is not the one of channel B; and the queue that messages leave through is the one the
  inbound ones arrive at.
\<close>

theorem runtime_channels_are_separate:
  "pallet_index (LeafData (ParaAMmr_config prefix)) < pallet_index MmrParaA \<and>
   pallet_index (LeafData ParaBMmr_config) < pallet_index MmrParaB \<and>
   LeafData (ParaAMmr_config prefix) \<noteq> LeafData ParaBMmr_config \<and>
   ParaIdentifier (ParaAChannel_config os) \<noteq> ParaIdentifier (ParaBChannel_config os) \<and>
   (INDEXING_PREFIX (ParaAMmr_config prefix) = INDEXING_PREFIX ParaBMmr_config \<longleftrightarrow> prefix = map of_char ''para_b_mmr'') \<and>
   OutboundXcmpMessageSource (parachain_system_config_for_runtime sdk mmr ws) =
     XcmpMessageHandler (parachain_system_config_for_runtime sdk mmr ws)"
  by (simp add: parachain_system_config_for_runtime_def ParaAChannel_config_def ParaBChannel_config_def
      ParaAMmr_config_def ParaBMmr_config_def pallet_index_def construct_runtime_def
      ParaAIdentifier_def ParaBIdentifier_def ParaAMmr_INDEXING_PREFIX_def ParaBMmr_INDEXING_PREFIX_def)

text \<open>
  The limits of the runtime are consistent with each other: messages of the two queues are reserved at most half
  of the time and of the proof size a block has, kicking a collator takes whole sessions, and blocks are
  at least half a slot apart.
\<close>

theorem runtime_limits_are_consistent:
  "2 * (unat (ref_time (ReservedDmpWeight ws)) + unat (ref_time (ReservedXcmpWeight ws))) \<le>
     unat (ref_time (MAXIMUM_BLOCK_WEIGHT ws)) \<and>
   2 * (unat (proof_size (ReservedDmpWeight ws)) + unat (proof_size (ReservedXcmpWeight ws))) \<le>
     unat (proof_size (MAXIMUM_BLOCK_WEIGHT ws)) \<and>
   KickThreshold collator_selection_config_for_runtime mod fst (NextSessionRotation (session_config_for_runtime ps)) = 0 \<and>
   2 * ConfigMinimumPeriod timestamp_config_for_runtime = SLOT_DURATION"
  by (simp add: ReservedDmpWeight_def ReservedXcmpWeight_def weight_saturating_div_def unat_div
      collator_selection_config_for_runtime_def session_config_for_runtime_def timestamp_config_for_runtime_def
      MinimumPeriod_def SLOT_DURATION_def MILLISECS_PER_BLOCK_def)

end
