(* ===== verification/Runtime_Api.thy ===== *)
theory Runtime_Api
  imports Pallet_Configs
begin

text \<open>
  The rest of \<^verbatim>\<open>impl_runtime_apis!\<close> (\<^verbatim>\<open>src/runtime/src/lib.rs\<close>): the interfaces that hand a question to a pallet of the SDK,
  with the configuration the runtime gives to that pallet; the benchmarks' list; what the relay chain runs
  to validate a block; and the native version and executor (\<^verbatim>\<open>src/node/src/service.rs\<close>). The APIs of the XCMP components are in
  \<open>Runtime_Xcmp\<close>, those of blocks in \<open>Runtime_Block\<close>, those of fees in \<open>Runtime_Pallets\<close>. Values the
  sources only pass on have the type \<open>'h\<close>; the storage is a type \<open>'st\<close>.
\<close>

section \<open>What the SDK provides\<close>

record ('st, 'h, 'aura, 'm) api_sdk =
  Aura_slot_duration :: "timestamp_config \<Rightarrow> u64"
  Aura_authorities :: "'st \<Rightarrow> 'aura list"
  Runtime_metadata :: 'h
  Runtime_metadata_at_version :: "u32 \<Rightarrow> 'h option"
  Runtime_metadata_versions :: "u32 list"
  create_extrinsics :: "'h \<Rightarrow> 'st \<Rightarrow> 'h list"
  check_extrinsics_of :: "'h \<Rightarrow> 'h \<Rightarrow> 'st \<Rightarrow> 'h"
  Executive_validate_transaction :: "'h \<Rightarrow> 'h \<Rightarrow> h256 \<Rightarrow> 'st \<Rightarrow> 'h"
  Executive_offchain_worker :: "'h \<Rightarrow> 'st \<Rightarrow> 'st"
  SessionKeys_generate :: "(string \<times> pallet) list \<Rightarrow> bytes option \<Rightarrow> 'st \<Rightarrow> bytes \<times> 'st"
  decode_into_raw_public_keys :: "(string \<times> pallet) list \<Rightarrow> bytes \<Rightarrow> (bytes \<times> pallet) list option"
  System_account_nonce :: "'h \<Rightarrow> 'st \<Rightarrow> u32"
  TransactionPayment_query_info :: "payment_config \<Rightarrow> 'h \<Rightarrow> u32 \<Rightarrow> 'st \<Rightarrow> 'h"
  TransactionPayment_query_fee_details :: "payment_config \<Rightarrow> 'h \<Rightarrow> u32 \<Rightarrow> 'st \<Rightarrow> 'h"
  TransactionPayment_query_call_info :: "payment_config \<Rightarrow> 'h \<Rightarrow> u32 \<Rightarrow> 'st \<Rightarrow> 'h"
  TransactionPayment_query_call_fee_details :: "payment_config \<Rightarrow> 'h \<Rightarrow> u32 \<Rightarrow> 'st \<Rightarrow> 'h"
  ParachainSystem_collect_collation_info :: "'m parachain_system_config \<Rightarrow> 'h \<Rightarrow> 'st \<Rightarrow> 'h"

section \<open>The interfaces\<close>

definition api_slot_duration :: "('st, 'h, 'aura, 'm) api_sdk \<Rightarrow> u64" where
  "api_slot_duration a = Aura_slot_duration a timestamp_config_for_runtime"

definition api_authorities :: "('st, 'h, 'aura, 'm) api_sdk \<Rightarrow> 'st \<Rightarrow> 'aura list" where
  "api_authorities a = Aura_authorities a"

definition api_version :: "'apis \<Rightarrow> 'apis runtime_version" where
  "api_version runtime_apis = VERSION runtime_apis"

definition api_metadata :: "('st, 'h, 'aura, 'm) api_sdk \<Rightarrow> 'h" where
  "api_metadata a = Runtime_metadata a"

definition api_metadata_at_version :: "('st, 'h, 'aura, 'm) api_sdk \<Rightarrow> u32 \<Rightarrow> 'h option" where
  "api_metadata_at_version a version = Runtime_metadata_at_version a version"

definition api_metadata_versions :: "('st, 'h, 'aura, 'm) api_sdk \<Rightarrow> u32 list" where
  "api_metadata_versions a = Runtime_metadata_versions a"

definition api_inherent_extrinsics :: "('st, 'h, 'aura, 'm) api_sdk \<Rightarrow> 'h \<Rightarrow> 'st \<Rightarrow> 'h list" where
  "api_inherent_extrinsics a inherents st = create_extrinsics a inherents st"

definition api_check_inherents :: "('st, 'h, 'aura, 'm) api_sdk \<Rightarrow> 'h \<Rightarrow> 'h \<Rightarrow> 'st \<Rightarrow> 'h" where
  "api_check_inherents a blk inherents st = check_extrinsics_of a inherents blk st"

definition api_validate_transaction :: "('st, 'h, 'aura, 'm) api_sdk \<Rightarrow> 'h \<Rightarrow> 'h \<Rightarrow> h256 \<Rightarrow> 'st \<Rightarrow> 'h" where
  "api_validate_transaction a source tx block_hash st = Executive_validate_transaction a source tx block_hash st"

definition api_offchain_worker :: "('st, 'h, 'aura, 'm) api_sdk \<Rightarrow> 'h \<Rightarrow> 'st \<Rightarrow> 'st" where
  "api_offchain_worker a hdr st = Executive_offchain_worker a hdr st"

definition api_generate_session_keys :: "('st, 'h, 'aura, 'm) api_sdk \<Rightarrow> bytes option \<Rightarrow> 'st \<Rightarrow> bytes \<times> 'st" where
  "api_generate_session_keys a seed st = SessionKeys_generate a SessionKeys seed st"

definition api_decode_session_keys :: "('st, 'h, 'aura, 'm) api_sdk \<Rightarrow> bytes \<Rightarrow> (bytes \<times> pallet) list option" where
  "api_decode_session_keys a encoded = decode_into_raw_public_keys a SessionKeys encoded"

definition api_account_nonce :: "('st, 'h, 'aura, 'm) api_sdk \<Rightarrow> 'h \<Rightarrow> 'st \<Rightarrow> u32" where
  "api_account_nonce a account st = System_account_nonce a account st"

definition api_query_info ::
  "('st, 'h, 'aura, 'm) api_sdk \<Rightarrow> payment_sdk \<Rightarrow> weight_sdk \<Rightarrow> 'h \<Rightarrow> u32 \<Rightarrow> 'st \<Rightarrow> 'h" where
  "api_query_info a ps ws uxt len st = TransactionPayment_query_info a (payment_config_for_runtime ps ws) uxt len st"

definition api_query_fee_details ::
  "('st, 'h, 'aura, 'm) api_sdk \<Rightarrow> payment_sdk \<Rightarrow> weight_sdk \<Rightarrow> 'h \<Rightarrow> u32 \<Rightarrow> 'st \<Rightarrow> 'h" where
  "api_query_fee_details a ps ws uxt len st =
     TransactionPayment_query_fee_details a (payment_config_for_runtime ps ws) uxt len st"

definition api_query_call_info ::
  "('st, 'h, 'aura, 'm) api_sdk \<Rightarrow> payment_sdk \<Rightarrow> weight_sdk \<Rightarrow> 'h \<Rightarrow> u32 \<Rightarrow> 'st \<Rightarrow> 'h" where
  "api_query_call_info a ps ws call len st =
     TransactionPayment_query_call_info a (payment_config_for_runtime ps ws) call len st"

definition api_query_call_fee_details ::
  "('st, 'h, 'aura, 'm) api_sdk \<Rightarrow> payment_sdk \<Rightarrow> weight_sdk \<Rightarrow> 'h \<Rightarrow> u32 \<Rightarrow> 'st \<Rightarrow> 'h" where
  "api_query_call_fee_details a ps ws call len st =
     TransactionPayment_query_call_fee_details a (payment_config_for_runtime ps ws) call len st"

text \<open>The interface for calls answers the two questions about fees with functions of its own.\<close>

definition call_api_query_weight_to_fee :: "payment_sdk \<Rightarrow> weight_sdk \<Rightarrow> weight \<Rightarrow> u128" where
  "call_api_query_weight_to_fee ps ws weight = payment_weight_to_fee ps (linear_fee ws (weight_to_fee_polynomial ws)) weight"

definition call_api_query_length_to_fee :: "payment_sdk \<Rightarrow> u32 \<Rightarrow> u128" where
  "call_api_query_length_to_fee ps len = payment_length_to_fee ps (LengthToFee ps) len"

definition api_collect_collation_info ::
  "('st, 'h, 'aura, 'm) api_sdk \<Rightarrow> ('mp, 'dg) sdk \<Rightarrow> ('m, 'mp) mmr_pallet \<Rightarrow> weight_sdk \<Rightarrow> 'h \<Rightarrow> 'st \<Rightarrow> 'h" where
  "api_collect_collation_info a sdk mmr ws hdr st =
     ParachainSystem_collect_collation_info a (parachain_system_config_for_runtime sdk mmr ws) hdr st"

section \<open>Benchmarks\<close>

text \<open>
  \<open>list_benchmark\<close> is what the SDK's macro lists for one entry of \<open>benches\<close>, \<open>storage_info\<close> what it knows of the storage of a list
  of pallets.
\<close>

definition benchmark_metadata ::
  "(bool \<Rightarrow> string \<Rightarrow> pallet \<Rightarrow> 'bl list) \<Rightarrow> ((pallet \<times> u8) list \<Rightarrow> 'si list) \<Rightarrow> bool \<Rightarrow> 'bl list \<times> 'si list" where
  "benchmark_metadata list_benchmark storage_info extra =
     (concat (map (\<lambda>(name, p). list_benchmark extra name p) benches), storage_info construct_runtime)"

text \<open>
  The two hooks of the system's benchmarks: before, room for code of this length is made; after, the last event
  has to be the one of the parachain system. The length is cast to \<^verbatim>\<open>u32\<close>.
\<close>

definition setup_set_code_requirements :: "(u32 \<Rightarrow> 's \<Rightarrow> 's) \<Rightarrow> bytes \<Rightarrow> ('s, 'e, unit) action" where
  "setup_set_code_requirements initialize_for_set_code_benchmark code =
     and_then (modify (initialize_for_set_code_benchmark (of_nat (length code)))) (\<lambda>_. ret ())"

definition verify_set_code :: "('s \<Rightarrow> 'ev list) \<Rightarrow> 'ev \<Rightarrow> ('s, 'e, unit) action" where
  "verify_set_code system_events ValidationFunctionStored =
     and_then (gets system_events) (\<lambda>evs.
     if evs \<noteq> [] \<and> last evs = ValidationFunctionStored then ret () else panic)"

section \<open>Validation and the native runtime\<close>

text \<open>What the macro \<^verbatim>\<open>register_validate_block!\<close> is given: who executes a block, and who checks its inherents.\<close>

record ('block, 'prf, 'res, 'exec) validate_block_registration =
  BlockExecutor :: 'exec
  CheckInherents :: "'block \<Rightarrow> 'prf \<Rightarrow> (unit, 'res) outcome"

definition validate_block_of_runtime ::
  "('executive \<Rightarrow> 'exec) \<Rightarrow> 'executive \<Rightarrow> ('block, 'prf, 'slot, 'provider, 'data, 'res) inherents_sdk \<Rightarrow>
   ('block, 'prf, 'res, 'exec) validate_block_registration" where
  "validate_block_of_runtime aura_ext_executor executive is =
     \<lparr>BlockExecutor = aura_ext_executor executive, CheckInherents = check_inherents is\<rparr>"

record 'apis native_runtime_version =
  nv_runtime_version :: "'apis runtime_version"
  can_author_with :: "u32 list"

definition native_version :: "'apis \<Rightarrow> 'apis native_runtime_version" where
  "native_version runtime_apis = \<lparr>nv_runtime_version = VERSION runtime_apis, can_author_with = []\<rparr>"

text \<open>The node's executor: \<open>runtime_dispatch\<close> is the table of functions the macro generates.\<close>

record 'apis native_execution_dispatch =
  native_dispatch :: "string \<Rightarrow> bytes \<Rightarrow> bytes option"
  native_version_of :: "'apis native_runtime_version"

definition ParachainNativeExecutor ::
  "(string \<Rightarrow> bytes \<Rightarrow> bytes option) \<Rightarrow> 'apis \<Rightarrow> 'apis native_execution_dispatch" where
  "ParachainNativeExecutor runtime_dispatch runtime_apis =
     \<lparr>native_dispatch = runtime_dispatch, native_version_of = native_version runtime_apis\<rparr>"

section \<open>Properties\<close>

text \<open>\<^verbatim>\<open>pallet_aura\<close>: a slot lasts twice the minimum period of the timestamps, and the multiplication saturates.\<close>

definition aura_slot_is_two_periods :: "('st, 'h, 'aura, 'm) api_sdk \<Rightarrow> bool" where
  "aura_slot_is_two_periods a \<longleftrightarrow>
     (\<forall>cfg. Aura_slot_duration a cfg = saturating_mul_u64 (ConfigMinimumPeriod cfg) 2)"

text \<open>
  The slot duration the collators are told is the constant of the runtime, twelve seconds, though it reaches them only
  through the minimum period of the timestamps; it is exactly two relay chain slots of the six seconds
  the inherent check is configured with.
\<close>

theorem slot_duration_reaches_collators:
  assumes "aura_slot_is_two_periods a"
  shows "api_slot_duration a = SLOT_DURATION \<and> unat (api_slot_duration a) = 2 * 6 * 1000"
  using assms
  by (simp add: api_slot_duration_def aura_slot_is_two_periods_def timestamp_config_for_runtime_def MinimumPeriod_def
      SLOT_DURATION_def MILLISECS_PER_BLOCK_def saturating_mul_u64_def)

text \<open>Both interfaces for fees give the same answers, and the node's executor reports the version the runtime API does.\<close>

theorem api_answers_agree:
  "call_api_query_weight_to_fee = query_weight_to_fee \<and> call_api_query_length_to_fee = query_length_to_fee \<and>
   nv_runtime_version (native_version_of (ParachainNativeExecutor table runtime_apis)) = api_version runtime_apis"
  by (simp add: fun_eq_iff call_api_query_weight_to_fee_def query_weight_to_fee_def call_api_query_length_to_fee_def
      query_length_to_fee_def ParachainNativeExecutor_def native_version_def api_version_def)

text \<open>
  Key generation as documented: the raw keys of generated session keys decode to one per pallet in the list, in its
  order. For this runtime that is a single key, of \<open>Aura\<close>.
\<close>

definition session_keys_decode :: "('st, 'h, 'aura, 'm) api_sdk \<Rightarrow> bool" where
  "session_keys_decode a \<longleftrightarrow> (\<forall>ks seed st. \<exists>raw. length raw = length ks \<and>
     decode_into_raw_public_keys a ks (fst (SessionKeys_generate a ks seed st)) = Some (zip raw (map snd ks)))"

theorem session_keys_round_trip:
  assumes "session_keys_decode a"
  shows "\<exists>key. api_decode_session_keys a (fst (api_generate_session_keys a seed st)) = Some [(key, Aura)]"
proof -
  obtain raw where "length raw = length SessionKeys"
      "api_decode_session_keys a (fst (api_generate_session_keys a seed st)) = Some (zip raw (map snd SessionKeys))"
    using assms unfolding session_keys_decode_def api_decode_session_keys_def api_generate_session_keys_def by blast
  then show ?thesis by (cases raw) (auto simp: SessionKeys_def)
qed

text \<open>
  The benchmarks that can be listed and those that can be run are of the same pallets, all of them in the runtime; the
  message stuffers have none.
\<close>

theorem benchmarks_are_of_the_runtime:
  "list_all (\<lambda>(name, p). p \<in> set (map fst construct_runtime)) benches \<and>
   MsgStufferParaA \<notin> set (map snd benches) \<and> MsgStufferParaB \<notin> set (map snd benches) \<and>
   fst (benchmark_metadata (\<lambda>_ name p. [(name, p)]) storage_info extra) = benches"
  by (simp add: benches_def benchmark_metadata_def construct_runtime_def)

end
