(* ===== verification/Mock_Runtime.thy ===== *)
theory Mock_Runtime
  imports Pallet_Configs
begin

text \<open>
  The message stuffer's test runtime (\<^verbatim>\<open>src/pallets/xcmp_message_stuffer/src/mock.rs\<close>): its pallets, its provider of
  outbound messages, the conversion of origins of its XCMP queue, its XCM configuration and the
  configuration of its pallets, in the records of \<open>Pallet_Configs\<close>. It is compared with the runtime. The pallets
  \<^verbatim>\<open>MsgStufferA\<close> and \<^verbatim>\<open>MsgStufferB\<close> of the test
  runtime are the values \<open>MsgStufferParaA\<close> and \<open>MsgStufferParaB\<close> of \<open>pallet\<close>. The tests themselves are not modelled:
  the hook of the stuffer they run asks for a provider of BEEFY roots, which the test runtime does not configure.
\<close>

section \<open>Pallets\<close>

text \<open>\<^verbatim>\<open>construct_runtime!\<close> gives a pallet without an index the index after the one before it, and the first one 0.\<close>

fun assign_indices :: "u8 \<Rightarrow> ('p \<times> u8 option) list \<Rightarrow> ('p \<times> u8) list" where
  "assign_indices next_index [] = []"
| "assign_indices next_index ((p, given) # ps) =
     (let i = (case given of Some k \<Rightarrow> k | None \<Rightarrow> next_index) in (p, i) # assign_indices (i + 1) ps)"

definition mock_construct_runtime :: "(pallet \<times> u8) list" where
  "mock_construct_runtime =
     assign_indices 0
       [(System, None), (Balances, None), (ParachainSystem, None), (XcmpQueue, None),
        (MmrParaA, Some 52), (MmrParaB, Some 53), (MsgStufferParaA, Some 54), (MsgStufferParaB, Some 55)]"

section \<open>Configuration of the pallets of the SDK\<close>

definition mock_BlockHashCount :: u64 where
  "mock_BlockHashCount = 250"

definition mock_SS58Prefix :: u8 where
  "mock_SS58Prefix = 42"

definition mock_system_config :: "(pallet, 'version, 'len) frame_system_config" where
  "mock_system_config =
     \<lparr>BaseCallFilter = Everything, BlockWeights = None, BlockLength = None, DbWeight = None,
      Nonce = TyU64, Hash = TyH256, Hashing = BlakeTwo256, AccountId = TyU64, Lookup = IdentityLookup,
      BlockHashCount = mock_BlockHashCount, Version = None, PalletInfo = mock_construct_runtime,
      AccountData = Some TyU64, OnNewAccount = [], OnKilledAccount = [],
      ConfigSS58Prefix = ucast mock_SS58Prefix, OnSetCode = Some ParachainSystem, MaxConsumers = 16\<rparr>"

definition mock_ExistentialDeposit :: u64 where
  "mock_ExistentialDeposit = 5"

definition mock_MaxReserves :: u32 where
  "mock_MaxReserves = 50"

definition mock_balances_config :: "u64 balances_config" where
  "mock_balances_config =
     \<lparr>MaxLocks = None, DustRemoval = None, ExistentialDeposit = mock_ExistentialDeposit, AccountStore = System,
      MaxReserves = mock_MaxReserves, MaxHolds = 0, MaxFreezes = 0, ReserveIdentifier_length = 8\<rparr>"

definition mock_parachain_system_config :: "'m parachain_system_config" where
  "mock_parachain_system_config =
     \<lparr>OnSystemEvent = [], SelfParaId = None, OutboundXcmpMessageSource = XcmpQueue,
      DmpMessageHandler = None, ConfigReservedDmpWeight = None, XcmpChannelRootCollector = None,
      XcmpMessageHandler = XcmpQueue, ConfigReservedXcmpWeight = None,
      CheckAssociatedRelayNumber = AnyRelayNumber\<rparr>"

section \<open>XCM\<close>

definition mock_RelayChain :: "'j multi_location" where
  "mock_RelayChain = \<lparr>parents = 1, interior = []\<rparr>"

definition mock_UniversalLocation :: "'j junction list" where
  "mock_UniversalLocation = [Parachain 1]"

definition mock_UnitWeightCost :: weight where
  "mock_UnitWeightCost = \<lparr>ref_time = 1000000, proof_size = 1024\<rparr>"

definition mock_MaxInstructions :: u32 where
  "mock_MaxInstructions = 100"

definition mock_MaxAssetsIntoHolding :: u32 where
  "mock_MaxAssetsIntoHolding = 64"

definition mock_LocationToAccountId ::
  "('x, 'err, 'j, 'acc, 'o, 'msg, 'n) xcm_sdk \<Rightarrow> ('acc, 'j) location_conversion" where
  "mock_LocationToAccountId xs = location_tuple xs [ParentIsPreset xs]"

definition mock_LocalAssetTransactor ::
  "('x, 'err, 'j, 'acc, 'o, 'msg, 'n) xcm_sdk \<Rightarrow> ('acc, 'j) currency_adapter" where
  "mock_LocalAssetTransactor xs =
     \<lparr>ca_currency = Balances, ca_is_concrete = mock_RelayChain, ca_account_of = mock_LocationToAccountId xs,
      ca_checked_account = None\<rparr>"

definition mock_XcmRouter :: "('x, 'err, 'j, 'acc, 'o, 'msg, 'n) xcm_sdk \<Rightarrow> ('msg, 'err, 'j) router" where
  "mock_XcmRouter xs = router_tuple xs [XcmpQueueRouter xs]"

text \<open>The converter of origins and the barrier are the tuples of no members.\<close>

definition mock_XcmConfig ::
  "('x, 'err, 'j, 'acc, 'o, 'msg, 'n) xcm_sdk \<Rightarrow> ('x, 'err, 'j, 'acc, 'o, 'msg) xcm_config" where
  "mock_XcmConfig xs =
     \<lparr>XcmSender = mock_XcmRouter xs,
      AssetTransactor = mock_LocalAssetTransactor xs,
      OriginConverter = origin_tuple xs [],
      IsReserve = NativeAsset xs,
      IsTeleporter = NativeAsset xs,
      ConfigUniversalLocation = mock_UniversalLocation,
      ConfigBarrier = barrier_tuple xs [],
      Weigher = FixedWeightBounds xs mock_UnitWeightCost mock_MaxInstructions,
      Trader = None,
      ResponseHandler = None, AssetTrap = None, AssetClaims = None, SubscriptionService = None,
      PalletInstancesInfo = mock_construct_runtime,
      ConfigMaxAssetsIntoHolding = mock_MaxAssetsIntoHolding,
      AssetLocker = None, AssetExchanger = None, FeeManager = None, MessageExporter = None,
      UniversalAliases = Nothing,
      SafeCallFilter = Everything,
      Aliasers = Nothing\<rparr>"

text \<open>\<open>is_system\<close> is the SDK's test on parachain identifiers, \<open>root\<close> its root origin.\<close>

definition convert_origin ::
  "(u32 \<Rightarrow> bool) \<Rightarrow> 'o \<Rightarrow> 'j multi_location \<Rightarrow> origin_kind \<Rightarrow> 'j multi_location + 'o" where
  "convert_origin is_system root origin kind =
     (if kind = Superuser \<and>
         parents origin = 1 \<and> (case interior origin of [Parachain pid] \<Rightarrow> is_system pid | _ \<Rightarrow> False)
      then Inr root else Inl origin)"

definition mock_xcmp_queue_config ::
  "('x, 'err, 'j, 'acc, 'o, 'msg, 'n) xcm_sdk \<Rightarrow> ('o, 'j) origin_sdk \<Rightarrow> (u32 \<Rightarrow> bool) \<Rightarrow> 'o \<Rightarrow>
   ('x, 'err, 'j, 'acc, 'o, 'msg) xcmp_queue_config" where
  "mock_xcmp_queue_config xs os is_system root =
     \<lparr>XcmExecutor = mock_XcmConfig xs, ChannelInfo = ParachainSystem, VersionWrapper = None,
      ExecuteOverweightOrigin = EnsureRoot os, ControllerOrigin = EnsureRoot os,
      ControllerOriginConverter = convert_origin is_system root,
      PriceForSiblingDelivery = None\<rparr>"

section \<open>The channels\<close>

definition mock_LeafVersion :: "u8 \<times> u8" where
  "mock_LeafVersion = (2, 8)"

text \<open>The loop is the runtime's, over the queue of the test runtime, from an empty buffer.\<close>

definition mock_get_xcmp_messages :: "(u32 \<Rightarrow> u16 \<Rightarrow> bytes option) \<Rightarrow> h256 \<Rightarrow> u32 \<Rightarrow> bytes option" where
  "mock_get_xcmp_messages outbound block_hash pid = collect_fragments outbound pid 0 []"

definition mock_ParaAIdentifier :: u32 where
  "mock_ParaAIdentifier = 1"

definition mock_ParaBIdentifier :: u32 where
  "mock_ParaBIdentifier = 2"

text \<open>The implementations leave out the provider of BEEFY roots and the number of roots to keep.\<close>

definition mock_ParaAChannel_config :: "('o, 'j) origin_sdk \<Rightarrow> 'o stuffer_config" where
  "mock_ParaAChannel_config os =
     \<lparr>ParaIdentifier = mock_ParaAIdentifier, ConfigLeafVersion = mock_LeafVersion,
      XcmpDataProvider = mock_get_xcmp_messages, RelayerOrigin = EnsureRoot os,
      BeefyRootProvider = None, ConfigMaxBeefyRootsKept = None\<rparr>"

definition mock_ParaBChannel_config :: "('o, 'j) origin_sdk \<Rightarrow> 'o stuffer_config" where
  "mock_ParaBChannel_config os =
     \<lparr>ParaIdentifier = mock_ParaBIdentifier, ConfigLeafVersion = mock_LeafVersion,
      XcmpDataProvider = mock_get_xcmp_messages, RelayerOrigin = EnsureRoot os,
      BeefyRootProvider = None, ConfigMaxBeefyRootsKept = None\<rparr>"

definition mock_ParaAMmr_config :: mmr_config where
  "mock_ParaAMmr_config =
     \<lparr>INDEXING_PREFIX = map of_char ''para_a_mmr'', OnNewRoot = on_new_root, MmrHashing = Keccak256,
      LeafData = MsgStufferParaA\<rparr>"

definition mock_ParaBMmr_config :: mmr_config where
  "mock_ParaBMmr_config =
     \<lparr>INDEXING_PREFIX = map of_char ''para_b_mmr'', OnNewRoot = on_new_root, MmrHashing = Keccak256,
      LeafData = MsgStufferParaB\<rparr>"

text \<open>The storage the tests start from: the default genesis, over an empty MMR \<open>m\<close>.\<close>

definition new_test_ext :: "'m \<Rightarrow> 'm runtime" where
  "new_test_ext m =
     \<lparr>msg_stuffer_para_a = stuffer_genesis, msg_stuffer_para_b = stuffer_genesis, mmr_para_a = m, mmr_para_b = m\<rparr>"

text \<open>The four pallets without an index get the first four.\<close>

lemma mock_indices: "map snd mock_construct_runtime = [0, 1, 2, 3, 52, 53, 54, 55]"
  by (simp add: mock_construct_runtime_def)

section \<open>The mock provider and the real one\<close>

interpretation mock_provider: xcmp_message_provider "mock_get_xcmp_messages outbound"
  "\<lambda>pid. \<exists>k. outbound pid k = None" for outbound
  by unfold_locales (simp add: mock_get_xcmp_messages_def collect_fragments_run)

section \<open>Properties\<close>

text \<open>
  Claim C19: on the same queue the provider of the test runtime and the provider of the runtime return for the same recipients, and
  where they return the runtime's messages are the test runtime's with the bytes 1, 2, 3 in front: so the
  two never agree, and a leaf the tests predict is never one the runtime stuffs.
\<close>

theorem mock_provider_equivalence:
  "get_xcmp_messages outbound h pid = map_option ((@) [1, 2, 3]) (mock_get_xcmp_messages outbound h pid) \<and>
   (get_xcmp_messages outbound h pid = mock_get_xcmp_messages outbound h pid \<longleftrightarrow> (\<forall>k. outbound pid k \<noteq> None))"
  by (simp add: get_xcmp_messages_run mock_get_xcmp_messages_def collect_fragments_run)

text \<open>
  The test runtime's conversion of origins grants root to system sibling parachains that ask for
  superuser and to nobody else; everyone else gets their location back unchanged.
\<close>

theorem convert_origin_grants_root:
  "convert_origin is_system root origin kind =
     (if \<exists>pid. origin = \<lparr>parents = 1, interior = [Parachain pid]\<rparr> \<and> is_system pid \<and> kind = Superuser
      then Inr root else Inl origin)"
  by (cases origin) (auto simp: convert_origin_def split: list.split junction.split, (metis neq_Nil_conv)+)

text \<open>
  No XCM message executes in the test runtime, whatever it is and wherever it is from: its barrier has no member that
  could admit it. In the runtime the same combinators admit paid and some unpaid messages.
\<close>

theorem mock_barrier_rejects:
  assumes "barrier_combinators xs strip computed"
  shows "\<exists>e. fst (ConfigBarrier (XcmExecutor (mock_xcmp_queue_config xs os is_system root)) origin x) = Err e"
  using assms by (simp add: mock_xcmp_queue_config_def mock_XcmConfig_def barrier_combinators_def)

end
