(* ===== verification/Template_Mock.thy ===== *)
theory Template_Mock
  imports Mock_Runtime Template_Pallet
begin

text \<open>
  The test runtime of the template pallet (\<^verbatim>\<open>src/pallets/template/src/mock.rs\<close>), its two unit tests
  (\<^verbatim>\<open>tests.rs\<close>) and its benchmark (\<^verbatim>\<open>benchmarking.rs\<close>). A test is a boolean: that its assertions hold. The
  tests and the benchmark are run on the model of the pallet.
\<close>

section \<open>The test runtime\<close>

datatype template_test_pallet = TestSystem | TemplateModule

definition template_test_runtime :: "(template_test_pallet \<times> u8) list" where
  "template_test_runtime = assign_indices 0 [(TestSystem, None), (TemplateModule, None)]"

definition template_BlockHashCount :: u64 where
  "template_BlockHashCount = 250"

definition template_SS58Prefix :: u8 where
  "template_SS58Prefix = 42"

definition template_system_config :: "(template_test_pallet, 'version, 'len) frame_system_config" where
  "template_system_config =
     \<lparr>BaseCallFilter = Everything, BlockWeights = None, BlockLength = None, DbWeight = None,
      Nonce = TyU64, Hash = TyH256, Hashing = BlakeTwo256, AccountId = TyU64, Lookup = IdentityLookup,
      BlockHashCount = template_BlockHashCount, Version = None, PalletInfo = template_test_runtime,
      AccountData = None, OnNewAccount = [], OnKilledAccount = [],
      ConfigSS58Prefix = ucast template_SS58Prefix, OnSetCode = None, MaxConsumers = 16\<rparr>"

text \<open>Accounts are \<^verbatim>\<open>u64\<close>; an origin is an account or none.\<close>

type_synonym test_origin = "u64 option"

definition test_ensure_signed :: "test_origin \<Rightarrow> u64 option" where
  "test_ensure_signed origin = origin"

definition template_new_test_ext :: "u64 template" where
  "template_new_test_ext = template_genesis"

section \<open>The tests\<close>

text \<open>\<^verbatim>\<open>assert_noop!\<close>: the call returns the error and leaves the storage as it was.\<close>

definition assert_noop :: "('s, 'e, unit) action \<Rightarrow> 'e \<Rightarrow> 's \<Rightarrow> bool" where
  "assert_noop call e s \<longleftrightarrow> call s = (Err e, s)"

definition it_works_for_default_value :: bool where
  "it_works_for_default_value \<longleftrightarrow>
     (let (result, s) = do_something test_ensure_signed (Some 1) 42 template_new_test_ext
      in result = Ok () \<and> something s = Some 42)"

definition correct_error_for_none_value :: bool where
  "correct_error_for_none_value \<longleftrightarrow>
     assert_noop (cause_error test_ensure_signed (Some 1)) (Module NoneValue) template_new_test_ext"

section \<open>The benchmark\<close>

text \<open>The call of the benchmark and its \<^verbatim>\<open>verify\<close> block, for one value \<open>n\<close> of its component, \<open>0 .. 100\<close>.\<close>

definition benchmark_components :: "u32 list" where
  "benchmark_components = map of_nat [0..<101]"

definition benchmark_do_something :: "('o \<Rightarrow> 'acc option) \<Rightarrow> 'o \<Rightarrow> u32 \<Rightarrow> 'acc template \<Rightarrow> bool" where
  "benchmark_do_something ensure_signed caller n s =
     (let (result, t) = do_something ensure_signed caller n s in result = Ok () \<and> something t = Some n)"

section \<open>Properties\<close>

text \<open>The tests of the pallet pass on the model.\<close>

theorem template_tests_pass: "it_works_for_default_value \<and> correct_error_for_none_value"
  by (simp add: it_works_for_default_value_def correct_error_for_none_value_def assert_noop_def do_something_run
      cause_error_run test_ensure_signed_def template_new_test_ext_def template_genesis_def)

text \<open>
  The error of the second test, at every state: a signed \<open>cause_error\<close> is a no-op with that error exactly when nothing is stored.
\<close>

theorem cause_error_noop_iff:
  "assert_noop (cause_error es (origin :: 'o)) (Module NoneValue) s \<longleftrightarrow> es origin \<noteq> None \<and> something s = None"
  by (auto simp: assert_noop_def cause_error_run split: option.splits)

text \<open>The benchmark verifies for every component and from every state, when its caller is signed.\<close>

theorem benchmark_verifies:
  "list_all (\<lambda>n. benchmark_do_something es caller n s) benchmark_components \<longleftrightarrow> es caller \<noteq> None"
proof -
  have "benchmark_do_something es caller n s \<longleftrightarrow> es caller \<noteq> None" for n
    by (cases "es caller") (simp_all add: benchmark_do_something_def do_something_run)
  moreover have "benchmark_components \<noteq> []" by (simp add: benchmark_components_def)
  ultimately show ?thesis by (simp add: list_all_iff neq_Nil_conv) (metis list.set_intros(1))
qed

end
