(* ===== verification/Node_Service.thy ===== *)
theory Node_Service
  imports Complex_Main "HOL-Library.Sublist" Chain_Spec
begin

text \<open>
  How the node is put together (\<^verbatim>\<open>src/node/src/service.rs\<close> and
  \<^verbatim>\<open>src/node/src/rpc.rs\<close>). The services themselves belong to the SDK: each SDK function
  the sources call is a field of the record \<open>service_sdk\<close>, and the SDK's objects (clients,
  backends, handles, queues) are values of one type \<open>'h\<close> the sources only pass on. The state is the
  log of the calls that start something, in the order they are made; a call enters the log when it
  is made, whatever it then returns. Every \<^verbatim>\<open>?\<close> is an early return with the log reached so
  far, the \<^verbatim>\<open>expect\<close> on the collator key is a panic.
\<close>

section \<open>Data\<close>

record 'h configuration =
  telemetry_endpoints :: "string list option"
  default_heap_pages :: "u64 option"
  wasm_method :: 'h
  max_runtime_instances :: nat
  runtime_cache_size :: u8
  transaction_pool_options :: 'h
  role_is_authority :: bool
  prometheus_registry :: "'h option"
  offchain_worker_enabled :: bool
  offchain_indexing_enabled :: bool
  force_authoring :: bool
  network :: 'h
  config_chain_spec :: 'h
  chain_spec_extensions :: "extensions option"
  config_base_path :: string
  database :: 'h
  database_path :: "string option"
  tokio_handle :: 'h

datatype 'h heap_alloc_strategy = StaticPages u32 | OtherStrategy 'h

datatype 'e service_error = Application 'e | ServiceError 'e

datatype 'e rpc_error = RpcMessage string | MergeError 'e

record 'h full_deps =
  deps_client :: 'h
  deps_pool :: 'h
  deps_deny_unsafe :: 'h
  deps_backend :: 'h

record 'h import_queue_params =
  iq_block_import :: 'h
  iq_client :: 'h
  iq_slot_duration :: u64
  iq_registry :: "'h option"
  iq_spawner :: 'h
  iq_telemetry :: "'h option"

datatype sybil_resistance = Resistant | Unresistant

record 'h build_network_params =
  bn_config :: "'h configuration"
  bn_net_config :: 'h
  bn_client :: 'h
  bn_transaction_pool :: 'h
  bn_para_id :: u32
  bn_spawn_handle :: 'h
  bn_relay_chain_interface :: 'h
  bn_import_queue :: 'h
  bn_sybil_resistance_level :: sybil_resistance

record 'h offchain_worker_options =
  ow_runtime_api_provider :: 'h
  ow_keystore :: "'h option"
  ow_offchain_db :: "'h option"
  ow_transaction_pool :: "'h option"
  ow_network_provider :: 'h
  ow_is_validator :: bool
  ow_enable_http_requests :: bool
  ow_custom_extensions :: "'h list"

record ('e, 'h) spawn_tasks_params =
  st_rpc_builder :: "'h \<Rightarrow> 'e rpc_error + 'h"
  st_client :: 'h
  st_transaction_pool :: 'h
  st_task_manager :: 'h
  st_config :: "'h configuration"
  st_keystore :: 'h
  st_backend :: 'h
  st_network :: 'h
  st_sync_service :: 'h
  st_system_rpc_tx :: 'h
  st_tx_handler_controller :: 'h
  st_telemetry :: "'h option"

record 'h aura_params =
  ap_proposer_factory :: 'h
  ap_relay_chain_interface :: 'h
  ap_para_id :: u32
  ap_block_import :: 'h
  ap_para_client :: 'h
  ap_backoff_authoring_blocks :: "unit option"
  ap_sync_oracle :: 'h
  ap_keystore :: 'h
  ap_force_authoring :: bool
  ap_slot_duration :: u64
  ap_block_proposal_slot_portion :: rat
  ap_max_block_proposal_slot_portion :: "rat option"
  ap_telemetry :: "'h option"

text \<open>
  \<open>announce_block\<close> calls the syncing service's method of that name: it is represented by the service.
  Durations are in seconds.
\<close>

record 'h start_full_node_params =
  fn_client :: 'h
  fn_announce_block :: 'h
  fn_task_manager :: 'h
  fn_para_id :: u32
  fn_relay_chain_interface :: 'h
  fn_relay_chain_slot_duration :: u64
  fn_import_queue :: 'h
  fn_recovery_handle :: 'h
  fn_sync_service :: 'h

record 'h start_collator_params = "'h start_full_node_params" +
  co_block_status :: 'h
  co_spawner :: 'h
  co_parachain_consensus :: 'h
  co_collator_key :: 'h

record 'h partial_components =
  backend :: 'h
  client :: 'h
  import_queue :: 'h
  keystore_container :: 'h
  task_manager :: 'h
  transaction_pool :: 'h
  other :: "'h \<times> 'h option \<times> 'h option"

section \<open>What the SDK provides\<close>

record ('e, 'h) service_sdk =
  telemetry_worker_new :: "nat \<Rightarrow> 'e + 'h"
  worker_handle :: "'h \<Rightarrow> 'h"
  new_telemetry :: "'h \<Rightarrow> string list \<Rightarrow> 'h"
  telemetry_handle :: "'h \<Rightarrow> 'h"
  DEFAULT_HEAP_ALLOC_STRATEGY :: "'h heap_alloc_strategy"
  wasm_executor_build :: "'h \<Rightarrow> 'h heap_alloc_strategy \<Rightarrow> 'h heap_alloc_strategy \<Rightarrow> nat \<Rightarrow> u8 \<Rightarrow> 'h"
  new_with_wasm_executor :: "'h \<Rightarrow> 'h"
  new_full_parts :: "'h configuration \<Rightarrow> 'h option \<Rightarrow> 'h \<Rightarrow> 'e + ('h \<times> 'h \<times> 'h \<times> 'h)"
  spawn_handle :: "'h \<Rightarrow> 'h"
  spawn_essential_handle :: "'h \<Rightarrow> 'h"
  basic_pool_new_full :: "'h \<Rightarrow> bool \<Rightarrow> 'h option \<Rightarrow> 'h \<Rightarrow> 'h \<Rightarrow> 'h"
  block_import_new :: "'h \<Rightarrow> 'h \<Rightarrow> 'h"
  aura_slot_duration :: "'h \<Rightarrow> 'e + u64"
  aura_import_queue :: "'h import_queue_params \<Rightarrow> 'e + 'h"
  import_queue_service :: "'h \<Rightarrow> 'h"
  keystore :: "'h \<Rightarrow> 'h"
  offchain_storage :: "'h \<Rightarrow> 'h option"
  offchain_pool_factory :: "'h \<Rightarrow> 'h"
  prepare_node_config :: "'h configuration \<Rightarrow> 'h configuration"
  full_network_configuration :: "'h \<Rightarrow> 'h"
  build_relay_chain_interface ::
    "'h configuration \<Rightarrow> 'h configuration \<Rightarrow> 'h option \<Rightarrow> 'h \<Rightarrow> 'h \<Rightarrow> 'h option \<Rightarrow> 'e + ('h \<times> 'h option)"
  build_network :: "'h build_network_params \<Rightarrow> 'e + ('h \<times> 'h \<times> 'h \<times> 'h \<times> 'h)"
  spawn_tasks :: "('e, 'h) spawn_tasks_params \<Rightarrow> 'e + unit"
  MMR_INDEXING_PREFIX :: bytes
  check_hardware :: "'h \<Rightarrow> bool"
  overseer_handle :: "'h \<Rightarrow> 'e + 'h"
  proposer_factory :: "'h \<Rightarrow> 'h \<Rightarrow> 'h \<Rightarrow> 'h option \<Rightarrow> 'h option \<Rightarrow> 'h"
  aura_consensus_build :: "'h aura_params \<Rightarrow> 'h"
  start_collator :: "'h start_collator_params \<Rightarrow> 'e + unit"
  start_full_node :: "'h start_full_node_params \<Rightarrow> 'e + unit"
  rpc_empty :: 'h
  rpc_merge :: "'h \<Rightarrow> 'h \<Rightarrow> 'e + 'h"
  system_rpc :: "'h \<Rightarrow> 'h \<Rightarrow> 'h \<Rightarrow> 'h"
  transaction_payment_rpc :: "'h \<Rightarrow> 'h"
  mmr_rpc :: "'h \<Rightarrow> 'h \<Rightarrow> 'h"

section \<open>The log\<close>

datatype 'h service_task =
    TelemetryWorkerRun 'h
  | OffchainWorkersRun "'h offchain_worker_options"
  | MmrGadgetStart 'h 'h bytes
  | HwbenchTelemetry 'h 'h

datatype spawner = Plain | EssentialBlocking

text \<open>The commands of the SDK that \<^verbatim>\<open>command.rs\<close> runs, with what it hands to them.\<close>

datatype 'h command_call =
    BuildSpecRun 'h 'h 'h
  | CheckBlockRun 'h 'h 'h
  | ExportBlocksRun 'h 'h 'h
  | ExportStateRun 'h 'h 'h
  | ImportBlocksRun 'h 'h 'h
  | RevertRun 'h 'h 'h
  | PurgeChainRun 'h "'h configuration" "'h configuration"
  | ExportGenesisStateRun 'h 'h 'h
  | ExportGenesisWasmRun 'h 'h
  | PalletBenchRun 'h "'h configuration"
  | BlockBenchRun 'h 'h
  | StorageBenchRun 'h "'h configuration" 'h 'h 'h
  | MachineBenchRun 'h "'h configuration"
  | TryRuntimeRun 'h u64

datatype ('e, 'h) node_event =
    NewFullParts "'h configuration"
  | Spawned spawner string "string option" "'h service_task"
  | AuraImportQueue "'h import_queue_params"
  | BuildRelayChainInterface "'h configuration" "'h configuration"
  | BuildNetwork "'h build_network_params"
  | SpawnTasks "('e, 'h) spawn_tasks_params"
  | PrintHwbench 'h
  | WarnHardware
  | StartCollator "'h start_collator_params"
  | StartFullNode "'h start_full_node_params"
  | StartNetwork 'h
  | CreateDirAll string
  | GatherHwbench string
  | InfoParachainAccount 'h
  | InfoIsCollating bool
  | RunCommand "'h command_call"

type_synonym ('e, 'h) node_log = "('e, 'h) node_event list"

definition logged :: "('e, 'h) node_event \<Rightarrow> (('e, 'h) node_log, 'x, unit) action" where
  "logged ev = modify (\<lambda>evs. evs @ [ev])"

text \<open>The operator \<^verbatim>\<open>?\<close> on a result of the SDK, with the conversion of its error.\<close>

definition try_sum :: "('e \<Rightarrow> 'x) \<Rightarrow> 'e + 'a \<Rightarrow> ('s, 'x, 'a) action" where
  "try_sum conv r = (case r of Inl e \<Rightarrow> fail (conv e) | Inr a \<Rightarrow> ret a)"

lemma logged_eval [action_eval]:
  "logged ev s = (Ok (), s @ [ev])" "and_then (logged ev) f s = f () (s @ [ev])"
  by (simp_all add: logged_def action_simps)

lemma try_sum_simps [action_eval]: "try_sum conv (Inl e) = fail (conv e)" "try_sum conv (Inr a) = ret a"
  by (simp_all add: try_sum_def)

section \<open>RPC extensions\<close>

text \<open>\<open>create_full\<close> keeps no state; its only effects are its result and its errors.\<close>

definition create_full :: "('e, 'h) service_sdk \<Rightarrow> 'h full_deps \<Rightarrow> 'e rpc_error + 'h" where
  "create_full sv deps =
     (case rpc_merge sv (rpc_empty sv) (system_rpc sv (deps_client deps) (deps_pool deps) (deps_deny_unsafe deps)) of
        Inl e \<Rightarrow> Inl (MergeError e)
      | Inr md \<Rightarrow>
     (case rpc_merge sv md (transaction_payment_rpc sv (deps_client deps)) of
        Inl e \<Rightarrow> Inl (MergeError e)
      | Inr md \<Rightarrow>
     (case offchain_storage sv (deps_backend deps) of
        None \<Rightarrow> Inl (RpcMessage ''Backend doesn't provide the required offchain storage'')
      | Some storage \<Rightarrow>
     (case rpc_merge sv md (mmr_rpc sv (deps_client deps) storage) of
        Inl e \<Rightarrow> Inl (MergeError e)
      | Inr md \<Rightarrow> Inr md))))"

section \<open>Partial components\<close>

definition build_import_queue ::
  "('e, 'h) service_sdk \<Rightarrow> 'h \<Rightarrow> 'h \<Rightarrow> 'h configuration \<Rightarrow> 'h option \<Rightarrow> 'h \<Rightarrow>
   (('e, 'h) node_log, 'e service_error, 'h) action" where
  "build_import_queue sv cl block_import config tel tm =
     and_then (try_sum ServiceError (aura_slot_duration sv cl)) (\<lambda>slot_duration.
     let params = \<lparr>iq_block_import = block_import, iq_client = cl, iq_slot_duration = slot_duration,
           iq_registry = prometheus_registry config, iq_spawner = spawn_essential_handle sv tm, iq_telemetry = tel\<rparr>
     in and_then (logged (AuraImportQueue params)) (\<lambda>_.
        try_sum ServiceError (aura_import_queue sv params)))"

definition heap_pages :: "('e, 'h) service_sdk \<Rightarrow> 'h configuration \<Rightarrow> 'h heap_alloc_strategy" where
  "heap_pages sv config =
     (case default_heap_pages config of
        None \<Rightarrow> DEFAULT_HEAP_ALLOC_STRATEGY sv
      | Some h \<Rightarrow> StaticPages (ucast h))"

definition build_telemetry ::
  "('e, 'h) service_sdk \<Rightarrow> 'h configuration \<Rightarrow> (('e, 'h) node_log, 'e service_error, ('h \<times> 'h) option) action" where
  "build_telemetry sv config =
     (case telemetry_endpoints config of
        None \<Rightarrow> ret None
      | Some endpoints \<Rightarrow>
          if endpoints = [] then ret None
          else and_then (try_sum ServiceError (telemetry_worker_new sv 16)) (\<lambda>worker.
            ret (Some (worker, new_telemetry sv (worker_handle sv worker) endpoints))))"

definition spawn_telemetry :: "('h \<times> 'h) option \<Rightarrow> (('e, 'h) node_log, 'x, 'h option) action" where
  "spawn_telemetry tel =
     (case tel of
        None \<Rightarrow> ret None
      | Some (worker, t) \<Rightarrow>
          and_then (logged (Spawned Plain ''telemetry'' None (TelemetryWorkerRun worker))) (\<lambda>_. ret (Some t)))"

definition new_partial ::
  "('e, 'h) service_sdk \<Rightarrow> 'h configuration \<Rightarrow> (('e, 'h) node_log, 'e service_error, 'h partial_components) action" where
  "new_partial sv config =
     and_then (build_telemetry sv config) (\<lambda>tel.
     let pages = heap_pages sv config;
         wasm = wasm_executor_build sv (wasm_method config) pages pages
                  (max_runtime_instances config) (runtime_cache_size config);
         executor = new_with_wasm_executor sv wasm
     in and_then (logged (NewFullParts config)) (\<lambda>_.
        and_then (try_sum ServiceError
            (new_full_parts sv config (map_option (\<lambda>(_, t). telemetry_handle sv t) tel) executor))
          (\<lambda>(cl, be, keys, tm).
        let telemetry_worker_handle = map_option (\<lambda>(worker, _). worker_handle sv worker) tel
        in and_then (spawn_telemetry tel)
          (\<lambda>t.
        let pool = basic_pool_new_full sv (transaction_pool_options config) (role_is_authority config)
                     (prometheus_registry config) (spawn_essential_handle sv tm) cl;
            block_import = block_import_new sv cl be
        in and_then (build_import_queue sv cl block_import config (map_option (telemetry_handle sv) t) tm) (\<lambda>queue.
        ret \<lparr>backend = be, client = cl, import_queue = queue, keystore_container = keys, task_manager = tm,
             transaction_pool = pool, other = (block_import, t, telemetry_worker_handle)\<rparr>)))))"


section \<open>Consensus\<close>

text \<open>
  \<open>f32_recip n\<close> is the \<^verbatim>\<open>f32\<close> value of \<open>1 / n\<close>: the nearest number with a mantissa of 24 bits
  (\<open>2 ^ k / n\<close> is between \<open>2 ^ 23\<close> and \<open>2 ^ 24\<close>, and never half-way between two integers).
\<close>

fun ceil_log2 :: "nat \<Rightarrow> nat" where
  "ceil_log2 n = (if n \<le> 1 then 0 else Suc (ceil_log2 ((n + 1) div 2)))"

declare ceil_log2.simps [simp del]

definition f32_recip :: "nat \<Rightarrow> rat" where
  "f32_recip n = (let k = 23 + ceil_log2 n in of_nat ((2 * 2 ^ k + n) div (2 * n)) / 2 ^ k)"

definition build_consensus ::
  "('e, 'h) service_sdk \<Rightarrow> 'h \<Rightarrow> 'h \<Rightarrow> 'h option \<Rightarrow> 'h option \<Rightarrow> 'h \<Rightarrow> 'h \<Rightarrow> 'h \<Rightarrow> 'h \<Rightarrow> 'h \<Rightarrow> bool \<Rightarrow> u32 \<Rightarrow>
   (('e, 'h) node_log, 'e service_error, 'h) action" where
  "build_consensus sv cl block_import registry tel tm relay_interface pool sync_oracle keys forced pid =
     and_then (try_sum ServiceError (aura_slot_duration sv cl)) (\<lambda>slot_duration.
     let factory = proposer_factory sv (spawn_handle sv tm) cl pool registry tel;
         params = \<lparr>ap_proposer_factory = factory, ap_relay_chain_interface = relay_interface, ap_para_id = pid,
           ap_block_import = block_import, ap_para_client = cl, ap_backoff_authoring_blocks = None,
           ap_sync_oracle = sync_oracle, ap_keystore = keys, ap_force_authoring = forced, ap_slot_duration = slot_duration,
           ap_block_proposal_slot_portion = f32_recip 24,
           ap_max_block_proposal_slot_portion = Some (f32_recip 16), ap_telemetry = tel\<rparr>
     in ret (aura_consensus_build sv params))"

text \<open>
  The inherent data of a block: what the two closures given to the SDK compute. \<open>now\<close> is the system
  time, \<open>slot_from\<close> is \<^verbatim>\<open>from_timestamp_and_slot_duration\<close> and \<open>create_at\<close> the creation
  of the parachain inherent, which may find nothing.
\<close>

definition import_queue_inherents :: "('t \<Rightarrow> u64 \<Rightarrow> 'slot) \<Rightarrow> 't \<Rightarrow> u64 \<Rightarrow> string + ('slot \<times> 't)" where
  "import_queue_inherents slot_from now slot_duration = Inr (slot_from now slot_duration, now)"

definition consensus_inherents ::
  "('t \<Rightarrow> u64 \<Rightarrow> 'slot) \<Rightarrow> ('h \<Rightarrow> 'h \<Rightarrow> 'h \<Rightarrow> u32 \<Rightarrow> 'inh option) \<Rightarrow> 'h \<Rightarrow> u64 \<Rightarrow> u32 \<Rightarrow> 't \<Rightarrow> 'h \<Rightarrow> 'h \<Rightarrow>
   string + ('slot \<times> 't \<times> 'inh)" where
  "consensus_inherents slot_from create_at relay_interface slot_duration pid now relay_parent validation_data =
     (let parachain_inherent = create_at relay_parent relay_interface validation_data pid;
          timestamp = now;
          slot = slot_from timestamp slot_duration
      in case parachain_inherent of
           None \<Rightarrow> Inl ''Failed to create parachain inherent''
         | Some inherent \<Rightarrow> Inr (slot, timestamp, inherent))"

section \<open>Starting a node\<close>

definition spawn_offchain_workers ::
  "('e, 'h) service_sdk \<Rightarrow> 'h configuration \<Rightarrow> 'h partial_components \<Rightarrow> 'h \<Rightarrow> (('e, 'h) node_log, 'x, unit) action" where
  "spawn_offchain_workers sv config params net =
     (if offchain_worker_enabled config
      then logged (Spawned Plain ''offchain-workers-runner'' (Some ''offchain-work'')
        (OffchainWorkersRun
          \<lparr>ow_runtime_api_provider = client params,
           ow_keystore = Some (keystore sv (keystore_container params)),
           ow_offchain_db = offchain_storage sv (backend params),
           ow_transaction_pool = Some (offchain_pool_factory sv (transaction_pool params)),
           ow_network_provider = net,
           ow_is_validator = role_is_authority config,
           ow_enable_http_requests = False, ow_custom_extensions = []\<rparr>))
      else ret ())"

definition rpc_builder :: "('e, 'h) service_sdk \<Rightarrow> 'h partial_components \<Rightarrow> 'h \<Rightarrow> 'e rpc_error + 'h" where
  "rpc_builder sv params deny_unsafe =
     create_full sv \<lparr>deps_client = client params, deps_pool = transaction_pool params,
       deps_deny_unsafe = deny_unsafe, deps_backend = backend params\<rparr>"

definition spawn_mmr_gadget ::
  "('e, 'h) service_sdk \<Rightarrow> bool \<Rightarrow> 'h partial_components \<Rightarrow> (('e, 'h) node_log, 'x, unit) action" where
  "spawn_mmr_gadget sv is_offchain_indexing_enabled params =
     (if is_offchain_indexing_enabled
      then logged (Spawned EssentialBlocking ''mmr_gadget'' None
        (MmrGadgetStart (client params) (backend params) (MMR_INDEXING_PREFIX sv)))
      else ret ())"

definition report_hwbench ::
  "('e, 'h) service_sdk \<Rightarrow> bool \<Rightarrow> 'h option \<Rightarrow> 'h option \<Rightarrow> (('e, 'h) node_log, 'x, unit) action" where
  "report_hwbench sv validator tel hwbench =
     (case hwbench of
        None \<Rightarrow> ret ()
      | Some bench \<Rightarrow>
          and_then (logged (PrintHwbench bench)) (\<lambda>_.
          and_then (if \<not> check_hardware sv bench \<and> validator then logged WarnHardware else ret ()) (\<lambda>_.
          case tel of
            None \<Rightarrow> ret ()
          | Some t \<Rightarrow> logged (Spawned Plain ''telemetry_hwbench'' None (HwbenchTelemetry (telemetry_handle sv t) bench)))))"

definition relay_chain_slot_duration :: u64 where
  "relay_chain_slot_duration = 6"

definition start_consensus ::
  "('e, 'h) service_sdk \<Rightarrow> 'h configuration \<Rightarrow> 'h partial_components \<Rightarrow> 'h \<Rightarrow> 'h option \<Rightarrow> 'h \<Rightarrow> u32 \<Rightarrow>
   (('e, 'h) node_log, 'e service_error, unit) action" where
  "start_consensus sv config params relay_interface collator_key sync_service pid =
     and_then (try_sum Application (overseer_handle sv relay_interface)) (\<lambda>overseer.
     let (block_import, tel, _) = other params;
         full_node_params =
           \<lparr>fn_client = client params, fn_announce_block = sync_service, fn_task_manager = task_manager params,
            fn_para_id = pid, fn_relay_chain_interface = relay_interface,
            fn_relay_chain_slot_duration = relay_chain_slot_duration,
            fn_import_queue = import_queue_service sv (import_queue params),
            fn_recovery_handle = overseer, fn_sync_service = sync_service\<rparr>
     in if role_is_authority config
        then
          and_then (build_consensus sv (client params) block_import (prometheus_registry config)
              (map_option (telemetry_handle sv) tel) (task_manager params) relay_interface (transaction_pool params)
              sync_service (keystore sv (keystore_container params)) (force_authoring config) pid)
            (\<lambda>parachain_consensus.
          and_then (unwrap collator_key) (\<lambda>key.
          let collator_params = start_full_node_params.extend full_node_params
                (start_collator_params.fields (client params) (spawn_handle sv (task_manager params))
                  parachain_consensus key)
          in and_then (logged (StartCollator collator_params)) (\<lambda>_.
             try_sum ServiceError (start_collator sv collator_params))))
        else
          and_then (logged (StartFullNode full_node_params)) (\<lambda>_.
          try_sum ServiceError (start_full_node sv full_node_params)))"

definition start_node_impl ::
  "('e, 'h) service_sdk \<Rightarrow> 'h configuration \<Rightarrow> 'h configuration \<Rightarrow> 'h \<Rightarrow> u32 \<Rightarrow> 'h option \<Rightarrow>
   (('e, 'h) node_log, 'e service_error, 'h \<times> 'h) action" where
  "start_node_impl sv para_config polkadot_config collator_options pid hwbench =
     (let config = prepare_node_config sv para_config in
      and_then (new_partial sv config) (\<lambda>params.
      let (_, tel, telemetry_worker_handle) = other params;
          net_config = full_network_configuration sv (network config);
          is_offchain_indexing_enabled = offchain_indexing_enabled config;
          validator = role_is_authority config
      in and_then (logged (BuildRelayChainInterface polkadot_config config)) (\<lambda>_.
         and_then (try_sum Application (build_relay_chain_interface sv polkadot_config config
             telemetry_worker_handle (task_manager params) collator_options hwbench)) (\<lambda>(relay_interface, collator_key).
         let network_params =
               \<lparr>bn_config = config, bn_net_config = net_config, bn_client = client params,
                bn_transaction_pool = transaction_pool params, bn_para_id = pid,
                bn_spawn_handle = spawn_handle sv (task_manager params),
                bn_relay_chain_interface = relay_interface, bn_import_queue = import_queue params,
                bn_sybil_resistance_level = Resistant\<rparr>
         in and_then (logged (BuildNetwork network_params)) (\<lambda>_.
            and_then (try_sum ServiceError (build_network sv network_params))
              (\<lambda>(net, system_rpc_tx, tx_handler_controller, start_network, sync_service).
            and_then (spawn_offchain_workers sv config params net) (\<lambda>_.
            let task_params =
                  \<lparr>st_rpc_builder = rpc_builder sv params, st_client = client params,
                   st_transaction_pool = transaction_pool params, st_task_manager = task_manager params,
                   st_config = config, st_keystore = keystore sv (keystore_container params),
                   st_backend = backend params, st_network = net, st_sync_service = sync_service,
                   st_system_rpc_tx = system_rpc_tx, st_tx_handler_controller = tx_handler_controller,
                   st_telemetry = tel\<rparr>
            in and_then (logged (SpawnTasks task_params)) (\<lambda>_.
               and_then (try_sum ServiceError (spawn_tasks sv task_params)) (\<lambda>_.
               and_then (spawn_mmr_gadget sv is_offchain_indexing_enabled params) (\<lambda>_.
               and_then (report_hwbench sv validator tel hwbench) (\<lambda>_.
               and_then (start_consensus sv config params relay_interface collator_key sync_service pid) (\<lambda>_.
               and_then (logged (StartNetwork start_network)) (\<lambda>_.
               ret (task_manager params, client params))))))))))))))"

definition start_parachain_node ::
  "('e, 'h) service_sdk \<Rightarrow> 'h configuration \<Rightarrow> 'h configuration \<Rightarrow> 'h \<Rightarrow> u32 \<Rightarrow> 'h option \<Rightarrow>
   (('e, 'h) node_log, 'e service_error, 'h \<times> 'h) action" where
  "start_parachain_node sv para_config polkadot_config collator_options pid hwbench =
     start_node_impl sv para_config polkadot_config collator_options pid hwbench"


section \<open>Runs against a plan\<close>

text \<open>
  An action \<^emph>\<open>follows\<close> a plan, a list of event names, when it logs all of it on success and a prefix of
  it otherwise; it follows the plan \<^emph>\<open>strictly\<close> when that prefix is proper.
\<close>

fun event_name :: "('e, 'h) node_event \<Rightarrow> string" where
  "event_name (NewFullParts _) = ''new_full_parts''"
| "event_name (Spawned _ name _ _) = name"
| "event_name (AuraImportQueue _) = ''aura_import_queue''"
| "event_name (BuildRelayChainInterface _ _) = ''build_relay_chain_interface''"
| "event_name (BuildNetwork _) = ''build_network''"
| "event_name (SpawnTasks _) = ''spawn_tasks''"
| "event_name (PrintHwbench _) = ''print_hwbench''"
| "event_name WarnHardware = ''warn''"
| "event_name (StartCollator _) = ''start_collator''"
| "event_name (StartFullNode _) = ''start_full_node''"
| "event_name (StartNetwork _) = ''start_network''"
| "event_name (CreateDirAll _) = ''create_dir_all''"
| "event_name (GatherHwbench _) = ''gather_hwbench''"
| "event_name (InfoParachainAccount _) = ''info''"
| "event_name (InfoIsCollating _) = ''info''"
| "event_name (RunCommand _) = ''command''"

text \<open>The prefixes the MMR gadget is started for.\<close>

fun gadget_prefixes :: "('e, 'h) node_log \<Rightarrow> bytes list" where
  "gadget_prefixes [] = []"
| "gadget_prefixes (Spawned _ _ _ (MmrGadgetStart _ _ p) # evs) = p # gadget_prefixes evs"
| "gadget_prefixes (_ # evs) = gadget_prefixes evs"

lemma gadget_prefixes_append: "gadget_prefixes (xs @ ys) = gadget_prefixes xs @ gadget_prefixes ys"
  by (induction xs rule: gadget_prefixes.induct) simp_all

text \<open>The results of hardware benchmarks a node prints.\<close>

fun printed_hwbenches :: "('e, 'h) node_log \<Rightarrow> 'h list" where
  "printed_hwbenches [] = []"
| "printed_hwbenches (PrintHwbench bench # evs) = bench # printed_hwbenches evs"
| "printed_hwbenches (_ # evs) = printed_hwbenches evs"

lemma printed_hwbenches_append: "printed_hwbenches (xs @ ys) = printed_hwbenches xs @ printed_hwbenches ys"
  by (induction xs rule: printed_hwbenches.induct) simp_all

definition follows_by ::
  "(('e, 'h) node_log \<Rightarrow> 'b list) \<Rightarrow> ('b list \<Rightarrow> 'b list \<Rightarrow> bool) \<Rightarrow> 'b list \<Rightarrow> (('e, 'h) node_log, 'x, 'a) action \<Rightarrow> bool" where
  "follows_by proj partial plan m \<longleftrightarrow> (\<forall>s. \<exists>evs. snd (m s) = s @ evs \<and>
     (if is_ok (fst (m s)) then proj evs = plan else partial (proj evs) plan))"

lemma follows_byD:
  "follows_by proj partial plan m \<Longrightarrow> m s = (r, t) \<Longrightarrow>
   \<exists>evs. t = s @ evs \<and> (if is_ok r then proj evs = plan else partial (proj evs) plan)"
  unfolding follows_by_def by (metis fst_conv snd_conv)

lemma reads_only_try_sum [simp, intro]: "reads_only (try_sum conv r)"
  by (auto simp: try_sum_def split: sum.splits)

text \<open>
  The rules hold for any view of the log that distributes over concatenation: the names of its
  events, or the gadgets it starts.
\<close>

locale event_projection =
  fixes proj :: "('e, 'h) node_log \<Rightarrow> 'b list"
  assumes proj_append: "proj (xs @ ys) = proj xs @ proj ys"
begin

lemma proj_Nil: "proj [] = []"
  using proj_append [of "[]" "[]"] by simp

lemma ret_follows: "follows_by proj partial [] (ret a)"
  by (simp add: follows_by_def action_simps proj_Nil)

lemma panic_follows: "follows_by proj prefix plan panic"
  by (simp add: follows_by_def action_simps proj_Nil)

lemma reads_only_follows: "reads_only m \<Longrightarrow> follows_by proj prefix [] m"
  by (auto simp: follows_by_def reads_onlyD proj_Nil)

lemma try_sum_follows: "follows_by proj prefix [] (try_sum conv r)"
  by (rule reads_only_follows) simp

lemma logged_follows: "proj [ev] = p \<Longrightarrow> follows_by proj partial p (logged ev)"
  by (simp add: follows_by_def logged_def action_simps)

lemma prod_follows:
  "(\<And>a b. x = (a, b) \<Longrightarrow> follows_by proj partial q (f a b)) \<Longrightarrow>
   follows_by proj partial q (case x of (a, b) \<Rightarrow> f a b)"
  by (cases x) simp

lemma bind_follows:
  assumes "follows_by proj prefix p m" and "\<And>s a t. m s = (Ok a, t) \<Longrightarrow> follows_by proj partial q (f a)"
    and "\<And>begun. prefix begun p \<Longrightarrow> partial begun (p @ q)"
    and "\<And>xs. partial xs q \<Longrightarrow> partial (p @ xs) (p @ q)"
  shows "follows_by proj partial (p @ q) (and_then m f)"
  unfolding follows_by_def
proof
  fix s
  obtain r t where m: "m s = (r, t)" by fastforce
  obtain evs where evs: "t = s @ evs" "if is_ok r then proj evs = p else prefix (proj evs) p"
    using follows_byD [OF assms(1) m] by blast
  show "\<exists>evs. snd (and_then m f s) = s @ evs \<and>
      (if is_ok (fst (and_then m f s)) then proj evs = p @ q else partial (proj evs) (p @ q))"
  proof (cases r)
    case (Ok a)
    obtain r' t' where f: "f a t = (r', t')" by fastforce
    obtain evs' where "t' = t @ evs'" "if is_ok r' then proj evs' = q else partial (proj evs') q"
      using follows_byD [OF assms(2) [OF m [unfolded Ok]] f] by blast
    with evs m f Ok assms(4) show ?thesis
      by (intro exI [of _ "evs @ evs'"]) (auto simp: and_then_def proj_append)
  qed (use evs m assms(3) in \<open>simp_all add: and_then_def\<close>)
qed

lemma then_follows:
  assumes "follows_by proj prefix p m" and "\<And>s a t. m s = (Ok a, t) \<Longrightarrow> follows_by proj prefix q (f a)"
    and "plan = p @ q"
  shows "follows_by proj prefix plan (and_then m f)"
  unfolding assms(3) by (rule bind_follows [OF assms(1,2)]) (simp_all add: prefix_order.trans)

lemma then_strictly_follows:
  assumes "follows_by proj prefix p m" and "\<And>s a t. m s = (Ok a, t) \<Longrightarrow> follows_by proj strict_prefix q (f a)"
    and "plan = p @ q" and "q \<noteq> []"
  shows "follows_by proj strict_prefix plan (and_then m f)"
  unfolding assms(3)
  by (rule bind_follows [OF assms(1,2)]) (use assms(4) in \<open>auto simp: strict_prefix_def prefix_def\<close>)

lemma skip_follows:
  "follows_by proj prefix [] m \<Longrightarrow> (\<And>a. follows_by proj prefix q (f a)) \<Longrightarrow>
   follows_by proj prefix q (and_then m f)"
  by (rule then_follows) auto

lemma log_follows:
  assumes "follows_by proj partial q (f ())" and "proj [ev] = p"
    and "\<And>xs. partial xs q \<Longrightarrow> partial (p @ xs) (p @ q)"
  shows "follows_by proj partial (p @ q) (and_then (logged ev) f)"
  unfolding follows_by_def
proof
  fix s
  obtain evs where "snd (f () (s @ [ev])) = (s @ [ev]) @ evs"
      "if is_ok (fst (f () (s @ [ev]))) then proj evs = q else partial (proj evs) q"
    using assms(1) unfolding follows_by_def by blast
  with assms(2,3) show "\<exists>evs. snd (and_then (logged ev) f s) = s @ evs \<and>
      (if is_ok (fst (and_then (logged ev) f s)) then proj evs = p @ q else partial (proj evs) (p @ q))"
    using proj_append [of "[ev]" evs]
    by (intro exI [of _ "ev # evs"]) (auto simp: logged_def action_simps split: if_splits)
qed

lemma try_follows:
  "(\<And>a. r = Inr a \<Longrightarrow> follows_by proj prefix q (f a)) \<Longrightarrow> follows_by proj prefix q (and_then (try_sum conv r) f)"
  by (cases r) (simp_all add: try_sum_def action_simps follows_by_def proj_Nil)

lemma try_strictly_follows:
  "(\<And>a. r = Inr a \<Longrightarrow> follows_by proj strict_prefix q (f a)) \<Longrightarrow> q \<noteq> [] \<Longrightarrow>
   follows_by proj strict_prefix q (and_then (try_sum conv r) f)"
  by (cases r) (simp_all add: try_sum_def action_simps follows_by_def proj_Nil strict_prefix_def)

end

interpretation by_name: event_projection "map event_name"
  by unfold_locales simp

interpretation by_gadget: event_projection gadget_prefixes
  by unfold_locales (rule gadget_prefixes_append)

interpretation by_print: event_projection printed_hwbenches
  by unfold_locales (rule printed_hwbenches_append)

abbreviation follows :: "string list \<Rightarrow> (('e, 'h) node_log, 'x, 'a) action \<Rightarrow> bool" where
  "follows \<equiv> follows_by (map event_name) prefix"

abbreviation strictly_follows :: "string list \<Rightarrow> (('e, 'h) node_log, 'x, 'a) action \<Rightarrow> bool" where
  "strictly_follows \<equiv> follows_by (map event_name) strict_prefix"

lemma follows_log:
  "follows q (f ()) \<Longrightarrow> event_name ev = n \<Longrightarrow> follows (n # q) (and_then (logged ev) f)"
  using by_name.log_follows [of prefix q f ev "[n]"] by simp

lemma strictly_follows_log:
  "strictly_follows q (f ()) \<Longrightarrow> event_name ev = n \<Longrightarrow> strictly_follows (n # q) (and_then (logged ev) f)"
  using by_name.log_follows [of strict_prefix q f ev "[n]"] by (simp add: strict_prefix_def)

lemma follows_last: "event_name ev = n \<Longrightarrow> follows [n] (logged ev)"
  by (rule by_name.logged_follows) simp

lemmas follows_intros =
  by_name.prod_follows by_name.try_follows follows_log by_name.ret_follows by_name.try_sum_follows follows_last
  by_name.panic_follows

text \<open>The plan of a node start, from the configuration alone.\<close>

definition telemetry_enabled :: "'h configuration \<Rightarrow> bool" where
  "telemetry_enabled config \<longleftrightarrow> telemetry_endpoints config \<noteq> None \<and> telemetry_endpoints config \<noteq> Some []"

definition partial_plan :: "'h configuration \<Rightarrow> string list" where
  "partial_plan config =
     [''new_full_parts''] @ (if telemetry_enabled config then [''telemetry''] else []) @ [''aura_import_queue'']"

definition hwbench_plan :: "('e, 'h) service_sdk \<Rightarrow> bool \<Rightarrow> bool \<Rightarrow> 'h option \<Rightarrow> string list" where
  "hwbench_plan sv validator with_telemetry hwbench =
     (case hwbench of None \<Rightarrow> [] | Some bench \<Rightarrow>
        [''print_hwbench''] @ (if \<not> check_hardware sv bench \<and> validator then [''warn''] else []) @
        (if with_telemetry then [''telemetry_hwbench''] else []))"

definition startup_plan :: "('e, 'h) service_sdk \<Rightarrow> 'h configuration \<Rightarrow> 'h option \<Rightarrow> string list" where
  "startup_plan sv config hwbench =
     partial_plan config @ [''build_relay_chain_interface'', ''build_network''] @
     (if offchain_worker_enabled config then [''offchain-workers-runner''] else []) @ [''spawn_tasks''] @
     (if offchain_indexing_enabled config then [''mmr_gadget''] else []) @
     hwbench_plan sv (role_is_authority config) (telemetry_enabled config) hwbench @
     [if role_is_authority config then ''start_collator'' else ''start_full_node'', ''start_network'']"

lemma build_telemetry_follows: "follows [] (build_telemetry sv config)"
  unfolding build_telemetry_def
  by (rule by_name.reads_only_follows) (auto simp: try_sum_def split: option.splits sum.splits)

lemma build_telemetry_Ok:
  "build_telemetry sv config s = (Ok tel, t) \<Longrightarrow> tel \<noteq> None \<longleftrightarrow> telemetry_enabled config"
  by (auto simp: build_telemetry_def telemetry_enabled_def try_sum_def action_simps split: option.splits if_splits
        sum.splits)

lemma build_import_queue_follows: "follows [''aura_import_queue''] (build_import_queue sv cl bi config tel tm)"
  unfolding build_import_queue_def Let_def by (intro follows_intros) simp

lemma spawn_telemetry_follows: "follows (if tel \<noteq> None then [''telemetry''] else []) (spawn_telemetry tel)"
  by (auto simp: spawn_telemetry_def split: option.splits intro!: follows_intros)

lemma new_partial_follows: "follows (partial_plan config) (new_partial sv config)"
  unfolding new_partial_def Let_def
proof (rule by_name.then_follows [OF build_telemetry_follows, where q = "partial_plan config"], goal_cases)
  case (1 s tel t)
  note tel = build_telemetry_Ok [OF 1]
  show ?case
    unfolding partial_plan_def append_Cons append_Nil tel [symmetric]
    by (intro follows_log by_name.try_follows by_name.prod_follows
          by_name.then_follows [OF spawn_telemetry_follows by_name.then_follows [OF build_import_queue_follows by_name.ret_follows]]) simp_all
qed simp

lemma spawn_telemetry_Ok: "spawn_telemetry tel s = (Ok t', t) \<Longrightarrow> t' \<noteq> None \<longleftrightarrow> tel \<noteq> None"
  by (auto simp: spawn_telemetry_def logged_def action_simps split: option.splits)

lemma new_partial_Ok:
  "new_partial sv config s = (Ok params, t) \<Longrightarrow> fst (snd (other params)) \<noteq> None \<longleftrightarrow> telemetry_enabled config"
  unfolding new_partial_def Let_def
  by (auto elim!: action_elims split: prod.splits simp: action_simps dest!: build_telemetry_Ok spawn_telemetry_Ok)

lemma spawn_offchain_workers_follows:
  "follows (if offchain_worker_enabled config then [''offchain-workers-runner''] else [])
     (spawn_offchain_workers sv config params net)"
  by (auto simp: spawn_offchain_workers_def intro!: follows_intros)

lemma spawn_mmr_gadget_follows:
  "follows (if enabled then [''mmr_gadget''] else []) (spawn_mmr_gadget sv enabled params)"
  by (auto simp: spawn_mmr_gadget_def intro!: follows_intros)

lemma report_hwbench_follows:
  "follows (hwbench_plan sv validator (tel \<noteq> None) hwbench) (report_hwbench sv validator tel hwbench)"
  by (auto simp: report_hwbench_def hwbench_plan_def and_then_ret split: option.splits intro!: follows_intros)

lemma start_consensus_follows:
  "follows [if role_is_authority config then ''start_collator'' else ''start_full_node'']
     (start_consensus sv config params relay_interface collator_key sync_service pid)"
proof (cases "role_is_authority config")
  case True
  show ?thesis
    unfolding start_consensus_def build_consensus_def Let_def and_then_assoc
    by (cases collator_key)
       (auto simp: True unwrap_simps and_then_ret and_then_panic intro!: follows_intros )
next
  case False
  then show ?thesis
    unfolding start_consensus_def Let_def by (auto intro!: follows_intros)
qed

lemma start_node_impl_follows:
  "strictly_follows (startup_plan sv (prepare_node_config sv para_config) hwbench)
     (start_node_impl sv para_config polkadot_config collator_options pid hwbench)"
  unfolding start_node_impl_def Let_def startup_plan_def
proof (rule by_name.then_strictly_follows [OF new_partial_follows _ refl], goal_cases)
  case (1 s params t)
  note tel = new_partial_Ok [OF 1]
  show ?case
    unfolding append_Cons append_Nil
    by ((rule strictly_follows_log by_name.try_strictly_follows by_name.prod_follows
          by_name.then_strictly_follows [OF spawn_offchain_workers_follows] by_name.then_strictly_follows [OF spawn_mmr_gadget_follows]
          by_name.then_strictly_follows [OF report_hwbench_follows] by_name.then_strictly_follows [OF start_consensus_follows]
          by_name.ret_follows)+)
       (use tel in auto)
qed simp

lemma start_extends_log:
  "\<exists>steps. snd (start_parachain_node sv para_config polkadot_config options pid hwbench evs) = evs @ steps"
proof -
  note start_node_impl_follows [of sv para_config hwbench polkadot_config options pid, unfolded follows_by_def]
  from spec [OF this, of evs] show ?thesis unfolding start_parachain_node_def by auto
qed

section \<open>Panics and the MMR gadget\<close>

text \<open>
  The ways an action may end. Both that a start does not panic and that it succeeds when every
  service is available are proved with the same rules.
\<close>

datatype ending = Succeeds | Fails | Panics

fun ending_of :: "('x, 'a) outcome \<Rightarrow> ending" where
  "ending_of (Ok _) = Succeeds"
| "ending_of (Err _) = Fails"
| "ending_of Panic = Panics"

definition ends_in :: "ending set \<Rightarrow> ('s, 'x, 'a) action \<Rightarrow> bool" where
  "ends_in E m \<longleftrightarrow> (\<forall>s. ending_of (fst (m s)) \<in> E)"

lemma ends_in_basic:
  "Succeeds \<in> E \<Longrightarrow> ends_in E (ret a)" "Succeeds \<in> E \<Longrightarrow> ends_in E (logged ev)"
  by (simp_all add: ends_in_def logged_def action_simps)

lemma ends_in_try_sum:
  "Succeeds \<in> E \<Longrightarrow> Fails \<in> E \<or> (\<exists>a. r = Inr a) \<Longrightarrow> ends_in E (try_sum conv r)"
  by (auto simp: ends_in_def try_sum_def action_simps split: sum.splits)

lemma ends_in_bind:
  assumes "ends_in E m" and "\<And>s a t. m s = (Ok a, t) \<Longrightarrow> ends_in E (f a)"
  shows "ends_in E (and_then m f)"
  unfolding ends_in_def
proof
  fix s
  obtain r t where m: "m s = (r, t)" by fastforce
  with assms(1) have "ending_of r \<in> E" unfolding ends_in_def by (metis fst_conv)
  with m assms(2) [of s] show "ending_of (fst (and_then m f s)) \<in> E"
    by (cases r) (auto simp: and_then_def ends_in_def)
qed

lemma ends_in_try:
  "(\<And>a. r = Inr a \<Longrightarrow> ends_in E (f a)) \<Longrightarrow> Fails \<in> E \<or> (\<exists>a. r = Inr a) \<Longrightarrow>
   ends_in E (and_then (try_sum conv r) f)"
  by (cases r) (auto simp: try_sum_def action_simps ends_in_def)

lemma ends_in_prod:
  "(\<And>a b. x = (a, b) \<Longrightarrow> ends_in E (f a b)) \<Longrightarrow> ends_in E (case x of (a, b) \<Rightarrow> f a b)"
  by (cases x) simp

lemmas ends_in_intros = ends_in_prod ends_in_try ends_in_bind ends_in_basic ends_in_try_sum

text \<open>
  Every service is available: no fallible call of the SDK fails. And what the \<^verbatim>\<open>expect\<close> relies
  on: a collator gets a key from the relay chain interface.
\<close>

definition services_available :: "('e, 'h) service_sdk \<Rightarrow> bool" where
  "services_available sv \<longleftrightarrow>
     (\<forall>n. \<exists>a. telemetry_worker_new sv n = Inr a) \<and> (\<forall>c h e. \<exists>a. new_full_parts sv c h e = Inr a) \<and>
     (\<forall>c. \<exists>a. aura_slot_duration sv c = Inr a) \<and> (\<forall>p. \<exists>a. aura_import_queue sv p = Inr a) \<and>
     (\<forall>c d h t k b. \<exists>a. build_relay_chain_interface sv c d h t k b = Inr a) \<and>
     (\<forall>p. \<exists>a. build_network sv p = Inr a) \<and> (\<forall>p. spawn_tasks sv p = Inr ()) \<and>
     (\<forall>h. \<exists>a. overseer_handle sv h = Inr a) \<and> (\<forall>p. start_collator sv p = Inr ()) \<and>
     (\<forall>p. start_full_node sv p = Inr ())"

definition collators_get_a_key :: "('e, 'h) service_sdk \<Rightarrow> bool" where
  "collators_get_a_key sv \<longleftrightarrow> (\<forall>polkadot_config config worker tm options hwbench relay_interface key.
     build_relay_chain_interface sv polkadot_config config worker tm options hwbench = Inr (relay_interface, key) \<longrightarrow>
     role_is_authority config \<longrightarrow> key \<noteq> None)"

lemma new_partial_ends:
  "Succeeds \<in> E \<Longrightarrow> Fails \<in> E \<or> services_available sv \<Longrightarrow> ends_in E (new_partial sv config)"
  unfolding new_partial_def build_telemetry_def spawn_telemetry_def build_import_queue_def Let_def
  by (intro ends_in_intros) (auto intro!: ends_in_intros simp: services_available_def split: option.splits)

lemma startup_parts_end:
  assumes "Succeeds \<in> E"
  shows "ends_in E (spawn_offchain_workers sv config params net)" "ends_in E (spawn_mmr_gadget sv enabled params)"
    "ends_in E (report_hwbench sv validator tel hwbench)"
  using assms
  by (auto simp: spawn_offchain_workers_def spawn_mmr_gadget_def report_hwbench_def intro!: ends_in_intros
        split: option.splits)

lemma start_consensus_ends:
  assumes "Succeeds \<in> E" and "Fails \<in> E \<or> services_available sv"
    and "role_is_authority config \<longrightarrow> collator_key \<noteq> None"
  shows "ends_in E (start_consensus sv config params relay_interface collator_key sync_service pid)"
  using assms
  by (cases collator_key)
     (auto simp: start_consensus_def build_consensus_def Let_def unwrap_simps and_then_ret and_then_assoc
        services_available_def intro!: ends_in_intros)

lemma start_node_impl_ends:
  assumes "collators_get_a_key sv" and "Succeeds \<in> E" and "Fails \<in> E \<or> services_available sv"
  shows "ends_in E (start_node_impl sv para_config polkadot_config collator_options pid hwbench)"
proof -
  have calls: "Fails \<in> E \<or> (\<exists>a. build_relay_chain_interface sv c d h t k b = Inr a)"
    "Fails \<in> E \<or> (\<exists>a. build_network sv np = Inr a)" "Fails \<in> E \<or> (\<exists>a. spawn_tasks sv tp = Inr a)" for c d h t k b np tp
    using assms(3) by (auto simp: services_available_def)
  have key: "role_is_authority d \<longrightarrow> key \<noteq> None"
    if "build_relay_chain_interface sv c d h t k b = Inr x" and "x = (ri, key)" for c d h t k b x ri key
    using that assms(1) unfolding collators_get_a_key_def by blast
  show ?thesis
    unfolding start_node_impl_def Let_def
    by (intro ends_in_bind [OF new_partial_ends [OF assms(2,3)]] ends_in_prod ends_in_try
          ends_in_bind [OF ends_in_basic(2) [OF assms(2)]]
          ends_in_bind [OF startup_parts_end(1) [OF assms(2)]] ends_in_bind [OF startup_parts_end(2) [OF assms(2)]]
          ends_in_bind [OF startup_parts_end(3) [OF assms(2)]]
          ends_in_bind [OF start_consensus_ends [OF assms(2,3)]] ends_in_basic(1) [OF assms(2)] calls) (rule key)
qed

text \<open>The MMR gadget.\<close>

lemmas gadget_intros =
  by_gadget.prod_follows by_gadget.skip_follows by_gadget.try_sum_follows by_gadget.ret_follows
  by_gadget.logged_follows by_gadget.reads_only_follows [OF reads_only_basic(6)]

lemma new_partial_gadgets: "follows_by gadget_prefixes prefix [] (new_partial sv config)"
  unfolding new_partial_def build_telemetry_def spawn_telemetry_def build_import_queue_def Let_def
  by (auto intro!: gadget_intros split: option.splits)

lemma start_consensus_gadgets:
  "follows_by gadget_prefixes prefix []
     (start_consensus sv config params relay_interface collator_key sync_service pid)"
  unfolding start_consensus_def build_consensus_def Let_def by (auto intro!: gadget_intros)

lemma startup_parts_gadgets:
  "follows_by gadget_prefixes prefix [] (spawn_offchain_workers sv config params net)"
  "follows_by gadget_prefixes prefix [] (report_hwbench sv validator tel hwbench)"
  "follows_by gadget_prefixes prefix (if enabled then [MMR_INDEXING_PREFIX sv] else []) (spawn_mmr_gadget sv enabled params)"
  by (auto simp: spawn_offchain_workers_def spawn_mmr_gadget_def report_hwbench_def intro!: gadget_intros
        split: option.splits)

lemma start_node_impl_gadgets:
  "follows_by gadget_prefixes prefix
     (if offchain_indexing_enabled (prepare_node_config sv para_config) then [MMR_INDEXING_PREFIX sv] else [])
     (start_node_impl sv para_config polkadot_config collator_options pid hwbench)"
  unfolding start_node_impl_def Let_def
  by (intro by_gadget.skip_follows [OF new_partial_gadgets] by_gadget.prod_follows
        by_gadget.skip_follows [OF by_gadget.try_sum_follows] by_gadget.skip_follows [OF by_gadget.logged_follows]
        by_gadget.skip_follows [OF startup_parts_gadgets(1)]
        by_gadget.then_follows [OF startup_parts_gadgets(3), where q = "[]"]
        by_gadget.skip_follows [OF startup_parts_gadgets(2)] by_gadget.skip_follows [OF start_consensus_gadgets]
        by_gadget.ret_follows) simp_all

text \<open>The benchmark that is printed.\<close>

lemmas print_intros =
  by_print.prod_follows by_print.skip_follows by_print.try_sum_follows by_print.ret_follows
  by_print.logged_follows by_print.reads_only_follows [OF reads_only_basic(6)]

lemma new_partial_prints: "follows_by printed_hwbenches prefix [] (new_partial sv config)"
  unfolding new_partial_def build_telemetry_def spawn_telemetry_def build_import_queue_def Let_def
  by (auto intro!: print_intros split: option.splits)

lemma start_consensus_prints:
  "follows_by printed_hwbenches prefix []
     (start_consensus sv config params relay_interface collator_key sync_service pid)"
  unfolding start_consensus_def build_consensus_def Let_def by (auto intro!: print_intros)

lemma report_hwbench_prints:
  "follows_by printed_hwbenches prefix (case hwbench of None \<Rightarrow> [] | Some bench \<Rightarrow> [bench]) (report_hwbench sv validator tel hwbench)"
proof (cases hwbench)
  case (Some bench)
  have "follows_by printed_hwbenches prefix []
     (and_then (if \<not> check_hardware sv bench \<and> validator then logged WarnHardware else ret ()) (\<lambda>_.
        case tel of None \<Rightarrow> ret ()
        | Some t \<Rightarrow> logged (Spawned Plain ''telemetry_hwbench'' None (HwbenchTelemetry (telemetry_handle sv t) bench))))"
    by (auto intro!: print_intros split: option.splits)
  from by_print.then_follows [OF by_print.logged_follows [where ev = "PrintHwbench bench", OF refl] this refl] show ?thesis
    by (simp add: report_hwbench_def Some)
qed (simp add: report_hwbench_def by_print.ret_follows)

lemma startup_parts_print:
  "follows_by printed_hwbenches prefix [] (spawn_offchain_workers sv config params net)"
  "follows_by printed_hwbenches prefix [] (spawn_mmr_gadget sv enabled params)"
  by (auto simp: spawn_offchain_workers_def spawn_mmr_gadget_def intro!: print_intros split: option.splits)

lemma start_node_impl_prints:
  "follows_by printed_hwbenches prefix (case hwbench of None \<Rightarrow> [] | Some bench \<Rightarrow> [bench])
     (start_node_impl sv para_config polkadot_config collator_options pid hwbench)"
  unfolding start_node_impl_def Let_def
  by (intro by_print.skip_follows [OF new_partial_prints] by_print.prod_follows
        by_print.skip_follows [OF by_print.try_sum_follows] by_print.skip_follows [OF by_print.logged_follows]
        by_print.skip_follows [OF startup_parts_print(1)] by_print.skip_follows [OF startup_parts_print(2)]
        by_print.then_follows [OF report_hwbench_prints, where q = "[]"] by_print.skip_follows [OF start_consensus_prints]
        by_print.ret_follows) simp_all

section \<open>RPC modules\<close>

text \<open>
  \<^verbatim>\<open>RpcModule::merge\<close> adds the methods of another module and fails when a name is already
  taken; a new module has no methods.
\<close>

definition merge_joins_methods :: "('e, 'h) service_sdk \<Rightarrow> ('h \<Rightarrow> string set) \<Rightarrow> bool" where
  "merge_joins_methods sv methods \<longleftrightarrow> methods (rpc_empty sv) = {} \<and>
     (\<forall>a b. if methods a \<inter> methods b = {}
            then \<exists>c. rpc_merge sv a b = Inr c \<and> methods c = methods a \<union> methods b
            else \<exists>e. rpc_merge sv a b = Inl e)"

lemma merge_disjoint:
  "merge_joins_methods sv methods \<Longrightarrow> methods a \<inter> methods b = {} \<Longrightarrow>
   \<exists>c. rpc_merge sv a b = Inr c \<and> methods c = methods a \<union> methods b"
  by (auto simp: merge_joins_methods_def)

section \<open>A concrete SDK\<close>

text \<open>Objects of the SDK are lists of names; a module is the list of its methods.\<close>

definition example_service :: "(string, string list) service_sdk" where
  "example_service =
     \<lparr>telemetry_worker_new = (\<lambda>_. Inr [''worker'']), worker_handle = (\<lambda>h. h), new_telemetry = (\<lambda>_ endpoints. endpoints),
      telemetry_handle = (\<lambda>h. h), DEFAULT_HEAP_ALLOC_STRATEGY = StaticPages 2048,
      wasm_executor_build = (\<lambda>_ _ _ _ _. [''wasm'']), new_with_wasm_executor = (\<lambda>h. h),
      new_full_parts = (\<lambda>_ _ _. Inr ([''client''], [''backend''], [''keys''], [''tasks''])),
      spawn_handle = (\<lambda>h. h), spawn_essential_handle = (\<lambda>h. h),
      basic_pool_new_full = (\<lambda>_ _ _ _ _. [''pool'']), block_import_new = (\<lambda>_ _. [''import'']),
      aura_slot_duration = (\<lambda>_. Inr 12000), aura_import_queue = (\<lambda>_. Inr [''queue'']),
      import_queue_service = (\<lambda>h. h), keystore = (\<lambda>h. h),
      offchain_storage = (\<lambda>be. if be = [''backend''] then Some [''storage''] else None),
      offchain_pool_factory = (\<lambda>h. h), prepare_node_config = (\<lambda>c. c), full_network_configuration = (\<lambda>h. h),
      build_relay_chain_interface =
        (\<lambda>_ config _ _ _ _. Inr ([''relay''], if role_is_authority config then Some [''key''] else None)),
      build_network = (\<lambda>_. Inr ([''net''], [''rpc_tx''], [''controller''], [''starter''], [''sync''])),
      spawn_tasks = (\<lambda>_. Inr ()), MMR_INDEXING_PREFIX = map of_char ''mmr'', check_hardware = (\<lambda>_. False),
      overseer_handle = (\<lambda>_. Inr [''overseer'']), proposer_factory = (\<lambda>_ _ _ _ _. [''proposer'']),
      aura_consensus_build = (\<lambda>_. [''aura'']), start_collator = (\<lambda>_. Inr ()), start_full_node = (\<lambda>_. Inr ()),
      rpc_empty = [],
      rpc_merge = (\<lambda>a b. if set a \<inter> set b = {} then Inr (a @ b) else Inl ''already registered''),
      system_rpc = (\<lambda>_ _ _. [''system_accountNextIndex'']), transaction_payment_rpc = (\<lambda>_. [''payment_queryInfo'']),
      mmr_rpc = (\<lambda>_ _. [''mmr_root'', ''mmr_generateProof''])\<rparr>"

definition example_config :: "string list configuration" where
  "example_config =
     \<lparr>telemetry_endpoints = None, default_heap_pages = Some (2 ^ 32 + 5), wasm_method = [],
      max_runtime_instances = 8, runtime_cache_size = 2, transaction_pool_options = [], role_is_authority = True,
      prometheus_registry = None, offchain_worker_enabled = True, offchain_indexing_enabled = True,
      force_authoring = False, network = [], config_chain_spec = [],
      chain_spec_extensions = Some \<lparr>relay_chain = ''rococo-local'', ext_para_id = 1000\<rparr>,
      config_base_path = ''base'', database = [], database_path = Some ''db'', tokio_handle = []\<rparr>"

lemma example_start_facts:
  "prepare_node_config example_service c = c" "MMR_INDEXING_PREFIX example_service = map of_char ''mmr''"
  "check_hardware example_service bench = False" "telemetry_endpoints example_config = None"
  "role_is_authority example_config" "offchain_worker_enabled example_config" "offchain_indexing_enabled example_config"
  by (simp_all add: example_service_def example_config_def)

lemma example_collators_get_a_key: "collators_get_a_key example_service"
  by (simp add: collators_get_a_key_def example_service_def)

lemma example_services_available: "services_available example_service"
  by (simp add: services_available_def example_service_def)

lemma example_start_ok:
  "\<exists>a evs. start_parachain_node example_service example_config example_config [] 1000 None [] = (Ok a, evs)"
proof -
  let ?m = "start_node_impl example_service example_config example_config [] 1000 None"
  have "ending_of (fst (?m [])) \<in> {Succeeds}"
    using start_node_impl_ends [OF example_collators_get_a_key, of "{Succeeds}"] example_services_available
    unfolding ends_in_def by blast
  then show ?thesis unfolding start_parachain_node_def by (cases "?m []"; cases "fst (?m [])") auto
qed

lemma example_plan:
  "startup_plan example_service (prepare_node_config example_service example_config) None =
     [''new_full_parts'', ''aura_import_queue'', ''build_relay_chain_interface'', ''build_network'',
      ''offchain-workers-runner'', ''spawn_tasks'', ''mmr_gadget'', ''start_collator'', ''start_network'']"
  by (simp add: startup_plan_def partial_plan_def telemetry_enabled_def hwbench_plan_def example_start_facts)

lemma example_merge_joins_methods: "merge_joins_methods example_service set"
  by (simp add: merge_joins_methods_def example_service_def)

section \<open>Properties\<close>

text \<open>
  Claim C16: starting a node follows one plan that the configuration determines: the services come up in a fixed
  order (client parts, telemetry if there are endpoints, import queue, relay chain interface,
  network, off-chain workers if enabled, RPC and the SDK's tasks, the MMR gadget if indexing is
  enabled, the hardware report, the collator or the full node by role), and the network is started
  last. A start that fails or panics has done a proper prefix of the plan, so it has never started
  the network.
\<close>

theorem node_start_follows_plan:
  assumes "start_parachain_node sv para_config polkadot_config collator_options pid hwbench evs = (r, evs')"
  shows "\<exists>steps. evs' = evs @ steps \<and>
    (if is_ok r then map event_name steps = startup_plan sv (prepare_node_config sv para_config) hwbench
     else strict_prefix (map event_name steps) (startup_plan sv (prepare_node_config sv para_config) hwbench))"
  by (rule follows_byD [OF start_node_impl_follows assms [unfolded start_parachain_node_def]])

theorem node_start_follows_plan_witness:
  "map event_name (snd (start_parachain_node example_service example_config example_config [] 1000 None [])) =
     [''new_full_parts'', ''aura_import_queue'', ''build_relay_chain_interface'', ''build_network'',
      ''offchain-workers-runner'', ''spawn_tasks'', ''mmr_gadget'', ''start_collator'', ''start_network'']"
proof -
  obtain a evs where start: "start_parachain_node example_service example_config example_config [] 1000 None [] = (Ok a, evs)"
    using example_start_ok by blast
  from node_start_follows_plan [OF start] have "map event_name evs = startup_plan example_service
      (prepare_node_config example_service example_config) None" by simp
  with start show ?thesis unfolding example_plan by simp
qed

text \<open>
  Claim C38: a node start never panics, provided the relay chain interface hands a key to every collator, which
  is what the \<^verbatim>\<open>expect\<close> says of the command line; and when no service of the SDK fails, the start
  succeeds.
\<close>

theorem node_start_succeeds:
  assumes "collators_get_a_key sv"
  shows "fst (start_parachain_node sv para_config polkadot_config collator_options pid hwbench evs) \<noteq> Panic \<and>
    (services_available sv \<longrightarrow>
       is_ok (fst (start_parachain_node sv para_config polkadot_config collator_options pid hwbench evs)))"
proof -
  let ?r = "fst (start_node_impl sv para_config polkadot_config collator_options pid hwbench evs)"
  have "ending_of ?r \<in> {Succeeds, Fails}"
    using start_node_impl_ends [OF assms, of "{Succeeds, Fails}"] unfolding ends_in_def by blast
  moreover have "services_available sv \<Longrightarrow> ending_of ?r \<in> {Succeeds}"
    using start_node_impl_ends [OF assms, of "{Succeeds}"] unfolding ends_in_def by blast
  ultimately show ?thesis unfolding start_parachain_node_def by (cases ?r) auto
qed

theorem node_start_succeeds_witness:
  "is_ok (fst (start_parachain_node example_service example_config example_config [] 1000 None []))"
  using node_start_succeeds [OF example_collators_get_a_key] example_services_available by blast

text \<open>
  Claim C29: the node canonicalises the off-chain MMR data of channel A only: with indexing enabled a successful
  start runs the MMR gadget exactly once, for channel A's prefix; whatever happens, it never runs
  for the prefix of channel B, unless the SDK's default prefix is that very string.
\<close>

theorem mmr_gadget_only_for_channel_a:
  assumes "start_parachain_node sv para_config polkadot_config collator_options pid hwbench [] = (r, evs)"
    and "MMR_INDEXING_PREFIX sv \<noteq> ParaBMmr_INDEXING_PREFIX"
  shows "ParaBMmr_INDEXING_PREFIX \<notin> set (gadget_prefixes evs) \<and>
    (is_ok r \<longrightarrow> gadget_prefixes evs =
       (if offchain_indexing_enabled (prepare_node_config sv para_config)
        then [ParaAMmr_INDEXING_PREFIX (MMR_INDEXING_PREFIX sv)] else []))"
  using follows_byD [OF start_node_impl_gadgets assms(1) [unfolded start_parachain_node_def]] assms(2)
  by (auto simp: ParaAMmr_INDEXING_PREFIX_def prefix_Cons split: if_splits)

theorem mmr_gadget_only_for_channel_a_witness:
  "gadget_prefixes (snd (start_parachain_node example_service example_config example_config [] 1000 None [])) =
     [map of_char ''mmr'']"
proof -
  obtain a evs where start: "start_parachain_node example_service example_config example_config [] 1000 None [] = (Ok a, evs)"
    using example_start_ok by blast
  have "MMR_INDEXING_PREFIX example_service \<noteq> ParaBMmr_INDEXING_PREFIX"
    unfolding example_start_facts ParaBMmr_INDEXING_PREFIX_def by (auto dest: map_eq_imp_length_eq)
  from mmr_gadget_only_for_channel_a [OF start this] start show ?thesis
    unfolding example_start_facts by (simp add: example_start_facts(7) ParaAMmr_INDEXING_PREFIX_def)
qed

text \<open>
  The RPC extension serves the methods of the system, transaction payment and MMR modules together
  when their names do not clash and the backend has off-chain storage; without that storage it is
  refused with the message the code gives, after the other two modules were merged.
\<close>

theorem create_full_serves_all_modules:
  assumes "merge_joins_methods sv methods"
    and "methods sys \<inter> methods pay = {}" and "(methods sys \<union> methods pay) \<inter> methods mmr = {}"
    and "system_rpc sv (deps_client deps) (deps_pool deps) (deps_deny_unsafe deps) = sys"
    and "transaction_payment_rpc sv (deps_client deps) = pay"
    and "\<And>storage. offchain_storage sv (deps_backend deps) = Some storage \<Longrightarrow> mmr_rpc sv (deps_client deps) storage = mmr"
  shows "(if offchain_storage sv (deps_backend deps) = None
          then create_full sv deps = Inl (RpcMessage ''Backend doesn't provide the required offchain storage'')
          else \<exists>m. create_full sv deps = Inr m \<and> methods m = methods sys \<union> methods pay \<union> methods mmr)"
proof -
  have empty: "methods (rpc_empty sv) = {}" using assms(1) by (simp add: merge_joins_methods_def)
  obtain m1 where m1: "rpc_merge sv (rpc_empty sv) sys = Inr m1" "methods m1 = methods sys"
    using merge_disjoint [OF assms(1), of "rpc_empty sv" sys] empty by auto
  obtain m2 where m2: "rpc_merge sv m1 pay = Inr m2" "methods m2 = methods sys \<union> methods pay"
    using merge_disjoint [OF assms(1), of m1 pay] assms(2) m1(2) by auto
  obtain m3 where m3: "rpc_merge sv m2 mmr = Inr m3" "methods m3 = methods sys \<union> methods pay \<union> methods mmr"
    using merge_disjoint [OF assms(1), of m2 mmr] assms(3) m2(2) by auto
  show ?thesis
    using m1 m2 m3 assms(4-6) by (auto simp: create_full_def)
qed

theorem create_full_serves_all_modules_witness:
  "\<exists>m. create_full example_service \<lparr>deps_client = [''client''], deps_pool = [''pool''], deps_deny_unsafe = [],
         deps_backend = [''backend'']\<rparr> = Inr m \<and>
     set m = {''system_accountNextIndex''} \<union> {''payment_queryInfo''} \<union> {''mmr_root'', ''mmr_generateProof''}"
  using create_full_serves_all_modules [OF example_merge_joins_methods, where sys = "[''system_accountNextIndex'']"
      and pay = "[''payment_queryInfo'']" and mmr = "[''mmr_root'', ''mmr_generateProof'']"
      and deps = "\<lparr>deps_client = [''client''], deps_pool = [''pool''], deps_deny_unsafe = [],
         deps_backend = [''backend'']\<rparr>"]
  by (simp add: example_service_def)

text \<open>
  A configured number of heap pages is cut to 32 bits: the executor gets it unchanged exactly when it
  fits, and otherwise its remainder modulo \<open>2 ^ 32\<close>, without an error.
\<close>

theorem heap_pages_are_truncated:
  assumes "default_heap_pages config = Some h"
  shows "\<exists>pages. heap_pages sv config = StaticPages pages \<and> unat pages = unat h mod 2 ^ 32 \<and>
    (unat pages = unat h \<longleftrightarrow> unat h < 2 ^ 32)"
proof -
  have "unat (ucast h :: u32) = unat h mod 2 ^ 32"
    by (simp add: unsigned_ucast_eq take_bit_eq_mod)
  with assms show ?thesis by (auto simp: heap_pages_def mod_eq_self_iff_div_eq_0 div_eq_0_iff)
qed

theorem heap_pages_are_truncated_witness:
  "\<exists>pages. heap_pages example_service example_config = StaticPages pages \<and> unat pages = 5"
  using heap_pages_are_truncated [of example_config "2 ^ 32 + 5" example_service] by (auto simp: example_config_def)

text \<open>
  The time a collator gets to propose is what the comments in the code say, with the runtime's slot of
  twelve seconds: about 500 milliseconds (within a microsecond, by the rounding of
  \<^verbatim>\<open>1f32 / 24f32\<close>) and at most exactly 750 milliseconds when slots were skipped; the
  parameters reach the consensus engine with the slot duration the runtime reports.
\<close>

theorem proposal_time_is_as_documented:
  assumes "aura_slot_duration sv cl = Inr SLOT_DURATION"
  shows "\<exists>params. build_consensus sv cl block_import registry tel tm relay_interface pool sync_oracle keys forced pid evs =
      (Ok (aura_consensus_build sv params), evs) \<and>
    500 \<le> of_nat (unat (ap_slot_duration params)) * ap_block_proposal_slot_portion params \<and>
    of_nat (unat (ap_slot_duration params)) * ap_block_proposal_slot_portion params < 500 + 1 / 1000 \<and>
    map_option (\<lambda>portion. of_nat (unat (ap_slot_duration params)) * portion)
      (ap_max_block_proposal_slot_portion params) = Some 750"
proof -
  have log: "ceil_log2 24 = 5" "ceil_log2 16 = 4" by (simp_all add: ceil_log2.simps)
  have portions: "f32_recip 24 = 11184811 / 2 ^ 28" "f32_recip 16 = 1 / 16"
    by (simp_all add: f32_recip_def log)
  have slot: "unat SLOT_DURATION = 12000"
    by (simp add: SLOT_DURATION_def MILLISECS_PER_BLOCK_def)
  show ?thesis
    unfolding build_consensus_def assms
    by (simp only: action_eval Let_def, intro exI conjI, rule refl) (simp_all add: portions slot)
qed

theorem proposal_time_is_as_documented_witness:
  "\<exists>params. build_consensus example_service [''client''] [] None None [''tasks''] [''relay''] [] [] [] False 1000 [] =
      (Ok (aura_consensus_build example_service params), []) \<and>
    map_option (\<lambda>portion. of_nat (unat (ap_slot_duration params)) * portion)
      (ap_max_block_proposal_slot_portion params) = Some 750"
proof -
  have "aura_slot_duration example_service [''client''] = Inr SLOT_DURATION"
    by (simp add: example_service_def SLOT_DURATION_def MILLISECS_PER_BLOCK_def)
  from proposal_time_is_as_documented [OF this] show ?thesis by blast
qed

end
