(* ===== verification/Node_Command.thy ===== *)
theory Node_Command
  imports Node_Service
begin

text \<open>
  The command line of the node (\<^verbatim>\<open>src/node/src/cli.rs\<close>, \<^verbatim>\<open>command.rs\<close> and
  \<^verbatim>\<open>main.rs\<close>): the subcommands, their dispatch in \<^verbatim>\<open>run\<close>, the start of a node when there is
  none, and the relay chain's command line, which is the parachain's with two overrides. Parsing,
  runners and the commands themselves belong to the SDK and are fields of \<open>cli_sdk\<close>; the two build
  features are an argument. A future a command returns is represented by the call that made it.
  \<^verbatim>\<open>parse_from\<close> may end the process on bad arguments; the model starts after it returned.
\<close>

section \<open>Command lines\<close>

datatype 'h benchmark_cmd = PalletBench 'h | BlockBench 'h | StorageBench 'h | MachineBench 'h | OtherBench 'h

text \<open>\<open>TryRuntime\<close> has an argument only in builds with that feature; without it the argument is ignored.\<close>

datatype 'h subcommand =
    BuildSpec 'h
  | CheckBlock 'h
  | ExportBlocks 'h
  | ExportState 'h
  | ImportBlocks 'h
  | Revert 'h
  | PurgeChain 'h
  | ExportGenesisState 'h
  | ExportGenesisWasm 'h
  | Benchmark "'h benchmark_cmd"
  | TryRuntime 'h

record 'h cli =
  subcommand :: "'h subcommand option"
  run_cmd :: 'h
  no_hardware_benchmarks :: bool
  relay_chain_args :: "string list"

record features =
  runtime_benchmarks :: bool
  try_runtime :: bool

text \<open>What \<^verbatim>\<open>CliConfiguration\<close> reports, one field per method of the implementation.\<close>

record ('e, 'h) cli_configuration =
  shared_params :: 'h
  import_params :: "'h option"
  network_params :: "'h option"
  keystore_params :: "'h option"
  cc_base_path :: "'e + string option"
  rpc_addr :: "u16 \<Rightarrow> 'e + 'h option"
  prometheus_config :: "u16 \<Rightarrow> 'h \<Rightarrow> 'e + 'h option"
  cli_init :: "('e, unit) outcome"
  cc_chain_id :: "bool \<Rightarrow> 'e + string"
  role :: "bool \<Rightarrow> 'e + 'h"
  cc_transaction_pool :: "bool \<Rightarrow> 'e + 'h"
  trie_cache_maximum_size :: "'e + nat option"
  rpc_methods :: "'e + 'h"
  rpc_max_connections :: "'e + u32"
  rpc_cors :: "bool \<Rightarrow> 'e + string list option"
  cc_default_heap_pages :: "'e + u64 option"
  cc_force_authoring :: "'e + bool"
  disable_grandpa :: "'e + bool"
  cc_max_runtime_instances :: "'e + nat option"
  announce_block :: "'e + bool"
  cc_telemetry_endpoints :: "'h \<Rightarrow> 'e + string list option"
  node_name :: "'e + string"

record ('e, 'h) relay_chain_cli =
  base :: "('e, 'h) cli_configuration"
  chain_id :: "string option"
  base_path :: "string option"

datatype 'h runner_for = ForSubcommand "'h subcommand" | ForRun 'h

datatype 'e cli_error = Input string | Service "'e service_error" | SdkError 'e

record ('e, 'h, 'acc, 'aura) cli_sdk =
  executable_name :: string
  parse_from :: "string list \<Rightarrow> ('e, 'h) cli_configuration"
  path_join :: "string \<Rightarrow> string \<Rightarrow> string"
  shared_params_base_path :: "'h \<Rightarrow> 'e + string option"
  create_configuration :: "('e, 'h) relay_chain_cli \<Rightarrow> 'h \<Rightarrow> 'e + 'h configuration"
  display :: "'e \<Rightarrow> string"
  run_normalize :: "'h \<Rightarrow> 'h"
  collator_options :: "'h \<Rightarrow> 'h"
  cmd_chain :: "'h \<Rightarrow> string option"
  create_runner :: "'h runner_for \<Rightarrow> 'e + 'h configuration"
  sync_run :: "'h configuration \<Rightarrow> ('h configuration \<Rightarrow> (('e, 'h) node_log, 'e cli_error, unit) action) \<Rightarrow>
    (('e, 'h) node_log, 'e cli_error, unit) action"
  async_run :: "'h configuration \<Rightarrow>
    ('h configuration \<Rightarrow> (('e, 'h) node_log, 'e cli_error, 'h command_call \<times> 'h) action) \<Rightarrow>
    (('e, 'h) node_log, 'e cli_error, unit) action"
  run_node_until_exit :: "'h configuration \<Rightarrow> ('h configuration \<Rightarrow> (('e, 'h) node_log, 'e cli_error, 'h) action) \<Rightarrow>
    (('e, 'h) node_log, 'e cli_error, unit) action"
  run_command :: "'h command_call \<Rightarrow> 'e + unit"
  task_manager_new :: "'h \<Rightarrow> 'h option \<Rightarrow> 'e + 'h"
  expose_db :: "'h \<Rightarrow> 'h"
  expose_storage :: "'h \<Rightarrow> 'h"
  gather_hwbench :: "string \<Rightarrow> 'h"
  into_account_truncating :: "u32 \<Rightarrow> 'h"
  node_environment :: "('acc, 'aura) node_env"
  from_json_file :: "string \<Rightarrow> string + ('acc, 'aura) chain_spec"
  box_spec :: "('acc, 'aura) chain_spec \<Rightarrow> 'h"

section \<open>Names\<close>

definition impl_name :: string where
  "impl_name = ''Parachain Collator Template''"

definition description :: "string \<Rightarrow> string" where
  "description executable =
     ''Parachain Collator Template'' @ [CHR 0x0A, CHR 0x0A] @
     ''The command-line arguments provided first will be passed to the parachain node, while the arguments provided after -- will be passed to the relay chain node.'' @
     [CHR 0x0A, CHR 0x0A] @ executable @ '' <parachain-args> -- <relay-chain-args>''"

definition support_url :: string where
  "support_url = ''https://github.com/paritytech/cumulus/issues/new''"

definition copyright_start_year :: int where
  "copyright_start_year = 2020"

definition p2p_listen_port :: u16 where
  "p2p_listen_port = 30334"

definition rpc_listen_port :: u16 where
  "rpc_listen_port = 9945"

definition prometheus_listen_port :: u16 where
  "prometheus_listen_port = 9616"

definition cli_load_spec :: "('e, 'h, 'acc, 'aura) cli_sdk \<Rightarrow> string \<Rightarrow> string + ('acc, 'aura) chain_spec" where
  "cli_load_spec cs ident = load_spec (node_environment cs) (from_json_file cs) ident"

text \<open>
  \<^verbatim>\<open>SubstrateCli\<close> of the two command lines. The version and the authors come from the environment of the build
  (\<^verbatim>\<open>env!\<close>); the relay chain's specifications are loaded by \<open>polkadot_load_spec\<close>, the command line of
  Polkadot made from the name of the executable alone.
\<close>

record 'spec substrate_cli =
  sc_impl_name :: string
  sc_impl_version :: string
  sc_description :: string
  sc_author :: string
  sc_support_url :: string
  sc_copyright_start_year :: int
  sc_load_spec :: "string \<Rightarrow> string + 'spec"

definition substrate_cli_for_cli ::
  "('e, 'h, 'acc, 'aura) cli_sdk \<Rightarrow> string \<Rightarrow> string \<Rightarrow> ('acc, 'aura) chain_spec substrate_cli" where
  "substrate_cli_for_cli cs version authors =
     \<lparr>sc_impl_name = impl_name, sc_impl_version = version, sc_description = description (executable_name cs),
      sc_author = authors, sc_support_url = support_url, sc_copyright_start_year = copyright_start_year,
      sc_load_spec = cli_load_spec cs\<rparr>"

definition substrate_cli_for_relay_chain ::
  "('e, 'h, 'acc, 'aura) cli_sdk \<Rightarrow> string \<Rightarrow> string \<Rightarrow> (string list \<Rightarrow> string \<Rightarrow> string + 'spec) \<Rightarrow> 'spec substrate_cli" where
  "substrate_cli_for_relay_chain cs version authors polkadot_load_spec =
     \<lparr>sc_impl_name = ''Parachain Collator Template'', sc_impl_version = version,
      sc_description =
        ''Parachain Collator Template'' @ [CHR 0x0A, CHR 0x0A] @
        ''The command-line arguments provided first will be passed to the parachain node, while the arguments provided after -- will be passed to the relay chain node.'' @
        [CHR 0x0A, CHR 0x0A] @ executable_name cs @ '' <parachain-args> -- <relay-chain-args>'',
      sc_author = authors,
      sc_support_url = ''https://github.com/paritytech/cumulus/issues/new'',
      sc_copyright_start_year = 2020,
      sc_load_spec = polkadot_load_spec [executable_name cs]\<rparr>"

section \<open>The relay chain's command line\<close>

definition relay_chain_cli_new ::
  "('e, 'h, 'acc, 'aura) cli_sdk \<Rightarrow> 'h configuration \<Rightarrow> string list \<Rightarrow> ('e, 'h) relay_chain_cli" where
  "relay_chain_cli_new cs para_config args =
     (let extension = chain_spec_extensions para_config;
          chain = map_option relay_chain extension;
          path = path_join cs (config_base_path para_config) ''polkadot''
      in \<lparr>base = parse_from cs args, chain_id = chain, base_path = Some path\<rparr>)"

definition relay_base_path :: "('e, 'h, 'acc, 'aura) cli_sdk \<Rightarrow> ('e, 'h) relay_chain_cli \<Rightarrow> 'e + string option" where
  "relay_base_path cs cli =
     (case shared_params_base_path cs (shared_params (base cli)) of
        Inl e \<Rightarrow> Inl e
      | Inr path \<Rightarrow> Inr (case path of Some p \<Rightarrow> Some p | None \<Rightarrow> base_path cli))"

definition relay_chain_id :: "('e, 'h) relay_chain_cli \<Rightarrow> bool \<Rightarrow> 'e + string" where
  "relay_chain_id cli is_dev =
     (case cc_chain_id (base cli) is_dev of
        Inl e \<Rightarrow> Inl e
      | Inr ident \<Rightarrow> Inr (if ident = [] then (case chain_id cli of Some c \<Rightarrow> c | None \<Rightarrow> []) else ident))"

definition relay_cli_configuration ::
  "('e, 'h, 'acc, 'aura) cli_sdk \<Rightarrow> ('e, 'h) relay_chain_cli \<Rightarrow> ('e, 'h) cli_configuration" where
  "relay_cli_configuration cs cli =
     \<lparr>shared_params = shared_params (base cli),
      import_params = import_params (base cli),
      network_params = network_params (base cli),
      keystore_params = keystore_params (base cli),
      cc_base_path = relay_base_path cs cli,
      rpc_addr = (\<lambda>port. rpc_addr (base cli) port),
      prometheus_config = (\<lambda>port spec. prometheus_config (base cli) port spec),
      cli_init = Panic,
      cc_chain_id = relay_chain_id cli,
      role = (\<lambda>is_dev. role (base cli) is_dev),
      cc_transaction_pool = (\<lambda>is_dev. cc_transaction_pool (base cli) is_dev),
      trie_cache_maximum_size = trie_cache_maximum_size (base cli),
      rpc_methods = rpc_methods (base cli),
      rpc_max_connections = rpc_max_connections (base cli),
      rpc_cors = (\<lambda>is_dev. rpc_cors (base cli) is_dev),
      cc_default_heap_pages = cc_default_heap_pages (base cli),
      cc_force_authoring = cc_force_authoring (base cli),
      disable_grandpa = disable_grandpa (base cli),
      cc_max_runtime_instances = cc_max_runtime_instances (base cli),
      announce_block = announce_block (base cli),
      cc_telemetry_endpoints = (\<lambda>spec. cc_telemetry_endpoints (base cli) spec),
      node_name = node_name (base cli)\<rparr>"

section \<open>Running commands\<close>

definition exec_command :: "('e, 'h, 'acc, 'aura) cli_sdk \<Rightarrow> 'h command_call \<Rightarrow> (('e, 'h) node_log, 'e cli_error, unit) action" where
  "exec_command cs call = and_then (logged (RunCommand call)) (\<lambda>_. try_sum SdkError (run_command cs call))"

definition construct_async_run ::
  "('e, 'h) service_sdk \<Rightarrow> ('e, 'h, 'acc, 'aura) cli_sdk \<Rightarrow> 'h subcommand \<Rightarrow>
   ('h partial_components \<Rightarrow> 'h configuration \<Rightarrow> 'h command_call) \<Rightarrow> (('e, 'h) node_log, 'e cli_error, unit) action" where
  "construct_async_run sv cs cmd code =
     and_then (try_sum SdkError (create_runner cs (ForSubcommand cmd))) (\<lambda>runner.
     async_run cs runner (\<lambda>config.
       and_then (map_err Service (new_partial sv config)) (\<lambda>components.
       ret (code components config, task_manager components))))"

definition run_purge_chain ::
  "('e, 'h, 'acc, 'aura) cli_sdk \<Rightarrow> 'h cli \<Rightarrow> 'h \<Rightarrow> (('e, 'h) node_log, 'e cli_error, unit) action" where
  "run_purge_chain cs cli cmd =
     and_then (try_sum SdkError (create_runner cs (ForSubcommand (PurgeChain cmd)))) (\<lambda>runner.
     sync_run cs runner (\<lambda>config.
       let polkadot_cli = relay_chain_cli_new cs config (executable_name cs # relay_chain_args cli)
       in and_then (try_sum (\<lambda>err. Input (''Relay chain argument error: '' @ display cs err))
              (create_configuration cs polkadot_cli (tokio_handle config))) (\<lambda>polkadot_config.
          exec_command cs (PurgeChainRun cmd config polkadot_config))))"

definition run_export_genesis_state ::
  "('e, 'h) service_sdk \<Rightarrow> ('e, 'h, 'acc, 'aura) cli_sdk \<Rightarrow> 'h \<Rightarrow> (('e, 'h) node_log, 'e cli_error, unit) action" where
  "run_export_genesis_state sv cs cmd =
     and_then (try_sum SdkError (create_runner cs (ForSubcommand (ExportGenesisState cmd)))) (\<lambda>runner.
     sync_run cs runner (\<lambda>config.
       and_then (map_err Service (new_partial sv config)) (\<lambda>partials.
       exec_command cs (ExportGenesisStateRun cmd (config_chain_spec config) (client partials)))))"

definition run_export_genesis_wasm ::
  "('e, 'h, 'acc, 'aura) cli_sdk \<Rightarrow> 'h \<Rightarrow> (('e, 'h) node_log, 'e cli_error, unit) action" where
  "run_export_genesis_wasm cs cmd =
     and_then (try_sum SdkError (create_runner cs (ForSubcommand (ExportGenesisWasm cmd)))) (\<lambda>runner.
     sync_run cs runner (\<lambda>_.
       and_then (try_sum Input (cli_load_spec cs (case cmd_chain cs cmd of Some c \<Rightarrow> c | None \<Rightarrow> []))) (\<lambda>spec.
       exec_command cs (ExportGenesisWasmRun cmd (box_spec cs spec)))))"

definition run_benchmark ::
  "('e, 'h) service_sdk \<Rightarrow> ('e, 'h, 'acc, 'aura) cli_sdk \<Rightarrow> features \<Rightarrow> 'h benchmark_cmd \<Rightarrow>
   (('e, 'h) node_log, 'e cli_error, unit) action" where
  "run_benchmark sv cs feats bench =
     and_then (try_sum SdkError (create_runner cs (ForSubcommand (Benchmark bench)))) (\<lambda>runner.
     case bench of
       PalletBench cmd \<Rightarrow>
         if runtime_benchmarks feats
         then sync_run cs runner (\<lambda>config. exec_command cs (PalletBenchRun cmd config))
         else fail (Input ''Benchmarking wasn't enabled when building the node. You can enable it with `--features runtime-benchmarks`.'')
     | BlockBench cmd \<Rightarrow>
         sync_run cs runner (\<lambda>config.
           and_then (map_err Service (new_partial sv config)) (\<lambda>partials.
           exec_command cs (BlockBenchRun cmd (client partials))))
     | StorageBench cmd \<Rightarrow>
         if runtime_benchmarks feats
         then sync_run cs runner (\<lambda>config.
           and_then (map_err Service (new_partial sv config)) (\<lambda>partials.
           let db = expose_db cs (backend partials);
               storage = expose_storage cs (backend partials)
           in exec_command cs (StorageBenchRun cmd config (client partials) db storage)))
         else fail (Input ''Compile with --features=runtime-benchmarks to enable storage benchmarks.'')
     | MachineBench cmd \<Rightarrow> sync_run cs runner (\<lambda>config. exec_command cs (MachineBenchRun cmd config))
     | OtherBench _ \<Rightarrow> fail (Input ''Benchmarking sub-command unsupported''))"

definition run_try_runtime ::
  "('e, 'h, 'acc, 'aura) cli_sdk \<Rightarrow> features \<Rightarrow> 'h \<Rightarrow> (('e, 'h) node_log, 'e cli_error, unit) action" where
  "run_try_runtime cs feats cmd =
     (if try_runtime feats
      then
        and_then (try_sum SdkError (create_runner cs (ForSubcommand (TryRuntime cmd)))) (\<lambda>config.
        let registry = prometheus_registry config
        in and_then (try_sum (\<lambda>e. Input (''Error: '' @ display cs e)) (task_manager_new cs (tokio_handle config) registry))
             (\<lambda>tm.
           async_run cs config (\<lambda>_. ret (TryRuntimeRun cmd MILLISECS_PER_BLOCK, tm))))
      else fail (Input ''Try-runtime was not enabled when building the node. You can enable it with `--features try-runtime`.''))"

text \<open>
  \<^verbatim>\<open>then_some\<close> takes its argument by value, so the benchmark is gathered before the flag is
  looked at. The result of creating the directory is dropped.
\<close>

definition hardware_benchmark ::
  "('e, 'h, 'acc, 'aura) cli_sdk \<Rightarrow> 'h cli \<Rightarrow> 'h configuration \<Rightarrow> (('e, 'h) node_log, 'x, 'h option) action" where
  "hardware_benchmark cs cli config =
     and_then (case database_path config of
         None \<Rightarrow> ret None
       | Some path \<Rightarrow>
           and_then (logged (CreateDirAll path)) (\<lambda>_.
           and_then (logged (GatherHwbench path)) (\<lambda>_.
           ret (Some (gather_hwbench cs path)))))
       (\<lambda>gathered. ret (if \<not> no_hardware_benchmarks cli then gathered else None))"

definition run_node ::
  "('e, 'h) service_sdk \<Rightarrow> ('e, 'h, 'acc, 'aura) cli_sdk \<Rightarrow> 'h cli \<Rightarrow> 'h \<Rightarrow> 'h configuration \<Rightarrow>
   (('e, 'h) node_log, 'e cli_error, 'h) action" where
  "run_node sv cs cli options config =
     and_then (hardware_benchmark cs cli config) (\<lambda>hwbench.
     and_then (ok_or (map_option ext_para_id (chain_spec_extensions config))
         (Input ''Could not find parachain ID in chain-spec.'')) (\<lambda>pid.
     let polkadot_cli = relay_chain_cli_new cs config (executable_name cs # relay_chain_args cli);
         parachain_account = into_account_truncating cs pid
     in and_then (try_sum (\<lambda>err. Input (''Relay chain argument error: '' @ display cs err))
            (create_configuration cs polkadot_cli (tokio_handle config))) (\<lambda>polkadot_config.
        and_then (logged (InfoParachainAccount parachain_account)) (\<lambda>_.
        and_then (logged (InfoIsCollating (role_is_authority config))) (\<lambda>_.
        and_then (map_err Service (start_parachain_node sv config polkadot_config options pid hwbench)) (\<lambda>r.
        ret (fst r)))))))"

definition run ::
  "('e, 'h) service_sdk \<Rightarrow> ('e, 'h, 'acc, 'aura) cli_sdk \<Rightarrow> features \<Rightarrow> 'h cli \<Rightarrow> (('e, 'h) node_log, 'e cli_error, unit) action" where
  "run sv cs feats cli =
     (case subcommand cli of
        Some (BuildSpec cmd) \<Rightarrow>
          and_then (try_sum SdkError (create_runner cs (ForSubcommand (BuildSpec cmd)))) (\<lambda>runner.
          sync_run cs runner (\<lambda>config. exec_command cs (BuildSpecRun cmd (config_chain_spec config) (network config))))
      | Some (CheckBlock cmd) \<Rightarrow>
          construct_async_run sv cs (CheckBlock cmd) (\<lambda>components config.
            CheckBlockRun cmd (client components) (import_queue components))
      | Some (ExportBlocks cmd) \<Rightarrow>
          construct_async_run sv cs (ExportBlocks cmd) (\<lambda>components config.
            ExportBlocksRun cmd (client components) (database config))
      | Some (ExportState cmd) \<Rightarrow>
          construct_async_run sv cs (ExportState cmd) (\<lambda>components config.
            ExportStateRun cmd (client components) (config_chain_spec config))
      | Some (ImportBlocks cmd) \<Rightarrow>
          construct_async_run sv cs (ImportBlocks cmd) (\<lambda>components config.
            ImportBlocksRun cmd (client components) (import_queue components))
      | Some (Revert cmd) \<Rightarrow>
          construct_async_run sv cs (Revert cmd) (\<lambda>components config.
            RevertRun cmd (client components) (backend components))
      | Some (PurgeChain cmd) \<Rightarrow> run_purge_chain cs cli cmd
      | Some (ExportGenesisState cmd) \<Rightarrow> run_export_genesis_state sv cs cmd
      | Some (ExportGenesisWasm cmd) \<Rightarrow> run_export_genesis_wasm cs cmd
      | Some (Benchmark bench) \<Rightarrow> run_benchmark sv cs feats bench
      | Some (TryRuntime cmd) \<Rightarrow> run_try_runtime cs feats cmd
      | None \<Rightarrow>
          and_then (try_sum SdkError (create_runner cs (ForRun (run_normalize cs (run_cmd cli))))) (\<lambda>runner.
          let options = collator_options cs (run_cmd cli)
          in run_node_until_exit cs runner (\<lambda>config. run_node sv cs cli options config)))"

definition node_main ::
  "('e, 'h) service_sdk \<Rightarrow> ('e, 'h, 'acc, 'aura) cli_sdk \<Rightarrow> features \<Rightarrow> 'h cli \<Rightarrow> (('e, 'h) node_log, 'e cli_error, unit) action" where
  "node_main sv cs feats cli = run sv cs feats cli"

section \<open>What runners do\<close>

text \<open>
  \<^verbatim>\<open>sync_run\<close> calls its closure with the configuration; \<^verbatim>\<open>async_run\<close> runs the future
  the closure returns, or until the process gets a signal (\<open>signal\<close>: whether the future had begun then), which is no
  error; \<^verbatim>\<open>run_node_until_exit\<close> waits for the task manager the closure returns until it ends with an error or there is a signal
  (\<open>task_end\<close>).
\<close>

definition exec_until ::
  "('e, 'h, 'acc, 'aura) cli_sdk \<Rightarrow> ('h command_call \<Rightarrow> bool option) \<Rightarrow> 'h command_call \<Rightarrow>
   (('e, 'h) node_log, 'e cli_error, unit) action" where
  "exec_until cs signal call =
     (case signal call of
        None \<Rightarrow> exec_command cs call
      | Some begun \<Rightarrow> if begun then logged (RunCommand call) else ret ())"

definition runners_run_closures ::
  "('e, 'h, 'acc, 'aura) cli_sdk \<Rightarrow> ('h command_call \<Rightarrow> bool option) \<Rightarrow> ('h \<Rightarrow> 'e service_error + unit) \<Rightarrow> bool" where
  "runners_run_closures cs signal task_end \<longleftrightarrow>
     (\<forall>config f. sync_run cs config f = f config) \<and>
     (\<forall>config f. async_run cs config f = and_then (f config) (\<lambda>(call, _). exec_until cs signal call)) \<and>
     (\<forall>config f. run_node_until_exit cs config f = and_then (f config) (\<lambda>tm. try_sum Service (task_end tm)))"

lemma runners_simps:
  assumes "runners_run_closures cs signal task_end"
  shows "sync_run cs config f = f config"
    and "async_run cs config g = and_then (g config) (\<lambda>(call, _). exec_until cs signal call)"
    and "run_node_until_exit cs config h = and_then (h config) (\<lambda>tm. try_sum Service (task_end tm))"
  using assms by (simp_all add: runners_run_closures_def)

text \<open>
  Which subcommand a call belongs to, and what a log shows of commands run and of a node started;
  opening the database and the import queue, which chain operations do too, is not a start.
\<close>

fun subcommand_of :: "'h command_call \<Rightarrow> 'h subcommand" where
  "subcommand_of (BuildSpecRun c _ _) = BuildSpec c"
| "subcommand_of (CheckBlockRun c _ _) = CheckBlock c"
| "subcommand_of (ExportBlocksRun c _ _) = ExportBlocks c"
| "subcommand_of (ExportStateRun c _ _) = ExportState c"
| "subcommand_of (ImportBlocksRun c _ _) = ImportBlocks c"
| "subcommand_of (RevertRun c _ _) = Revert c"
| "subcommand_of (PurgeChainRun c _ _) = PurgeChain c"
| "subcommand_of (ExportGenesisStateRun c _ _) = ExportGenesisState c"
| "subcommand_of (ExportGenesisWasmRun c _) = ExportGenesisWasm c"
| "subcommand_of (PalletBenchRun c _) = Benchmark (PalletBench c)"
| "subcommand_of (BlockBenchRun c _) = Benchmark (BlockBench c)"
| "subcommand_of (StorageBenchRun c _ _ _ _) = Benchmark (StorageBench c)"
| "subcommand_of (MachineBenchRun c _) = Benchmark (MachineBench c)"
| "subcommand_of (TryRuntimeRun c _) = TryRuntime c"

datatype 'h effect = Ran "'h subcommand" | StartedNode

definition effect_of :: "('e, 'h) node_event \<Rightarrow> 'h effect option" where
  "effect_of ev =
     (case ev of
        RunCommand call \<Rightarrow> Some (Ran (subcommand_of call))
      | _ \<Rightarrow> if event_name ev \<in> {''build_relay_chain_interface'', ''build_network'', ''spawn_tasks'', ''mmr_gadget'',
                 ''offchain-workers-runner'', ''start_collator'', ''start_full_node'', ''start_network''}
             then Some StartedNode else None)"

definition effects :: "('e, 'h) node_log \<Rightarrow> 'h effect list" where
  "effects evs = List.map_filter effect_of evs"

lemma effects_single: "effects [ev] = (case effect_of ev of None \<Rightarrow> [] | Some e \<Rightarrow> [e])"
  by (simp add: effects_def List.map_filter_def split: option.split)

interpretation by_effect: event_projection effects
  by unfold_locales (simp add: effects_def List.map_filter_def)

lemma map_err_follows: "follows_by proj partial plan (map_err f m) \<longleftrightarrow> follows_by proj partial plan m"
proof -
  have "snd (map_err f m s) = snd (m s)" "is_ok (fst (map_err f m s)) = is_ok (fst (m s))" for s
    by (auto simp: map_err_def split: prod.splits outcome.splits)
  then show ?thesis unfolding follows_by_def by presburger
qed

lemmas effect_intros =
  by_effect.prod_follows by_effect.skip_follows by_effect.try_sum_follows by_effect.ret_follows
  by_effect.logged_follows

lemma new_partial_effects: "follows_by effects prefix [] (new_partial sv config)"
  unfolding new_partial_def build_telemetry_def spawn_telemetry_def build_import_queue_def Let_def
  by (auto intro!: effect_intros split: option.splits simp: effects_single effect_of_def)

lemma fail_effects: "follows_by effects prefix plan (fail e)"
  by (simp add: follows_by_def action_simps by_effect.proj_Nil)

lemma exec_command_effects: "subcommand_of call = sub \<Longrightarrow> follows_by effects prefix [Ran sub] (exec_command cs call)"
  unfolding exec_command_def
  by (rule by_effect.then_follows [OF by_effect.logged_follows by_effect.try_sum_follows])
     (simp_all add: effects_single effect_of_def)

lemma partial_then_effects:
  "(\<And>a. follows_by effects prefix plan (f a)) \<Longrightarrow>
   follows_by effects prefix plan (and_then (map_err conv (new_partial sv config)) f)"
  by (rule by_effect.skip_follows) (simp_all add: map_err_follows new_partial_effects)

lemmas command_intros =
  by_effect.prod_follows by_effect.try_follows partial_then_effects exec_command_effects fail_effects

text \<open>
  An action that runs the one command, or, where it fails or may be stopped by a signal (unless \<open>quiet\<close>), no more than that.
\<close>

definition runs_sub :: "bool \<Rightarrow> 'h subcommand \<Rightarrow> (('e, 'h) node_log, 'x, 'a) action \<Rightarrow> bool" where
  "runs_sub quiet sub m \<longleftrightarrow> (\<forall>s. \<exists>evs. snd (m s) = s @ evs \<and>
     (if is_ok (fst (m s)) \<and> quiet then effects evs = [Ran sub] else prefix (effects evs) [Ran sub]))"

lemma follows_runs_sub: "follows_by effects prefix [Ran sub] m \<Longrightarrow> runs_sub quiet sub m"
  unfolding follows_by_def runs_sub_def by (metis prefix_order.refl)

lemma skip_runs_sub:
  assumes "follows_by effects prefix [] m" and "\<And>a. runs_sub quiet sub (f a)"
  shows "runs_sub quiet sub (and_then m f)"
  unfolding runs_sub_def
proof
  fix s
  obtain r t where m: "m s = (r, t)" by fastforce
  obtain evs where evs: "t = s @ evs" "effects evs = []"
    using follows_byD [OF assms(1) m] by (auto split: if_splits)
  show "\<exists>evs. snd (and_then m f s) = s @ evs \<and>
      (if is_ok (fst (and_then m f s)) \<and> quiet then effects evs = [Ran sub] else prefix (effects evs) [Ran sub])"
  proof (cases r)
    case (Ok a)
    obtain evs' where "snd (f a t) = t @ evs'"
        "if is_ok (fst (f a t)) \<and> quiet then effects evs' = [Ran sub] else prefix (effects evs') [Ran sub]"
      using assms(2) unfolding runs_sub_def by blast
    with evs m Ok show ?thesis
      by (intro exI [of _ "evs @ evs'"]) (simp add: and_then_def by_effect.proj_append)
  qed (use evs m in \<open>simp_all add: and_then_def\<close>)
qed

lemma exec_until_runs_sub:
  assumes "subcommand_of call = sub"
  shows "runs_sub (\<forall>call. subcommand_of call = sub \<longrightarrow> signal call = None) sub (exec_until cs signal call)"
proof (cases "signal call")
  case None
  then have "exec_until cs signal call = exec_command cs call" by (simp add: exec_until_def)
  then show ?thesis using follows_runs_sub [OF exec_command_effects [OF assms]] by simp
next
  case (Some begun)
  with assms show ?thesis
    by (auto simp: runs_sub_def exec_until_def logged_def action_simps effects_single effect_of_def by_effect.proj_Nil
        intro: exI [of _ "[]"])
qed

lemmas async_intros = skip_runs_sub by_effect.try_sum_follows exec_until_runs_sub

lemma construct_async_run_runs_sub:
  assumes "runners_run_closures cs signal task_end" and "\<And>components config. subcommand_of (code components config) = sub"
  shows "runs_sub (\<forall>call. subcommand_of call = sub \<longrightarrow> signal call = None) sub (construct_async_run sv cs sub code)"
  unfolding construct_async_run_def runners_simps [OF assms(1)] and_then_assoc and_then_ret prod.case
  by (intro async_intros assms(2)) (simp add: map_err_follows new_partial_effects)

lemma run_subcommand_runs_sub:
  assumes "runners_run_closures cs signal task_end" and "subcommand cli = Some sub"
  shows "runs_sub (\<forall>call. subcommand_of call = sub \<longrightarrow> signal call = None) sub (run sv cs feats cli)"
proof (cases sub)
  case (Benchmark bench)
  with assms(2) show ?thesis
    by (cases bench) (auto simp: run_def run_benchmark_def runners_simps [OF assms(1)] Let_def
        intro!: follows_runs_sub command_intros)
next
  case (TryRuntime cmd)
  with assms(2) show ?thesis
    by (auto simp: run_def run_try_runtime_def runners_simps [OF assms(1)] Let_def and_then_ret
        intro!: async_intros follows_runs_sub [OF fail_effects])
qed (use assms in \<open>auto simp: run_def run_purge_chain_def run_export_genesis_state_def run_export_genesis_wasm_def
    runners_simps [OF assms(1)] Let_def intro!: follows_runs_sub [of _ "and_then m f" for m f]
    command_intros construct_async_run_runs_sub\<close>)

section \<open>Starting a node from the command line\<close>

definition hwbench_events :: "'h configuration \<Rightarrow> ('e, 'h) node_log" where
  "hwbench_events config =
     (case database_path config of None \<Rightarrow> [] | Some path \<Rightarrow> [CreateDirAll path, GatherHwbench path])"

definition reported_hwbench :: "('e, 'h, 'acc, 'aura) cli_sdk \<Rightarrow> 'h cli \<Rightarrow> 'h configuration \<Rightarrow> 'h option" where
  "reported_hwbench cs cli config =
     (if no_hardware_benchmarks cli then None else map_option (gather_hwbench cs) (database_path config))"

lemma hardware_benchmark_eval:
  "hardware_benchmark cs cli config evs = (Ok (reported_hwbench cs cli config), evs @ hwbench_events config)"
  by (simp add: hardware_benchmark_def hwbench_events_def reported_hwbench_def action_eval split: option.split)

lemma and_then_hardware_benchmark:
  "and_then (hardware_benchmark cs cli config) f evs = f (reported_hwbench cs cli config) (evs @ hwbench_events config)"
  by (simp add: and_then_def hardware_benchmark_eval)

lemma and_then_map_err:
  "and_then (map_err conv m) (\<lambda>a. ret (g a)) evs =
     (case m evs of (Ok a, t) \<Rightarrow> (Ok (g a), t) | (Err e, t) \<Rightarrow> (Err (conv e), t) | (Panic, t) \<Rightarrow> (Panic, t))"
  by (auto simp: and_then_def map_err_def ret_def split: prod.splits outcome.splits)

text \<open>The arguments and the log a node is started with.\<close>

definition relay_cli_for :: "('e, 'h, 'acc, 'aura) cli_sdk \<Rightarrow> 'h cli \<Rightarrow> 'h configuration \<Rightarrow> ('e, 'h) relay_chain_cli" where
  "relay_cli_for cs cli config = relay_chain_cli_new cs config (executable_name cs # relay_chain_args cli)"

definition before_start :: "('e, 'h, 'acc, 'aura) cli_sdk \<Rightarrow> 'h configuration \<Rightarrow> u32 \<Rightarrow> ('e, 'h) node_log" where
  "before_start cs config pid =
     hwbench_events config @ [InfoParachainAccount (into_account_truncating cs pid), InfoIsCollating (role_is_authority config)]"

lemma run_node_eval:
  "run_node sv cs cli options config evs =
     (case chain_spec_extensions config of
        None \<Rightarrow> (Err (Input ''Could not find parachain ID in chain-spec.''), evs @ hwbench_events config)
      | Some ext \<Rightarrow>
     (case create_configuration cs (relay_cli_for cs cli config) (tokio_handle config) of
        Inl err \<Rightarrow> (Err (Input (''Relay chain argument error: '' @ display cs err)), evs @ hwbench_events config)
      | Inr polkadot_config \<Rightarrow>
     (case start_parachain_node sv config polkadot_config options (ext_para_id ext) (reported_hwbench cs cli config)
             (evs @ before_start cs config (ext_para_id ext)) of
        (Ok r, t) \<Rightarrow> (Ok (fst r), t)
      | (Err e, t) \<Rightarrow> (Err (Service e), t)
      | (Panic, t) \<Rightarrow> (Panic, t))))"
  by (auto simp: run_node_def and_then_hardware_benchmark and_then_map_err before_start_def relay_cli_for_def
        action_eval Let_def split: option.split sum.split)

lemma run_without_subcommand:
  assumes "runners_run_closures cs signal task_end" and "subcommand cli = None"
    and "create_runner cs (ForRun (run_normalize cs (run_cmd cli))) = Inr config"
  shows "run sv cs feats cli evs =
    (case run_node sv cs cli (collator_options cs (run_cmd cli)) config evs of
       (Ok tm, t) \<Rightarrow> (case task_end tm of Inl e \<Rightarrow> Err (Service e) | Inr _ \<Rightarrow> Ok (), t)
     | (Err e, t) \<Rightarrow> (Err e, t) | (Panic, t) \<Rightarrow> (Panic, t))"
  using assms(2,3)
  by (simp add: run_def runners_simps [OF assms(1)] try_sum_simps and_then_ret Let_def)
     (simp add: and_then_def try_sum_def ret_def fail_def split: prod.splits outcome.splits sum.splits)

section \<open>Subcommands the build does not support\<close>

fun unsupported :: "features \<Rightarrow> 'h subcommand \<Rightarrow> bool" where
  "unsupported feats (TryRuntime _) = (\<not> try_runtime feats)"
| "unsupported feats (Benchmark (PalletBench _)) = (\<not> runtime_benchmarks feats)"
| "unsupported feats (Benchmark (StorageBench _)) = (\<not> runtime_benchmarks feats)"
| "unsupported feats (Benchmark (OtherBench _)) = True"
| "unsupported _ _ = False"

lemma unsupported_cases:
  assumes "unsupported feats sub"
  obtains cmd where "sub = TryRuntime cmd" "\<not> try_runtime feats"
    | cmd where "sub = Benchmark (PalletBench cmd)" "\<not> runtime_benchmarks feats"
    | cmd where "sub = Benchmark (StorageBench cmd)" "\<not> runtime_benchmarks feats"
    | cmd where "sub = Benchmark (OtherBench cmd)"
  using assms by (cases "(feats, sub)" rule: unsupported.cases) auto

section \<open>Properties\<close>

definition example_cli_configuration :: "(string, string list) cli_configuration" where
  "example_cli_configuration =
     \<lparr>shared_params = [], import_params = None, network_params = None, keystore_params = None,
      cc_base_path = Inr None, rpc_addr = (\<lambda>_. Inr None), prometheus_config = (\<lambda>_ _. Inr None), cli_init = Ok (),
      cc_chain_id = (\<lambda>_. Inr []), role = (\<lambda>_. Inr [''full'']), cc_transaction_pool = (\<lambda>_. Inr []),
      trie_cache_maximum_size = Inr None, rpc_methods = Inr [], rpc_max_connections = Inr 100, rpc_cors = (\<lambda>_. Inr None),
      cc_default_heap_pages = Inr None, cc_force_authoring = Inr False, disable_grandpa = Inr False,
      cc_max_runtime_instances = Inr None, announce_block = Inr True, cc_telemetry_endpoints = (\<lambda>_. Inr None),
      node_name = Inr ''relay''\<rparr>"

definition example_exec ::
  "string list command_call \<Rightarrow> ((string, string list) node_log, string cli_error, unit) action" where
  "example_exec call = logged (RunCommand call)"

definition example_cli_sdk :: "(string, string list, string, string) cli_sdk" where
  "example_cli_sdk =
     \<lparr>executable_name = ''node'', parse_from = (\<lambda>_. example_cli_configuration), path_join = (\<lambda>a b. a @ ''/'' @ b),
      shared_params_base_path = (\<lambda>_. Inr None),
      create_configuration = (\<lambda>_ _. Inr example_config), display = (\<lambda>e. e), run_normalize = (\<lambda>h. h),
      collator_options = (\<lambda>h. h), cmd_chain = (\<lambda>_. None), create_runner = (\<lambda>_. Inr example_config),
      sync_run = (\<lambda>config f. f config),
      async_run = (\<lambda>config f. and_then (f config) (\<lambda>(call, _). example_exec call)),
      run_node_until_exit = (\<lambda>config f. and_then (f config) (\<lambda>tm. try_sum Service (Inr ()))), run_command = (\<lambda>_. Inr ()),
      task_manager_new = (\<lambda>_ _. Inr []), expose_db = (\<lambda>h. h), expose_storage = (\<lambda>h. h),
      gather_hwbench = (\<lambda>path. [path]), into_account_truncating = (\<lambda>_. [''account'']),
      node_environment = example_env, from_json_file = (\<lambda>_. Inl ''no file''), box_spec = (\<lambda>spec. [spec_id spec])\<rparr>"

text \<open>No signal ever comes, and the task manager ends without an error.\<close>

lemma example_runners: "runners_run_closures example_cli_sdk (\<lambda>_. None) (\<lambda>_. Inr ())"
proof -
  have "exec_command example_cli_sdk = example_exec"
    by (intro ext) (simp add: exec_command_def example_exec_def example_cli_sdk_def try_sum_simps logged_def action_simps)
  then show ?thesis by (simp add: runners_run_closures_def exec_until_def) (simp add: example_cli_sdk_def)
qed

definition example_cli :: "string list subcommand option \<Rightarrow> string list cli" where
  "example_cli sub = \<lparr>subcommand = sub, run_cmd = [], no_hardware_benchmarks = True, relay_chain_args = []\<rparr>"

text \<open>
  Claim C28: a subcommand runs itself and nothing else: when \<^verbatim>\<open>run\<close> returns without an error and no signal has stopped the command, exactly
  one command of the SDK was run, that of the chosen subcommand with its arguments; when it fails or is stopped, at
  most that one was begun; and in no case did the process start any part of a node (relay chain
  interface, network, tasks, collator), whichever build features are on.
\<close>

theorem subcommand_runs_only_itself:
  assumes "runners_run_closures cs signal task_end" and "subcommand cli = Some sub" and "run sv cs feats cli evs = (r, evs')"
  shows "\<exists>steps. evs' = evs @ steps \<and>
    (if is_ok r \<and> (\<forall>call. subcommand_of call = sub \<longrightarrow> signal call = None) then effects steps = [Ran sub]
     else prefix (effects steps) [Ran sub])"
  using run_subcommand_runs_sub [OF assms(1,2), of sv feats] assms(3) unfolding runs_sub_def by (metis fst_conv snd_conv)

theorem subcommand_runs_only_itself_witness:
  "\<exists>steps. snd (run example_service example_cli_sdk \<lparr>runtime_benchmarks = False, try_runtime = False\<rparr>
       (example_cli (Some (Revert [''r'']))) []) = [] @ steps \<and> set (effects steps) \<subseteq> {Ran (Revert [''r''])}"
proof -
  let ?m = "run example_service example_cli_sdk \<lparr>runtime_benchmarks = False, try_runtime = False\<rparr>
     (example_cli (Some (Revert [''r'']))) []"
  have "subcommand (example_cli (Some (Revert [''r'']))) = Some (Revert [''r''])" by (simp add: example_cli_def)
  from subcommand_runs_only_itself [where sv = example_service and evs = "[]" and
      feats = "\<lparr>runtime_benchmarks = False, try_runtime = False\<rparr>", OF example_runners this surjective_pairing]
  obtain steps where steps: "snd ?m = [] @ steps"
      "if is_ok (fst ?m) then effects steps = [Ran (Revert [''r''])] else prefix (effects steps) [Ran (Revert [''r''])]"
    by auto
  then have "set (effects steps) \<subseteq> {Ran (Revert [''r''])}"
    by (auto simp: prefix_Cons split: if_splits)
  with steps(1) show ?thesis by blast
qed

text \<open>
  A subcommand the build does not support does nothing: it fails, leaves the log as it was, and once the
  runner could be made the error is a message for the user. This concerns \<^verbatim>\<open>try-runtime\<close> without
  its feature, pallet and storage benchmarks without \<^verbatim>\<open>runtime-benchmarks\<close>, and, with any
  features, the benchmark subcommands the code does not list.
\<close>

theorem unsupported_subcommands_fail:
  assumes "subcommand cli = Some sub" and "unsupported feats sub"
  shows "\<exists>e. run sv cs feats cli evs = (Err e, evs) \<and>
    ((\<exists>config. create_runner cs (ForSubcommand sub) = Inr config) \<longrightarrow> (\<exists>msg. e = Input msg))"
  using assms(2)
proof (cases rule: unsupported_cases)
  case (1 cmd)
  with assms(1) show ?thesis by (simp add: run_def run_try_runtime_def action_simps)
qed (use assms(1) in \<open>cases "create_runner cs (ForSubcommand sub)";
      simp add: run_def run_benchmark_def try_sum_simps action_simps\<close>)+

theorem unsupported_subcommands_fail_witness:
  "\<exists>e. run example_service example_cli_sdk \<lparr>runtime_benchmarks = True, try_runtime = True\<rparr>
       (example_cli (Some (Benchmark (OtherBench [])))) [] = (Err e, [])"
  using unsupported_subcommands_fail [of "example_cli (Some (Benchmark (OtherBench [])))" "Benchmark (OtherBench [])"
      "\<lparr>runtime_benchmarks = True, try_runtime = True\<rparr>" example_service example_cli_sdk "[]"]
  by (auto simp: example_cli_def)

lemma run_node_prints:
  assumes "database_path config = Some path"
  shows "\<exists>steps. snd (run_node sv cs cli options config evs) = evs @ [CreateDirAll path, GatherHwbench path] @ steps \<and>
    (let expected = (if no_hardware_benchmarks cli then [] else [gather_hwbench cs path])
     in if is_ok (fst (run_node sv cs cli options config evs)) then printed_hwbenches steps = expected
        else prefix (printed_hwbenches steps) expected)"
proof -
  have hw: "hwbench_events config = [CreateDirAll path, GatherHwbench path]"
    using assms by (simp add: hwbench_events_def)
  have report: "(case reported_hwbench cs cli config of None \<Rightarrow> [] | Some bench \<Rightarrow> [bench]) =
      (if no_hardware_benchmarks cli then [] else [gather_hwbench cs path])"
    using assms by (simp add: reported_hwbench_def)
  have start: "\<exists>steps. t = evs' @ steps \<and>
      (if is_ok r then printed_hwbenches steps = (if no_hardware_benchmarks cli then [] else [gather_hwbench cs path])
       else prefix (printed_hwbenches steps) (if no_hardware_benchmarks cli then [] else [gather_hwbench cs path]))"
    if "start_parachain_node sv config pc options pid (reported_hwbench cs cli config) evs' = (r, t)" for pc pid evs' r t
    using follows_byD [OF start_node_impl_prints that [unfolded start_parachain_node_def]] unfolding report .
  show ?thesis
  proof (cases "chain_spec_extensions config")
    case None
    then show ?thesis by (simp add: run_node_eval hw)
  next
    case (Some ext)
    show ?thesis
    proof (cases "create_configuration cs (relay_cli_for cs cli config) (tokio_handle config)")
      case (Inl err)
      with Some show ?thesis by (simp add: run_node_eval hw)
    next
      case (Inr pc)
      obtain r t where rt: "start_parachain_node sv config pc options (ext_para_id ext) (reported_hwbench cs cli config)
          (evs @ before_start cs config (ext_para_id ext)) = (r, t)" by fastforce
      from start [OF this] obtain steps where "t = (evs @ before_start cs config (ext_para_id ext)) @ steps"
          "if is_ok r then printed_hwbenches steps = (if no_hardware_benchmarks cli then [] else [gather_hwbench cs path])
           else prefix (printed_hwbenches steps) (if no_hardware_benchmarks cli then [] else [gather_hwbench cs path])"
        by blast
      with Some Inr rt show ?thesis
        by (intro exI [of _ "[InfoParachainAccount (into_account_truncating cs (ext_para_id ext)),
               InfoIsCollating (role_is_authority config)] @ steps"])
           (cases r; simp add: run_node_eval before_start_def hw)
    qed
  qed
qed

text \<open>
  Claim C30: the flag \<^verbatim>\<open>--no-hardware-benchmarks\<close> does not disable the benchmarks: whether it is given or not, a
  start without a subcommand creates the database directory and gathers the benchmark before anything else. The flag only
  withholds the result: with it the node never prints one, without it a node that starts prints the gathered result, once.
\<close>

theorem hardware_benchmarks_always_run:
  assumes "runners_run_closures cs signal task_end" and "subcommand cli = None"
    and "create_runner cs (ForRun (run_normalize cs (run_cmd cli))) = Inr config"
    and "database_path config = Some path" and "run sv cs feats cli evs = (r, evs')"
  shows "\<exists>steps. evs' = evs @ [CreateDirAll path, GatherHwbench path] @ steps \<and>
    (if no_hardware_benchmarks cli then printed_hwbenches steps = []
     else if is_ok r then printed_hwbenches steps = [gather_hwbench cs path]
     else prefix (printed_hwbenches steps) [gather_hwbench cs path])"
proof -
  obtain x t where node: "run_node sv cs cli (collator_options cs (run_cmd cli)) config evs = (x, t)" by fastforce
  from run_node_prints [OF assms(4), of sv cs cli "collator_options cs (run_cmd cli)" evs]
  obtain steps where steps: "t = evs @ [CreateDirAll path, GatherHwbench path] @ steps"
    "if is_ok x then printed_hwbenches steps = (if no_hardware_benchmarks cli then [] else [gather_hwbench cs path])
     else prefix (printed_hwbenches steps) (if no_hardware_benchmarks cli then [] else [gather_hwbench cs path])"
    unfolding node Let_def by auto
  have "evs' = t" "is_ok r \<Longrightarrow> is_ok x"
    using assms(5) unfolding run_without_subcommand [OF assms(1-3)] node by (auto split: outcome.splits)
  with steps show ?thesis by (intro exI [of _ steps]) (auto split: if_splits)
qed

theorem hardware_benchmarks_always_run_witness:
  "no_hardware_benchmarks (example_cli None) \<and>
   (\<exists>steps. snd (run example_service example_cli_sdk
       \<lparr>runtime_benchmarks = False, try_runtime = False\<rparr> (example_cli None) []) =
     [CreateDirAll ''db'', GatherHwbench ''db''] @ steps \<and> printed_hwbenches steps = [])"
  using hardware_benchmarks_always_run [OF example_runners _ _ _ surjective_pairing, of "example_cli None" example_config "''db''"
      example_service "\<lparr>runtime_benchmarks = False, try_runtime = False\<rparr>" "[]"]
  by (simp add: example_cli_def example_cli_sdk_def example_config_def)

text \<open>
  The relay chain's command line answers like the arguments it was parsed from, except for two defaults:
  its base path is the directory \<^verbatim>\<open>polkadot\<close> under the parachain's unless the arguments give one, and its
  chain is the one the parachain's specification names unless the arguments name one, so
  \<^verbatim>\<open>rococo-local\<close> for both built-in specifications. It must never be initialised: that panics.
\<close>

theorem relay_cli_overrides:
  assumes "chain_spec_extensions config = Some ext" and "cli = relay_chain_cli_new cs config args"
  shows "relay_cli_configuration cs cli = (parse_from cs args)
     \<lparr>cc_base_path := map_sum id (\<lambda>given. case given of None \<Rightarrow> Some (path_join cs (config_base_path config) ''polkadot'') | _ \<Rightarrow> given)
        (shared_params_base_path cs (shared_params (parse_from cs args))),
      cc_chain_id := (\<lambda>is_dev. map_sum id (\<lambda>given. if given = [] then relay_chain ext else given)
        (cc_chain_id (parse_from cs args) is_dev)),
      cli_init := Panic\<rparr> \<and>
    (\<forall>env. ext \<in> {spec_extensions (development_config env), spec_extensions (local_testnet_config env)} \<longrightarrow>
       relay_chain ext = ''rococo-local'')"
  using assms
  by (auto simp: relay_cli_configuration_def relay_chain_cli_new_def relay_base_path_def relay_chain_id_def Let_def
        development_config_def local_testnet_config_def fun_eq_iff split: option.split sum.split)

theorem relay_cli_overrides_witness:
  "cc_chain_id (relay_cli_configuration example_cli_sdk (relay_chain_cli_new example_cli_sdk example_config [])) False =
     Inr ''rococo-local''"
  using relay_cli_overrides [OF _ refl, of example_config "\<lparr>relay_chain = ''rococo-local'', ext_para_id = 1000\<rparr>"
      example_cli_sdk "[]"]
  by (simp add: example_config_def example_cli_sdk_def example_cli_configuration_def)


text \<open>
  The two command lines present themselves alike, down to the texts; they differ only in where a chain specification comes
  from, which for the relay chain does not depend on the arguments after the separator.
\<close>

theorem command_lines_present_alike:
  "(substrate_cli_for_relay_chain cs version authors polkadot_load_spec)\<lparr>sc_load_spec := cli_load_spec cs\<rparr> =
     substrate_cli_for_cli cs version authors"
  by (simp add: substrate_cli_for_relay_chain_def substrate_cli_for_cli_def impl_name_def description_def support_url_def
      copyright_start_year_def)

end
