(* ===== verification/Spec2Isabelle.thy ===== *)
theory Spec2Isabelle
  imports Message_Stuffer Template_Pallet Relayer_Tasks Runtime_Xcmp Runtime_Config Chain_Spec System_Machine
    Runtime_Block Runtime_Api Pallet_Configs Mock_Runtime Template_Mock Xcm_Config Runtime_Pallets Node_Service Node_Command
begin

text \<open>
  A verification development for the XCMP prototype: an XCMP message stuffer pallet, the parachain
  runtime that hosts two instances of it, the relayer that carries proofs between chains, and the
  node: its chain specifications, its command line and the services it starts. The sources are under
  \<^verbatim>\<open>src/\<close>.

  \<^bold>\<open>The program.\<close> On the sending parachain the runtime collects, in every block, the outbound XCMP
  messages of each channel and stuffs them as one leaf into that channel's MMR
  (\<^verbatim>\<open>pallets/xcmp_message_stuffer\<close>, \<^verbatim>\<open>runtime/src/lib.rs\<close>). The roots of all
  channel MMRs form a binary Merkle tree whose root goes into the block header, the relay chain
  commits to the headers of its parachains in the leaves of its BEEFY MMR. The relayer
  (\<^verbatim>\<open>xcmp_relayer/src/main.rs\<close>) subscribes to both chains, keeps what it needs in five shared
  maps, assembles a proof in four stages (BEEFY leaf, parachain header, channel root, message
  leaves) and submits it to \<^verbatim>\<open>submit_xcmp_proof\<close>, which accepts it against a BEEFY root the
  chain has seen. The node (\<^verbatim>\<open>node/src\<close>) parses a command, loads a chain specification and brings up the
  services of a collator or a full node; the runtime's XCM configuration
  (\<^verbatim>\<open>runtime/src/xcm_config.rs\<close>) decides which messages of other chains run, and as whom.

  \<^bold>\<open>The theories.\<close>

  \<^item> \<^verbatim>\<open>Xcmp_Prelude\<close>: machine integers, the three outcomes of a Rust call, actions that thread a
    state with early returns, tables of checks, and four interfaces: the locale
    \<open>signed_dispatchable\<close> (a FRAME call that wants a signed origin), the locale
    \<open>invariant_machine\<close> (a step relation with an inductive invariant), its extension \<open>simulation\<close> (every step is
    matched by steps of an abstract machine), and the rules for actions
    that guarantee such steps while others run beside them.
  \<^item> \<^verbatim>\<open>Sdk_Interface\<close>: the SDK's data the sources read, its functions as the record \<open>sdk\<close>, the
    documented behaviour some theorems assume, and a small concrete SDK that has it.
  \<^item> \<^verbatim>\<open>Message_Stuffer\<close>: the pallet (storage as the record \<open>stuffer\<close>; \<open>on_initialize\<close>,
    \<open>submit_test_proof\<close>, \<open>update_root\<close>, \<open>submit_xcmp_proof\<close>, \<open>extract_xcmp_channel_root\<close>,
    \<open>leaf_data\<close> under the names of the code). Its lemmas turn \<open>submit_xcmp_proof\<close> into the table of
    its checks, show it accepts exactly the chains of four stages, when it panics, how the two BEEFY
    root items refine the history of roots, and that only signed, successful calls write.
  \<^item> \<^verbatim>\<open>Template_Pallet\<close>: \<^verbatim>\<open>pallets/template\<close>, with the saturation of its counter.
  \<^item> \<^verbatim>\<open>Btree_Map\<close>: \<^verbatim>\<open>BTreeMap\<close> as the locale \<open>ordered_map\<close> and sorted association lists
    as its instance.
  \<^item> \<^verbatim>\<open>Relayer\<close>: the relayer's data, clients, shared maps, the two collecting tasks and
    \<open>generate_xcmp_proof\<close>. \<^verbatim>\<open>Relayer_Machine\<close>: one step per locked section, the invariant of the
    maps, the tasks' guarantee, and \<open>generate_xcmp_proof\<close> against the reference \<open>pick_proof\<close>.
    \<^verbatim>\<open>Relayer_Tasks\<close>: \<open>get_proof_and_verify\<close>, the logging tasks, the retrying request, \<open>main\<close>; and \<open>relayer_code\<close>, the
    bodies of the tasks with each other's code in their gaps, to any depth, which takes only relayer steps; which blocks end a
    collecting task.
  \<^item> \<^verbatim>\<open>Runtime_Xcmp\<close>: the message provider (a loop that may not end, as a partial function), the
    channel root collector and proof generator, the start of a block over both instances, and the
    runtime API. \<^verbatim>\<open>Runtime_Block\<close>: whole blocks: the hooks of all pallets in their order, the dispatch of a call, and
    the APIs that start, fill, finish and execute blocks, over an executive with documented laws (what it has done when it
    returns; nothing is assumed of blocks it refuses). A history variable counts the calls of the system pallet that write storage by key; as
    long as it stands still, a chain of executed blocks simulates the machine of \<^verbatim>\<open>Runtime_Xcmp\<close>, commits once per block, and
    decides about proofs by the roots its blocks recorded.
    \<^verbatim>\<open>Runtime_Config\<close>: constants, weights and the tests on them, fee polynomial, the pallets, ordered by their indices.
    \<^verbatim>\<open>Runtime_Pallets\<close>: what the runtime gives to the pallets of the SDK (the version, the checks of
    a signed extrinsic, limits, who may change the collators, fee queries), the check of inherents and
    the benchmark and upgrade API. \<^verbatim>\<open>Pallet_Configs\<close>: one record per \<^verbatim>\<open>Config\<close> trait, the runtime's implementations, and what
    a configured channel does on a block. \<^verbatim>\<open>Runtime_Api\<close>: the remaining interfaces of the runtime, with the configuration each passes on,
    the entry point of validation and the native executor. \<^verbatim>\<open>Xcm_Config\<close>: locations, conversions to accounts and
    origins, the barrier, routers, weigher and both XCM configurations as compositions of parameters;
    its lemmas characterise the messages the barrier admits and the messages that fit a block.
  \<^item> \<^verbatim>\<open>Mock_Runtime\<close>: the stuffer's test runtime: its pallets and configurations, in the records of the runtime's,
    and its message provider as a second instance of the locale \<open>xcmp_message_provider\<close>, compared with the runtime's.
    \<^verbatim>\<open>Template_Mock\<close>: the template pallet's test runtime, its tests and its benchmark.
  \<^item> \<^verbatim>\<open>Chain_Spec\<close>: keys, genesis, the two built-in specifications, their selection by name.
  \<^item> \<^verbatim>\<open>Node_Service\<close>: \<open>new_partial\<close>, \<open>build_import_queue\<close>, \<open>build_consensus\<close>, \<open>start_node_impl\<close> and
    \<open>create_full\<close> as actions over a log of what was started, the SDK being the record
    \<open>service_sdk\<close>. The locale \<open>event_projection\<close> has the rules by which an action follows a
    plan under any view of the log; its instances give the order of the services and the gadgets
    that are started, and the benchmark results that are printed. \<^verbatim>\<open>Node_Command\<close>: the subcommands, \<open>run\<close> with both build features, the start of a
    node from the command line, the relay chain's command line; a further instance of the locale gives
    the effects of each subcommand. Signals that stop a command and the failure of a running node's tasks are parameters.
  \<^item> \<^verbatim>\<open>System_Machine\<close>: the relayer's code and the chain's steps interleaved, the invariant of the
    whole system, soundness of every verdict the chain gives, and a typing of the runtime's state
    that every step preserves.
  \<^item> This theory: a run of the whole system, from the relayer's maps to acceptance on chain.

  \<^bold>\<open>Conventions.\<close> Every panic, error and early return of the sources is a branch. A write made
  before an error stays in the model's state, which is exact for the relayer; that dispatchables
  leave the storage as it was when they fail is proved. Calls to nodes return whatever the
  argument \<open>client\<close> says; locks and other tasks are arguments too (\<open>lock_free\<close>, \<open>other\<close>).
  Arithmetic wraps at its width, as in release builds. No fuel is used: loops over a subscription
  recurse over its blocks, the retry loop has a measure, and the message loop is a partial function
  whose value is \<open>None\<close> exactly when it never returns.

  \<^bold>\<open>Not modelled.\<close> Logging, the network and the encodings (functions of \<open>sdk\<close> and \<open>client\<close>),
  \<^verbatim>\<open>pallet_mmr\<close> and the other SDK pallets, the XCM executor and the node's services (parameters), \<^verbatim>\<open>frame_executive\<close> (a parameter with documented laws), the
  waiting for an extrinsic's inclusion (its result is only logged), \<^verbatim>\<open>Config\<close> implementations that fix nothing but
  the types of events and calls, type aliases, the tests of the message stuffer (they run its hook, for which the test runtime has no provider of BEEFY roots), and
  the build scripts, which only call helpers of the SDK.
\<close>

section \<open>A run\<close>

definition example_runtime :: "mmr_leaf list runtime" where
  "example_runtime = runtime_genesis (replicate 9 (stuffed_leaf [] (0, 0)))"

definition example_channel_proof :: channel_merkle_proof where
  "example_channel_proof = \<lparr>ch_root = 2, ch_proof = [], ch_num_leaves = 2, ch_leaf_index = 0, ch_leaf = 9\<rparr>"

definition example_heads_proof :: relay_para_merkle_proof where
  "example_heads_proof = \<lparr>rp_root = 2, rp_proof = [], rp_num_leaves = 2, rp_leaf_index = 0,
      rp_leaf = \<lparr>rl_para_id = RelayParaId 1000, rl_head_data = [2]\<rparr>\<rparr>"

lemma example_runtime_facts:
  "mmr_root_hash example_mmr (mmr_para_a example_runtime) = 9"
  "collect_roots example_sdk example_mmr example_runtime = 2"
  "get_xcmp_channels_proof example_sdk example_mmr example_runtime cid = Some example_channel_proof"
  by (simp_all add: example_runtime_def runtime_genesis_def example_mmr_def collect_roots_def
        get_xcmp_channels_proof_def gen_merkle_proof_def example_channel_proof_def as_u64_def)

lemma example_para_answers':
  "para_answers example_client \<lparr>block_number = 3, block_hash = 101\<rparr> 9 \<lparr>lp_leaves = [5, 6], lp_proof = [9]\<rparr>
     (subxt_from_channel_proof example_channel_proof)"
  using example_para_answers by (simp add: subxt_from_channel_proof_def example_channel_proof_def)

lemma example_relay_answers':
  "relay_answers example_sdk example_client \<lparr>block_number = 4, block_hash = 100\<rparr> 7
     \<lparr>lp_leaves = [2], lp_proof = [7]\<rparr> 2 example_heads_proof 2"
  using example_relay_answers by (simp add: example_heads_proof_def)

lemma example_node_facts:
  "rp_root example_heads_proof = 2" "rp_proof example_heads_proof = []"
  "rp_num_leaves example_heads_proof = 2" "rp_leaf_index example_heads_proof = 0"
  "blocks_at_latest example_client = RpcOk 101" "runtime_api_at_latest example_client = RpcOk ()"
  "sign_and_submit example_client signer tx = RpcOk ()"
  by (simp_all add: example_heads_proof_def example_client_def)

section \<open>Properties that span components\<close>

text \<open>
  Claim C5: a proof the relayer's code ever submits, whatever the nodes answer, whichever locks are taken and whatever of its own
  tasks runs in the gaps of another, is never refused by the chain for a broken link between its stages: the BEEFY leaf
  decodes and has the heads root of stage 2, and the header of stage 2 decodes, carries a channel root, and it is the one
  of stage 3. What can still be refused is the BEEFY root, the size of stage 1, and the four proofs themselves.
\<close>

theorem submitted_proofs_pass_linking_checks:
  assumes "relayer_code sdk f"
    and "(ep, signer, TxSubmitXcmpProof p r) \<in> set (submitted (f relayer_boot))"
    and "e \<in> {XcmpStage2LeafDoesntDecode, XcmpStage2RootDoesntMatch, XcmpStage3HeaderDoesntDecode,
              XcmpStage3CannotBeExtracted, XcmpStage3RootDoesntMatch}"
  shows "fst (submit_xcmp_proof sdk es origin (runtime_xcmp_proof p) r s) \<noteq> Err (Module e)"
  using relayer_code_submits_linked [OF assms(1,2)] assms(3)
  by (intro linked_stages_never_fail_linking) (simp_all add: linking_errors_def)

theorem submitted_proofs_pass_linking_checks_witness:
  "fst (submit_xcmp_proof example_sdk example_signer (Some 1) (runtime_xcmp_proof example_assembled) 7 stuffer_genesis)
     \<noteq> Err (Module XcmpStage2RootDoesntMatch)"
  by (rule submitted_proofs_pass_linking_checks [OF example_relayer_run_code example_relayer_run_submits]) simp

text \<open>
  Claim C3: end to end, with honest nodes and no interference: the relayer sees one block of the sending
  parachain and one relay chain block whose parachain header commits to that parachain's channels
  root, and then assembles a proof. It submits exactly one, and the pallet accepts it once it has
  seen the BEEFY root. The channel proof is the one the runtime generates; the relay chain's
  proofs and the message proof are assumed to verify.
\<close>

theorem honest_relay_is_accepted:
  assumes laws: "h256_codec_is_as_ref sdk" "merkle_proof_root sdk" "merkle_proof_shape sdk"
      "merkle_proof_verifies sdk"
    and channel: "get_xcmp_channels_proof sdk mmr rt RECEIVER_CHANNEL_ID = Some c"
    and para: "para_answers sender para_block (mmr_root_hash mmr (mmr_para_a rt)) msgs (subxt_from_channel_proof c)"
    and relay: "relay_answers sdk relay relay_block beefy_root beefy (rp_root hdr) hdr (collect_roots sdk mmr rt)"
    and dec1: "decode_opaque_leaves sdk (lp_leaves beefy) = Some [leaf]" "decode_mmr_proof sdk (lp_proof beefy) = Some beefy_proof"
    and ver1: "verify_leaves_proof sdk beefy_root [DataNode (into_opaque_leaf sdk leaf)] beefy_proof"
    and fits: "try_into_u32 (rp_num_leaves hdr) = Some n" "try_into_u32 (rp_leaf_index hdr) = Some i"
    and ver2: "bmt_verify_proof sdk (rp_root hdr) (rp_proof hdr) n i
        (LeafValue (para_leaf_encode sdk (runtime_para_leaf (subxt_para_leaf_from (rp_leaf hdr)))))"
    and dec4: "decode_opaque_leaves sdk (lp_leaves msgs) = Some msg_leaves" "decode_mmr_proof sdk (lp_proof msgs) = Some msg_proof"
    and ver4: "verify_leaves_proof sdk (mmr_root_hash mmr (mmr_para_a rt)) (opaque_nodes sdk msg_leaves) msg_proof"
    and node: "blocks_at_latest sender = RpcOk b" "runtime_api_at_latest sender = RpcOk ()"
        "\<And>signer tx. sign_and_submit sender signer tx = RpcOk ()"
    and chain: "es origin \<noteq> None" "seen_beefy_roots s beefy_root \<noteq> None"
  shows "\<exists>p. submitted (snd (generate_xcmp_proof sdk sender receiver (\<lambda>_ s. s) (\<lambda>_. True)
             (snd (collect_relay_block sdk relay (\<lambda>_ s. s) (\<lambda>_. True) relay_block
               (snd (collect_para_block sender (\<lambda>_ s. s) (\<lambda>_. True) para_block relayer_boot)))))) =
           [(endpoint sender, Charlie, TxSubmitXcmpProof p beefy_root)] \<and>
         submit_xcmp_proof sdk es origin (runtime_xcmp_proof p) beefy_root s = (Ok (), s)"
proof -
  obtain n3 i3 where c: "ch_root c = collect_roots sdk mmr rt" "ch_leaf c = mmr_root_hash mmr (mmr_para_a rt)"
      "try_into_u32 (ch_num_leaves c) = Some n3" "try_into_u32 (ch_leaf_index c) = Some i3"
      "bmt_verify_proof sdk (ch_root c) (ch_proof c) n3 i3 (leaf_from_ref sdk (h256_as_ref sdk (ch_leaf c)))"
    using channel_proof_stage_3 [OF laws, of mmr rt RECEIVER_CHANNEL_ID] channel by auto
  define p where "p = \<lparr>sx_stage_1 = (beefy_proof, [leaf]), sx_stage_2 = subxt_para_proof_from hdr,
      sx_stage_3 = subxt_from_channel_proof c, sx_stage_4 = (msg_proof, msg_leaves)\<rparr>"
  define rs where "rs = snd (collect_relay_block sdk relay (\<lambda>_ s. s) (\<lambda>_. True) relay_block
      (snd (collect_para_block sender (\<lambda>_ s. s) (\<lambda>_. True) para_block relayer_boot)))"
  have leaf: "sc_leaf (subxt_from_channel_proof c) = mmr_root_hash mmr (mmr_para_a rt)"
    by (simp add: subxt_from_channel_proof_def c(2))
  have pick: "pick_proof sdk rs = Some (mmr_root_hash mmr (mmr_para_a rt), p, beefy_root)"
    unfolding rs_def
    by (simp add: collect_relay_block_stores [OF relay] collect_para_block_stores [OF para] leaf relayer_boot_def
          pick_proof_def latest_beefy_entry_def bt_get_def c(1) dec1 dec4 p_def)
  have empty: "submitted rs = []"
    unfolding rs_def
    by (simp add: collect_relay_block_stores [OF relay] collect_para_block_stores [OF para] leaf relayer_boot_def)
  have "submitted (snd (quiet_generate sdk sender receiver rs)) =
      [(endpoint sender, Charlie, TxSubmitXcmpProof p beefy_root)]"
    by (simp add: quiet_generate_Some [OF pick node(1)] node(2,3) submit_tx_eval empty)
  moreover have "xcmp_chain sdk beefy_root (runtime_xcmp_proof p)"
    using relay c dec1(1) ver1 fits ver2 ver4
    by (auto simp: xcmp_chain_def p_def runtime_xcmp_proof_def subxt_para_proof_from_def
          relay_answers_def beefy_entry_ok_def header_entry_ok_def)
  then have "submit_xcmp_proof sdk es origin (runtime_xcmp_proof p) beefy_root s = (Ok (), s)"
    using chain submit_xcmp_proof_ok_iff [of sdk es origin "runtime_xcmp_proof p" beefy_root s]
      submit_xcmp_proof_storage [of sdk es origin "runtime_xcmp_proof p" beefy_root s]
    by (metis prod.collapse)
  ultimately show ?thesis
    unfolding rs_def quiet_generate_def by blast
qed

theorem honest_relay_is_accepted_witness:
  "\<exists>p. submitted (snd (generate_xcmp_proof example_sdk example_client example_client (\<lambda>_ s. s) (\<lambda>_. True) example_relayer)) =
         [(endpoint example_client, Charlie, TxSubmitXcmpProof p 7)] \<and>
       submit_xcmp_proof example_sdk example_signer (Some 1) (runtime_xcmp_proof p) 7 example_state =
         (Ok (), example_state)"
  unfolding example_relayer_def
  by (rule honest_relay_is_accepted [OF example_sdk_laws(2-4) example_sdk_merkle_proof_verifies,
        where mmr = example_mmr and rt = example_runtime and c = example_channel_proof
          and msgs = "\<lparr>lp_leaves = [5, 6], lp_proof = [9]\<rparr>" and beefy = "\<lparr>lp_leaves = [2], lp_proof = [7]\<rparr>"
          and hdr = example_heads_proof and leaf = "EncodableOpaqueLeaf [2]" and n = 2 and i = 0
          and beefy_proof = 7 and msg_proof = 9 and msg_leaves = "[EncodableOpaqueLeaf [5, 6]]"])
     (simp_all add: example_runtime_facts example_para_answers' example_relay_answers' example_node_facts
        example_signer_def example_seen try_into_u32_def opaque_nodes_def)

end
